(* ===== verification/GoBase.thy ===== *)
theory GoBase
  imports Prelude "HOL-Library.Word"
begin

text \<open>
  What the agent uses of the Go language and of its standard library: error values
  (\<open>errors.New\<close>, \<open>fmt.Errorf\<close>, \<open>errors.Join\<close>, \<open>errors.Is\<close>, \<open>errors.As\<close>), contexts,
  the clock, \<open>strings.TrimSpace\<close>, the structured log record of \<open>agentcore.Logger\<close>, and
  the integer widths. Strings are Go strings: sequences of bytes.
\<close>

section \<open>Integers\<close>

type_synonym goint = "64 word"
type_synonym int32 = "32 word"
type_synonym uint8 = "8 word"
type_synonym uint64 = "64 word"

section \<open>Errors\<close>

text \<open>
  An error value is kept with its format string and its arguments, which determine the
  text \<open>fmt\<close> renders. \<open>Wrapf\<close> is an error made by a format with one \<open>%w\<close>; \<open>Sentinel\<close> is a
  package-level error variable, compared by identity; \<open>CoreError\<close> is an
  \<open>*agentcore.Error\<close> with its code and, possibly, the error it wraps. Of the codes the
  agent names one, \<open>agentcore.CodeConfigNotFound\<close>.
\<close>

datatype core_code = CodeConfigNotFound | OtherCode string

datatype go_error =
    Errorf string "fmt_arg list"
  | Wrapf string "fmt_arg list" go_error
  | Joined "go_error list"
  | Sentinel string
  | CoreError core_code "go_error option"
and fmt_arg = FStr string | FInt int | FErr go_error

abbreviation errors_New :: "string \<Rightarrow> go_error" where
  "errors_New msg \<equiv> Errorf msg []"

text \<open>\<open>wrap pre err\<close> is \<open>fmt.Errorf(pre + ": %w", err)\<close>.\<close>

definition wrap :: "string \<Rightarrow> go_error \<Rightarrow> go_error" where
  "wrap pre e = Wrapf (pre @ '': %w'') [] e"

text \<open>\<open>errors.Join\<close> drops the nil errors and is nil when nothing is left.\<close>

fun somes :: "'a option list \<Rightarrow> 'a list" where
  "somes [] = []"
| "somes (None # xs) = somes xs"
| "somes (Some x # xs) = x # somes xs"

definition errors_Join :: "go_error option list \<Rightarrow> go_error option" where
  "errors_Join es = (case somes es of [] \<Rightarrow> None | xs \<Rightarrow> Some (Joined xs))"

lemma errors_Join_None: "errors_Join es = None \<longleftrightarrow> (\<forall>e \<in> set es. e = None)"
proof -
  have "somes es = [] \<longleftrightarrow> (\<forall>e \<in> set es. e = None)"
    by (induction es rule: somes.induct) auto
  moreover have "errors_Join es = None \<longleftrightarrow> somes es = []"
    by (simp add: errors_Join_def split: list.split)
  ultimately show ?thesis by simp
qed

text \<open>\<open>errors.Is\<close> for a sentinel: the error itself, or one of the errors it wraps.\<close>

fun errors_Is :: "go_error \<Rightarrow> string \<Rightarrow> bool" where
  "errors_Is (Sentinel n) t = (n = t)"
| "errors_Is (Wrapf f as e) t = errors_Is e t"
| "errors_Is (Joined es) t = list_ex (\<lambda>e. errors_Is e t) es"
| "errors_Is (CoreError c (Some e)) t = errors_Is e t"
| "errors_Is _ t = False"

fun first_some :: "'a option list \<Rightarrow> 'a option" where
  "first_some [] = None"
| "first_some (None # xs) = first_some xs"
| "first_some (Some x # xs) = Some x"

text \<open>\<open>errors.As(err, &agentcoreErr)\<close>: the code of the first \<open>*agentcore.Error\<close> found.\<close>

fun errors_As_core :: "go_error \<Rightarrow> core_code option" where
  "errors_As_core (CoreError c e) = Some c"
| "errors_As_core (Wrapf f as e) = errors_As_core e"
| "errors_As_core (Joined es) = first_some (map errors_As_core es)"
| "errors_As_core _ = None"

lemma errors_Is_wrap [simp]: "errors_Is (wrap p e) t = errors_Is e t"
  by (simp add: wrap_def)

lemma errors_As_core_wrap [simp]: "errors_As_core (wrap p e) = errors_As_core e"
  by (simp add: wrap_def)

abbreviation context_Canceled :: go_error where
  "context_Canceled \<equiv> Sentinel ''context canceled''"

abbreviation context_DeadlineExceeded :: go_error where
  "context_DeadlineExceeded \<equiv> Sentinel ''context deadline exceeded''"

abbreviation os_ErrNotExist :: go_error where
  "os_ErrNotExist \<equiv> Sentinel ''file does not exist''"

section \<open>Contexts and the clock\<close>

text \<open>
  A context is its \<open>Err\<close> method, which reads the environment: nil, or why the context is
  done. A \<open>context.Context\<close> variable that may be nil has type \<open>'e ctx option\<close>.
\<close>

type_synonym 'e ctx = "'e \<Rightarrow> go_error option"

text \<open>
  A \<open>time.Time\<close>: an instant, in nanoseconds from the Unix epoch, and the location it is
  shown in: UTC, or one that is given by its offset from UTC in seconds at that instant.
\<close>

datatype zone = UTCZone | FixedZone int

datatype gotime = GoTime (t_instant: int) (t_zone: zone)

definition UTC :: "gotime \<Rightarrow> gotime" where
  "UTC t = GoTime (t_instant t) UTCZone"

lemma UTC_zone [simp]: "t_zone (UTC t) = UTCZone"
  by (simp add: UTC_def)

lemma UTC_instant [simp]: "t_instant (UTC t) = t_instant t"
  by (simp add: UTC_def)

text \<open>\<open>t.Sub(u)\<close> saturates at the bounds of a 64-bit duration; \<open>Milliseconds\<close> truncates.\<close>

definition time_Sub :: "gotime \<Rightarrow> gotime \<Rightarrow> int" where
  "time_Sub t u = max (- (2 ^ 63)) (min (2 ^ 63 - 1) (t_instant t - t_instant u))"

definition Milliseconds :: "int \<Rightarrow> int" where
  "Milliseconds d = sgn d * (\<bar>d\<bar> div 1000000)"

section \<open>Log records\<close>

datatype log_level = LDebug | LInfo | LWarn | LError

datatype log_value =
    LStr string
  | LInt int
  | LBool bool
  | LErr "go_error option"
  | LStrs "string list"

datatype log_entry = LogEntry (le_level: log_level) (le_msg: string) (le_kv: "(string \<times> log_value) list")

end
