(* ===== verification/Wire.thy ===== *)
theory Wire
  imports GoBase
begin

text \<open>
  The messages the agent exchanges through \<open>agentcore\<close> (with the fields the agent reads
  or sets), the values its components hand to each other, and the world an operation
  runs in: the sequence of calls made so far through the interfaces, the log, and the
  environment those interfaces act on.
\<close>

section \<open>Messages\<close>

record StatusEnvelope =
  se_Version :: string
  se_RPCID :: string
  se_Target :: string
  se_UUID :: string
  se_Status :: string
  se_Stage :: string
  se_Message :: string
  se_Timestamp :: gotime

record ResultEnvelope =
  re_Version :: string
  re_RPCID :: string
  re_Target :: string
  re_CommandType :: string
  re_UUID :: string
  re_Action :: string
  re_Result :: string
  re_ErrorCode :: string
  re_Message :: string
  re_Payload :: "string option"
  re_Timestamp :: gotime

record ConfigureNotification =
  cn_Version :: string
  cn_RPCID :: string
  cn_Target :: string
  cn_CommandType :: string
  cn_UUID :: string
  cn_KVBucket :: string
  cn_KVKey :: string
  cn_Timestamp :: gotime

record ActionCommand =
  ac_Version :: string
  ac_RPCID :: string
  ac_Target :: string
  ac_Action :: string
  ac_Payload :: "string option"

record DesiredConfigRecord =
  dr_RPCID :: string
  dr_Target :: string
  dr_UUID :: string
  dr_Payload :: "string option"
  dr_Timestamp :: gotime

record StoredDesiredConfig =
  sd_Record :: DesiredConfigRecord
  sd_Bucket :: string
  sd_Key :: string

text \<open>A \<open>json.RawMessage\<close> is a byte slice that may be nil; its length then is 0.\<close>

definition raw_len :: "string option \<Rightarrow> nat" where
  "raw_len p = (case p of None \<Rightarrow> 0 | Some s \<Rightarrow> length s)"

text \<open>The zero \<open>time.Time\<close> (January 1, year 1, UTC).\<close>

definition zero_time :: gotime where
  "zero_time = GoTime (- 62135596800 * 1000000000) UTCZone"

section \<open>Values handed between components\<close>

record Output =
  o_Target :: string
  o_UUID :: string
  o_Text :: string

record State =
  st_Target :: string
  st_AppliedUUID :: string
  st_AppliedAt :: gotime

definition empty_State :: State where
  "empty_State = \<lparr>st_Target = '''', st_AppliedUUID = '''', st_AppliedAt = zero_time\<rparr>"

record ActOutput =
  ao_Payload :: "string option"
  ao_Message :: string

section \<open>Calls, log and environment\<close>

text \<open>
  One constructor per method of an interface the services call, with the argument the
  call was made with and the answer it got.
\<close>

datatype event =
    EvLoadDesired string "go_error + StoredDesiredConfig option"
  | EvStatus StatusEnvelope "go_error option"
  | EvResult ResultEnvelope "go_error option"
  | EvLoadState "go_error + State"
  | EvSaveState State "go_error option"
  | EvRender StoredDesiredConfig "go_error + Output"
  | EvApply Output "go_error option"
  | EvExecute ActionCommand "go_error + ActOutput"
  | EvRegConfigure string "go_error option"
  | EvRegAction string string "go_error option"
  | EvClientStart "go_error option"
  | EvClientClose "go_error option"

record 'e world =
  trace :: "event list"
  logs :: "log_entry list"
  env :: 'e

text \<open>
  \<open>call m ev\<close> makes a call that acts on the environment and records it with its answer.
  \<open>peek m\<close> acts on the environment without being a recorded call (the clock).
\<close>

definition peek :: "('e \<Rightarrow> 'a \<times> 'e) \<Rightarrow> ('e world, 'a) state" where
  "peek m = State (\<lambda>w. case m (env w) of (r, e) \<Rightarrow> (r, w\<lparr>env := e\<rparr>))"

definition call :: "('e \<Rightarrow> 'a \<times> 'e) \<Rightarrow> ('a \<Rightarrow> event) \<Rightarrow> ('e world, 'a) state" where
  "call m ev = State (\<lambda>w. case m (env w) of (r, e) \<Rightarrow>
     (r, w\<lparr>trace := trace w @ [ev r], env := e\<rparr>))"

text \<open>The \<open>logX\<close> methods: nothing happens when the logger is nil.\<close>

definition log_at :: "bool \<Rightarrow> log_level \<Rightarrow> string \<Rightarrow> (string \<times> log_value) list \<Rightarrow> ('e world, unit) state" where
  "log_at has_logger lvl msg kv = State (\<lambda>w.
     ((), if has_logger then w\<lparr>logs := logs w @ [LogEntry lvl msg kv]\<rparr> else w))"

lemma wp_peek [wp_simps]:
  "wp (peek m) Q w = (case m (env w) of (r, e) \<Rightarrow> Q r (w\<lparr>env := e\<rparr>))"
  by (simp add: peek_def wp_State split: prod.split)

lemma wp_call [wp_simps]:
  "wp (call m ev) Q w =
     (case m (env w) of (r, e) \<Rightarrow> Q r (w\<lparr>trace := trace w @ [ev r], env := e\<rparr>))"
  by (simp add: call_def wp_State split: prod.split)

lemma wp_log_at [wp_simps]:
  "wp (log_at b l m kv) Q w =
     Q () (if b then w\<lparr>logs := logs w @ [LogEntry l m kv]\<rparr> else w)"
  by (simp add: log_at_def wp_State)

end
