(* ===== verification/Interfaces.thy ===== *)
theory Interfaces
  imports Wire
begin

text \<open>
  The Go interfaces of the services. An interface value is the record of its methods;
  a method takes its arguments and the environment and gives its answer and the new
  environment. A call with a \<open>(value, error)\<close> result answers \<open>Inl\<close> of the error or \<open>Inr\<close> of
  the value.
\<close>

record 'e CoreClient =
  LoadDesiredConfig :: "'e ctx option \<Rightarrow> string \<Rightarrow> 'e \<Rightarrow> (go_error + StoredDesiredConfig option) \<times> 'e"
  PublishStatus :: "'e ctx option \<Rightarrow> StatusEnvelope \<Rightarrow> 'e \<Rightarrow> go_error option \<times> 'e"
  PublishResult :: "'e ctx option \<Rightarrow> ResultEnvelope \<Rightarrow> 'e \<Rightarrow> go_error option \<times> 'e"

record 'e StateStore =
  store_Load :: "'e ctx option \<Rightarrow> 'e \<Rightarrow> (go_error + State) \<times> 'e"
  store_Save :: "'e ctx option \<Rightarrow> State \<Rightarrow> 'e \<Rightarrow> go_error option \<times> 'e"

type_synonym 'e Renderer =
  "'e ctx option \<Rightarrow> StoredDesiredConfig \<Rightarrow> 'e \<Rightarrow> (go_error + Output) \<times> 'e"

type_synonym 'e ApplyEngine =
  "'e ctx option \<Rightarrow> Output \<Rightarrow> 'e \<Rightarrow> go_error option \<times> 'e"

type_synonym 'e Executor =
  "'e ctx option \<Rightarrow> ActionCommand \<Rightarrow> 'e \<Rightarrow> (go_error + ActOutput) \<times> 'e"

type_synonym 'e Clock = "'e \<Rightarrow> gotime \<times> 'e"

section \<open>Reasoning about calls whose answer is not known\<close>

text \<open>
  The rules below follow the trace through a handler and leave every answer open; the
  proofs of the services' call protocols apply them with \<open>intro\<close>.
\<close>

named_theorems trace_rules \<open>wp rules that track the trace only\<close>

lemma trace_return [trace_rules]: "Q x w \<Longrightarrow> wp (State_Monad.return x) Q w"
  by (simp add: wp_return)

lemma trace_bind [trace_rules]: "wp m (\<lambda>a. wp (f a) Q) w \<Longrightarrow> wp (State_Monad.bind m f) Q w"
  by (simp add: wp_bind)

lemma trace_peek [trace_rules]:
  "(\<And>r w'. trace w' = trace w \<Longrightarrow> Q r w') \<Longrightarrow> wp (peek m) Q w"
  by (simp add: wp_peek split: prod.split)

lemma trace_log_at [trace_rules]:
  "(\<And>w'. trace w' = trace w \<Longrightarrow> Q () w') \<Longrightarrow> wp (log_at b l m kv) Q w"
  by (simp add: wp_log_at)

lemma trace_call [trace_rules]:
  "(\<And>r w'. trace w' = trace w @ [ev r] \<Longrightarrow> Q r w') \<Longrightarrow> wp (call m ev) Q w"
  by (simp add: wp_call split: prod.split)

lemma trace_case_option [trace_rules]:
  "(x = None \<Longrightarrow> wp m Q w) \<Longrightarrow> (\<And>y. x = Some y \<Longrightarrow> wp (f y) Q w) \<Longrightarrow>
     wp (case x of None \<Rightarrow> m | Some y \<Rightarrow> f y) Q w"
  by (cases x) auto

lemma trace_case_sum [trace_rules]:
  "(\<And>a. x = Inl a \<Longrightarrow> wp (f a) Q w) \<Longrightarrow> (\<And>b. x = Inr b \<Longrightarrow> wp (g b) Q w) \<Longrightarrow>
     wp (case x of Inl a \<Rightarrow> f a | Inr b \<Rightarrow> g b) Q w"
  by (cases x) auto

lemma trace_if [trace_rules]:
  "(b \<Longrightarrow> wp m Q w) \<Longrightarrow> (\<not> b \<Longrightarrow> wp m' Q w) \<Longrightarrow> wp (if b then m else m') Q w"
  by simp

end
