(* ===== verification/GoStrings.thy ===== *)
theory GoStrings
  imports GoBase
begin

text \<open>
  The functions of package \<open>strings\<close> and \<open>unicode\<close> the agent uses, on byte strings.
  White space is what \<open>unicode.IsSpace\<close> accepts, in its UTF-8 encodings of one, two and
  three bytes; no such encoding starts with a continuation byte, so an encoding that
  occurs in a string is always met at a rune boundary.
\<close>

section \<open>White space\<close>

definition spaces1 :: "string list" where
  "spaces1 = [[CHR 0x09], [CHR 0x0A], [CHR 0x0B], [CHR 0x0C], [CHR 0x0D], [CHR 0x20]]"

definition spaces2 :: "string list" where
  "spaces2 = [[CHR 0xC2, CHR 0x85], [CHR 0xC2, CHR 0xA0]]"

definition spaces3 :: "string list" where
  "spaces3 = [[CHR 0xE1, CHR 0x9A, CHR 0x80],
     [CHR 0xE2, CHR 0x80, CHR 0x80], [CHR 0xE2, CHR 0x80, CHR 0x81],
     [CHR 0xE2, CHR 0x80, CHR 0x82], [CHR 0xE2, CHR 0x80, CHR 0x83],
     [CHR 0xE2, CHR 0x80, CHR 0x84], [CHR 0xE2, CHR 0x80, CHR 0x85],
     [CHR 0xE2, CHR 0x80, CHR 0x86], [CHR 0xE2, CHR 0x80, CHR 0x87],
     [CHR 0xE2, CHR 0x80, CHR 0x88], [CHR 0xE2, CHR 0x80, CHR 0x89],
     [CHR 0xE2, CHR 0x80, CHR 0x8A], [CHR 0xE2, CHR 0x80, CHR 0xA8],
     [CHR 0xE2, CHR 0x80, CHR 0xA9], [CHR 0xE2, CHR 0x80, CHR 0xAF],
     [CHR 0xE2, CHR 0x81, CHR 0x9F], [CHR 0xE3, CHR 0x80, CHR 0x80]]"

text \<open>The length of the white-space rune a string starts or ends with; 0 when there is none.\<close>

definition leading_space :: "string \<Rightarrow> nat" where
  "leading_space s =
     (if List.member spaces1 (take 1 s) then 1
      else if List.member spaces2 (take 2 s) then 2
      else if List.member spaces3 (take 3 s) then 3 else 0)"

definition last_n :: "nat \<Rightarrow> 'a list \<Rightarrow> 'a list" where
  "last_n n xs = drop (length xs - n) xs"

definition trailing_space :: "string \<Rightarrow> nat" where
  "trailing_space s =
     (if List.member spaces1 (last_n 1 s) then 1
      else if List.member spaces2 (last_n 2 s) then 2
      else if List.member spaces3 (last_n 3 s) then 3 else 0)"

lemma spaces_length:
  "w \<in> set spaces1 \<Longrightarrow> length w = 1"
  "w \<in> set spaces2 \<Longrightarrow> length w = 2"
  "w \<in> set spaces3 \<Longrightarrow> length w = 3"
  by (auto simp: spaces1_def spaces2_def spaces3_def)

lemma spaces_nonempty: "w \<in> set (spaces1 @ spaces2 @ spaces3) \<Longrightarrow> w \<noteq> []"
  using spaces_length by fastforce

lemma leading_space_le: "leading_space s \<le> length s"
  using spaces_length(1) [of "take 1 s"] spaces_length(2) [of "take 2 s"]
    spaces_length(3) [of "take 3 s"]
  by (auto simp: leading_space_def)

lemma trailing_space_le: "trailing_space s \<le> length s"
  using spaces_length(1) [of "last_n 1 s"] spaces_length(2) [of "last_n 2 s"]
    spaces_length(3) [of "last_n 3 s"]
  by (auto simp: trailing_space_def last_n_def)

function trim_left :: "string \<Rightarrow> string" where
  "trim_left s = (if leading_space s = 0 then s else trim_left (drop (leading_space s) s))"
  by pat_completeness auto
termination
proof (relation "measure length")
  fix s :: string
  assume "leading_space s \<noteq> 0"
  then show "(drop (leading_space s) s, s) \<in> measure length"
    using leading_space_le [of s] by auto
qed simp

function trim_right :: "string \<Rightarrow> string" where
  "trim_right s =
     (if trailing_space s = 0 then s else trim_right (take (length s - trailing_space s) s))"
  by pat_completeness auto
termination
proof (relation "measure length")
  fix s :: string
  assume "trailing_space s \<noteq> 0"
  then show "(take (length s - trailing_space s) s, s) \<in> measure length"
    using trailing_space_le [of s] by auto
qed simp

declare trim_left.simps [simp del] trim_right.simps [simp del]

definition TrimSpace :: "string \<Rightarrow> string" where
  "TrimSpace s = trim_right (trim_left s)"

text \<open>\<open>strings.IndexFunc(s, unicode.IsSpace) >= 0\<close>.\<close>

fun contains_space :: "string \<Rightarrow> bool" where
  "contains_space [] = False"
| "contains_space (c # s) = (leading_space (c # s) > 0 \<or> contains_space s)"

text \<open>\<open>strings.ContainsAny(s, chars)\<close> for ASCII \<open>chars\<close>.\<close>

definition ContainsAny :: "string \<Rightarrow> string \<Rightarrow> bool" where
  "ContainsAny s chars = list_ex (\<lambda>c. List.member chars c) s"

text \<open>\<open>strings.Contains\<close>.\<close>

fun Contains :: "string \<Rightarrow> string \<Rightarrow> bool" where
  "Contains [] t = (t = [])"
| "Contains (c # s) t = (take (length t) (c # s) = t \<or> Contains s t)"

section \<open>Facts about trimming\<close>

lemma leading_space_Nil [simp]: "leading_space [] = 0"
  by (simp add: leading_space_def spaces1_def spaces2_def spaces3_def)

lemma trailing_space_Nil [simp]: "trailing_space [] = 0"
  by (simp add: trailing_space_def last_n_def spaces1_def spaces2_def spaces3_def)

lemma trim_left_id: "leading_space s = 0 \<Longrightarrow> trim_left s = s"
  by (subst trim_left.simps) simp

lemma trim_right_id: "trailing_space s = 0 \<Longrightarrow> trim_right s = s"
  by (subst trim_right.simps) simp

lemma leading_space_trim_left: "leading_space (trim_left s) = 0"
proof (induction s rule: trim_left.induct)
  case (1 s)
  then show ?case by (cases "leading_space s = 0") (auto simp: trim_left.simps [of s])
qed

lemma trailing_space_trim_right: "trailing_space (trim_right s) = 0"
proof (induction s rule: trim_right.induct)
  case (1 s)
  then show ?case by (cases "trailing_space s = 0") (auto simp: trim_right.simps [of s])
qed

lemma take_member_spaces:
  "leading_space s = 0 \<longleftrightarrow> take 1 s \<notin> set spaces1 \<and> take 2 s \<notin> set spaces2 \<and> take 3 s \<notin> set spaces3"
  by (simp add: leading_space_def)

text \<open>A prefix of a string that does not start with white space does not either.\<close>

lemma leading_space_take:
  assumes "leading_space s = 0"
  shows "leading_space (take n s) = 0"
proof -
  have eq: "take k (take n s) = take k s" if "length (take k (take n s)) = k" for k
    using that by (auto simp: min_def split: if_splits)
  have "take 1 (take n s) \<notin> set spaces1"
    using assms eq [of 1] spaces_length(1) by (metis take_member_spaces)
  moreover have "take 2 (take n s) \<notin> set spaces2"
    using assms eq [of 2] spaces_length(2) by (metis take_member_spaces)
  moreover have "take 3 (take n s) \<notin> set spaces3"
    using assms eq [of 3] spaces_length(3) by (metis take_member_spaces)
  ultimately show ?thesis by (simp only: take_member_spaces) blast
qed

lemma leading_space_trim_right:
  "leading_space s = 0 \<Longrightarrow> leading_space (trim_right s) = 0"
proof (induction s rule: trim_right.induct)
  case (1 s)
  then show ?case
    by (cases "trailing_space s = 0") (auto simp: trim_right.simps [of s] leading_space_take)
qed

lemma TrimSpace_leading: "leading_space (TrimSpace s) = 0"
  by (simp add: TrimSpace_def leading_space_trim_right leading_space_trim_left)

lemma TrimSpace_trailing: "trailing_space (TrimSpace s) = 0"
  by (simp add: TrimSpace_def trailing_space_trim_right)

lemma TrimSpace_id: "leading_space s = 0 \<Longrightarrow> trailing_space s = 0 \<Longrightarrow> TrimSpace s = s"
  by (simp add: TrimSpace_def trim_left_id trim_right_id)

lemma TrimSpace_idem: "TrimSpace (TrimSpace s) = TrimSpace s"
  by (rule TrimSpace_id) (rule TrimSpace_leading TrimSpace_trailing)+

lemma TrimSpace_eq_iff: "TrimSpace s = s \<longleftrightarrow> leading_space s = 0 \<and> trailing_space s = 0"
  by (metis TrimSpace_id TrimSpace_leading TrimSpace_trailing)

lemma TrimSpace_Nil [simp]: "TrimSpace [] = []"
  by (rule TrimSpace_id) simp_all

text \<open>
  A string trims to the empty string exactly when it is made of white-space runes.
\<close>

definition space_runes :: "string list" where
  "space_runes = spaces1 @ spaces2 @ spaces3"

definition blank :: "string \<Rightarrow> bool" where
  "blank s \<longleftrightarrow> (\<exists>ws. set ws \<subseteq> set space_runes \<and> s = concat ws)"

text \<open>No encoding starts with a shorter one.\<close>

lemma spaces_prefix_free:
  "w \<in> set spaces2 \<Longrightarrow> take 1 w \<notin> set spaces1"
  "w \<in> set spaces3 \<Longrightarrow> take 1 w \<notin> set spaces1"
  "w \<in> set spaces3 \<Longrightarrow> take 2 w \<notin> set spaces2"
proof -
  have "list_all (\<lambda>w. take 1 w \<notin> set spaces1) spaces2" by code_simp
  then show "w \<in> set spaces2 \<Longrightarrow> take 1 w \<notin> set spaces1" by (simp add: list_all_iff)
  have "list_all (\<lambda>w. take 1 w \<notin> set spaces1) spaces3" by code_simp
  then show "w \<in> set spaces3 \<Longrightarrow> take 1 w \<notin> set spaces1" by (simp add: list_all_iff)
  have "list_all (\<lambda>w. take 2 w \<notin> set spaces2) spaces3" by code_simp
  then show "w \<in> set spaces3 \<Longrightarrow> take 2 w \<notin> set spaces2" by (simp add: list_all_iff)
qed

lemma leading_space_rune:
  assumes "w \<in> set space_runes"
  shows "leading_space (w @ r) = length w"
proof -
  consider "w \<in> set spaces1" | "w \<in> set spaces2" | "w \<in> set spaces3"
    using assms by (auto simp: space_runes_def)
  then show ?thesis
  proof cases
    case 1
    then show ?thesis using spaces_length(1) [OF 1] by (simp add: leading_space_def)
  next
    case 2
    then show ?thesis using spaces_length(2) [OF 2] spaces_prefix_free(1) [OF 2]
      by (simp add: leading_space_def)
  next
    case 3
    then show ?thesis
      using spaces_length(3) [OF 3] spaces_prefix_free(2) [OF 3] spaces_prefix_free(3) [OF 3]
      by (simp add: leading_space_def)
  qed
qed

lemma space_rune_nonempty: "w \<in> set space_runes \<Longrightarrow> w \<noteq> []"
  by (auto simp: space_runes_def spaces_nonempty)

lemma leading_space_pos:
  assumes "leading_space s \<noteq> 0"
  shows "take (leading_space s) s \<in> set space_runes"
  using assms by (auto simp: leading_space_def space_runes_def split: if_splits)

lemma trailing_space_pos:
  assumes "trailing_space s \<noteq> 0"
  shows "drop (length s - trailing_space s) s \<in> set space_runes"
  using assms by (auto simp: trailing_space_def space_runes_def last_n_def split: if_splits)

lemma blank_append_rune: "blank s \<Longrightarrow> w \<in> set space_runes \<Longrightarrow> blank (s @ w)"
proof -
  assume "blank s" and w: "w \<in> set space_runes"
  then obtain ws where "set ws \<subseteq> set space_runes" "s = concat ws" by (auto simp: blank_def)
  with w have "set (ws @ [w]) \<subseteq> set space_runes" "s @ w = concat (ws @ [w])" by simp_all
  then show ?thesis unfolding blank_def by blast
qed

lemma trim_left_blank: "blank s \<Longrightarrow> trim_left s = []"
proof -
  have "set ws \<subseteq> set space_runes \<Longrightarrow> trim_left (concat ws) = []" for ws
  proof (induction ws)
    case Nil
    show ?case by (simp add: trim_left.simps)
  next
    case (Cons w ws)
    then have "leading_space (w @ concat ws) = length w" and "w \<noteq> []"
      using leading_space_rune space_rune_nonempty by auto
    with Cons show ?case by (subst trim_left.simps) simp
  qed
  then show "blank s \<Longrightarrow> trim_left s = []" by (auto simp: blank_def)
qed

lemma blank_trim_left: "trim_left s = [] \<Longrightarrow> blank s"
proof (induction s rule: trim_left.induct)
  case (1 s)
  show ?case
  proof (cases "leading_space s = 0")
    case True
    with "1.prems" have "s = []" by (simp add: trim_left_id)
    then show ?thesis by (auto simp: blank_def intro: exI [of _ "[]"])
  next
    case False
    with 1 have "blank (drop (leading_space s) s)" by (simp add: trim_left.simps [of s])
    then obtain ws where "set ws \<subseteq> set space_runes" "drop (leading_space s) s = concat ws"
      by (auto simp: blank_def)
    with leading_space_pos [OF False] show ?thesis
      unfolding blank_def
      by (intro exI [of _ "take (leading_space s) s # ws"])
        (simp, metis append_take_drop_id)
  qed
qed

lemma blank_trim_right: "trim_right s = [] \<Longrightarrow> blank s"
proof (induction s rule: trim_right.induct)
  case (1 s)
  show ?case
  proof (cases "trailing_space s = 0")
    case True
    with "1.prems" have "s = []" by (simp add: trim_right_id)
    then show ?thesis by (auto simp: blank_def intro: exI [of _ "[]"])
  next
    case False
    with 1 have "blank (take (length s - trailing_space s) s)"
      by (simp add: trim_right.simps [of s])
    from blank_append_rune [OF this trailing_space_pos [OF False]] show ?thesis by simp
  qed
qed

lemma blank_leading: "blank s \<Longrightarrow> s \<noteq> [] \<Longrightarrow> leading_space s \<noteq> 0"
  by (metis trim_left_blank trim_left_id)

lemma TrimSpace_Nil_iff: "TrimSpace s = [] \<longleftrightarrow> blank s"
proof
  assume "TrimSpace s = []"
  then have "blank (trim_left s)" by (simp add: TrimSpace_def blank_trim_right)
  then have "trim_left s = []" using blank_leading leading_space_trim_left by blast
  then show "blank s" by (rule blank_trim_left)
next
  assume "blank s"
  then show "TrimSpace s = []"
    by (simp add: TrimSpace_def trim_left_blank trim_right_id)
qed

lemma contains_space_append: "contains_space s \<Longrightarrow> contains_space (p @ s)"
  by (induction p) auto

lemma contains_space_trailing: "trailing_space s \<noteq> 0 \<Longrightarrow> contains_space s"
proof -
  assume ne: "trailing_space s \<noteq> 0"
  let ?w = "drop (length s - trailing_space s) s"
  have w: "?w \<in> set space_runes" by (rule trailing_space_pos [OF ne])
  obtain c r where cr: "?w = c # r" using space_rune_nonempty [OF w] by (metis list.exhaust)
  have "leading_space ?w \<noteq> 0"
    using leading_space_rune [OF w, of "[]"] space_rune_nonempty [OF w] by simp
  then have "contains_space ?w" using cr by simp
  then have "contains_space (take (length s - trailing_space s) s @ ?w)"
    by (rule contains_space_append)
  then show ?thesis by simp
qed

lemma contains_space_leading: "leading_space s \<noteq> 0 \<Longrightarrow> contains_space s"
  by (cases s) auto

lemma TrimSpace_no_space: "\<not> contains_space s \<Longrightarrow> TrimSpace s = s"
  using TrimSpace_id contains_space_leading contains_space_trailing by blast

end
