(* ===== verification/Lines.thy ===== *)
theory Lines
  imports GoStrings
begin

text \<open>
  \<open>countNonEmptyLines\<close>, which \<open>configure\<close>, \<open>renderervyos\<close> and \<open>applyvyos\<close> each carry a copy
  of: the one-pass loop of the code, and its equivalence with counting the lines that
  hold something other than spaces and tabs.
\<close>

definition newline_char :: "char \<Rightarrow> bool" where
  "newline_char c \<longleftrightarrow> c = CHR 0x0A \<or> c = CHR 0x0D"

definition blank_char :: "char \<Rightarrow> bool" where
  "blank_char c \<longleftrightarrow> c = CHR '' '' \<or> c = CHR 0x09"

text \<open>The loop, with its variables \<open>inLine\<close> and \<open>count\<close>.\<close>

fun count_lines_loop :: "string \<Rightarrow> bool \<Rightarrow> nat \<Rightarrow> nat" where
  "count_lines_loop [] inLine count = (if inLine then Suc count else count)"
| "count_lines_loop (r # text) inLine count =
     (if newline_char r then
        (if inLine then count_lines_loop text False (Suc count)
         else count_lines_loop text inLine count)
      else if blank_char r then count_lines_loop text inLine count
      else count_lines_loop text True count)"

definition countNonEmptyLines :: "string \<Rightarrow> nat" where
  "countNonEmptyLines text = count_lines_loop text False 0"

text \<open>The lines of a text, where both line feed and carriage return end a line.\<close>

fun text_lines :: "string \<Rightarrow> string list" where
  "text_lines [] = [[]]"
| "text_lines (c # s) =
     (if newline_char c then [] # text_lines s
      else case text_lines s of [] \<Rightarrow> [[c]] | l # ls \<Rightarrow> (c # l) # ls)"

definition non_empty_line :: "string \<Rightarrow> bool" where
  "non_empty_line l = list_ex (\<lambda>c. \<not> blank_char c) l"

lemma text_lines_nonempty [simp]: "text_lines s \<noteq> []"
  by (induction s) (auto split: list.splits)

lemma count_lines_loop_eq:
  "count_lines_loop s inLine n =
     n + length (filter non_empty_line (tl (text_lines s)))
       + (if inLine \<or> non_empty_line (hd (text_lines s)) then 1 else 0)"
proof (induction s arbitrary: inLine n)
  case Nil
  show ?case by (simp add: non_empty_line_def)
next
  case (Cons c s)
  obtain l ls where ls: "text_lines s = l # ls"
    by (metis text_lines_nonempty list.exhaust)
  show ?case
    by (auto simp: Cons ls non_empty_line_def newline_char_def blank_char_def)
qed

lemma countNonEmptyLines_eq:
  "countNonEmptyLines s = length (filter non_empty_line (text_lines s))"
proof -
  obtain l ls where "text_lines s = l # ls"
    by (metis text_lines_nonempty list.exhaust)
  then show ?thesis by (simp add: countNonEmptyLines_def count_lines_loop_eq)
qed

text \<open>
  The one-pass counter of rendered commands counts exactly the lines (ended
  by a line feed or a carriage return) that hold a character other than space and tab.
\<close>

theorem count_non_empty_lines_correct:
  "countNonEmptyLines s =
     length (filter (\<lambda>l. \<exists>c \<in> set l. c \<noteq> CHR '' '' \<and> c \<noteq> CHR 0x09) (text_lines s))"
proof -
  have "non_empty_line = (\<lambda>l. \<exists>c \<in> set l. c \<noteq> CHR '' '' \<and> c \<noteq> CHR 0x09)"
    by (auto simp: fun_eq_iff non_empty_line_def list_ex_iff blank_char_def)
  then show ?thesis by (simp add: countNonEmptyLines_eq)
qed

end
