(* ===== verification/Engines.thy ===== *)
theory Engines
  imports Interfaces Lines
begin

text \<open>
  The renderer and the apply engines: the placeholders of \<open>internal/renderer\<close> and
  \<open>internal/apply\<close>, and the adapter of \<open>internal/applyvyos\<close> around the apply library,
  whose backend is a parameter.
\<close>

section \<open>The placeholders\<close>

definition LF :: string where
  "LF = [CHR 0x0A]"

definition placeholder_text :: "string \<Rightarrow> string \<Rightarrow> string" where
  "placeholder_text target uuid =
     ''# placeholder vyos config'' @ LF @ ''# target: '' @ target @ LF @ ''# uuid: '' @ uuid @ LF"

definition placeholder_Render :: "'e Renderer" where
  "placeholder_Render ctx desired e =
     ((case ctx of
         None \<Rightarrow> Inl (errors_New ''render: context is nil'')
       | Some c \<Rightarrow>
       (case c e of
         Some err \<Rightarrow> Inl (wrap ''render'' err)
       | None \<Rightarrow>
         (if dr_Target (sd_Record desired) = '''' then Inl (errors_New ''render: desired target is empty'')
          else if dr_UUID (sd_Record desired) = '''' then Inl (errors_New ''render: desired uuid is empty'')
          else Inr \<lparr>o_Target = dr_Target (sd_Record desired), o_UUID = dr_UUID (sd_Record desired),
                    o_Text = placeholder_text (dr_Target (sd_Record desired)) (dr_UUID (sd_Record desired))\<rparr>))),
      e)"

definition placeholder_Apply :: "'e ApplyEngine" where
  "placeholder_Apply ctx rendered e =
     ((case ctx of
         None \<Rightarrow> Some (errors_New ''apply: context is nil'')
       | Some c \<Rightarrow>
       (case c e of
         Some err \<Rightarrow> Some (wrap ''apply'' err)
       | None \<Rightarrow>
         (if o_UUID rendered = '''' then Some (errors_New ''apply: rendered uuid is empty'')
          else if o_Text rendered = '''' then Some (errors_New ''apply: rendered text is empty'')
          else None))),
      e)"

section \<open>The adapter of the apply library\<close>

record ApplyInput =
  ai_Target :: string
  ai_ConfigUUID :: string
  ai_DesiredCommands :: string

record ApplyPlan =
  ap_Target :: string
  ap_ConfigUUID :: string
  ap_DeleteCommands :: "string list"
  ap_SetCommands :: "string list"
  ap_Commit :: bool
  ap_Save :: bool

record ApplyResult =
  ar_Target :: string
  ar_ConfigUUID :: string
  ar_Applied :: bool
  ar_DeleteCommands :: "string list"
  ar_SetCommands :: "string list"

text \<open>
  A backend has an \<open>Apply\<close> method; one that also implements \<open>Preparer\<close> has a \<open>Prepare\<close>
  method, which the adapter finds by a type assertion. A logger acts on the environment.
\<close>

record 'e ApplyBackend =
  be_Apply :: "'e ctx option \<Rightarrow> ApplyInput \<Rightarrow> 'e \<Rightarrow> (go_error + ApplyResult) \<times> 'e"
  be_Prepare :: "('e ctx option \<Rightarrow> ApplyInput \<Rightarrow> 'e \<Rightarrow> (go_error + ApplyPlan) \<times> 'e) option"

type_synonym 'e Logger = "log_entry \<Rightarrow> 'e \<Rightarrow> 'e"

record ApplyDebug =
  ad_LogRendered :: bool
  ad_LogApplyPlan :: bool

record 'e ApplyAdapter =
  aa_backend :: "'e ApplyBackend option"
  aa_logger :: "'e Logger option"
  aa_debug :: ApplyDebug

text \<open>Options change the adapter; nil options are skipped.\<close>

type_synonym 'e ApplyOption = "'e ApplyAdapter \<Rightarrow> 'e ApplyAdapter"

definition apply_WithLogger :: "'e Logger option \<Rightarrow> 'e ApplyOption" where
  "apply_WithLogger lg a = a\<lparr>aa_logger := lg\<rparr>"

definition apply_WithDebugLogging :: "ApplyDebug \<Rightarrow> 'e ApplyOption" where
  "apply_WithDebugLogging dbg a = a\<lparr>aa_debug := dbg\<rparr>"

fun apply_options :: "'e ApplyOption option list \<Rightarrow> 'e ApplyAdapter \<Rightarrow> 'e ApplyAdapter" where
  "apply_options [] a = a"
| "apply_options (None # opts) a = apply_options opts a"
| "apply_options (Some opt # opts) a = apply_options opts (opt a)"

definition apply_NewWithBackend ::
  "'e ApplyBackend option \<Rightarrow> 'e ApplyOption option list \<Rightarrow> go_error + 'e ApplyAdapter" where
  "apply_NewWithBackend backend opts =
     (if backend = None then Inl (errors_New ''vyos apply backend is required'')
      else Inr (apply_options opts \<lparr>aa_backend = backend, aa_logger = None,
        aa_debug = \<lparr>ad_LogRendered = False, ad_LogApplyPlan = False\<rparr>\<rparr>))"

text \<open>\<open>New\<close>: \<open>vyosapply.New\<close> is a parameter, given the save flag.\<close>

definition apply_New ::
  "(bool \<Rightarrow> go_error + 'e ApplyBackend) \<Rightarrow> bool \<Rightarrow> 'e ApplyOption option list \<Rightarrow> go_error + 'e ApplyAdapter" where
  "apply_New vyosapply_New saveAfterCommit opts =
     (case vyosapply_New saveAfterCommit of
        Inl err \<Rightarrow> Inl (wrap ''create vyos apply engine'' err)
      | Inr backend \<Rightarrow> apply_NewWithBackend (Some backend) opts)"

definition apply_BuildInput :: "Output \<Rightarrow> ApplyInput" where
  "apply_BuildInput rendered = \<lparr>ai_Target = o_Target rendered, ai_ConfigUUID = o_UUID rendered,
     ai_DesiredCommands = o_Text rendered\<rparr>"

definition env_log :: "'e Logger option \<Rightarrow> log_level \<Rightarrow> string \<Rightarrow> (string \<times> log_value) list \<Rightarrow> ('e, unit) state" where
  "env_log logger lvl msg kv = State (\<lambda>e. ((), case logger of None \<Rightarrow> e | Some lg \<Rightarrow> lg (LogEntry lvl msg kv) e))"

definition apply_adapter :: "'e ApplyAdapter option \<Rightarrow> 'e ctx option \<Rightarrow> Output \<Rightarrow> ('e, go_error option) state" where
  "apply_adapter adapter ctx rendered =
     (case adapter of
        None \<Rightarrow> State_Monad.return (Some (errors_New ''vyos apply adapter is not initialized''))
      | Some a \<Rightarrow>
     (case aa_backend a of
        None \<Rightarrow> State_Monad.return (Some (errors_New ''vyos apply adapter is not initialized''))
      | Some backend \<Rightarrow> do {
     let input = apply_BuildInput rendered;
     env_log (aa_logger a) LInfo ''vyos apply input prepared''
       [(''target'', LStr (ai_Target input)), (''uuid'', LStr (ai_ConfigUUID input)),
        (''desired_size_bytes'', LInt (int (length (ai_DesiredCommands input)))),
        (''desired_command_count'', LInt (int (countNonEmptyLines (ai_DesiredCommands input))))];
     (if ad_LogRendered (aa_debug a)
      then env_log (aa_logger a) LDebug ''vyos apply desired commands prepared''
        [(''target'', LStr (ai_Target input)), (''uuid'', LStr (ai_ConfigUUID input)),
         (''desired_commands'', LStr (ai_DesiredCommands input))]
      else State_Monad.return ());
     prepErr \<leftarrow> (case be_Prepare backend of
       None \<Rightarrow> State_Monad.return None
     | Some Prepare \<Rightarrow> do {
         p \<leftarrow> State (Prepare ctx input);
         (case p of
           Inl err \<Rightarrow> State_Monad.return (Some (wrap ''prepare vyos apply plan'' err))
         | Inr plan \<Rightarrow> do {
             env_log (aa_logger a) LInfo ''vyos apply plan prepared''
               [(''target'', LStr (ap_Target plan)), (''uuid'', LStr (ap_ConfigUUID plan)),
                (''delete_count'', LInt (int (length (ap_DeleteCommands plan)))),
                (''set_count'', LInt (int (length (ap_SetCommands plan)))),
                (''commit'', LBool (ap_Commit plan)), (''save'', LBool (ap_Save plan))];
             (if ad_LogApplyPlan (aa_debug a)
              then env_log (aa_logger a) LDebug ''vyos apply plan command arrays prepared''
                [(''target'', LStr (ap_Target plan)), (''uuid'', LStr (ap_ConfigUUID plan)),
                 (''delete_commands'', LStrs (ap_DeleteCommands plan)),
                 (''set_commands'', LStrs (ap_SetCommands plan)),
                 (''commit'', LBool (ap_Commit plan)), (''save'', LBool (ap_Save plan))]
              else State_Monad.return ());
             State_Monad.return None
           })
       });
     (case prepErr of
       Some err \<Rightarrow> State_Monad.return (Some err)
     | None \<Rightarrow> do {
         r \<leftarrow> State (be_Apply backend ctx input);
         (case r of
           Inl err \<Rightarrow> State_Monad.return (Some (wrap ''vyos apply failed'' err))
         | Inr res \<Rightarrow> State_Monad.return None)
       })
     }))"

text \<open>The adapter as an apply engine.\<close>

definition vyos_ApplyEngine :: "'e ApplyAdapter option \<Rightarrow> 'e ApplyEngine" where
  "vyos_ApplyEngine adapter ctx rendered = run_state (apply_adapter adapter ctx rendered)"

lemma wp_env_log [wp_simps]:
  "wp (env_log lg lvl m kv) Q e = Q () (case lg of None \<Rightarrow> e | Some l \<Rightarrow> l (LogEntry lvl m kv) e)"
  by (simp add: env_log_def wp_State)

section \<open>What the placeholders promise\<close>

lemma placeholder_Render_ok:
  "placeholder_Render c d e = (Inr out, e') \<Longrightarrow>
     e' = e \<and> o_Target out = dr_Target (sd_Record d) \<and> o_UUID out = dr_UUID (sd_Record d)
       \<and> o_Text out = placeholder_text (o_Target out) (o_UUID out)"
  by (auto simp: placeholder_Render_def split: option.splits if_splits)

lemma placeholder_frames:
  "placeholder_Render c d e = (r, e') \<Longrightarrow> e' = e"
  "placeholder_Apply c out e = (x, e') \<Longrightarrow> e' = e"
  by (auto simp: placeholder_Render_def placeholder_Apply_def)

lemma placeholder_text_nonempty: "placeholder_text t u \<noteq> []"
  by (simp add: placeholder_text_def)

end
