(* ===== verification/Configure.thy ===== *)
theory Configure
  imports Interfaces Lines
begin

text \<open>
  Package \<open>internal/configure\<close>: the service that turns a configure notification, or a
  startup or reconnect reconcile, into render, apply, checkpoint and reports. The
  mutex of the service makes each of these bodies one uninterrupted run, so a body is
  one monadic program here.
\<close>

section \<open>The service\<close>

record DebugLogging =
  dl_LogPayloads :: bool
  dl_LogRendered :: bool
  dl_LogApplyPlan :: bool

record 'e ConfigureService =
  cs_client :: "'e CoreClient"
  cs_stateStore :: "'e StateStore"
  cs_renderer :: "'e Renderer"
  cs_applyEngine :: "'e ApplyEngine"
  cs_logger :: bool
  cs_now :: "'e Clock"
  cs_debug :: DebugLogging

text \<open>The dependencies may be nil; a logger is present or nil.\<close>

record 'e ConfigureDeps =
  cd_Client :: "'e CoreClient option"
  cd_StateStore :: "'e StateStore option"
  cd_Renderer :: "'e Renderer option"
  cd_ApplyEngine :: "'e ApplyEngine option"
  cd_Logger :: bool
  cd_Debug :: DebugLogging
  cd_Now :: "'e Clock option"

text \<open>\<open>time_Now\<close> is the \<open>time.Now\<close> a missing clock defaults to.\<close>

definition configure_NewService ::
  "'e Clock \<Rightarrow> 'e ConfigureDeps \<Rightarrow> go_error + 'e ConfigureService" where
  "configure_NewService time_Now deps =
     (case cd_Client deps of
        None \<Rightarrow> Inl (errors_New ''configure service: client is required'')
      | Some client \<Rightarrow>
     (case cd_StateStore deps of
        None \<Rightarrow> Inl (errors_New ''configure service: state store is required'')
      | Some stateStore \<Rightarrow>
     (case cd_Renderer deps of
        None \<Rightarrow> Inl (errors_New ''configure service: renderer is required'')
      | Some rend \<Rightarrow>
     (case cd_ApplyEngine deps of
        None \<Rightarrow> Inl (errors_New ''configure service: apply engine is required'')
      | Some eng \<Rightarrow>
        Inr \<lparr>cs_client = client, cs_stateStore = stateStore, cs_renderer = rend,
             cs_applyEngine = eng, cs_logger = cd_Logger deps,
             cs_now = (case cd_Now deps of None \<Rightarrow> time_Now | Some n \<Rightarrow> n),
             cs_debug = cd_Debug deps\<rparr>))))"

section \<open>Logging\<close>

definition cfg_logInfo :: "'e ConfigureService \<Rightarrow> string \<Rightarrow> (string \<times> log_value) list \<Rightarrow> ('e world, unit) state" where
  "cfg_logInfo s msg kv = log_at (cs_logger s) LInfo msg kv"

definition cfg_logDebug :: "'e ConfigureService \<Rightarrow> string \<Rightarrow> (string \<times> log_value) list \<Rightarrow> ('e world, unit) state" where
  "cfg_logDebug s msg kv = log_at (cs_logger s) LDebug msg kv"

definition cfg_logError :: "'e ConfigureService \<Rightarrow> string \<Rightarrow> (string \<times> log_value) list \<Rightarrow> ('e world, unit) state" where
  "cfg_logError s msg kv = log_at (cs_logger s) LError msg kv"

definition cfg_logWarn :: "'e ConfigureService \<Rightarrow> string \<Rightarrow> (string \<times> log_value) list \<Rightarrow> ('e world, unit) state" where
  "cfg_logWarn s msg kv = log_at (cs_logger s) LWarn msg kv"

text \<open>The correlation pairs every record of a configure run starts with.\<close>

abbreviation msg_kv :: "ConfigureNotification \<Rightarrow> (string \<times> log_value) list" where
  "msg_kv msg \<equiv> [(''target'', LStr (cn_Target msg)), (''rpc_id'', LStr (cn_RPCID msg)),
     (''uuid'', LStr (cn_UUID msg))]"

section \<open>Publishing\<close>

definition wireVersion :: string where
  "wireVersion = ''1.0''"

definition status_envelope ::
  "ConfigureNotification \<Rightarrow> string \<Rightarrow> string \<Rightarrow> string \<Rightarrow> gotime \<Rightarrow> StatusEnvelope" where
  "status_envelope msg status stage message t =
     \<lparr>se_Version = wireVersion, se_RPCID = cn_RPCID msg, se_Target = cn_Target msg,
      se_UUID = cn_UUID msg, se_Status = status, se_Stage = stage, se_Message = message,
      se_Timestamp = UTC t\<rparr>"

definition cfg_publishStatus ::
  "'e ConfigureService \<Rightarrow> 'e ctx option \<Rightarrow> ConfigureNotification \<Rightarrow> string \<Rightarrow> string \<Rightarrow> string
     \<Rightarrow> ('e world, go_error option) state" where
  "cfg_publishStatus s ctx msg status stage message = do {
     t \<leftarrow> peek (cs_now s);
     let env = status_envelope msg status stage message t;
     call (PublishStatus (cs_client s) ctx env) (EvStatus env)
   }"

definition success_result :: "ConfigureNotification \<Rightarrow> string \<Rightarrow> gotime \<Rightarrow> ResultEnvelope" where
  "success_result msg message t =
     \<lparr>re_Version = wireVersion, re_RPCID = cn_RPCID msg, re_Target = cn_Target msg,
      re_CommandType = ''configure'', re_UUID = cn_UUID msg, re_Action = '''',
      re_Result = ''success'', re_ErrorCode = '''', re_Message = message,
      re_Payload = None, re_Timestamp = UTC t\<rparr>"

definition cfg_publishSuccessResult ::
  "'e ConfigureService \<Rightarrow> 'e ctx option \<Rightarrow> ConfigureNotification \<Rightarrow> string
     \<Rightarrow> ('e world, go_error option) state" where
  "cfg_publishSuccessResult s ctx msg message = do {
     t \<leftarrow> peek (cs_now s);
     let env = success_result msg message t;
     call (PublishResult (cs_client s) ctx env) (EvResult env)
   }"

definition failure_result ::
  "ConfigureNotification \<Rightarrow> string \<Rightarrow> string \<Rightarrow> gotime \<Rightarrow> ResultEnvelope" where
  "failure_result msg code message t =
     \<lparr>re_Version = wireVersion, re_RPCID = cn_RPCID msg, re_Target = cn_Target msg,
      re_CommandType = ''configure'', re_UUID = cn_UUID msg, re_Action = '''',
      re_Result = ''failure'', re_ErrorCode = code, re_Message = message,
      re_Payload = None, re_Timestamp = UTC t\<rparr>"

definition cfg_publishFailureResult ::
  "'e ConfigureService \<Rightarrow> 'e ctx option \<Rightarrow> ConfigureNotification \<Rightarrow> string \<Rightarrow> string
     \<Rightarrow> ('e world, go_error option) state" where
  "cfg_publishFailureResult s ctx msg code message = do {
     t \<leftarrow> peek (cs_now s);
     let env = failure_result msg code message t;
     call (PublishResult (cs_client s) ctx env) (EvResult env)
   }"

section \<open>Failure reports\<close>

definition cfg_fail ::
  "'e ConfigureService \<Rightarrow> 'e ctx option \<Rightarrow> ConfigureNotification \<Rightarrow> string \<Rightarrow> string \<Rightarrow> go_error
     \<Rightarrow> ('e world, go_error option) state" where
  "cfg_fail s ctx msg code safeMessage originalErr = do {
     cfg_logError s ''configure failed'' (msg_kv msg @ [(''stage'', LStr ''failed''),
       (''status'', LStr ''failure''), (''error_code'', LStr code), (''message'', LStr safeMessage)]);
     serr \<leftarrow> cfg_publishStatus s ctx msg ''failure'' ''failed'' ''configure processing failed'';
     rerr \<leftarrow> cfg_publishFailureResult s ctx msg code safeMessage;
     State_Monad.return (errors_Join [Some originalErr,
       map_option (wrap ''publish configure failure status'') serr,
       map_option (wrap ''publish configure failure result'') rerr])
   }"

definition cfg_reportingFailure ::
  "'e ConfigureService \<Rightarrow> ConfigureNotification \<Rightarrow> go_error option \<Rightarrow> ('e world, go_error option) state" where
  "cfg_reportingFailure s msg originalErr = do {
     cfg_logWarn s ''configure reporting failed after successful apply'' (msg_kv msg @
       [(''stage'', LStr ''reporting_failed''), (''status'', LStr ''warning''),
        (''error'', LErr originalErr)]);
     State_Monad.return (Some (case originalErr of
         None \<Rightarrow> Errorf ''configure apply succeeded but reporting failed: %w'' []
       | Some e \<Rightarrow> wrap ''configure apply succeeded but reporting failed'' e))
   }"

definition publishSuccessStatusErr :: "go_error option \<Rightarrow> go_error option" where
  "publishSuccessStatusErr err = map_option (wrap ''publish configure status applied'') err"

definition publishSuccessResultErr :: "go_error option \<Rightarrow> go_error option" where
  "publishSuccessResultErr err = map_option (wrap ''publish configure success result'') err"

section \<open>Render, apply, checkpoint\<close>

definition cfg_processDesiredConfigLocked ::
  "'e ConfigureService \<Rightarrow> 'e ctx option \<Rightarrow> ConfigureNotification \<Rightarrow> StoredDesiredConfig
     \<Rightarrow> ('e world, go_error option) state" where
  "cfg_processDesiredConfigLocked s ctx msg desired = do {
     cfg_logInfo s ''configure rendering'' (msg_kv msg @ [(''stage'', LStr ''rendering'')]);
     e1 \<leftarrow> cfg_publishStatus s ctx msg ''running'' ''rendering'' ''rendering desired config'';
     (case e1 of
       Some err \<Rightarrow> cfg_fail s ctx msg ''status_publish_failed'' ''configure processing failed''
                     (wrap ''publish configure status rendering'' err)
     | None \<Rightarrow> do {
     r \<leftarrow> call (cs_renderer s ctx desired) (EvRender desired);
     (case r of
       Inl err \<Rightarrow> cfg_fail s ctx msg ''render_failed'' ''failed to render desired config''
                    (wrap ''render desired config'' err)
     | Inr rendered \<Rightarrow> do {
     cfg_logInfo s ''configure rendered'' (msg_kv msg @ [(''stage'', LStr ''rendered''),
       (''rendered_size_bytes'', LInt (int (length (o_Text rendered)))),
       (''rendered_command_count'', LInt (int (countNonEmptyLines (o_Text rendered))))]);
     (if dl_LogRendered (cs_debug s)
      then cfg_logDebug s ''configure rendered commands''
             (msg_kv msg @ [(''rendered_commands'', LStr (o_Text rendered))])
      else State_Monad.return ());
     e2 \<leftarrow> cfg_publishStatus s ctx msg ''running'' ''rendered'' ''desired config rendered'';
     (case e2 of
       Some err \<Rightarrow> cfg_fail s ctx msg ''status_publish_failed'' ''configure processing failed''
                     (wrap ''publish configure status rendered'' err)
     | None \<Rightarrow> do {
     cfg_logInfo s ''configure applying'' (msg_kv msg @ [(''stage'', LStr ''applying'')]);
     e3 \<leftarrow> cfg_publishStatus s ctx msg ''running'' ''applying'' ''applying rendered config'';
     (case e3 of
       Some err \<Rightarrow> cfg_fail s ctx msg ''status_publish_failed'' ''configure processing failed''
                     (wrap ''publish configure status applying'' err)
     | None \<Rightarrow> do {
     e4 \<leftarrow> call (cs_applyEngine s ctx rendered) (EvApply rendered);
     (case e4 of
       Some err \<Rightarrow> cfg_fail s ctx msg ''apply_failed'' ''failed to apply rendered config''
                     (wrap ''apply rendered config'' err)
     | None \<Rightarrow> do {
     cfg_logInfo s ''configure applied'' (msg_kv msg @ [(''stage'', LStr ''applied'')]);
     t \<leftarrow> peek (cs_now s);
     let nextState = \<lparr>st_Target = cn_Target msg, st_AppliedUUID = dr_UUID (sd_Record desired),
                      st_AppliedAt = UTC t\<rparr>;
     e5 \<leftarrow> call (store_Save (cs_stateStore s) ctx nextState) (EvSaveState nextState);
     (case e5 of
       Some err \<Rightarrow> cfg_fail s ctx msg ''state_save_failed'' ''failed to save local state''
                     (wrap ''save local state'' err)
     | None \<Rightarrow> do {
     cfg_logInfo s ''configure state saved'' (msg_kv msg);
     cfg_logInfo s ''configure result publishing'' (msg_kv msg @ [(''status'', LStr ''success'')]);
     e6 \<leftarrow> cfg_publishStatus s ctx msg ''success'' ''applied'' ''configure apply completed'';
     let statusErr = publishSuccessStatusErr e6;
     e7 \<leftarrow> cfg_publishSuccessResult s ctx msg ''configure apply completed'';
     let resultErr = publishSuccessResultErr e7;
     (if resultErr = None
      then cfg_logInfo s ''configure result published'' (msg_kv msg @ [(''status'', LStr ''success'')])
      else State_Monad.return ());
     (if statusErr \<noteq> None \<or> resultErr \<noteq> None
      then cfg_reportingFailure s msg (errors_Join [statusErr, resultErr])
      else State_Monad.return None)
     })})})})})})
   }"

section \<open>Handling a notification\<close>

text \<open>
  The part of \<open>Handle\<close> under the mutex: the checks of the notification and of the desired
  record, in the order of the code, and the decision between in sync and apply.
\<close>

definition cfg_handleLocked ::
  "'e ConfigureService \<Rightarrow> 'e ctx option \<Rightarrow> ConfigureNotification \<Rightarrow> ('e world, go_error option) state" where
  "cfg_handleLocked s ctx msg =
     (if TrimSpace (cn_Target msg) = '''' then
        cfg_fail s ctx msg ''notification_target_invalid'' ''configure notification target invalid''
          (errors_New ''configure notification target is empty'')
      else if TrimSpace (cn_UUID msg) = '''' then
        cfg_fail s ctx msg ''notification_uuid_invalid'' ''configure notification uuid invalid''
          (errors_New ''configure notification uuid is empty'')
      else do {
     e1 \<leftarrow> cfg_publishStatus s ctx msg ''running'' ''received'' ''configure notification received'';
     (case e1 of
       Some err \<Rightarrow> cfg_fail s ctx msg ''status_publish_failed'' ''configure processing failed''
                     (wrap ''publish configure status received'' err)
     | None \<Rightarrow> do {
     cfg_logInfo s ''configure desired loading'' (msg_kv msg @ [(''stage'', LStr ''loading_desired'')]);
     e2 \<leftarrow> cfg_publishStatus s ctx msg ''running'' ''loading_desired'' ''loading desired config'';
     (case e2 of
       Some err \<Rightarrow> cfg_fail s ctx msg ''status_publish_failed'' ''configure processing failed''
                     (wrap ''publish configure status loading_desired'' err)
     | None \<Rightarrow> do {
     r \<leftarrow> call (LoadDesiredConfig (cs_client s) ctx (cn_Target msg)) (EvLoadDesired (cn_Target msg));
     (case r of
       Inl err \<Rightarrow> cfg_fail s ctx msg ''load_desired_failed'' ''failed to load desired config''
                    (wrap ''load desired config'' err)
     | Inr loaded \<Rightarrow>
     (case loaded of
       None \<Rightarrow> cfg_fail s ctx msg ''desired_config_missing'' ''desired config missing''
                 (errors_New ''desired config is nil'')
     | Some desired \<Rightarrow>
     (if TrimSpace (dr_Target (sd_Record desired)) = '''' then
        cfg_fail s ctx msg ''desired_target_invalid'' ''desired target invalid''
          (errors_New ''desired target is empty'')
      else if TrimSpace (dr_UUID (sd_Record desired)) = '''' then
        cfg_fail s ctx msg ''desired_uuid_invalid'' ''desired uuid invalid''
          (errors_New ''desired uuid is empty'')
      else if dr_Target (sd_Record desired) \<noteq> cn_Target msg then
        cfg_fail s ctx msg ''desired_target_mismatch'' ''desired target mismatch''
          (Errorf ''desired target %q does not match notification target %q''
             [FStr (dr_Target (sd_Record desired)), FStr (cn_Target msg)])
      else if dr_UUID (sd_Record desired) \<noteq> cn_UUID msg then
        cfg_fail s ctx msg ''desired_uuid_mismatch'' ''desired uuid mismatch''
          (Errorf ''desired uuid %q does not match notification uuid %q''
             [FStr (dr_UUID (sd_Record desired)), FStr (cn_UUID msg)])
      else do {
     cfg_logInfo s ''configure desired loaded'' (msg_kv msg @
       [(''payload_size_bytes'', LInt (int (raw_len (dr_Payload (sd_Record desired)))))]);
     (if dl_LogPayloads (cs_debug s)
      then cfg_logDebug s ''configure desired payload summary'' (msg_kv msg @
             [(''payload_size_bytes'', LInt (int (raw_len (dr_Payload (sd_Record desired))))),
              (''payload_body_omitted'', LBool True)])
      else State_Monad.return ());
     l \<leftarrow> call (store_Load (cs_stateStore s) ctx) EvLoadState;
     (case l of
       Inl err \<Rightarrow> cfg_fail s ctx msg ''state_load_failed'' ''failed to load local state''
                    (wrap ''load local state'' err)
     | Inr localState \<Rightarrow> do {
     cfg_logInfo s ''configure state loaded'' (msg_kv msg);
     (if st_AppliedUUID localState = dr_UUID (sd_Record desired) then do {
        cfg_logInfo s ''configure already in sync'' (msg_kv msg @
          [(''stage'', LStr ''already_in_sync''), (''status'', LStr ''success'')]);
        e3 \<leftarrow> cfg_publishStatus s ctx msg ''success'' ''already_in_sync'' ''desired config already applied'';
        (case e3 of
          Some err \<Rightarrow> cfg_fail s ctx msg ''status_publish_failed'' ''configure processing failed''
                        (wrap ''publish configure status already_in_sync'' err)
        | None \<Rightarrow> do {
        e4 \<leftarrow> cfg_publishSuccessResult s ctx msg ''desired config already applied'';
        (case e4 of
          Some err \<Rightarrow> cfg_fail s ctx msg ''result_publish_failed'' ''failed to publish configure result''
                        (wrap ''publish configure already-in-sync result'' err)
        | None \<Rightarrow> State_Monad.return None)
        })
      }
      else cfg_processDesiredConfigLocked s ctx msg desired)
     })}))) })})})"

definition configure_Handle ::
  "'e ConfigureService \<Rightarrow> 'e ctx option \<Rightarrow> ConfigureNotification \<Rightarrow> ('e world, go_error option) state" where
  "configure_Handle s ctx msg =
     (case ctx of
        None \<Rightarrow> State_Monad.return (Some (errors_New ''configure handle: context is nil''))
      | Some _ \<Rightarrow> do {
        started \<leftarrow> peek (cs_now s);
        r \<leftarrow> cfg_handleLocked s ctx msg;
        ended \<leftarrow> peek (cs_now s);
        cfg_logInfo s ''configure processing completed'' (msg_kv msg @
          [(''duration_ms'', LInt (Milliseconds (time_Sub ended started)))]);
        State_Monad.return r
      })"

section \<open>Reconciling\<close>

text \<open>The notification with only its target set, which the degraded statuses carry.\<close>

definition target_only :: "string \<Rightarrow> ConfigureNotification" where
  "target_only target = \<lparr>cn_Version = '''', cn_RPCID = '''', cn_Target = target,
     cn_CommandType = '''', cn_UUID = '''', cn_KVBucket = '''', cn_KVKey = '''',
     cn_Timestamp = zero_time\<rparr>"

definition reconcile_msg :: "StoredDesiredConfig \<Rightarrow> ConfigureNotification" where
  "reconcile_msg desired = \<lparr>cn_Version = wireVersion, cn_RPCID = dr_RPCID (sd_Record desired),
     cn_Target = dr_Target (sd_Record desired), cn_CommandType = ''configure'',
     cn_UUID = dr_UUID (sd_Record desired), cn_KVBucket = sd_Bucket desired,
     cn_KVKey = sd_Key desired, cn_Timestamp = dr_Timestamp (sd_Record desired)\<rparr>"

text \<open>A degraded status is published on a best-effort basis: a publish error is only logged.\<close>

definition cfg_publishDegraded ::
  "'e ConfigureService \<Rightarrow> 'e ctx option \<Rightarrow> string \<Rightarrow> string \<Rightarrow> ('e world, unit) state" where
  "cfg_publishDegraded s ctx target message = do {
     pubErr \<leftarrow> cfg_publishStatus s ctx (target_only target) ''failure'' ''failed'' message;
     (case pubErr of
       Some e \<Rightarrow> cfg_logError s ''reconcile: failed to publish degraded status'' [(''error'', LErr (Some e))]
     | None \<Rightarrow> State_Monad.return ())
   }"

definition configure_Reconcile ::
  "'e ConfigureService \<Rightarrow> 'e ctx option \<Rightarrow> string \<Rightarrow> ('e world, go_error option) state" where
  "configure_Reconcile s ctx target =
     (case ctx of
       None \<Rightarrow> State_Monad.return (Some (errors_New ''reconcile: context is nil''))
     | Some _ \<Rightarrow> do {
     l \<leftarrow> call (store_Load (cs_stateStore s) ctx) EvLoadState;
     (case l of
       Inl err \<Rightarrow> do {
         cfg_logError s ''reconcile: failed to load local state''
           [(''target'', LStr target), (''error'', LErr (Some err))];
         cfg_publishDegraded s ctx target ''startup reconcile failed to load local state'';
         State_Monad.return (Some (wrap ''load local state'' err))
       }
     | Inr localState \<Rightarrow> do {
     r \<leftarrow> call (LoadDesiredConfig (cs_client s) ctx target) (EvLoadDesired target);
     (case r of
       Inl err \<Rightarrow>
         (if errors_As_core err = Some CodeConfigNotFound then do {
            cfg_logInfo s ''reconcile: no desired config exists, continuing normally''
              [(''target'', LStr target)];
            State_Monad.return None
          } else do {
            cfg_logError s ''reconcile: failed to load desired config''
              [(''target'', LStr target), (''error'', LErr (Some err))];
            cfg_publishDegraded s ctx target ''startup reconcile failed to load desired config'';
            State_Monad.return (Some (wrap ''load desired config'' err))
          })
     | Inr loaded \<Rightarrow>
     (case loaded of
       None \<Rightarrow> do {
         cfg_logInfo s ''reconcile: desired config is nil, continuing normally''
           [(''target'', LStr target)];
         State_Monad.return None
       }
     | Some desired \<Rightarrow>
     (if st_AppliedUUID localState = dr_UUID (sd_Record desired) then do {
        cfg_logInfo s ''reconcile: already in sync''
          [(''target'', LStr target), (''uuid'', LStr (dr_UUID (sd_Record desired)))];
        State_Monad.return None
      } else do {
        cfg_logInfo s ''reconcile: configuration drift detected, applying config''
          [(''target'', LStr target), (''current_uuid'', LStr (st_AppliedUUID localState)),
           (''desired_uuid'', LStr (dr_UUID (sd_Record desired)))];
        let msg = reconcile_msg desired;
        started \<leftarrow> peek (cs_now s);
        res \<leftarrow> cfg_processDesiredConfigLocked s ctx msg desired;
        ended \<leftarrow> peek (cs_now s);
        cfg_logInfo s ''reconcile processing completed'' (msg_kv msg @
          [(''duration_ms'', LInt (Milliseconds (time_Sub ended started)))]);
        State_Monad.return res
      }))) }) })"

end
