(* ===== verification/Protocol.thy ===== *)
theory Protocol
  imports Configure
begin

text \<open>
  The abstract specification of a configure run: a state machine over the calls the
  service makes and the answers it gets. The service's two entry points are shown to
  follow it in every environment, and what the specification documents promise about
  order, checkpoint and reports is proved once, of the machine.
\<close>

section \<open>The machine\<close>

datatype cphase =
    Fresh
  | Announced
  | Fetching
  | Fetched StoredDesiredConfig
  | InSync StoredDesiredConfig
  | SyncTold StoredDesiredConfig
  | Drift StoredDesiredConfig
  | RenderTold StoredDesiredConfig
  | HaveOutput StoredDesiredConfig Output
  | OutputTold StoredDesiredConfig Output
  | ApplyTold StoredDesiredConfig Output
  | Applied StoredDesiredConfig Output
  | Saved StoredDesiredConfig
  | SavedTold StoredDesiredConfig "go_error option"
  | Failing string
  | FailTold string
  | Synced StoredDesiredConfig
  | Completed StoredDesiredConfig "go_error option" "go_error option"
  | Failed string

text \<open>An envelope with the correlation data of the notification and a UTC timestamp.\<close>

definition is_status :: "ConfigureNotification \<Rightarrow> string \<Rightarrow> string \<Rightarrow> string \<Rightarrow> StatusEnvelope \<Rightarrow> bool" where
  "is_status msg st sg m e \<longleftrightarrow> e = status_envelope msg st sg m (se_Timestamp e)"

definition is_success :: "ConfigureNotification \<Rightarrow> string \<Rightarrow> ResultEnvelope \<Rightarrow> bool" where
  "is_success msg m e \<longleftrightarrow> e = success_result msg m (re_Timestamp e)"

definition is_failure :: "ConfigureNotification \<Rightarrow> string \<Rightarrow> ResultEnvelope \<Rightarrow> bool" where
  "is_failure msg code e \<longleftrightarrow> e = failure_result msg code (re_Message e) (re_Timestamp e)"

definition cstart :: "ConfigureNotification \<Rightarrow> cphase" where
  "cstart msg =
     (if TrimSpace (cn_Target msg) = [] then Failing ''notification_target_invalid''
      else if TrimSpace (cn_UUID msg) = [] then Failing ''notification_uuid_invalid''
      else Fresh)"

definition after_fetch :: "ConfigureNotification \<Rightarrow> StoredDesiredConfig \<Rightarrow> cphase" where
  "after_fetch msg d =
     (if TrimSpace (dr_Target (sd_Record d)) = [] then Failing ''desired_target_invalid''
      else if TrimSpace (dr_UUID (sd_Record d)) = [] then Failing ''desired_uuid_invalid''
      else if dr_Target (sd_Record d) \<noteq> cn_Target msg then Failing ''desired_target_mismatch''
      else if dr_UUID (sd_Record d) \<noteq> cn_UUID msg then Failing ''desired_uuid_mismatch''
      else Fetched d)"

text \<open>Next phase after a call that answers an error or nil.\<close>

definition unless_err :: "go_error option \<Rightarrow> string \<Rightarrow> cphase \<Rightarrow> cphase option" where
  "unless_err r code ph = Some (case r of None \<Rightarrow> ph | Some _ \<Rightarrow> Failing code)"

definition on_status ::
  "ConfigureNotification \<Rightarrow> string \<Rightarrow> string \<Rightarrow> string \<Rightarrow> event \<Rightarrow> (go_error option \<Rightarrow> cphase option) \<Rightarrow> cphase option" where
  "on_status msg st sg m ev k = (case ev of
     EvStatus e r \<Rightarrow> if is_status msg st sg m e then k r else None | _ \<Rightarrow> None)"

definition cstep :: "ConfigureNotification \<Rightarrow> cphase \<Rightarrow> event \<Rightarrow> cphase option" where
  "cstep msg ph ev = (case ph of
     Fresh \<Rightarrow> on_status msg ''running'' ''received'' ''configure notification received'' ev
       (\<lambda>r. unless_err r ''status_publish_failed'' Announced)
   | Announced \<Rightarrow> on_status msg ''running'' ''loading_desired'' ''loading desired config'' ev
       (\<lambda>r. unless_err r ''status_publish_failed'' Fetching)
   | Fetching \<Rightarrow> (case ev of
       EvLoadDesired t r \<Rightarrow>
         if t = cn_Target msg then Some (case r of
             Inl _ \<Rightarrow> Failing ''load_desired_failed''
           | Inr None \<Rightarrow> Failing ''desired_config_missing''
           | Inr (Some d) \<Rightarrow> after_fetch msg d) else None
     | _ \<Rightarrow> None)
   | Fetched d \<Rightarrow> (case ev of
       EvLoadState r \<Rightarrow> Some (case r of
           Inl _ \<Rightarrow> Failing ''state_load_failed''
         | Inr st \<Rightarrow> if st_AppliedUUID st = dr_UUID (sd_Record d) then InSync d else Drift d)
     | _ \<Rightarrow> None)
   | InSync d \<Rightarrow> on_status msg ''success'' ''already_in_sync'' ''desired config already applied'' ev
       (\<lambda>r. unless_err r ''status_publish_failed'' (SyncTold d))
   | SyncTold d \<Rightarrow> (case ev of
       EvResult e r \<Rightarrow> if is_success msg ''desired config already applied'' e
         then unless_err r ''result_publish_failed'' (Synced d) else None
     | _ \<Rightarrow> None)
   | Drift d \<Rightarrow> on_status msg ''running'' ''rendering'' ''rendering desired config'' ev
       (\<lambda>r. unless_err r ''status_publish_failed'' (RenderTold d))
   | RenderTold d \<Rightarrow> (case ev of
       EvRender d' r \<Rightarrow> if d' = d then Some (case r of
           Inl _ \<Rightarrow> Failing ''render_failed'' | Inr out \<Rightarrow> HaveOutput d out) else None
     | _ \<Rightarrow> None)
   | HaveOutput d out \<Rightarrow> on_status msg ''running'' ''rendered'' ''desired config rendered'' ev
       (\<lambda>r. unless_err r ''status_publish_failed'' (OutputTold d out))
   | OutputTold d out \<Rightarrow> on_status msg ''running'' ''applying'' ''applying rendered config'' ev
       (\<lambda>r. unless_err r ''status_publish_failed'' (ApplyTold d out))
   | ApplyTold d out \<Rightarrow> (case ev of
       EvApply out' r \<Rightarrow> if out' = out then unless_err r ''apply_failed'' (Applied d out) else None
     | _ \<Rightarrow> None)
   | Applied d out \<Rightarrow> (case ev of
       EvSaveState st r \<Rightarrow>
         if st_Target st = cn_Target msg \<and> st_AppliedUUID st = dr_UUID (sd_Record d)
              \<and> UTC (st_AppliedAt st) = st_AppliedAt st
         then unless_err r ''state_save_failed'' (Saved d) else None
     | _ \<Rightarrow> None)
   | Saved d \<Rightarrow> on_status msg ''success'' ''applied'' ''configure apply completed'' ev
       (\<lambda>r. Some (SavedTold d r))
   | SavedTold d se \<Rightarrow> (case ev of
       EvResult e r \<Rightarrow> if is_success msg ''configure apply completed'' e
         then Some (Completed d se r) else None
     | _ \<Rightarrow> None)
   | Failing code \<Rightarrow> on_status msg ''failure'' ''failed'' ''configure processing failed'' ev
       (\<lambda>r. Some (FailTold code))
   | FailTold code \<Rightarrow> (case ev of
       EvResult e r \<Rightarrow> if is_failure msg code e then Some (Failed code) else None
     | _ \<Rightarrow> None)
   | _ \<Rightarrow> None)"

fun crun :: "ConfigureNotification \<Rightarrow> cphase \<Rightarrow> event list \<Rightarrow> cphase option" where
  "crun msg ph [] = Some ph"
| "crun msg ph (e # es) = (case cstep msg ph e of None \<Rightarrow> None | Some ph' \<Rightarrow> crun msg ph' es)"

text \<open>The final phases, and the error value that goes with each.\<close>

definition outcome :: "cphase \<Rightarrow> go_error option \<Rightarrow> bool" where
  "outcome ph r = (case ph of
     Synced d \<Rightarrow> r = None
   | Completed d se re \<Rightarrow> (r = None) = (se = None \<and> re = None)
   | Failed code \<Rightarrow> r \<noteq> None
   | _ \<Rightarrow> False)"

lemma crun_append:
  "crun msg ph (es @ fs) = (case crun msg ph es of None \<Rightarrow> None | Some ph' \<Rightarrow> crun msg ph' fs)"
  by (induction es arbitrary: ph) (auto split: option.split)

section \<open>The service follows the machine\<close>

lemma UTC_UTC [simp]: "UTC (UTC t) = UTC t"
  by (simp add: UTC_def)

lemma is_status_envelope [env_simps]: "is_status msg st sg m (status_envelope msg st sg m t)"
  by (simp add: is_status_def status_envelope_def)

lemma is_success_result [env_simps]: "is_success msg m (success_result msg m t)"
  by (simp add: is_success_def success_result_def)

lemma is_failure_result [env_simps]: "is_failure msg code (failure_result msg code m t)"
  by (simp add: is_failure_def failure_result_def)

lemmas cfg_log_defs = cfg_logInfo_def cfg_logDebug_def cfg_logError_def cfg_logWarn_def

lemma trace_cfg_logs [trace_rules]:
  "(\<And>w'. trace w' = trace w \<Longrightarrow> Q () w') \<Longrightarrow> wp (cfg_logInfo s m kv) Q w"
  "(\<And>w'. trace w' = trace w \<Longrightarrow> Q () w') \<Longrightarrow> wp (cfg_logDebug s m kv) Q w"
  "(\<And>w'. trace w' = trace w \<Longrightarrow> Q () w') \<Longrightarrow> wp (cfg_logError s m kv) Q w"
  "(\<And>w'. trace w' = trace w \<Longrightarrow> Q () w') \<Longrightarrow> wp (cfg_logWarn s m kv) Q w"
  by (simp_all add: cfg_log_defs trace_log_at)

lemma trace_publishStatus [trace_rules]:
  assumes "\<And>t r w'. trace w' = trace w @ [EvStatus (status_envelope msg st sg m t) r] \<Longrightarrow> Q r w'"
  shows "wp (cfg_publishStatus s ctx msg st sg m) Q w"
  unfolding cfg_publishStatus_def Let_def by (intro trace_rules) (rule assms, simp)

lemma trace_publishSuccessResult [trace_rules]:
  assumes "\<And>t r w'. trace w' = trace w @ [EvResult (success_result msg m t) r] \<Longrightarrow> Q r w'"
  shows "wp (cfg_publishSuccessResult s ctx msg m) Q w"
  unfolding cfg_publishSuccessResult_def Let_def by (intro trace_rules) (rule assms, simp)

lemma trace_publishFailureResult [trace_rules]:
  assumes "\<And>t r w'. trace w' = trace w @ [EvResult (failure_result msg code m t) r] \<Longrightarrow> Q r w'"
  shows "wp (cfg_publishFailureResult s ctx msg code m) Q w"
  unfolding cfg_publishFailureResult_def Let_def by (intro trace_rules) (rule assms, simp)

lemma errors_Join_Some [simp]: "errors_Join (Some e # es) \<noteq> None"
  by (simp add: errors_Join_def)

lemma trace_fail [trace_rules]:
  assumes "\<And>t se t' re r w'.
     trace w' = trace w @ [EvStatus (status_envelope msg ''failure'' ''failed'' ''configure processing failed'' t) se,
                           EvResult (failure_result msg code safe t') re] \<Longrightarrow>
     r = errors_Join [Some err, map_option (wrap ''publish configure failure status'') se,
       map_option (wrap ''publish configure failure result'') re] \<Longrightarrow> Q r w'"
  shows "wp (cfg_fail s ctx msg code safe err) Q w"
  unfolding cfg_fail_def by (intro trace_rules) (rule assms, auto)

lemma trace_reportingFailure [trace_rules]:
  assumes "\<And>r w'. trace w' = trace w \<Longrightarrow> Q (Some r) w'"
  shows "wp (cfg_reportingFailure s msg err) Q w"
  unfolding cfg_reportingFailure_def by (intro trace_rules) (rule assms, simp)

text \<open>What a run from a phase establishes.\<close>

definition follows ::
  "ConfigureNotification \<Rightarrow> cphase \<Rightarrow> 'e world \<Rightarrow> go_error option \<Rightarrow> 'e world \<Rightarrow> bool" where
  "follows msg ph w r w' \<longleftrightarrow>
     (\<exists>evs ph'. trace w' = trace w @ evs \<and> crun msg ph evs = Some ph' \<and> outcome ph' r)"

text \<open>Following the machine one call at a time.\<close>

lemma follows_step:
  assumes "trace w1 = trace w @ [ev]" "cstep msg ph ev = Some ph'" "follows msg ph' w1 r w'"
  shows "follows msg ph w r w'"
proof -
  from assms(3) obtain evs ph'' where
    "trace w' = trace w1 @ evs" "crun msg ph' evs = Some ph''" "outcome ph'' r"
    by (auto simp: follows_def)
  with assms(1,2) have "trace w' = trace w @ (ev # evs)" "crun msg ph (ev # evs) = Some ph''"
    by simp_all
  with \<open>outcome ph'' r\<close> show ?thesis unfolding follows_def by blast
qed

lemma follows_stop: "trace w' = trace w \<Longrightarrow> outcome ph r \<Longrightarrow> follows msg ph w r w'"
  unfolding follows_def by (intro exI [of _ "[]"]) simp

lemma follows_same: "trace w1 = trace w \<Longrightarrow> follows msg ph w1 r w' \<Longrightarrow> follows msg ph w r w'"
  by (simp add: follows_def)

lemmas cphase_defs = cstep_def on_status_def unless_err_def outcome_def

text \<open>A configure run that has found drift: render, apply, checkpoint, report.\<close>

lemma process_follows:
  "wp (cfg_processDesiredConfigLocked s ctx msg d) (follows msg (Drift d) w) w"
  unfolding cfg_processDesiredConfigLocked_def Let_def
  by (intro trace_rules) (simp_all add: follows_def cphase_defs env_simps publishSuccessStatusErr_def
    publishSuccessResultErr_def split: option.splits)

lemma trace_process [trace_rules]:
  assumes "\<And>r w'. follows msg (Drift d) w r w' \<Longrightarrow> Q r w'"
  shows "wp (cfg_processDesiredConfigLocked s ctx msg d) Q w"
  by (rule wp_mono [OF process_follows]) (rule assms)

lemma handleLocked_follows:
  "wp (cfg_handleLocked s ctx msg) (follows msg (cstart msg) w) w"
  unfolding cfg_handleLocked_def Let_def
  by (intro trace_rules)
    (auto simp: follows_def cstart_def after_fetch_def cphase_defs env_simps)

lemma trace_handleLocked [trace_rules]:
  assumes "\<And>r w'. follows msg (cstart msg) w r w' \<Longrightarrow> Q r w'"
  shows "wp (cfg_handleLocked s ctx msg) Q w"
  by (rule wp_mono [OF handleLocked_follows]) (rule assms)

definition configure_run :: "ConfigureNotification \<Rightarrow> event list \<Rightarrow> go_error option \<Rightarrow> bool" where
  "configure_run msg evs r \<longleftrightarrow> (\<exists>ph. crun msg (cstart msg) evs = Some ph \<and> outcome ph r)"

lemma handle_rule:
  "wp (configure_Handle s (Some ctx) msg)
     (\<lambda>r w'. \<exists>evs. trace w' = trace w @ evs \<and> configure_run msg evs r) w"
  unfolding configure_Handle_def option.case
  by (intro trace_rules) (auto simp: follows_def configure_run_def)

text \<open>
  \textbf{C1.} Whatever its collaborators answer, handling a configure notification makes
  the calls of the configure machine in its order, stops in a final phase, and returns
  the error value that belongs to that phase.
\<close>

theorem handle_follows_protocol:
  "wp (configure_Handle s (Some ctx) msg)
     (\<lambda>r w'. \<exists>evs ph. trace w' = trace w @ evs \<and> crun msg (cstart msg) evs = Some ph \<and> outcome ph r) w"
  by (rule wp_mono [OF handle_rule]) (auto simp: configure_run_def)

section \<open>Reconciling follows the machine\<close>

text \<open>The runs of \<open>Reconcile\<close> for a target: one rule per way out.\<close>

inductive reconcile_run :: "string \<Rightarrow> event list \<Rightarrow> go_error option \<Rightarrow> bool" for target where
  state_unreadable:
    "is_status (target_only target) ''failure'' ''failed'' ''startup reconcile failed to load local state'' e \<Longrightarrow>
     reconcile_run target [EvLoadState (Inl err), EvStatus e r] (Some (wrap ''load local state'' err))"
| no_desired:
    "errors_As_core err = Some CodeConfigNotFound \<Longrightarrow>
     reconcile_run target [EvLoadState (Inr st), EvLoadDesired target (Inl err)] None"
| desired_unreadable:
    "errors_As_core err \<noteq> Some CodeConfigNotFound \<Longrightarrow>
     is_status (target_only target) ''failure'' ''failed'' ''startup reconcile failed to load desired config'' e \<Longrightarrow>
     reconcile_run target [EvLoadState (Inr st), EvLoadDesired target (Inl err), EvStatus e r]
       (Some (wrap ''load desired config'' err))"
| nil_desired:
    "reconcile_run target [EvLoadState (Inr st), EvLoadDesired target (Inr None)] None"
| in_sync:
    "st_AppliedUUID st = dr_UUID (sd_Record d) \<Longrightarrow>
     reconcile_run target [EvLoadState (Inr st), EvLoadDesired target (Inr (Some d))] None"
| drift:
    "st_AppliedUUID st \<noteq> dr_UUID (sd_Record d) \<Longrightarrow>
     crun (reconcile_msg d) (Drift d) evs = Some ph \<Longrightarrow> outcome ph r \<Longrightarrow>
     reconcile_run target (EvLoadState (Inr st) # EvLoadDesired target (Inr (Some d)) # evs) r"

lemma trace_publishDegraded [trace_rules]:
  assumes "\<And>t r w'. trace w' = trace w @ [EvStatus (status_envelope (target_only target) ''failure'' ''failed'' m t) r]
     \<Longrightarrow> Q () w'"
  shows "wp (cfg_publishDegraded s ctx target m) Q w"
  unfolding cfg_publishDegraded_def by (intro trace_rules) (rule assms, simp)+

lemma reconcile_rule:
  "wp (configure_Reconcile s (Some ctx) target)
     (\<lambda>r w'. \<exists>evs. trace w' = trace w @ evs \<and> reconcile_run target evs r) w"
  unfolding configure_Reconcile_def option.case Let_def
  by (intro trace_rules) (auto simp: follows_def env_simps intro: reconcile_run.intros)

text \<open>
  \textbf{C2.} Whatever its collaborators answer, a reconcile of a target makes one of the
  call sequences of \<open>reconcile_run\<close>: it stops quietly when nothing is desired or the
  desired configuration is applied already, publishes one degraded status when the local
  state or the desired configuration cannot be read, and otherwise runs the configure
  machine from the point where drift is known.
\<close>

theorem reconcile_follows_protocol:
  "wp (configure_Reconcile s (Some ctx) target)
     (\<lambda>r w'. \<exists>evs. trace w' = trace w @ evs \<and> reconcile_run target evs r) w"
  by (rule reconcile_rule)

end
