(* ===== verification/Guarantees.thy ===== *)
theory Guarantees
  imports Protocol
begin

text \<open>
  What every configure run guarantees, proved of the machine of theory \<open>Protocol\<close>: the
  checkpoint comes after a successful apply, nothing contradicts a saved checkpoint,
  every notification gets its report, the envelopes correlate, and a run is bounded.
\<close>

section \<open>What the machine keeps of its past\<close>

text \<open>
  \<open>hist D ph evs\<close> relates the phase a run is in to the calls it has made; \<open>D\<close> is what is
  known of the desired configuration the run works on. A failing run carries one of the
  error codes of the service.
\<close>

definition failure_codes :: "string list" where
  "failure_codes = [''notification_target_invalid'', ''notification_uuid_invalid'',
     ''status_publish_failed'', ''load_desired_failed'', ''desired_config_missing'',
     ''desired_target_invalid'', ''desired_uuid_invalid'', ''desired_target_mismatch'',
     ''desired_uuid_mismatch'', ''state_load_failed'', ''result_publish_failed'',
     ''render_failed'', ''apply_failed'', ''state_save_failed'']"

definition hist :: "(StoredDesiredConfig \<Rightarrow> bool) \<Rightarrow> cphase \<Rightarrow> event list \<Rightarrow> bool" where
  "hist D ph evs = (case ph of
     Fetched d \<Rightarrow> D d
   | InSync d \<Rightarrow> D d
   | SyncTold d \<Rightarrow> D d
   | Synced d \<Rightarrow> D d
   | Drift d \<Rightarrow> D d
   | RenderTold d \<Rightarrow> D d
   | HaveOutput d out \<Rightarrow> D d \<and> EvRender d (Inr out) \<in> set evs
   | OutputTold d out \<Rightarrow> D d \<and> EvRender d (Inr out) \<in> set evs
   | ApplyTold d out \<Rightarrow> D d \<and> EvRender d (Inr out) \<in> set evs
   | Applied d out \<Rightarrow> D d \<and> (\<exists>pre. evs = pre @ [EvApply out None] \<and> EvRender d (Inr out) \<in> set pre)
   | Saved d \<Rightarrow> D d
   | SavedTold d se \<Rightarrow> D d
   | Completed d se re \<Rightarrow> D d
   | Failing code \<Rightarrow> code \<in> set failure_codes
   | FailTold code \<Rightarrow> code \<in> set failure_codes
   | Failed code \<Rightarrow> code \<in> set failure_codes
   | _ \<Rightarrow> True)"

lemmas cstep_simps = cstep_def on_status_def unless_err_def

lemma hist_step:
  assumes "cstep msg ph ev = Some ph'" "hist D ph evs"
    and "\<And>d. dr_Target (sd_Record d) = cn_Target msg \<Longrightarrow> dr_UUID (sd_Record d) = cn_UUID msg \<Longrightarrow> D d"
  shows "hist D ph' (evs @ [ev])"
proof (cases ph)
  case Fetching
  with assms show ?thesis
    by (auto simp: cstep_simps hist_def failure_codes_def after_fetch_def
        split: event.splits if_splits sum.splits option.splits)
qed (use assms in \<open>auto simp: cstep_simps hist_def failure_codes_def
    split: event.splits if_splits sum.splits option.splits\<close>)

lemma hist_run:
  assumes "crun msg ph0 evs = Some ph" "hist D ph0 []"
    and "\<And>d. dr_Target (sd_Record d) = cn_Target msg \<Longrightarrow> dr_UUID (sd_Record d) = cn_UUID msg \<Longrightarrow> D d"
  shows "hist D ph evs"
  using assms(1)
proof (induction evs arbitrary: ph rule: rev_induct)
  case Nil
  with assms(2) show ?case by simp
next
  case (snoc e es)
  then obtain ph1 where "crun msg ph0 es = Some ph1" "cstep msg ph1 e = Some ph"
    by (auto simp: crun_append split: option.splits)
  with snoc.IH hist_step assms(3) show ?case by blast
qed

section \<open>Order: the checkpoint comes after the apply\<close>

text \<open>
  A checkpoint is justified when the call right before it was a successful apply of an
  output rendered earlier in the run from a desired record with the checkpointed target
  and UUID.
\<close>

definition justified :: "event list \<Rightarrow> State \<Rightarrow> bool" where
  "justified pre st \<longleftrightarrow> (\<exists>pre' d out. pre = pre' @ [EvApply out None]
     \<and> EvRender d (Inr out) \<in> set pre'
     \<and> dr_Target (sd_Record d) = st_Target st \<and> dr_UUID (sd_Record d) = st_AppliedUUID st)"

definition checkpoints_justified :: "string \<Rightarrow> string \<Rightarrow> event list \<Rightarrow> bool" where
  "checkpoints_justified target uuid evs \<longleftrightarrow>
     (\<forall>pre st r post. evs = pre @ EvSaveState st r # post \<longrightarrow>
        st_Target st = target \<and> st_AppliedUUID st = uuid \<and> justified pre st)"

lemma cstep_save:
  "cstep msg ph (EvSaveState st r) = Some ph' \<Longrightarrow>
     (\<exists>d out. ph = Applied d out \<and> st_Target st = cn_Target msg
        \<and> st_AppliedUUID st = dr_UUID (sd_Record d) \<and> UTC (st_AppliedAt st) = st_AppliedAt st
        \<and> ph' = (case r of None \<Rightarrow> Saved d | Some _ \<Rightarrow> Failing ''state_save_failed''))"
  by (auto simp: cstep_simps split: cphase.splits if_splits)

lemma crun_split:
  assumes "crun msg ph0 (pre @ e # post) = Some ph"
  obtains ph1 ph2 where "crun msg ph0 pre = Some ph1" "cstep msg ph1 e = Some ph2"
    "crun msg ph2 post = Some ph"
  using assms by (auto simp: crun_append split: option.splits)

lemma crun_justified:
  assumes "crun msg ph0 evs = Some ph" "hist (\<lambda>d. dr_Target (sd_Record d) = cn_Target msg
       \<and> dr_UUID (sd_Record d) = cn_UUID msg) ph0 []"
  shows "checkpoints_justified (cn_Target msg) (cn_UUID msg) evs"
  unfolding checkpoints_justified_def
proof (intro allI impI)
  fix pre st r post
  assume "evs = pre @ EvSaveState st r # post"
  with assms(1) obtain ph1 ph2 where run: "crun msg ph0 pre = Some ph1"
    and "cstep msg ph1 (EvSaveState st r) = Some ph2"
    by (metis crun_split)
  then obtain d out where "ph1 = Applied d out" and st: "st_Target st = cn_Target msg"
    "st_AppliedUUID st = dr_UUID (sd_Record d)"
    using cstep_save by blast
  moreover from hist_run [OF run assms(2)] have "hist (\<lambda>d. dr_Target (sd_Record d) = cn_Target msg
       \<and> dr_UUID (sd_Record d) = cn_UUID msg) ph1 pre" by simp
  ultimately show "st_Target st = cn_Target msg \<and> st_AppliedUUID st = cn_UUID msg \<and> justified pre st"
    unfolding hist_def justified_def by auto
qed

lemma hist_cstart [simp]: "hist D (cstart msg) []"
  by (simp add: hist_def cstart_def failure_codes_def)

text \<open>
  \textbf{C3.} In every run of the configure handler, a checkpoint is saved only right
  after a successful apply, of an output that was rendered in this run from the desired
  record the notification names; it records the notification's target and UUID.
\<close>

theorem handle_checkpoint_after_apply:
  "wp (configure_Handle s (Some ctx) msg)
     (\<lambda>r w'. \<exists>evs. trace w' = trace w @ evs
        \<and> checkpoints_justified (cn_Target msg) (cn_UUID msg) evs) w"
  by (rule wp_mono [OF handle_rule]) (auto simp: configure_run_def intro: crun_justified [OF _ hist_cstart])

section \<open>Silence after the checkpoint\<close>

text \<open>
  After a saved checkpoint the run publishes the success status and the success result,
  once each, and nothing else.
\<close>

definition only_success_after_checkpoint :: "ConfigureNotification \<Rightarrow> event list \<Rightarrow> bool" where
  "only_success_after_checkpoint msg evs \<longleftrightarrow>
     (\<forall>pre st post. evs = pre @ EvSaveState st None # post \<longrightarrow>
        (\<exists>e se f re. post = [EvStatus e se, EvResult f re]
           \<and> is_status msg ''success'' ''applied'' ''configure apply completed'' e
           \<and> is_success msg ''configure apply completed'' f))"

lemma outcome_final: "outcome ph r \<Longrightarrow> cstep msg ph e = None"
  by (auto simp: outcome_def cstep_simps split: cphase.splits)

lemma crun_Saved:
  assumes "crun msg (Saved d) post = Some ph" "outcome ph r"
  obtains e se f re where "post = [EvStatus e se, EvResult f re]" "ph = Completed d se re"
    "is_status msg ''success'' ''applied'' ''configure apply completed'' e"
    "is_success msg ''configure apply completed'' f"
proof -
  from assms obtain ev1 rest where post: "post = ev1 # rest"
    by (cases post) (auto simp: outcome_def)
  with assms obtain e se where ev1: "ev1 = EvStatus e se"
      "is_status msg ''success'' ''applied'' ''configure apply completed'' e"
      "crun msg (SavedTold d se) rest = Some ph"
    by (auto simp: cstep_simps split: option.splits event.splits if_splits)
  with assms(2) obtain ev2 rest' where rest: "rest = ev2 # rest'"
    by (cases rest) (auto simp: outcome_def)
  with ev1 obtain f re where ev2: "ev2 = EvResult f re"
      "is_success msg ''configure apply completed'' f" "crun msg (Completed d se re) rest' = Some ph"
    by (auto simp: cstep_simps split: option.splits event.splits if_splits)
  have "rest' = []" using ev2(3) by (cases rest') (auto simp: cstep_simps)
  with that post rest ev1 ev2 show thesis by simp
qed

lemma crun_only_success:
  assumes "crun msg ph0 evs = Some ph" "outcome ph r"
  shows "only_success_after_checkpoint msg evs"
  unfolding only_success_after_checkpoint_def
proof (intro allI impI)
  fix pre st post
  assume "evs = pre @ EvSaveState st None # post"
  with assms(1) obtain ph1 ph2 where "cstep msg ph1 (EvSaveState st None) = Some ph2"
    "crun msg ph2 post = Some ph"
    by (metis crun_split)
  then obtain d where "crun msg (Saved d) post = Some ph"
    using cstep_save by fastforce
  from crun_Saved [OF this assms(2)]
  show "\<exists>e se f re. post = [EvStatus e se, EvResult f re]
     \<and> is_status msg ''success'' ''applied'' ''configure apply completed'' e
     \<and> is_success msg ''configure apply completed'' f" by metis
qed

text \<open>
  \textbf{C4.} Once the checkpoint of a configure run is saved, the run only publishes the
  success status and the success result: no failure report contradicts an applied and
  recorded configuration, even when publishing fails.
\<close>

theorem handle_no_contradiction_after_checkpoint:
  "wp (configure_Handle s (Some ctx) msg)
     (\<lambda>r w'. \<exists>evs. trace w' = trace w @ evs \<and> only_success_after_checkpoint msg evs) w"
  by (rule wp_mono [OF handle_rule]) (auto simp: configure_run_def intro: crun_only_success)

section \<open>Every handled notification ends with its report\<close>

definition is_saved :: "event \<Rightarrow> bool" where
  "is_saved ev = (case ev of EvSaveState st r \<Rightarrow> r = None | _ \<Rightarrow> False)"

text \<open>
  The last call of a run publishes a result for the notification. When the run returns
  nil it is the success result and it was published; when the run returns an error it is
  a failure result with one of the service's codes if no checkpoint was saved, and the
  success result if one was.
\<close>

definition final_report :: "ConfigureNotification \<Rightarrow> go_error option \<Rightarrow> event list \<Rightarrow> bool" where
  "final_report msg r evs \<longleftrightarrow>
     (\<exists>pre f re. evs = pre @ [EvResult f re] \<and>
        (if r = None then re = None \<and> is_success msg (re_Message f) f
         else if list_ex is_saved pre then is_success msg (re_Message f) f
         else \<exists>code \<in> set failure_codes. is_failure msg code f))"

lemma is_success_msg: "is_success msg m f \<Longrightarrow> is_success msg (re_Message f) f"
  by (metis is_success_def success_result_def ResultEnvelope.select_convs(9))

definition checkpointed :: "cphase \<Rightarrow> bool" where
  "checkpointed ph = (case ph of Saved d \<Rightarrow> True | SavedTold d se \<Rightarrow> True
     | Completed d se re \<Rightarrow> True | _ \<Rightarrow> False)"

lemma checkpointed_step:
  "cstep msg ph ev = Some ph' \<Longrightarrow> checkpointed ph' \<longleftrightarrow> checkpointed ph \<or> is_saved ev"
  by (cases ph; cases ev)
    (auto simp: cstep_simps checkpointed_def is_saved_def after_fetch_def
      split: if_splits option.splits sum.splits)

lemma checkpointed_run:
  "crun msg ph evs = Some ph' \<Longrightarrow> checkpointed ph' \<longleftrightarrow> checkpointed ph \<or> list_ex is_saved evs"
  by (induction evs arbitrary: ph) (auto split: option.splits simp: checkpointed_step)

lemma run_final_report:
  assumes "configure_run msg evs r"
  shows "final_report msg r evs"
proof -
  from assms obtain ph where run: "crun msg (cstart msg) evs = Some ph" and out: "outcome ph r"
    by (auto simp: configure_run_def)
  then have "evs \<noteq> []" by (auto simp: cstart_def outcome_def split: if_splits)
  then obtain pre ev where evs: "evs = pre @ [ev]" by (metis rev_exhaust)
  with run obtain ph1 where pre: "crun msg (cstart msg) pre = Some ph1"
    and last: "cstep msg ph1 ev = Some ph"
    by (auto simp: crun_append split: option.splits)
  have "checkpointed ph1 = list_ex is_saved pre"
    using checkpointed_run [OF pre] by (simp add: cstart_def checkpointed_def)
  moreover have "hist (\<lambda>d. True) ph (pre @ [ev])" using hist_run [OF run] evs by simp
  ultimately show ?thesis
    using last out evs unfolding final_report_def
    by (cases ph1; cases ev)
      (auto simp: cstep_simps outcome_def checkpointed_def hist_def after_fetch_def
        split: if_splits option.splits sum.splits intro: is_success_msg)
qed

text \<open>
  \textbf{C5.} A handled notification always ends with a result report to the controller:
  the success result, published, when the handler returns nil; a failure result with one
  of the documented codes when it returns an error and no checkpoint was saved.
\<close>

theorem handle_ends_with_report:
  "wp (configure_Handle s (Some ctx) msg)
     (\<lambda>r w'. \<exists>evs. trace w' = trace w @ evs \<and> final_report msg r evs) w"
  by (rule wp_mono [OF handle_rule]) (auto intro: run_final_report)

section \<open>Correlation\<close>

definition correlated :: "ConfigureNotification \<Rightarrow> event \<Rightarrow> bool" where
  "correlated msg ev = (case ev of
     EvStatus e r \<Rightarrow> se_Version e = ''1.0'' \<and> se_RPCID e = cn_RPCID msg
       \<and> se_Target e = cn_Target msg \<and> se_UUID e = cn_UUID msg \<and> t_zone (se_Timestamp e) = UTCZone
   | EvResult f r \<Rightarrow> re_Version f = ''1.0'' \<and> re_RPCID f = cn_RPCID msg
       \<and> re_Target f = cn_Target msg \<and> re_UUID f = cn_UUID msg \<and> re_CommandType f = ''configure''
       \<and> (re_ErrorCode f = '''') = (re_Result f = ''success'') \<and> t_zone (re_Timestamp f) = UTCZone
   | EvLoadDesired t r \<Rightarrow> t = cn_Target msg
   | EvSaveState st r \<Rightarrow> st_Target st = cn_Target msg
   | _ \<Rightarrow> True)"

lemma is_status_fields:
  assumes "is_status msg st sg m e"
  shows "correlated msg (EvStatus e r)"
proof -
  have "e = status_envelope msg st sg m (se_Timestamp e)" using assms by (simp add: is_status_def)
  moreover have "correlated msg (EvStatus (status_envelope msg st sg m t) r)" for t
    by (simp add: correlated_def status_envelope_def wireVersion_def)
  ultimately show ?thesis by metis
qed

lemma is_success_fields:
  assumes "is_success msg m f"
  shows "correlated msg (EvResult f r)"
proof -
  have "f = success_result msg m (re_Timestamp f)" using assms by (simp add: is_success_def)
  moreover have "correlated msg (EvResult (success_result msg m t) r)" for t
    by (simp add: correlated_def success_result_def wireVersion_def)
  ultimately show ?thesis by metis
qed

lemma is_failure_fields:
  assumes "is_failure msg code f" "code \<noteq> ''''"
  shows "correlated msg (EvResult f r)"
proof -
  have "f = failure_result msg code (re_Message f) (re_Timestamp f)"
    using assms by (simp add: is_failure_def)
  moreover have "correlated msg (EvResult (failure_result msg code m t) r)" for m t
    using assms(2) by (simp add: correlated_def failure_result_def wireVersion_def)
  ultimately show ?thesis by metis
qed

lemma correlated_other:
  "correlated msg (EvRender d r1)" "correlated msg (EvApply out r2)" "correlated msg (EvLoadState r3)"
  "correlated msg (EvLoadDesired (cn_Target msg) r4)"
  "st_Target st = cn_Target msg \<Longrightarrow> correlated msg (EvSaveState st r5)"
  by (simp_all add: correlated_def)

lemma cstep_correlated:
  assumes "cstep msg ph ev = Some ph'" "hist D ph evs"
  shows "correlated msg ev"
proof (cases ph)
  case (FailTold code)
  with assms(2) have "code \<noteq> ''''" by (auto simp: hist_def failure_codes_def)
  with FailTold assms(1) show ?thesis
    by (cases ev) (auto simp: cstep_simps is_failure_fields split: if_splits)
qed (use assms(1) in \<open>cases ev; simp add: cstep_simps is_status_fields is_success_fields
       correlated_other split: if_splits\<close>)+

lemma crun_correlated:
  assumes "crun msg ph0 evs = Some ph" "hist (\<lambda>d. True) ph0 []"
  shows "list_all (correlated msg) evs"
  unfolding list_all_iff
proof
  fix ev assume "ev \<in> set evs"
  then obtain pre post where "evs = pre @ ev # post" by (meson split_list)
  with assms(1) obtain ph1 ph2 where "crun msg ph0 pre = Some ph1" "cstep msg ph1 ev = Some ph2"
    by (metis crun_split)
  with hist_run [OF _ assms(2)] show "correlated msg ev" by (blast intro: cstep_correlated)
qed

text \<open>
  \textbf{C6.} Every status and result a handled notification leads to carries the wire
  version, the notification's request id, target and UUID and a UTC timestamp; a result
  has an error code exactly when it is a failure; the desired configuration is loaded,
  and the state saved, for the notification's target.
\<close>

theorem handle_reports_correlated:
  "wp (configure_Handle s (Some ctx) msg)
     (\<lambda>r w'. \<exists>evs. trace w' = trace w @ evs \<and> list_all (correlated msg) evs) w"
  by (rule wp_mono [OF handle_rule]) (auto simp: configure_run_def intro: crun_correlated [OF _ hist_cstart])

section \<open>Bounds\<close>

text \<open>How many calls a run may still make.\<close>

definition budget :: "cphase \<Rightarrow> nat" where
  "budget ph = (case ph of
     Fresh \<Rightarrow> 12 | Announced \<Rightarrow> 11 | Fetching \<Rightarrow> 10 | Fetched d \<Rightarrow> 9
   | Drift d \<Rightarrow> 8 | RenderTold d \<Rightarrow> 7 | HaveOutput d out \<Rightarrow> 6 | OutputTold d out \<Rightarrow> 5
   | ApplyTold d out \<Rightarrow> 4 | InSync d \<Rightarrow> 4 | Applied d out \<Rightarrow> 3 | SyncTold d \<Rightarrow> 3
   | Saved d \<Rightarrow> 2 | Failing code \<Rightarrow> 2 | SavedTold d se \<Rightarrow> 1 | FailTold code \<Rightarrow> 1
   | _ \<Rightarrow> 0)"

lemma cstep_budget: "cstep msg ph ev = Some ph' \<Longrightarrow> budget ph' < budget ph"
  by (cases ph; cases ev)
    (auto simp: cstep_simps budget_def after_fetch_def split: if_splits option.splits sum.splits)

lemma crun_budget: "crun msg ph evs = Some ph' \<Longrightarrow> length evs + budget ph' \<le> budget ph"
  by (induction evs arbitrary: ph) (fastforce split: option.splits dest: cstep_budget)+

definition is_render :: "event \<Rightarrow> bool" where
  "is_render ev = (case ev of EvRender d r \<Rightarrow> True | _ \<Rightarrow> False)"

definition is_apply :: "event \<Rightarrow> bool" where
  "is_apply ev = (case ev of EvApply out r \<Rightarrow> True | _ \<Rightarrow> False)"

definition is_save :: "event \<Rightarrow> bool" where
  "is_save ev = (case ev of EvSaveState st r \<Rightarrow> True | _ \<Rightarrow> False)"

lemmas effect_defs = is_render_def is_apply_def is_save_def

lemma cstep_effect_budget:
  assumes "cstep msg ph ev = Some ph'"
  shows "is_render ev \<Longrightarrow> budget ph = 7" "is_apply ev \<Longrightarrow> budget ph = 4" "is_save ev \<Longrightarrow> budget ph = 3"
  using assms by (cases ph; cases ev; auto simp: cstep_simps budget_def effect_defs split: if_splits)+

text \<open>A kind of call that is only made at one level of the budget is made at most once.\<close>

lemma crun_at_most_once:
  assumes "crun msg ph evs = Some ph'"
    and "\<And>ph ev ph'. cstep msg ph ev = Some ph' \<Longrightarrow> P ev \<Longrightarrow> budget ph = n"
  shows "length (filter P evs) \<le> (if n \<le> budget ph then 1 else 0)"
  using assms(1)
proof (induction evs arbitrary: ph)
  case Nil
  show ?case by simp
next
  case (Cons ev evs)
  then obtain ph1 where st: "cstep msg ph ev = Some ph1" and "crun msg ph1 evs = Some ph'"
    by (auto split: option.splits)
  with Cons.IH have "length (filter P evs) \<le> (if n \<le> budget ph1 then 1 else 0)" by simp
  with cstep_budget [OF st] assms(2) [OF st] show ?case by (auto split: if_splits)
qed

text \<open>
  A handled notification makes at most twelve calls, and among them renders,
  applies and saves at most once each.
\<close>

theorem handle_bounded:
  "wp (configure_Handle s (Some ctx) msg)
     (\<lambda>r w'. \<exists>evs. trace w' = trace w @ evs \<and> length evs \<le> 12
        \<and> length (filter is_render evs) \<le> 1 \<and> length (filter is_apply evs) \<le> 1
        \<and> length (filter is_save evs) \<le> 1) w"
proof (rule wp_mono [OF handle_rule])
  fix r and w' :: "'a world"
  assume "\<exists>evs. trace w' = trace w @ evs \<and> configure_run msg evs r"
  then obtain evs ph where tr: "trace w' = trace w @ evs" and run: "crun msg (cstart msg) evs = Some ph"
    by (auto simp: configure_run_def)
  have "budget (cstart msg) \<le> 12" by (simp add: cstart_def budget_def)
  with crun_budget [OF run] have "length evs \<le> 12" by linarith
  moreover note crun_at_most_once [OF run, of is_render 7] crun_at_most_once [OF run, of is_apply 4]
    crun_at_most_once [OF run, of is_save 3]
  ultimately show "\<exists>evs. trace w' = trace w @ evs \<and> length evs \<le> 12
        \<and> length (filter is_render evs) \<le> 1 \<and> length (filter is_apply evs) \<le> 1
        \<and> length (filter is_save evs) \<le> 1"
    using tr cstep_effect_budget by (fastforce split: if_splits)
qed

end
