(* ===== verification/Invariants.thy ===== *)
theory Invariants
  imports Protocol
begin

text \<open>
  Invariants of the world along a configure run. The locale \<open>service_invariant\<close> asks that
  each call the service makes, and each record it logs, keeps a property of the world;
  inside it, the two entry points are shown to keep it. What a log record may hold is
  part of the interface, so that the secrecy of the log is an instance too.
\<close>

section \<open>What a log record may hold\<close>

text \<open>
  The fixed words of the configure log: stages, statuses, error codes and the safe
  messages of failures.
\<close>

definition log_words :: "string list" where
  "log_words = [''loading_desired'', ''already_in_sync'', ''rendering'', ''rendered'', ''applying'',
     ''applied'', ''failed'', ''reporting_failed'', ''success'', ''failure'', ''warning'',
     ''notification_target_invalid'', ''notification_uuid_invalid'',
     ''status_publish_failed'', ''load_desired_failed'', ''desired_config_missing'',
     ''desired_target_invalid'', ''desired_uuid_invalid'', ''desired_target_mismatch'',
     ''desired_uuid_mismatch'', ''state_load_failed'', ''result_publish_failed'',
     ''render_failed'', ''apply_failed'', ''state_save_failed'',
     ''configure notification target invalid'', ''configure notification uuid invalid'',
     ''configure processing failed'', ''failed to load desired config'', ''desired config missing'',
     ''desired target invalid'', ''desired uuid invalid'', ''desired target mismatch'',
     ''desired uuid mismatch'', ''failed to load local state'', ''failed to publish configure result'',
     ''failed to render desired config'', ''failed to apply rendered config'', ''failed to save local state'']"

text \<open>Membership of the words, evaluated once.\<close>

lemma log_words_facts:
  "List.member log_words ''loading_desired''"
  "List.member log_words ''already_in_sync''"
  "List.member log_words ''rendering''"
  "List.member log_words ''rendered''"
  "List.member log_words ''applying''"
  "List.member log_words ''applied''"
  "List.member log_words ''failed''"
  "List.member log_words ''reporting_failed''"
  "List.member log_words ''success''"
  "List.member log_words ''failure''"
  "List.member log_words ''warning''"
  "List.member log_words ''notification_target_invalid''"
  "List.member log_words ''notification_uuid_invalid''"
  "List.member log_words ''status_publish_failed''"
  "List.member log_words ''load_desired_failed''"
  "List.member log_words ''desired_config_missing''"
  "List.member log_words ''desired_target_invalid''"
  "List.member log_words ''desired_uuid_invalid''"
  "List.member log_words ''desired_target_mismatch''"
  "List.member log_words ''desired_uuid_mismatch''"
  "List.member log_words ''state_load_failed''"
  "List.member log_words ''result_publish_failed''"
  "List.member log_words ''render_failed''"
  "List.member log_words ''apply_failed''"
  "List.member log_words ''state_save_failed''"
  "List.member log_words ''configure notification target invalid''"
  "List.member log_words ''configure notification uuid invalid''"
  "List.member log_words ''configure processing failed''"
  "List.member log_words ''failed to load desired config''"
  "List.member log_words ''desired config missing''"
  "List.member log_words ''desired target invalid''"
  "List.member log_words ''desired uuid invalid''"
  "List.member log_words ''desired target mismatch''"
  "List.member log_words ''desired uuid mismatch''"
  "List.member log_words ''failed to load local state''"
  "List.member log_words ''failed to publish configure result''"
  "List.member log_words ''failed to render desired config''"
  "List.member log_words ''failed to apply rendered config''"
  "List.member log_words ''failed to save local state''"
  by code_simp+

lemmas log_word_simps [simp] = log_words_facts [unfolded List.member_iff]

text \<open>
  A string value is one of these words or a permitted identifier; numbers, flags and the
  error of an \<open>error\<close> field are permitted; the rendered text only at debug level and with
  its flag.
\<close>

definition safe_value :: "(string \<Rightarrow> bool) \<Rightarrow> log_value \<Rightarrow> bool" where
  "safe_value ident v = (case v of
     LStr x \<Rightarrow> x \<in> set log_words \<or> ident x
   | LStrs xs \<Rightarrow> False
   | _ \<Rightarrow> True)"

definition safe_entry :: "(string \<Rightarrow> bool) \<Rightarrow> bool \<Rightarrow> log_entry \<Rightarrow> bool" where
  "safe_entry ident rendered_flag entry \<longleftrightarrow>
     list_all (\<lambda>(k, v). safe_value ident v
       \<or> (k = ''rendered_commands'' \<and> rendered_flag \<and> le_level entry = LDebug)) (le_kv entry)"

section \<open>The interface\<close>

locale service_invariant =
  fixes s :: "'e ConfigureService"
    and ident :: "string \<Rightarrow> bool"
    and I :: "'e world \<Rightarrow> bool"
  assumes log_keeps: "safe_entry ident (dl_LogRendered (cs_debug s)) (LogEntry lvl m kv) \<Longrightarrow>
         keeps I (log_at (cs_logger s) lvl m kv)"
    and now_keeps: "keeps I (peek (cs_now s))"
    and desired_keeps: "keeps I (call (LoadDesiredConfig (cs_client s) c t) (EvLoadDesired t))"
    and status_keeps: "keeps I (call (PublishStatus (cs_client s) c se) (EvStatus se))"
    and result_keeps: "keeps I (call (PublishResult (cs_client s) c re) (EvResult re))"
    and load_keeps: "keeps I (call (store_Load (cs_stateStore s) c) EvLoadState)"
    and save_keeps: "keeps I (call (store_Save (cs_stateStore s) c st) (EvSaveState st))"
    and render_keeps: "keeps I (call (cs_renderer s c d) (EvRender d))"
    and apply_keeps: "keeps I (call (cs_applyEngine s c out) (EvApply out))"
begin

lemma log_keeps_all:
  assumes "safe_entry ident (dl_LogRendered (cs_debug s)) (LogEntry LInfo m kv)"
  shows "keeps I (cfg_logInfo s m kv)" "keeps I (cfg_logError s m kv)" "keeps I (cfg_logWarn s m kv)"
    "keeps I (cfg_logDebug s m kv)"
  using assms by (simp_all add: cfg_log_defs)
    (rule log_keeps, auto simp: safe_entry_def list_all_iff)+

lemma debug_keeps:
  assumes "safe_entry ident (dl_LogRendered (cs_debug s)) (LogEntry LDebug m kv)"
  shows "keeps I (cfg_logDebug s m kv)"
  using assms by (simp add: cfg_log_defs log_keeps)

lemma publish_keeps:
  "keeps I (cfg_publishStatus s c msg st sg m)"
  "keeps I (cfg_publishSuccessResult s c msg m)"
  "keeps I (cfg_publishFailureResult s c msg code m)"
  unfolding cfg_publishStatus_def cfg_publishSuccessResult_def cfg_publishFailureResult_def Let_def
  by (intro keeps_rules now_keeps status_keeps result_keeps)+

definition ids_ok :: "ConfigureNotification \<Rightarrow> bool" where
  "ids_ok msg \<longleftrightarrow> ident (cn_Target msg) \<and> ident (cn_RPCID msg) \<and> ident (cn_UUID msg)"

lemmas safe_simps = safe_entry_def safe_value_def ids_ok_def

lemma fail_keeps:
  assumes "ids_ok msg" "code \<in> set log_words" "safe \<in> set log_words"
  shows "keeps I (cfg_fail s c msg code safe err)"
  unfolding cfg_fail_def
  by (intro keeps_rules publish_keeps log_keeps_all)
    (use assms in \<open>simp_all add: safe_simps\<close>)

lemmas run_rules = keeps_rules publish_keeps log_keeps_all debug_keeps fail_keeps now_keeps
  desired_keeps load_keeps save_keeps render_keeps apply_keeps

lemma process_keeps:
  assumes "ids_ok msg"
  shows "keeps I (cfg_processDesiredConfigLocked s c msg d)"
  unfolding cfg_processDesiredConfigLocked_def cfg_reportingFailure_def Let_def
  by (intro keeps_rules publish_keeps now_keeps save_keeps render_keeps apply_keeps
      log_keeps_all(1,2,3) debug_keeps fail_keeps assms)
    (use assms in \<open>simp_all add: safe_simps\<close>)

lemma handleLocked_keeps:
  assumes "ids_ok msg"
  shows "keeps I (cfg_handleLocked s c msg)"
  unfolding cfg_handleLocked_def Let_def
  by (intro keeps_rules publish_keeps desired_keeps load_keeps process_keeps
      log_keeps_all(1,2,3) debug_keeps fail_keeps assms)
    (use assms in \<open>simp_all add: safe_simps\<close>)

lemma handle_keeps:
  assumes "ids_ok msg"
  shows "keeps I (configure_Handle s c msg)"
  unfolding configure_Handle_def
  by (intro keeps_rules now_keeps handleLocked_keeps log_keeps_all(1) assms)
    (use assms in \<open>simp add: safe_simps\<close>)

text \<open>The records of a reconcile hold identifiers the store and the desired record bring.\<close>

lemma reconcile_keeps:
  assumes "\<And>x. ident x"
  shows "keeps I (configure_Reconcile s c target)"
proof -
  have ids: "ids_ok msg" for msg using assms by (simp add: ids_ok_def)
  show ?thesis
    unfolding configure_Reconcile_def cfg_publishDegraded_def Let_def
    by (intro keeps_rules publish_keeps now_keeps desired_keeps load_keeps process_keeps ids
        log_keeps_all(1,2,3))
      (simp_all add: safe_entry_def safe_value_def assms)
qed

end

section \<open>The log of a handled notification\<close>

text \<open>
  Every service, whatever its collaborators are, logs safe records only: the records of
  the run are permitted by \<open>safe_entry\<close> for the identifiers of the notification.
\<close>

definition msg_ident :: "ConfigureNotification \<Rightarrow> string \<Rightarrow> bool" where
  "msg_ident msg x \<longleftrightarrow> x = cn_Target msg \<or> x = cn_RPCID msg \<or> x = cn_UUID msg"

definition log_extends :: "(log_entry \<Rightarrow> bool) \<Rightarrow> log_entry list \<Rightarrow> 'e world \<Rightarrow> bool" where
  "log_extends P before w \<longleftrightarrow> (\<exists>new. logs w = before @ new \<and> list_all P new)"

lemma log_extends_call: "keeps (log_extends P before) (call m ev)"
  by (auto simp: keeps_def wp_call log_extends_def split: prod.split)

lemma log_extends_peek: "keeps (log_extends P before) (peek m)"
  by (auto simp: keeps_def wp_peek log_extends_def split: prod.split)

lemma log_extends_log:
  "P (LogEntry lvl m kv) \<Longrightarrow> keeps (log_extends P before) (log_at b lvl m kv)"
  by (auto simp: keeps_def wp_log_at log_extends_def)

interpretation secrecy: service_invariant s ident
    "log_extends (safe_entry ident (dl_LogRendered (cs_debug s))) before"
  for s :: "'e ConfigureService" and ident and before :: "log_entry list"
  by unfold_locales (simp_all add: log_extends_call log_extends_peek log_extends_log)


end
