(* ===== verification/StoreContract.thy ===== *)
theory StoreContract
  imports Guarantees Invariants
begin

text \<open>
  The contract of a state store, as a locale, and what the configure service makes of any
  store that keeps it. \<open>stored e\<close> is the state a healthy load would find in the
  environment \<open>e\<close> (\<open>None\<close> when the store is unreadable), and \<open>storable\<close> the states the
  store represents exactly.
\<close>

section \<open>The contract\<close>

locale state_store =
  fixes store :: "'e StateStore"
    and stored :: "'e \<Rightarrow> State option"
    and storable :: "State \<Rightarrow> bool"
  assumes load_keeps: "store_Load store c e = (r, e') \<Longrightarrow> stored e' = stored e"
    and load_reads: "store_Load store c e = (Inr st, e') \<Longrightarrow> stored e = Some st"
    and save_writes: "store_Save store c st e = (None, e') \<Longrightarrow> storable st \<Longrightarrow> stored e' = Some st"
    and save_fails: "store_Save store c st e = (Some err, e') \<Longrightarrow> storable st \<Longrightarrow>
           stored e' = stored e \<or> stored e' = Some st"

text \<open>
  The store among the other collaborators of a configure service, which leave it alone.
\<close>

locale configure_env = state_store store stored storable
  for store :: "'e StateStore" and stored :: "'e \<Rightarrow> State option" and storable :: "State \<Rightarrow> bool" +
  fixes s :: "'e ConfigureService"
  assumes uses_store: "cs_stateStore s = store"
    and desired_frame: "LoadDesiredConfig (cs_client s) c t e = (r1, e1) \<Longrightarrow> stored e1 = stored e"
    and status_frame: "PublishStatus (cs_client s) c se e = (r2, e2) \<Longrightarrow> stored e2 = stored e"
    and result_frame: "PublishResult (cs_client s) c re e = (r3, e3) \<Longrightarrow> stored e3 = stored e"
    and render_frame: "cs_renderer s c d e = (r4, e4) \<Longrightarrow> stored e4 = stored e"
    and apply_frame: "cs_applyEngine s c out e = (r5, e5) \<Longrightarrow> stored e5 = stored e"
    and now_frame: "cs_now s e = (t6, e6) \<Longrightarrow> stored e6 = stored e"

section \<open>What a call sequence does to the store\<close>

text \<open>
  A successful load answers the stored state; a successful save of a storable state
  stores it, a failed one either stores it or does not; other calls leave the store
  alone. \<open>replay storable x evs y\<close>: the calls \<open>evs\<close> take a store from \<open>x\<close> to \<open>y\<close>.
\<close>

definition store_step ::
  "(State \<Rightarrow> bool) \<Rightarrow> event \<Rightarrow> State option \<Rightarrow> State option \<Rightarrow> bool" where
  "store_step storable ev y z = (case ev of
     EvLoadState r \<Rightarrow> z = y \<and> (case r of Inl _ \<Rightarrow> True | Inr st \<Rightarrow> y = Some st)
   | EvSaveState st r \<Rightarrow> (storable st \<longrightarrow> z = Some st \<or> (z = y \<and> r \<noteq> None))
   | _ \<Rightarrow> z = y)"

inductive replay :: "(State \<Rightarrow> bool) \<Rightarrow> State option \<Rightarrow> event list \<Rightarrow> State option \<Rightarrow> bool"
  for storable x where
  replay_nil: "replay storable x [] x"
| replay_snoc: "replay storable x evs y \<Longrightarrow> store_step storable ev y z \<Longrightarrow>
     replay storable x (evs @ [ev]) z"

inductive_cases replay_NilE: "replay storable x [] y"
inductive_cases replay_SnocE: "replay storable x (evs @ [ev]) z"

text \<open>The store along a run of the machine that starts with the store at \<open>x\<close>.\<close>

definition store_inv ::
  "ConfigureNotification \<Rightarrow> State option \<Rightarrow> cphase \<Rightarrow> State option \<Rightarrow> bool" where
  "store_inv msg x ph y = (case ph of
     InSync d \<Rightarrow> y = x \<and> (\<exists>st. y = Some st \<and> st_AppliedUUID st = dr_UUID (sd_Record d))
   | SyncTold d \<Rightarrow> y = x \<and> (\<exists>st. y = Some st \<and> st_AppliedUUID st = dr_UUID (sd_Record d))
   | Synced d \<Rightarrow> y = x \<and> (\<exists>st. y = Some st \<and> st_AppliedUUID st = dr_UUID (sd_Record d))
   | Saved d \<Rightarrow> \<exists>st. y = Some st \<and> st_AppliedUUID st = dr_UUID (sd_Record d)
   | SavedTold d se \<Rightarrow> \<exists>st. y = Some st \<and> st_AppliedUUID st = dr_UUID (sd_Record d)
   | Completed d se re \<Rightarrow> \<exists>st. y = Some st \<and> st_AppliedUUID st = dr_UUID (sd_Record d)
   | Failing code \<Rightarrow> y = x \<or> code = ''state_save_failed''
   | FailTold code \<Rightarrow> y = x \<or> code = ''state_save_failed''
   | Failed code \<Rightarrow> y = x \<or> code = ''state_save_failed''
   | _ \<Rightarrow> y = x)"

text \<open>The states a run for a notification may save, whatever the clock says.\<close>

definition msg_storable :: "(State \<Rightarrow> bool) \<Rightarrow> ConfigureNotification \<Rightarrow> bool" where
  "msg_storable storable msg \<longleftrightarrow>
     (\<forall>t. storable \<lparr>st_Target = cn_Target msg, st_AppliedUUID = cn_UUID msg, st_AppliedAt = UTC t\<rparr>)"

lemma msg_storableD:
  assumes "msg_storable storable msg" "st_Target st = cn_Target msg" "st_AppliedUUID st = cn_UUID msg"
    and "UTC (st_AppliedAt st) = st_AppliedAt st"
  shows "storable st"
proof -
  have "st = \<lparr>st_Target = cn_Target msg, st_AppliedUUID = cn_UUID msg, st_AppliedAt = UTC (st_AppliedAt st)\<rparr>"
    using assms(2,3,4) by (cases st) simp
  with assms(1) show ?thesis unfolding msg_storable_def by metis
qed

abbreviation for_msg :: "ConfigureNotification \<Rightarrow> StoredDesiredConfig \<Rightarrow> bool" where
  "for_msg msg d \<equiv> dr_Target (sd_Record d) = cn_Target msg \<and> dr_UUID (sd_Record d) = cn_UUID msg"

lemma hist_for_msg_drift: "hist D (Drift d) evs = D d"
  by (simp add: hist_def)

lemma store_inv_step:
  assumes "store_inv msg x ph y" "hist (for_msg msg) ph evs" "msg_storable storable msg"
    and "cstep msg ph ev = Some ph'" "store_step storable ev y z"
  shows "store_inv msg x ph' z"
proof (cases "is_save ev")
  case True
  then obtain s r where ev: "ev = EvSaveState s r" by (cases ev) (auto simp: is_save_def)
  with cstep_save assms(4) obtain d out where ph [simp]: "ph = Applied d out"
    and s: "st_Target s = cn_Target msg" "st_AppliedUUID s = dr_UUID (sd_Record d)"
      "UTC (st_AppliedAt s) = st_AppliedAt s"
    and ph': "ph' = (case r of None \<Rightarrow> Saved d | Some _ \<Rightarrow> Failing ''state_save_failed'')"
    by fastforce
  from assms(2) have "dr_UUID (sd_Record d) = cn_UUID msg" by (simp add: hist_def)
  with s msg_storableD [OF assms(3)] have "storable s" by simp
  with assms(5) s ph' ev show ?thesis
    by (cases r) (auto simp: store_inv_def store_step_def)
next
  case False
  with assms(1,4,5) show ?thesis
    by (cases ph; cases ev) (auto simp: cstep_simps store_inv_def store_step_def after_fetch_def
        is_save_def split: sum.splits if_splits option.splits)
qed

lemma store_inv_run:
  assumes "replay storable x evs y" "crun msg ph0 evs = Some ph"
    and "store_inv msg x ph0 x" "hist (for_msg msg) ph0 []" "msg_storable storable msg"
  shows "store_inv msg x ph y"
  using assms(1,2)
proof (induction arbitrary: ph rule: replay.induct)
  case replay_nil
  with assms(3) show ?case by simp
next
  case (replay_snoc evs y ev z)
  then obtain ph1 where run: "crun msg ph0 evs = Some ph1" and st: "cstep msg ph1 ev = Some ph"
    by (auto simp: crun_append split: option.splits)
  from hist_run [OF run assms(4)] have "hist (for_msg msg) ph1 evs" by simp
  from store_inv_step [OF replay_snoc.IH [OF run] this assms(5) st replay_snoc.hyps(2)]
  show ?case .
qed

text \<open>A run on a store that already holds the notification's UUID never gets to rendering.\<close>

definition quiet :: "cphase \<Rightarrow> bool" where
  "quiet ph = (case ph of
     Drift d \<Rightarrow> False | RenderTold d \<Rightarrow> False | HaveOutput d out \<Rightarrow> False
   | OutputTold d out \<Rightarrow> False | ApplyTold d out \<Rightarrow> False | Applied d out \<Rightarrow> False
   | Saved d \<Rightarrow> False | SavedTold d se \<Rightarrow> False | Completed d se re \<Rightarrow> False
   | _ \<Rightarrow> True)"

definition is_effect :: "event \<Rightarrow> bool" where
  "is_effect ev \<longleftrightarrow> is_render ev \<or> is_apply ev \<or> is_save ev"

lemma quiet_step:
  assumes "quiet ph" "hist (for_msg msg) ph evs" "cstep msg ph ev = Some ph'"
    and "store_step storable ev (Some st) z" "st_AppliedUUID st = cn_UUID msg"
  shows "quiet ph' \<and> z = Some st \<and> \<not> is_effect ev"
  using assms by (cases ph; cases ev)
    (auto simp: quiet_def hist_def cstep_simps store_step_def after_fetch_def is_effect_def effect_defs
      split: sum.splits if_splits option.splits)

lemma quiet_run:
  assumes "replay storable x evs y" "crun msg (cstart msg) evs = Some ph"
    and "x = Some st" "st_AppliedUUID st = cn_UUID msg"
  shows "quiet ph \<and> y = Some st \<and> filter is_effect evs = []"
  using assms(1,2)
proof (induction arbitrary: ph rule: replay.induct)
  case replay_nil
  with assms(3) show ?case by (auto simp: cstart_def quiet_def)
next
  case (replay_snoc evs y ev z)
  then obtain ph1 where run: "crun msg (cstart msg) evs = Some ph1" and st: "cstep msg ph1 ev = Some ph"
    by (auto simp: crun_append split: option.splits)
  from replay_snoc.IH [OF run] have IH: "quiet ph1" "y = Some st" "filter is_effect evs = []" by auto
  from hist_run [OF run hist_cstart] have "hist (for_msg msg) ph1 evs" by simp
  from quiet_step [OF IH(1) this st] replay_snoc.hyps(2) IH(2) assms(4) IH(3)
  show ?case by auto
qed

text \<open>A store changes only through a save.\<close>

lemma replay_no_save: "replay storable x evs y \<Longrightarrow> filter is_save evs = [] \<Longrightarrow> y = x"
proof (induction rule: replay.induct)
  case (replay_snoc evs y ev z)
  then show ?case by (cases ev) (auto simp: store_step_def is_save_def)
qed simp

lemma is_save_iff: "is_save ev \<longleftrightarrow> (\<exists>st r. ev = EvSaveState st r)"
  by (cases ev) (simp_all add: is_save_def)

lemma justified_applied:
  assumes "checkpoints_justified target uuid evs" "filter is_save evs \<noteq> []"
  shows "\<exists>d out. EvRender d (Inr out) \<in> set evs \<and> EvApply out None \<in> set evs
     \<and> dr_Target (sd_Record d) = target \<and> dr_UUID (sd_Record d) = uuid"
proof -
  from assms(2) obtain ev where "ev \<in> set evs" "is_save ev" by (auto simp: filter_empty_conv)
  then obtain st r where "EvSaveState st r \<in> set evs" by (auto simp: is_save_iff)
  then obtain pre post where evs: "evs = pre @ EvSaveState st r # post"
    by (meson split_list)
  with assms(1) have "justified pre st" "st_Target st = target" "st_AppliedUUID st = uuid"
    by (auto simp: checkpoints_justified_def)
  then show ?thesis unfolding justified_def using evs by fastforce
qed

definition applied_in :: "event list \<Rightarrow> string \<Rightarrow> string \<Rightarrow> bool" where
  "applied_in evs target uuid \<longleftrightarrow> (\<exists>d out. EvRender d (Inr out) \<in> set evs \<and> EvApply out None \<in> set evs
     \<and> dr_Target (sd_Record d) = target \<and> dr_UUID (sd_Record d) = uuid)"

text \<open>What a handled notification does to the store, from its calls.\<close>

definition store_effect ::
  "ConfigureNotification \<Rightarrow> event list \<Rightarrow> go_error option \<Rightarrow> State option \<Rightarrow> State option \<Rightarrow> bool" where
  "store_effect msg evs r x y \<longleftrightarrow>
     (if r = None then \<exists>st. y = Some st \<and> st_AppliedUUID st = cn_UUID msg
      else y = x \<or> applied_in evs (cn_Target msg) (cn_UUID msg))"

lemma run_store_effect:
  assumes "configure_run msg evs r" "replay storable x evs y" "msg_storable storable msg"
  shows "store_effect msg evs r x y"
proof -
  from assms(1) obtain ph where run: "crun msg (cstart msg) evs = Some ph" and out: "outcome ph r"
    by (auto simp: configure_run_def)
  have "store_inv msg x (cstart msg) x" by (simp add: store_inv_def cstart_def)
  from store_inv_run [OF assms(2) run this hist_cstart assms(3)] have inv: "store_inv msg x ph y" .
  show ?thesis
  proof (cases "r = None")
    case True
    have "hist (for_msg msg) (cstart msg) []" by simp
    from hist_run [OF run this] have "hist (for_msg msg) ph evs" by simp
    with True out inv show ?thesis
      by (cases ph) (auto simp: outcome_def store_inv_def hist_def store_effect_def)
  next
    case False
    then show ?thesis
      using replay_no_save [OF assms(2)] justified_applied crun_justified [OF run hist_cstart]
      unfolding store_effect_def applied_in_def by auto
  qed
qed

section \<open>The service over any such store\<close>
context configure_env
begin

definition consistent :: "'e world \<Rightarrow> 'e world \<Rightarrow> bool" where
  "consistent w0 w \<longleftrightarrow>
     (\<exists>evs. trace w = trace w0 @ evs \<and> replay storable (stored (env w0)) evs (stored (env w)))"

lemma consistent_step:
  assumes "\<And>e r e'. m e = (r, e') \<Longrightarrow> store_step storable (ev r) (stored e) (stored e')"
  shows "keeps (consistent w0) (call m ev)"
  using assms by (fastforce simp: keeps_def wp_call consistent_def split: prod.split
      intro: replay_snoc)

lemma consistent_call:
  assumes "\<And>e r e'. m e = (r, e') \<Longrightarrow> stored e' = stored e"
    and "\<And>r r'. ev r \<noteq> EvLoadState r'" "\<And>r st r'. ev r \<noteq> EvSaveState st r'"
  shows "keeps (consistent w0) (call m ev)"
  using assms by (intro consistent_step) (auto simp: store_step_def split: event.split)

lemma consistent_load: "keeps (consistent w0) (call (store_Load (cs_stateStore s) c) EvLoadState)"
proof (rule consistent_step)
  fix e r e' assume "store_Load (cs_stateStore s) c e = (r, e')"
  then show "store_step storable (EvLoadState r) (stored e) (stored e')"
    using load_keeps load_reads by (cases r) (auto simp: uses_store store_step_def)
qed

lemma consistent_save: "keeps (consistent w0) (call (store_Save (cs_stateStore s) c st) (EvSaveState st))"
proof (rule consistent_step)
  fix e r e' assume "store_Save (cs_stateStore s) c st e = (r, e')"
  then show "store_step storable (EvSaveState st r) (stored e) (stored e')"
    using save_writes save_fails [of c st e _ e'] by (cases r) (fastforce simp: uses_store store_step_def)+
qed

sublocale replaying: service_invariant s "\<lambda>_. True" "consistent w0" for w0
proof unfold_locales
  show "keeps (consistent w0) (log_at (cs_logger s) lvl m kv)" for lvl m kv
    by (simp add: keeps_def wp_log_at consistent_def)
  show "keeps (consistent w0) (peek (cs_now s))"
    by (auto simp: keeps_def wp_peek consistent_def split: prod.split dest: now_frame)
qed (auto intro!: consistent_call consistent_load consistent_save
      dest: desired_frame status_frame result_frame render_frame apply_frame)

lemma consistent_self: "consistent w w"
  by (auto simp: consistent_def intro: replay_nil)

text \<open>The facts about the calls of a run and about the store, together.\<close>

lemma handle_replays:
  "wp (configure_Handle s (Some c) msg)
     (\<lambda>r w'. \<exists>evs. trace w' = trace w @ evs \<and> configure_run msg evs r
        \<and> replay storable (stored (env w)) evs (stored (env w'))) w"
proof -
  have "wp (configure_Handle s (Some c) msg) (\<lambda>_. consistent w) w"
    by (rule keeps_wp [OF replaying.handle_keeps consistent_self]) (simp add: replaying.ids_ok_def)
  from wp_conj [OF handle_rule this] show ?thesis
    by (rule wp_mono) (auto simp: consistent_def)
qed

lemma reconcile_replays:
  "wp (configure_Reconcile s (Some c) target)
     (\<lambda>r w'. \<exists>evs. trace w' = trace w @ evs \<and> reconcile_run target evs r
        \<and> replay storable (stored (env w)) evs (stored (env w'))) w"
proof -
  have "wp (configure_Reconcile s (Some c) target) (\<lambda>_. consistent w) w"
    by (rule keeps_wp [OF replaying.reconcile_keeps consistent_self]) simp
  from wp_conj [OF reconcile_follows_protocol this] show ?thesis
    by (rule wp_mono) (auto simp: consistent_def)
qed

lemma handle_store_effect:
  assumes "msg_storable storable msg"
  shows "wp (configure_Handle s (Some c) msg)
     (\<lambda>r w'. \<exists>evs. trace w' = trace w @ evs
        \<and> store_effect msg evs r (stored (env w)) (stored (env w'))) w"
  by (rule wp_mono [OF handle_replays]) (auto intro: run_store_effect [OF _ _ assms])

lemma handle_idempotent:
  assumes "stored (env w) = Some st" "st_AppliedUUID st = cn_UUID msg"
  shows "wp (configure_Handle s (Some c) msg)
     (\<lambda>r w'. stored (env w') = Some st
        \<and> (\<exists>evs. trace w' = trace w @ evs \<and> filter is_effect evs = [])) w"
  by (rule wp_mono [OF handle_replays])
    (auto simp: configure_run_def dest: quiet_run [OF _ _ assms])

text \<open>Handling the same notification again after it was handled with success.\<close>

lemma handle_twice:
  assumes "msg_storable storable msg"
  shows "wp (configure_Handle s (Some c) msg)
     (\<lambda>r w1. r = None \<longrightarrow> wp (configure_Handle s (Some c') msg)
        (\<lambda>r2 w2. \<exists>evs. trace w2 = trace w1 @ evs \<and> filter is_effect evs = []) w1) w"
proof (rule wp_mono [OF handle_store_effect [OF assms]], rule impI)
  fix r :: "go_error option" and w1 :: "'e world"
  assume "\<exists>evs. trace w1 = trace w @ evs \<and> store_effect msg evs r (stored (env w)) (stored (env w1))"
    and "r = None"
  then obtain st where "stored (env w1) = Some st" "st_AppliedUUID st = cn_UUID msg"
    by (auto simp: store_effect_def)
  from handle_idempotent [OF this]
  show "wp (configure_Handle s (Some c') msg)
     (\<lambda>r2 w2. \<exists>evs. trace w2 = trace w1 @ evs \<and> filter is_effect evs = []) w1"
    by (rule wp_mono) simp
qed

end

end
