(* ===== verification/Fakes.thy ===== *)
theory Fakes
  imports Engines StoreContract
begin

text \<open>
  Package \<open>internal/testutil\<close>: the recording test doubles of the configure service's
  collaborators. Each double is a record; together with the event recorders they point to
  they make one environment, \<open>fake_env\<close>, and the in-memory state store is an instance of
  the store contract there. A pointer to an \<open>EventRecorder\<close> is the number of a recorder
  of the environment, or nil.
\<close>

section \<open>The event recorder\<close>

type_synonym EventRecorder = "string list"

definition EventRecorder_Record :: "string \<Rightarrow> EventRecorder \<Rightarrow> EventRecorder" where
  "EventRecorder_Record name r = r @ [name]"

fun index_from :: "int \<Rightarrow> string \<Rightarrow> string list \<Rightarrow> int" where
  "index_from i name [] = - 1"
| "index_from i name (ev # evs) = (if ev = name then i else index_from (i + 1) name evs)"

definition EventRecorder_Index :: "string \<Rightarrow> EventRecorder \<Rightarrow> int" where
  "EventRecorder_Index name r = index_from 0 name r"

definition EventRecorder_Contains :: "string \<Rightarrow> EventRecorder \<Rightarrow> bool" where
  "EventRecorder_Contains name r \<longleftrightarrow> EventRecorder_Index name r \<ge> 0"

definition EventRecorder_Reset :: "EventRecorder \<Rightarrow> EventRecorder" where
  "EventRecorder_Reset r = []"

section \<open>The doubles\<close>

text \<open>A map from strings to errors: a nil map, a missing key and a nil value all read nil.\<close>

type_synonym error_map = "string \<rightharpoonup> go_error"

record StatusRecorder =
  sr_Err :: "go_error option"
  sr_ErrByStage :: error_map
  sr_Events :: "nat option"
  sr_statuses :: "StatusEnvelope list"

record ResultRecorder =
  rr_Err :: "go_error option"
  rr_ErrByResult :: error_map
  rr_ErrByErrorCode :: error_map
  rr_Events :: "nat option"
  rr_results :: "ResultEnvelope list"

record FakeConfigureClient =
  fc_StatusRecorder :: StatusRecorder
  fc_ResultRecorder :: ResultRecorder
  fc_Desired :: "StoredDesiredConfig option"
  fc_DesiredByTarget :: "(string \<rightharpoonup> StoredDesiredConfig) option"
  fc_LoadErr :: "go_error option"
  fc_Events :: "nat option"
  fc_loadCalls :: int

record FakeStateStore =
  fs_Current :: State
  fs_LoadErr :: "go_error option"
  fs_SaveErr :: "go_error option"
  fs_Events :: "nat option"
  fs_loadCalls :: int
  fs_saveCalls :: int
  fs_savedStates :: "State list"

record FakeRenderer =
  fr_Output :: Output
  fr_UseOutput :: bool
  fr_Err :: "go_error option"
  fr_Validate :: "(StoredDesiredConfig \<Rightarrow> go_error option) option"
  fr_Events :: "nat option"
  fr_calls :: int
  fr_inputs :: "StoredDesiredConfig list"

record FakeApplyEngine =
  fa_Err :: "go_error option"
  fa_Errs :: "go_error option list"
  fa_Validate :: "(Output \<Rightarrow> go_error option) option"
  fa_Events :: "nat option"
  fa_calls :: int
  fa_inputs :: "Output list"

record fake_env =
  fe_recorders :: "nat \<Rightarrow> EventRecorder"
  fe_client :: FakeConfigureClient
  fe_store :: FakeStateStore
  fe_renderer :: FakeRenderer
  fe_engine :: FakeApplyEngine

definition record_event :: "nat option \<Rightarrow> string \<Rightarrow> fake_env \<Rightarrow> fake_env" where
  "record_event p name e = (case p of
     None \<Rightarrow> e
   | Some r \<Rightarrow> e\<lparr>fe_recorders := (fe_recorders e)(r := EventRecorder_Record name (fe_recorders e r))\<rparr>)"

text \<open>\<open>append(json.RawMessage(nil), in...)\<close> is nil when there is nothing to append.\<close>

definition cloneRawMessage :: "string option \<Rightarrow> string option" where
  "cloneRawMessage p = (case p of None \<Rightarrow> None | Some [] \<Rightarrow> None | Some bs \<Rightarrow> Some bs)"

definition cloneStoredDesiredConfig :: "StoredDesiredConfig \<Rightarrow> StoredDesiredConfig" where
  "cloneStoredDesiredConfig d =
     d\<lparr>sd_Record := (sd_Record d)\<lparr>dr_Payload := cloneRawMessage (dr_Payload (sd_Record d))\<rparr>\<rparr>"

section \<open>Publishing\<close>

abbreviation fe_status :: "fake_env \<Rightarrow> StatusRecorder" where
  "fe_status e \<equiv> fc_StatusRecorder (fe_client e)"

abbreviation fe_result :: "fake_env \<Rightarrow> ResultRecorder" where
  "fe_result e \<equiv> fc_ResultRecorder (fe_client e)"

definition StatusRecorder_RecordStatus :: "StatusEnvelope \<Rightarrow> fake_env \<Rightarrow> fake_env" where
  "StatusRecorder_RecordStatus msg e =
     (let p = sr_Events (fe_status e);
          e = record_event p ''publish_status'' e;
          e = (if se_Status msg = ''success'' then record_event p ''publish_success_status'' e else e);
          e = (if se_Status msg = ''failure'' then record_event p ''publish_failure_status'' e else e)
      in e\<lparr>fe_client := (fe_client e)\<lparr>fc_StatusRecorder :=
             (fe_status e)\<lparr>sr_statuses := sr_statuses (fe_status e) @ [msg]\<rparr>\<rparr>\<rparr>)"

definition StatusRecorder_PublishStatus ::
  "fake_env ctx option \<Rightarrow> StatusEnvelope \<Rightarrow> fake_env \<Rightarrow> go_error option \<times> fake_env" where
  "StatusRecorder_PublishStatus ctx msg e =
     (let e = StatusRecorder_RecordStatus msg e
      in (case sr_ErrByStage (fe_status e) (se_Stage msg) of
            Some err \<Rightarrow> Some err
          | None \<Rightarrow> sr_Err (fe_status e), e))"

definition ResultRecorder_RecordResult :: "ResultEnvelope \<Rightarrow> fake_env \<Rightarrow> fake_env" where
  "ResultRecorder_RecordResult msg e =
     (let e = record_event (rr_Events (fe_result e))
                (if re_Result msg = ''success'' then ''publish_success''
                 else if re_Result msg = ''failure'' then ''publish_failure''
                 else ''publish_result'') e
      in e\<lparr>fe_client := (fe_client e)\<lparr>fc_ResultRecorder :=
             (fe_result e)\<lparr>rr_results := rr_results (fe_result e) @ [msg]\<rparr>\<rparr>\<rparr>)"

definition ResultRecorder_PublishResult ::
  "fake_env ctx option \<Rightarrow> ResultEnvelope \<Rightarrow> fake_env \<Rightarrow> go_error option \<times> fake_env" where
  "ResultRecorder_PublishResult ctx msg e =
     (let e = ResultRecorder_RecordResult msg e;
          err = rr_Err (fe_result e);
          err = (case rr_ErrByResult (fe_result e) (re_Result msg) of None \<Rightarrow> err | Some x \<Rightarrow> Some x);
          err = (case rr_ErrByErrorCode (fe_result e) (re_ErrorCode msg) of None \<Rightarrow> err | Some x \<Rightarrow> Some x)
      in (err, e))"

fun FindStatus :: "string \<Rightarrow> string \<Rightarrow> StatusEnvelope list \<Rightarrow> StatusEnvelope option" where
  "FindStatus status stage [] = None"
| "FindStatus status stage (msg # msgs) =
     (if se_Status msg = status \<and> se_Stage msg = stage then Some msg else FindStatus status stage msgs)"

fun FindResult :: "string \<Rightarrow> string \<Rightarrow> ResultEnvelope list \<Rightarrow> ResultEnvelope option" where
  "FindResult res commandType [] = None"
| "FindResult res commandType (msg # msgs) =
     (if re_Result msg = res \<and> re_CommandType msg = commandType then Some msg
      else FindResult res commandType msgs)"

section \<open>The client's load\<close>

definition FakeConfigureClient_LoadDesiredConfig ::
  "fake_env ctx option \<Rightarrow> string \<Rightarrow> fake_env \<Rightarrow> (go_error + StoredDesiredConfig option) \<times> fake_env" where
  "FakeConfigureClient_LoadDesiredConfig ctx target e =
     (let e = record_event (fc_Events (fe_client e)) ''load_desired'' e;
          e = e\<lparr>fe_client := (fe_client e)\<lparr>fc_loadCalls := fc_loadCalls (fe_client e) + 1\<rparr>\<rparr>;
          desired = (case fc_DesiredByTarget (fe_client e) of
             None \<Rightarrow> fc_Desired (fe_client e) | Some m \<Rightarrow> m target)
      in (case fc_LoadErr (fe_client e) of
            Some err \<Rightarrow> Inl err
          | None \<Rightarrow> Inr (map_option cloneStoredDesiredConfig desired), e))"

definition FakeConfigureClient :: "fake_env CoreClient" where
  "FakeConfigureClient = \<lparr>LoadDesiredConfig = FakeConfigureClient_LoadDesiredConfig,
     PublishStatus = StatusRecorder_PublishStatus, PublishResult = ResultRecorder_PublishResult\<rparr>"

section \<open>The state store\<close>

definition FakeStateStore_Load :: "fake_env ctx option \<Rightarrow> fake_env \<Rightarrow> (go_error + State) \<times> fake_env" where
  "FakeStateStore_Load ctx e =
     (let e = e\<lparr>fe_store := (fe_store e)\<lparr>fs_loadCalls := fs_loadCalls (fe_store e) + 1\<rparr>\<rparr>
      in (case fs_LoadErr (fe_store e) of
            Some err \<Rightarrow> Inl err
          | None \<Rightarrow> Inr (fs_Current (fe_store e)), e))"

definition FakeStateStore_Save :: "fake_env ctx option \<Rightarrow> State \<Rightarrow> fake_env \<Rightarrow> go_error option \<times> fake_env" where
  "FakeStateStore_Save ctx st e =
     (let e = record_event (fs_Events (fe_store e)) ''state_save'' e;
          e = e\<lparr>fe_store := (fe_store e)\<lparr>fs_saveCalls := fs_saveCalls (fe_store e) + 1\<rparr>\<rparr>
      in (case fs_SaveErr (fe_store e) of
            Some err \<Rightarrow> (Some err, e)
          | None \<Rightarrow> (None, e\<lparr>fe_store := (fe_store e)\<lparr>
              fs_savedStates := fs_savedStates (fe_store e) @ [st], fs_Current := st\<rparr>\<rparr>)))"

definition FakeStateStore :: "fake_env StateStore" where
  "FakeStateStore = \<lparr>store_Load = FakeStateStore_Load, store_Save = FakeStateStore_Save\<rparr>"

section \<open>The renderer and the apply engine\<close>

definition zero_Output :: Output where
  "zero_Output = \<lparr>o_Target = '''', o_UUID = '''', o_Text = ''''\<rparr>"

definition FakeRenderer_Render :: "fake_env Renderer" where
  "FakeRenderer_Render ctx desired e =
     (let e = record_event (fr_Events (fe_renderer e)) ''render'' e;
          e = e\<lparr>fe_renderer := (fe_renderer e)\<lparr>fr_calls := fr_calls (fe_renderer e) + 1,
                fr_inputs := fr_inputs (fe_renderer e) @ [cloneStoredDesiredConfig desired]\<rparr>\<rparr>;
          f = fe_renderer e
      in (case (case fr_Validate f of None \<Rightarrow> None | Some validate \<Rightarrow> validate desired) of
            Some err \<Rightarrow> Inl err
          | None \<Rightarrow>
         (case fr_Err f of
            Some err \<Rightarrow> Inl err
          | None \<Rightarrow>
            (if fr_UseOutput f \<or> fr_Output f \<noteq> zero_Output then Inr (fr_Output f)
             else Inr \<lparr>o_Target = dr_Target (sd_Record desired), o_UUID = dr_UUID (sd_Record desired),
                       o_Text = ''# rendered by FakeRenderer'' @ LF\<rparr>)), e))"

definition FakeApplyEngine_Apply :: "fake_env ApplyEngine" where
  "FakeApplyEngine_Apply ctx rendered e =
     (let e = record_event (fa_Events (fe_engine e)) ''apply'' e;
          e = e\<lparr>fe_engine := (fe_engine e)\<lparr>fa_calls := fa_calls (fe_engine e) + 1,
                fa_inputs := fa_inputs (fe_engine e) @ [rendered]\<rparr>\<rparr>;
          f = fe_engine e;
          err = (case fa_Errs f of [] \<Rightarrow> fa_Err f | x # xs \<Rightarrow> x);
          e = e\<lparr>fe_engine := f\<lparr>fa_Errs := tl (fa_Errs f)\<rparr>\<rparr>
      in (case (case fa_Validate f of None \<Rightarrow> None | Some validate \<Rightarrow> validate rendered) of
            Some verr \<Rightarrow> Some verr
          | None \<Rightarrow> err, e))"

section \<open>The in-memory store keeps the store contract\<close>

definition fake_stored :: "fake_env \<Rightarrow> State option" where
  "fake_stored e = Some (fs_Current (fe_store e))"

text \<open>A service over the doubles, with a clock that stands still.\<close>

definition fake_service :: "bool \<Rightarrow> DebugLogging \<Rightarrow> gotime \<Rightarrow> fake_env ConfigureService" where
  "fake_service logger dbg t = \<lparr>cs_client = FakeConfigureClient, cs_stateStore = FakeStateStore,
     cs_renderer = FakeRenderer_Render, cs_applyEngine = FakeApplyEngine_Apply,
     cs_logger = logger, cs_now = (\<lambda>e. (t, e)), cs_debug = dbg\<rparr>"

lemma record_event_frames [simp]:
  "fe_client (record_event p n e) = fe_client e"
  "fe_store (record_event p n e) = fe_store e"
  "fe_renderer (record_event p n e) = fe_renderer e"
  "fe_engine (record_event p n e) = fe_engine e"
  by (simp_all add: record_event_def split: option.split)

lemmas fake_defs = FakeConfigureClient_def FakeStateStore_def fake_service_def
  FakeConfigureClient_LoadDesiredConfig_def StatusRecorder_PublishStatus_def
  ResultRecorder_PublishResult_def StatusRecorder_RecordStatus_def
  ResultRecorder_RecordResult_def FakeStateStore_Load_def FakeStateStore_Save_def
  FakeRenderer_Render_def FakeApplyEngine_Apply_def

interpretation fake: state_store FakeStateStore fake_stored "\<lambda>_. True"
  by unfold_locales
    (auto simp: fake_stored_def FakeStateStore_def FakeStateStore_Load_def FakeStateStore_Save_def
      Let_def split: option.splits)

interpretation fakes: configure_env FakeStateStore fake_stored "\<lambda>_. True" "fake_service lg dbg t"
  for lg dbg t
  by unfold_locales (auto simp: fake_stored_def fake_defs Let_def)

section \<open>What the doubles record is what the service did\<close>

text \<open>The calls of a run that each double keeps.\<close>

definition statuses_of :: "event list \<Rightarrow> StatusEnvelope list" where
  "statuses_of evs = List.map_filter (\<lambda>ev. case ev of EvStatus e r \<Rightarrow> Some e | _ \<Rightarrow> None) evs"

definition results_of :: "event list \<Rightarrow> ResultEnvelope list" where
  "results_of evs = List.map_filter (\<lambda>ev. case ev of EvResult e r \<Rightarrow> Some e | _ \<Rightarrow> None) evs"

definition saved_of :: "event list \<Rightarrow> State list" where
  "saved_of evs = List.map_filter (\<lambda>ev. case ev of EvSaveState st None \<Rightarrow> Some st | _ \<Rightarrow> None) evs"

definition rendered_of :: "event list \<Rightarrow> StoredDesiredConfig list" where
  "rendered_of evs = List.map_filter
     (\<lambda>ev. case ev of EvRender d r \<Rightarrow> Some (cloneStoredDesiredConfig d) | _ \<Rightarrow> None) evs"

definition applied_of :: "event list \<Rightarrow> Output list" where
  "applied_of evs = List.map_filter (\<lambda>ev. case ev of EvApply out r \<Rightarrow> Some out | _ \<Rightarrow> None) evs"

definition recorded :: "fake_env \<Rightarrow> event list \<Rightarrow> fake_env \<Rightarrow> bool" where
  "recorded e evs e' \<longleftrightarrow>
     sr_statuses (fe_status e') = sr_statuses (fe_status e) @ statuses_of evs
   \<and> rr_results (fe_result e') = rr_results (fe_result e) @ results_of evs
   \<and> fs_savedStates (fe_store e') = fs_savedStates (fe_store e) @ saved_of evs
   \<and> fr_inputs (fe_renderer e') = fr_inputs (fe_renderer e) @ rendered_of evs
   \<and> fa_inputs (fe_engine e') = fa_inputs (fe_engine e) @ applied_of evs"

lemmas of_defs = statuses_of_def results_of_def saved_of_def rendered_of_def applied_of_def

lemma of_Nil [simp]:
  "statuses_of [] = []" "results_of [] = []" "saved_of [] = []" "rendered_of [] = []" "applied_of [] = []"
  by (simp_all add: of_defs List.map_filter_def)

lemma of_snoc:
  "statuses_of (evs @ [ev]) = statuses_of evs @ (case ev of EvStatus e r \<Rightarrow> [e] | _ \<Rightarrow> [])"
  "results_of (evs @ [ev]) = results_of evs @ (case ev of EvResult e r \<Rightarrow> [e] | _ \<Rightarrow> [])"
  "saved_of (evs @ [ev]) = saved_of evs @ (case ev of EvSaveState st None \<Rightarrow> [st] | _ \<Rightarrow> [])"
  "rendered_of (evs @ [ev]) =
     rendered_of evs @ (case ev of EvRender d r \<Rightarrow> [cloneStoredDesiredConfig d] | _ \<Rightarrow> [])"
  "applied_of (evs @ [ev]) = applied_of evs @ (case ev of EvApply out r \<Rightarrow> [out] | _ \<Rightarrow> [])"
  by (simp_all add: of_defs List.map_filter_def split: event.splits option.splits)

definition recorded_since :: "fake_env world \<Rightarrow> fake_env world \<Rightarrow> bool" where
  "recorded_since w0 w \<longleftrightarrow> (\<exists>evs. trace w = trace w0 @ evs \<and> recorded (env w0) evs (env w))"

lemma recorded_step:
  assumes "recorded e0 evs e" "recorded e [ev] e'"
  shows "recorded e0 (evs @ [ev]) e'"
  using assms of_snoc [of "[]" ev] by (auto simp: recorded_def of_snoc)

lemma recorded_call:
  assumes "\<And>e r e'. m e = (r, e') \<Longrightarrow> recorded e [ev r] e'"
  shows "keeps (recorded_since w0) (call m ev)"
  using assms
  by (fastforce simp: keeps_def wp_call recorded_since_def split: prod.split intro: recorded_step)

interpretation recording: service_invariant "fake_service lg dbg t" "\<lambda>_. True" "recorded_since w0"
  for lg dbg t w0
proof unfold_locales
  show "keeps (recorded_since w0) (log_at (cs_logger (fake_service lg dbg t)) lvl m kv)" for lvl m kv
    by (simp add: keeps_def wp_log_at recorded_since_def)
  show "keeps (recorded_since w0) (peek (cs_now (fake_service lg dbg t)))"
    by (simp add: keeps_def wp_peek recorded_since_def fake_service_def)
qed (rule recorded_call, auto simp: recorded_def of_defs List.map_filter_def fake_defs Let_def
      eq_commute [of "Some _" "fs_SaveErr _"] split: option.splits)+

text \<open>
  A service over the test doubles leaves in them what it did, in its order:
  after a handled notification the recorded statuses, results, saved states, renderer
  inputs and apply inputs are those recorded before, followed by those of the run's calls.
\<close>

theorem fakes_record_faithfully:
  "wp (configure_Handle (fake_service lg dbg t) c msg) (\<lambda>r. recorded_since w) w"
  by (rule keeps_wp [OF recording.handle_keeps])
    (auto simp: recording.ids_ok_def recorded_since_def recorded_def intro: exI [of _ "[]"])

text \<open>
  Handling a notification with the in-memory store: when the handler returns
  nil the store holds the notification's UUID; when it returns an error the store is as
  before, or the configuration was rendered and applied.
\<close>

theorem fake_handle_store_effect:
  "wp (configure_Handle (fake_service lg dbg t) (Some c) msg)
     (\<lambda>r w'. \<exists>evs. trace w' = trace w @ evs
        \<and> store_effect msg evs r (fake_stored (env w)) (fake_stored (env w'))) w"
  by (rule fakes.handle_store_effect) (simp add: msg_storable_def)

end
