(* ===== verification/Utf8.thy ===== *)
theory Utf8
  imports GoBase
begin

text \<open>
  Package \<open>unicode/utf8\<close> as far as the JSON codec uses it: the length of the encoded rune
  a byte string starts with, by the table of first bytes and accepted ranges, and the
  encoder of a rune.
\<close>

definition byte :: "char \<Rightarrow> nat" where
  "byte c = of_char c"

definition chr :: "nat \<Rightarrow> char" where
  "chr n = char_of n"

lemma byte_less: "byte c < 256"
  unfolding byte_def by simp

lemma chr_byte [simp]: "chr (byte c) = c"
  by (simp add: chr_def byte_def)

lemma byte_chr [simp]: "n < 256 \<Longrightarrow> byte (chr n) = n"
  unfolding chr_def byte_def of_char_of by simp

lemma byte_inject [simp]: "byte c = byte d \<longleftrightarrow> c = d"
  by (simp add: byte_def)

definition in_range :: "nat \<Rightarrow> nat \<Rightarrow> char \<Rightarrow> bool" where
  "in_range lo hi c \<longleftrightarrow> lo \<le> byte c \<and> byte c \<le> hi"

abbreviation continuation :: "char \<Rightarrow> bool" where
  "continuation \<equiv> in_range 0x80 0xBF"

text \<open>
  The size of the well-formed rune at the start of a string; 0 stands for the pair
  \<open>(RuneError, 1)\<close> of an ill-formed one.
\<close>

definition second_ok :: "char \<Rightarrow> char \<Rightarrow> bool" where
  "second_ok c d =
     (if byte c = 0xE0 then in_range 0xA0 0xBF d
      else if byte c = 0xED then in_range 0x80 0x9F d
      else if byte c = 0xF0 then in_range 0x90 0xBF d
      else if byte c = 0xF4 then in_range 0x80 0x8F d
      else continuation d)"

fun rune_size :: "string \<Rightarrow> nat" where
  "rune_size [] = 0"
| "rune_size (c # s) =
     (if byte c < 0x80 then 1
      else if in_range 0xC2 0xDF c then
        (case s of d # _ \<Rightarrow> if continuation d then 2 else 0 | _ \<Rightarrow> 0)
      else if in_range 0xE0 0xEF c then
        (case s of d # e # _ \<Rightarrow> if second_ok c d \<and> continuation e then 3 else 0 | _ \<Rightarrow> 0)
      else if in_range 0xF0 0xF4 c then
        (case s of d # e # f # _ \<Rightarrow>
           if second_ok c d \<and> continuation e \<and> continuation f then 4 else 0 | _ \<Rightarrow> 0)
      else 0)"

text \<open>\<open>utf8.EncodeRune\<close>; surrogates and values above \<open>U+10FFFF\<close> are replaced.\<close>

definition encode_rune :: "nat \<Rightarrow> string" where
  "encode_rune r =
     (if r < 0x80 then [chr r]
      else if r < 0x800 then [chr (0xC0 + r div 64), chr (0x80 + r mod 64)]
      else if (0xD800 \<le> r \<and> r \<le> 0xDFFF) \<or> r > 0x10FFFF then [chr 0xEF, chr 0xBF, chr 0xBD]
      else if r < 0x10000 then
        [chr (0xE0 + r div 4096), chr (0x80 + r div 64 mod 64), chr (0x80 + r mod 64)]
      else
        [chr (0xF0 + r div 262144), chr (0x80 + r div 4096 mod 64), chr (0x80 + r div 64 mod 64),
         chr (0x80 + r mod 64)])"

definition replacement :: string where
  "replacement = encode_rune 0xFFFD"

lemma rune_size_le: "rune_size s \<le> length s"
  by (cases s rule: rune_size.cases) (auto split: list.splits)

lemma rune_size_le4: "rune_size s \<le> 4"
  by (cases s rule: rune_size.cases) (auto split: list.splits)

text \<open>A well-formed string is a sequence of well-formed runes.\<close>

function valid_utf8 :: "string \<Rightarrow> bool" where
  "valid_utf8 s = (if s = [] then True else if rune_size s = 0 then False
     else valid_utf8 (drop (rune_size s) s))"
  by pat_completeness auto
termination by (relation "measure length") auto

declare valid_utf8.simps [simp del]

lemma valid_utf8_Nil [simp]: "valid_utf8 []"
  by (subst valid_utf8.simps) simp

lemma rune_size_ASCII: "byte c < 0x80 \<Longrightarrow> rune_size (c # s) = 1"
  by simp

text \<open>The bytes of a longer rune are above the ASCII range.\<close>

lemma rune_bytes:
  assumes "rune_size s = n" "n > 1"
  shows "list_all (\<lambda>c. byte c \<ge> 0x80) (take n s)"
  using assms by (cases s rule: rune_size.cases)
    (auto simp: in_range_def second_ok_def split: list.splits if_splits)

text \<open>What follows a rune does not matter.\<close>

lemma rune_size_append:
  assumes "rune_size s > 0"
  shows "rune_size (s @ t) = rune_size s"
  using assms by (cases s rule: rune_size.cases) (auto split: list.splits if_splits)

lemma rune_size_take: "rune_size s > 0 \<Longrightarrow> rune_size (take (rune_size s) s @ t) = rune_size s"
  by (cases s rule: rune_size.cases)
    (auto split: list.splits if_splits)

lemma valid_utf8_ASCII: "list_all (\<lambda>c. byte c < 0x80) s \<Longrightarrow> valid_utf8 s"
  by (induction s) (simp, subst valid_utf8.simps, simp)

end
