(* ===== verification/Json.thy ===== *)
theory Json
  imports Utf8
begin

text \<open>
  Package \<open>encoding/json\<close> as far as the agent uses it: the syntax check of a whole text
  and the values it consists of (each with its raw text, as \<open>json.RawMessage\<close> keeps it),
  the quoting and unquoting of strings, and the decoding of strings, integers and objects.
\<close>

abbreviation backslash :: char where "backslash \<equiv> CHR 0x5C"
abbreviation dquote :: char where "dquote \<equiv> CHR 0x22"

section \<open>Scanning\<close>

definition json_space :: "char \<Rightarrow> bool" where
  "json_space c \<longleftrightarrow> c = CHR 0x20 \<or> c = CHR 0x09 \<or> c = CHR 0x0A \<or> c = CHR 0x0D"

definition skip_ws :: "string \<Rightarrow> string" where
  "skip_ws s = dropWhile json_space s"

definition is_digit :: "char \<Rightarrow> bool" where
  "is_digit c \<longleftrightarrow> in_range 0x30 0x39 c"

definition hex_value :: "char \<Rightarrow> nat option" where
  "hex_value c =
     (if in_range 0x30 0x39 c then Some (byte c - 0x30)
      else if in_range 0x61 0x66 c then Some (byte c - 0x61 + 10)
      else if in_range 0x41 0x46 c then Some (byte c - 0x41 + 10)
      else None)"

fun hex4 :: "string \<Rightarrow> nat option" where
  "hex4 (a # b # c # d # s) =
     (case (hex_value a, hex_value b, hex_value c, hex_value d) of
        (Some p, Some q, Some r, Some t) \<Rightarrow> Some (4096 * p + 256 * q + 16 * r + t)
      | _ \<Rightarrow> None)"
| "hex4 _ = None"

text \<open>The characters that may follow a backslash in a string, besides \<open>u\<close>.\<close>

definition simple_escape :: "char \<Rightarrow> bool" where
  "simple_escape c \<longleftrightarrow> List.member [CHR ''b'', CHR ''f'', CHR ''n'', CHR ''r'', CHR ''t'',
     backslash, CHR ''/'', dquote] c"

text \<open>The contents of a string literal, from after its opening quote, and what follows it.\<close>

fun scan_string :: "string \<Rightarrow> (string \<times> string) option" where
  "scan_string [] = None"
| "scan_string (c # s) =
     (if c = dquote then Some ([], s)
      else if c = backslash then
        (case s of
           [] \<Rightarrow> None
         | e # s' \<Rightarrow>
             (if simple_escape e \<or> (e = CHR ''u'' \<and> hex4 s' \<noteq> None)
              then map_option (\<lambda>(raw, rest). (c # e # raw, rest)) (scan_string s')
              else None))
      else if byte c < 0x20 then None
      else map_option (\<lambda>(raw, rest). (c # raw, rest)) (scan_string s))"

definition scan_exponent :: "string \<Rightarrow> string \<Rightarrow> (string \<times> string) option" where
  "scan_exponent acc s = (case s of
     e # t \<Rightarrow>
       (if e = CHR ''e'' \<or> e = CHR ''E'' then
          (let (sgn, t') = (case t of
                 c # t' \<Rightarrow> if c = CHR ''+'' \<or> c = CHR ''-'' then ([c], t') else ([], t)
               | [] \<Rightarrow> ([], t));
               ds = takeWhile is_digit t'
           in if ds = [] then None else Some (acc @ e # sgn @ ds, dropWhile is_digit t'))
        else Some (acc, s))
   | [] \<Rightarrow> Some (acc, s))"

definition scan_fraction :: "string \<Rightarrow> string \<Rightarrow> (string \<times> string) option" where
  "scan_fraction acc s = (case s of
     c # t \<Rightarrow>
       (if c = CHR ''.'' then
          (let ds = takeWhile is_digit t
           in if ds = [] then None else scan_exponent (acc @ c # ds) (dropWhile is_digit t))
        else scan_exponent acc s)
   | [] \<Rightarrow> scan_exponent acc s)"

definition scan_number :: "string \<Rightarrow> (string \<times> string) option" where
  "scan_number s =
     (let (sgn, t) = (case s of
            c # t \<Rightarrow> if c = CHR ''-'' then ([c], t) else ([], s) | [] \<Rightarrow> ([], s))
      in case t of
           [] \<Rightarrow> None
         | c # t' \<Rightarrow>
             (if c = CHR ''0'' then scan_fraction (sgn @ [c]) t'
              else if is_digit c
              then scan_fraction (sgn @ takeWhile is_digit t) (dropWhile is_digit t)
              else None))"

fun strip_prefix :: "string \<Rightarrow> string \<Rightarrow> string option" where
  "strip_prefix [] s = Some s"
| "strip_prefix (p # ps) (c # s) = (if p = c then strip_prefix ps s else None)"
| "strip_prefix _ _ = None"

section \<open>Values\<close>

datatype jnode = JNode (jraw: string) (jval: json)
and json =
    JNull
  | JBool bool
  | JNum string
  | JStr string
  | JArr "jnode list"
  | JObj "(string \<times> jnode) list"

text \<open>A value's text is what its parse consumed.\<close>

definition node :: "string \<Rightarrow> (json \<times> string) option \<Rightarrow> (jnode \<times> string) option" where
  "node s r = map_option (\<lambda>(v, t). (JNode (take (length s - length t) s) v, t)) r"

lemma skip_ws_length: "length (skip_ws s) \<le> length s"
  by (simp add: skip_ws_def length_dropWhile_le)

lemma skip_ws_Cons: "skip_ws t = b # t' \<Longrightarrow> length t' < length t"
  using skip_ws_length [of t] by simp

text \<open>
  \<open>parse_value d s\<close> reads one value at the start of \<open>s\<close>, which is not white space; \<open>d\<close> is
  the number of levels of nesting left. \<open>parse_elements\<close> and \<open>parse_members\<close> read what
  follows the opening bracket or a comma, up to and with the closing bracket. What a value
  leaves is always shorter than the text it was read from; the code tests it to make the
  recursion plainly well-founded.
\<close>

function parse_value :: "nat \<Rightarrow> string \<Rightarrow> (jnode \<times> string) option"
  and parse_elements :: "nat \<Rightarrow> string \<Rightarrow> (jnode list \<times> string) option"
  and parse_members :: "nat \<Rightarrow> string \<Rightarrow> ((string \<times> jnode) list \<times> string) option" where
  "parse_value d s = node s (case s of
     [] \<Rightarrow> None
   | c # t \<Rightarrow>
      (if c = dquote then map_option (\<lambda>(raw, rest). (JStr raw, rest)) (scan_string t)
       else if c = CHR ''['' then
         (if d = 0 then None else
          case skip_ws t of
            [] \<Rightarrow> None
          | b # t' \<Rightarrow>
             (if b = CHR '']'' then Some (JArr [], t')
              else map_option (\<lambda>(vs, rest). (JArr vs, rest)) (parse_elements (d - 1) (skip_ws t))))
       else if c = CHR ''{'' then
         (if d = 0 then None else
          case skip_ws t of
            [] \<Rightarrow> None
          | b # t' \<Rightarrow>
             (if b = CHR ''}'' then Some (JObj [], t')
              else map_option (\<lambda>(ms, rest). (JObj ms, rest)) (parse_members (d - 1) (skip_ws t))))
       else if c = CHR ''t'' then map_option (\<lambda>rest. (JBool True, rest)) (strip_prefix ''true'' s)
       else if c = CHR ''f'' then map_option (\<lambda>rest. (JBool False, rest)) (strip_prefix ''false'' s)
       else if c = CHR ''n'' then map_option (\<lambda>rest. (JNull, rest)) (strip_prefix ''null'' s)
       else map_option (\<lambda>(txt, rest). (JNum txt, rest)) (scan_number s)))"
| "parse_elements d s =
     (case parse_value d s of
        None \<Rightarrow> None
      | Some (v, rest) \<Rightarrow>
         (case skip_ws rest of
            [] \<Rightarrow> None
          | b # t \<Rightarrow>
             (if b = CHR '']'' then Some ([v], t)
              else if b = CHR '','' \<and> length (skip_ws t) < length s
              then map_option (\<lambda>(vs, rest). (v # vs, rest)) (parse_elements d (skip_ws t))
              else None)))"
| "parse_members d s =
     (case s of
        [] \<Rightarrow> None
      | q # s' \<Rightarrow> if q \<noteq> dquote then None else
     (case scan_string s' of
        None \<Rightarrow> None
      | Some (key, r1) \<Rightarrow>
     (case skip_ws r1 of
        [] \<Rightarrow> None
      | k # r2 \<Rightarrow>
         if k \<noteq> CHR '':'' \<or> length s \<le> length (skip_ws r2) then None else
     (case parse_value d (skip_ws r2) of
        None \<Rightarrow> None
      | Some (v, rest) \<Rightarrow>
         (case skip_ws rest of
            [] \<Rightarrow> None
          | b # t \<Rightarrow>
             (if b = CHR ''}'' then Some ([(key, v)], t)
              else if b = CHR '','' \<and> length (skip_ws t) < length s
              then map_option (\<lambda>(ms, rest). ((key, v) # ms, rest)) (parse_members d (skip_ws t))
              else None))))))"
  by pat_completeness auto

termination
  by (relation "measure (\<lambda>x. case x of Inl (d, s) \<Rightarrow> 2 * length s
      | Inr (Inl (d, s)) \<Rightarrow> 2 * length s + 1 | Inr (Inr (d, s)) \<Rightarrow> 2 * length s + 1)")
    (auto simp: less_Suc_eq_le dest!: skip_ws_Cons)

declare parse_value.simps [simp del] parse_elements.simps [simp del] parse_members.simps [simp del]

text \<open>The whole text is one value and white space; at most 10000 levels are nested.\<close>

definition json_parse :: "string \<Rightarrow> jnode option" where
  "json_parse s = (case parse_value 10000 (skip_ws s) of
     None \<Rightarrow> None
   | Some (v, rest) \<Rightarrow> if skip_ws rest = [] then Some v else None)"

definition json_Valid :: "string \<Rightarrow> bool" where
  "json_Valid s \<longleftrightarrow> json_parse s \<noteq> None"

end
