(* ===== verification/JsonString.thy ===== *)
theory JsonString
  imports Json
begin

text \<open>
  String literals of \<open>encoding/json\<close>: \<open>quote_body\<close> is the loop of the encoder with HTML
  escaping, \<open>unquote_body\<close> the loop of the decoder. Ill-formed UTF-8 is replaced on the way
  out and on the way in; a well-formed string survives the round trip.
\<close>

section \<open>Quoting\<close>

definition html_safe :: "char \<Rightarrow> bool" where
  "html_safe c \<longleftrightarrow> byte c \<ge> 0x20 \<and>
     \<not> List.member [dquote, backslash, CHR ''<'', CHR ''>'', CHR ''&''] c"

definition hex_digit :: "nat \<Rightarrow> char" where
  "hex_digit n = (if n < 10 then chr (0x30 + n) else chr (0x61 + (n - 10)))"

definition escape_ASCII :: "char \<Rightarrow> string" where
  "escape_ASCII c =
     (if c = backslash \<or> c = dquote then [backslash, c]
      else if byte c = 8 then [backslash, CHR ''b'']
      else if byte c = 12 then [backslash, CHR ''f'']
      else if byte c = 10 then [backslash, CHR ''n'']
      else if byte c = 13 then [backslash, CHR ''r'']
      else if byte c = 9 then [backslash, CHR ''t'']
      else [backslash, CHR ''u'', CHR ''0'', CHR ''0'', hex_digit (byte c div 16), hex_digit (byte c mod 16)])"

text \<open>The line and paragraph separators \<open>U+2028\<close> and \<open>U+2029\<close>.\<close>

definition line_separator :: "string \<Rightarrow> nat option" where
  "line_separator w =
     (if w = [CHR 0xE2, CHR 0x80, CHR 0xA8] then Some 8
      else if w = [CHR 0xE2, CHR 0x80, CHR 0xA9] then Some 9 else None)"

function quote_body :: "string \<Rightarrow> string" where
  "quote_body s = (case s of
     [] \<Rightarrow> []
   | c # r \<Rightarrow>
      (if byte c < 0x80 then (if html_safe c then [c] else escape_ASCII c) @ quote_body r
       else if rune_size s = 0
       then [backslash, CHR ''u'', CHR ''f'', CHR ''f'', CHR ''f'', CHR ''d''] @ quote_body r
       else (case line_separator (take (rune_size s) s) of
               Some n \<Rightarrow> [backslash, CHR ''u'', CHR ''2'', CHR ''0'', CHR ''2'', hex_digit n]
             | None \<Rightarrow> take (rune_size s) s) @ quote_body (drop (rune_size s) s)))"
  by pat_completeness auto
termination by (relation "measure length") auto

definition quote :: "string \<Rightarrow> string" where
  "quote s = dquote # quote_body s @ [dquote]"

section \<open>Unquoting\<close>

definition simple_unescape :: "char \<Rightarrow> char option" where
  "simple_unescape e =
     (if List.member [dquote, backslash, CHR ''/'', CHR 0x27] e then Some e
      else if e = CHR ''b'' then Some (chr 8)
      else if e = CHR ''f'' then Some (chr 12)
      else if e = CHR ''n'' then Some (chr 10)
      else if e = CHR ''r'' then Some (chr 13)
      else if e = CHR ''t'' then Some (chr 9)
      else None)"

definition is_surrogate :: "nat \<Rightarrow> bool" where
  "is_surrogate r \<longleftrightarrow> 0xD800 \<le> r \<and> r < 0xE000"

text \<open>\<open>utf16.DecodeRune\<close>: \<open>None\<close> stands for the replacement character.\<close>

definition decode_surrogates :: "nat \<Rightarrow> nat \<Rightarrow> nat option" where
  "decode_surrogates r1 r2 =
     (if 0xD800 \<le> r1 \<and> r1 < 0xDC00 \<and> 0xDC00 \<le> r2 \<and> r2 < 0xE000
      then Some ((r1 - 0xD800) * 1024 + (r2 - 0xDC00) + 0x10000) else None)"

text \<open>\<open>getu4\<close>: the value of a \<open>\\u\<close> escape at the start of a string.\<close>

fun getu4 :: "string \<Rightarrow> nat option" where
  "getu4 (c # d # s) = (if c = backslash \<and> d = CHR ''u'' then hex4 s else None)"
| "getu4 _ = None"

definition prepend :: "string \<Rightarrow> string option \<Rightarrow> string option" where
  "prepend w r = map_option (\<lambda>t. w @ t) r"

function unquote_body :: "string \<Rightarrow> string option" where
  "unquote_body s = (case s of
     [] \<Rightarrow> Some []
   | c # r \<Rightarrow>
      (if c = backslash then
         (case r of
            [] \<Rightarrow> None
          | e # r' \<Rightarrow>
             (if e = CHR ''u'' then
                (case hex4 r' of
                   None \<Rightarrow> None
                 | Some rr \<Rightarrow>
                    (if is_surrogate rr then
                       (case Option.bind (getu4 (drop 6 s)) (decode_surrogates rr) of
                          Some dec \<Rightarrow> prepend (encode_rune dec) (unquote_body (drop 12 s))
                        | None \<Rightarrow> prepend replacement (unquote_body (drop 6 s)))
                     else prepend (encode_rune rr) (unquote_body (drop 6 s))))
              else
                (case simple_unescape e of
                   None \<Rightarrow> None
                 | Some x \<Rightarrow> prepend [x] (unquote_body r'))))
       else if c = dquote \<or> byte c < 0x20 then None
       else if byte c < 0x80 then prepend [c] (unquote_body r)
       else if rune_size s = 0 then prepend replacement (unquote_body r)
       else prepend (take (rune_size s) s) (unquote_body (drop (rune_size s) s))))"
  by pat_completeness auto
termination by (relation "measure length") auto

declare quote_body.simps [simp del] unquote_body.simps [simp del]

section \<open>The round trip\<close>

text \<open>What the encoder makes of a string: ill-formed bytes become the replacement character.\<close>

function coerce_utf8 :: "string \<Rightarrow> string" where
  "coerce_utf8 s =
     (if s = [] then []
      else if rune_size s = 0 then replacement @ coerce_utf8 (tl s)
      else take (rune_size s) s @ coerce_utf8 (drop (rune_size s) s))"
  by pat_completeness auto
termination by (relation "measure length") auto

declare coerce_utf8.simps [simp del]

lemma coerce_valid: "valid_utf8 s \<Longrightarrow> coerce_utf8 s = s"
proof (induction s rule: valid_utf8.induct)
  case (1 s)
  then show ?case
    by (subst coerce_utf8.simps) (auto simp: valid_utf8.simps [of s] split: if_splits)
qed

lemma prepend_Some [simp]: "prepend w (Some t) = Some (w @ t)"
  by (simp add: prepend_def)

text \<open>How one encoded piece is read back, by the scanner and by the decoder.\<close>

definition chunk :: "string \<Rightarrow> string \<Rightarrow> bool" where
  "chunk w v \<longleftrightarrow> (\<forall>t. unquote_body (w @ t) = prepend v (unquote_body t)
     \<and> scan_string (w @ t) = map_option (\<lambda>(raw, rest). (w @ raw, rest)) (scan_string t))"

lemma chunkI:
  assumes "\<And>t. unquote_body (w @ t) = prepend v (unquote_body t)"
    and "\<And>t. scan_string (w @ t) = map_option (\<lambda>(raw, rest). (w @ raw, rest)) (scan_string t)"
  shows "chunk w v"
  using assms by (simp add: chunk_def)

lemma byte_dquote [simp]: "byte dquote = 0x22" and byte_backslash [simp]: "byte backslash = 0x5C"
  by (simp_all add: byte_def)

lemma scan_plain:
  "list_all (\<lambda>c. byte c \<ge> 0x80) w \<Longrightarrow>
     scan_string (w @ t) = map_option (\<lambda>(raw, rest). (w @ raw, rest)) (scan_string t)"
proof (induction w)
  case Nil
  show ?case by (cases "scan_string t") auto
next
  case (Cons c w)
  then have "c \<noteq> dquote" "c \<noteq> backslash" "\<not> byte c < 0x20" by auto
  with Cons show ?case by (simp add: option.map_comp comp_def case_prod_unfold)
qed

lemma chunk_safe:
  assumes "byte c < 0x80" "html_safe c"
  shows "chunk [c] [c]"
proof -
  from assms(2) have "c \<noteq> dquote" "c \<noteq> backslash" "\<not> byte c < 0x20" by (auto simp: html_safe_def)
  with assms show ?thesis by (intro chunkI) (simp_all add: unquote_body.simps [of "c # _"])
qed

lemma hex_value_digit: "n < 16 \<Longrightarrow> hex_value (hex_digit n) = Some n"
  by (auto simp: hex_value_def hex_digit_def in_range_def)

lemma scan_one:
  assumes "byte c \<ge> 0x30" "c \<noteq> backslash"
  shows "scan_string (c # s) = map_option (\<lambda>(raw, rest). (c # raw, rest)) (scan_string s)"
proof -
  from assms(1) have "c \<noteq> dquote" "\<not> byte c < 0x20" by auto
  with assms(2) show ?thesis by simp
qed

lemma map_map_scan:
  "map_option (\<lambda>(raw, rest). (f raw, rest)) (map_option (\<lambda>(raw, rest). (g raw, rest)) r) =
     map_option (\<lambda>(raw, rest). (f (g raw), rest)) r"
  by (cases r) auto

text \<open>A \<open>\\u\<close> escape of a rune that is no surrogate.\<close>

lemma chunk_u:
  assumes "\<And>t. hex4 (w @ t) = Some r" "length w = 4" "\<not> is_surrogate r"
    and "list_all (\<lambda>c. byte c \<ge> 0x30 \<and> c \<noteq> backslash) w"
  shows "chunk (backslash # CHR ''u'' # w) (encode_rune r)"
proof -
  obtain a b c d where w: "w = [a, b, c, d]"
    using assms(2) by (auto simp: length_Suc_conv numeral_eq_Suc)
  have "scan_string (a # b # c # d # t) =
      map_option (\<lambda>(raw, rest). (a # b # c # d # raw, rest)) (scan_string t)" for t
    using assms(4) w by (simp add: scan_one map_map_scan del: scan_string.simps)
  then have "scan_string ((backslash # CHR ''u'' # w) @ t) =
      map_option (\<lambda>(raw, rest). ((backslash # CHR ''u'' # w) @ raw, rest)) (scan_string t)" for t
    using assms(1) w by (simp add: map_map_scan del: scan_string.simps)
      (simp add: map_map_scan)
  moreover have "unquote_body ((backslash # CHR ''u'' # w) @ t) = prepend (encode_rune r) (unquote_body t)" for t
    using assms(1,3) w by (simp add: unquote_body.simps [of "backslash # _"])
  ultimately show ?thesis by (intro chunkI)
qed

lemma chunk_escape:
  assumes "byte c < 0x80" "\<not> html_safe c"
  shows "chunk (escape_ASCII c) [c]"
proof -
  have u: "chunk (backslash # CHR ''u'' # [CHR ''0'', CHR ''0'', hex_digit (byte c div 16), hex_digit (byte c mod 16)])
      (encode_rune (byte c))"
  proof (rule chunk_u)
    show "hex4 ([CHR ''0'', CHR ''0'', hex_digit (byte c div 16), hex_digit (byte c mod 16)] @ t) = Some (byte c)" for t
      using assms(1) by (simp add: hex_value_digit) (simp add: hex_value_def in_range_def byte_def)
    show "\<not> is_surrogate (byte c)" using assms(1) by (simp add: is_surrogate_def)
    have "byte (hex_digit n) \<ge> 0x30 \<and> hex_digit n \<noteq> backslash" if "n < 16" for n
    proof -
      from that have "byte (hex_digit n) \<ge> 0x30" "byte (hex_digit n) \<noteq> byte backslash"
        by (auto simp: hex_digit_def)
      then show ?thesis by auto
    qed
    moreover have "byte c div 16 < 16" "byte c mod 16 < 16" using assms(1) by auto
    ultimately show "list_all (\<lambda>c. byte c \<ge> 0x30 \<and> c \<noteq> backslash)
        [CHR ''0'', CHR ''0'', hex_digit (byte c div 16), hex_digit (byte c mod 16)]"
      by (simp add: byte_def)
  qed simp
  have e: "chunk [backslash, x] [y]"
    if "simple_unescape x = Some y" "simple_escape x" "x \<noteq> CHR ''u''" for x y
    using that by (intro chunkI) (simp_all add: unquote_body.simps [of "backslash # _"])
  have "encode_rune (byte c) = [c]" using assms(1) by (simp add: encode_rune_def)
  with u have "chunk (backslash # CHR ''u'' # [CHR ''0'', CHR ''0'', hex_digit (byte c div 16), hex_digit (byte c mod 16)]) [c]"
    by simp
  moreover have "chunk [backslash, x] [c]"
    if "byte c = n" "simple_unescape x = Some (chr n)" "simple_escape x" "x \<noteq> CHR ''u''" for n x
  proof -
    from that(1) have "chr n = c" by auto
    with e [OF that(2-4)] show ?thesis by simp
  qed
  moreover have "chunk [backslash, c] [c]" if "c = backslash \<or> c = dquote"
    using that by (intro e) (auto simp: simple_unescape_def simple_escape_def)
  ultimately show ?thesis
    unfolding escape_ASCII_def by (simp add: simple_unescape_def simple_escape_def)
qed

lemma chunk_replacement:
  "chunk [backslash, CHR ''u'', CHR ''f'', CHR ''f'', CHR ''f'', CHR ''d''] replacement"
proof -
  have "chunk (backslash # CHR ''u'' # [CHR ''f'', CHR ''f'', CHR ''f'', CHR ''d'']) (encode_rune 0xFFFD)"
    by (rule chunk_u) (simp_all add: hex_value_def in_range_def byte_def is_surrogate_def)
  then show ?thesis by (simp add: replacement_def)
qed

lemma chunk_separator:
  assumes "line_separator w = Some n"
  shows "chunk [backslash, CHR ''u'', CHR ''2'', CHR ''0'', CHR ''2'', hex_digit n] w"
proof -
  from assms have n: "n = 8 \<and> w = encode_rune 0x2028 \<or> n = 9 \<and> w = encode_rune 0x2029"
    by (auto simp: line_separator_def encode_rune_def chr_def char_of_def bit_Suc_0_iff split: if_splits)
  have "chunk (backslash # CHR ''u'' # [CHR ''2'', CHR ''0'', CHR ''2'', hex_digit 8]) (encode_rune 0x2028)"
    "chunk (backslash # CHR ''u'' # [CHR ''2'', CHR ''0'', CHR ''2'', hex_digit 9]) (encode_rune 0x2029)"
    by (rule chunk_u; simp add: hex_value_def hex_digit_def chr_def in_range_def byte_def is_surrogate_def
        char_of_def bit_Suc_0_iff)+
  with n show ?thesis by auto
qed

lemma chunk_rune:
  assumes "rune_size s > 0" "byte (hd s) \<ge> 0x80"
  shows "chunk (take (rune_size s) s) (take (rune_size s) s)"
proof (rule chunkI)
  from assms obtain c r where s: "s = c # r" by (cases s) auto
  have n: "rune_size s > 1"
    using assms s by (auto split: list.splits if_splits)
  fix t
  from rune_bytes [OF refl n]
  show "scan_string (take (rune_size s) s @ t) =
      map_option (\<lambda>(raw, rest). (take (rune_size s) s @ raw, rest)) (scan_string t)"
    by (rule scan_plain)
  have sz: "rune_size (take (rune_size s) s @ t) = rune_size s"
    using assms(1) by (rule rune_size_take)
  have drp: "drop (rune_size s) (take (rune_size s) s @ t) = t"
    and tk: "take (rune_size s) (take (rune_size s) s @ t) = take (rune_size s) s"
    using rune_size_le [of s] by auto
  have hd: "\<exists>u. take (rune_size s) s @ t = c # u"
    using n s by (cases "rune_size s") (auto simp del: rune_size.simps)
  then obtain u where u: "take (rune_size s) s @ t = c # u" ..
  have c: "c \<noteq> backslash" "c \<noteq> dquote" "\<not> byte c < 0x20" "\<not> byte c < 0x80"
    using assms(2) s by auto
  show "unquote_body (take (rune_size s) s @ t) = prepend (take (rune_size s) s) (unquote_body t)"
    using c assms(1) sz drp tk unfolding u
    by (subst unquote_body.simps) (simp del: rune_size.simps)
qed

lemma chunk_append:
  assumes "chunk w v" "unquote_body t = Some x" "scan_string (t @ dquote # rest) = Some (t, rest)"
  shows "unquote_body (w @ t) = Some (v @ x)"
    and "scan_string ((w @ t) @ dquote # rest) = Some (w @ t, rest)"
  using assms by (simp_all add: chunk_def)

lemma chunk_first:
  assumes "s = c # r" "byte c < 0x80"
  shows "chunk (if html_safe c then [c] else escape_ASCII c) [c]"
  using assms chunk_safe chunk_escape by simp

text \<open>
  The scanner finds the end of a quoted string, and unquoting gives the string back, with
  ill-formed UTF-8 replaced.
\<close>

lemma quote_body_read:
  "unquote_body (quote_body s) = Some (coerce_utf8 s)
   \<and> scan_string (quote_body s @ dquote # rest) = Some (quote_body s, rest)"
proof (induction s rule: quote_body.induct)
  case (1 s)
  show ?case
  proof (cases s)
    case Nil
    then show ?thesis
      by (simp add: quote_body.simps unquote_body.simps coerce_utf8.simps)
  next
    case (Cons c r)
    consider (ascii) "byte c < 0x80" | (bad) "\<not> byte c < 0x80" "rune_size s = 0"
      | (rune) "\<not> byte c < 0x80" "rune_size s \<noteq> 0" by blast
    then show ?thesis
    proof cases
      case ascii
      have q: "quote_body s = (if html_safe c then [c] else escape_ASCII c) @ quote_body r"
        using ascii Cons by (simp add: quote_body.simps [of "c # r"])
      have e: "coerce_utf8 s = [c] @ coerce_utf8 r"
        using ascii Cons by (simp add: coerce_utf8.simps [of "c # r"])
      from "1.IH"(1) [OF Cons ascii] show ?thesis
        unfolding q e using chunk_append [OF chunk_first [OF Cons ascii]] by blast
    next
      case bad
      have q: "quote_body s = [backslash, CHR ''u'', CHR ''f'', CHR ''f'', CHR ''f'', CHR ''d''] @ quote_body r"
        using bad Cons by (simp add: quote_body.simps [of "c # r"] del: rune_size.simps)
      have e: "coerce_utf8 s = replacement @ coerce_utf8 r"
        using bad Cons by (simp add: coerce_utf8.simps [of "c # r"] del: rune_size.simps)
      from "1.IH"(2) [OF Cons bad] show ?thesis
        unfolding q e using chunk_append [OF chunk_replacement] by blast
    next
      case rune
      let ?w = "take (rune_size s) s" and ?r = "drop (rune_size s) s"
      let ?q = "case line_separator ?w of
          Some n \<Rightarrow> [backslash, CHR ''u'', CHR ''2'', CHR ''0'', CHR ''2'', hex_digit n] | None \<Rightarrow> ?w"
      have q: "quote_body s = ?q @ quote_body ?r"
        using rune unfolding Cons by (simp add: quote_body.simps [of "c # r"] del: rune_size.simps)
      have e: "coerce_utf8 s = ?w @ coerce_utf8 ?r"
        using rune Cons by (simp add: coerce_utf8.simps [of "c # r"] del: rune_size.simps)
      have "chunk ?w ?w" using rune Cons by (intro chunk_rune) auto
      then have "chunk ?q ?w"
        by (cases "line_separator ?w") (simp_all add: chunk_separator)
      from "1.IH"(3) [OF Cons rune] show ?thesis
        unfolding q e using chunk_append [OF \<open>chunk ?q ?w\<close>] by blast
    qed
  qed
qed

end
