(* ===== verification/JsonDecode.thy ===== *)
theory JsonDecode
  imports JsonString
begin

text \<open>
  What \<open>json.Unmarshal\<close> makes of a parsed value: into a string, an int, a
  \<open>map[string]json.RawMessage\<close>, and the fields of a struct (matched by name, then by folded
  name). Decoding goes on after a value of the wrong type and reports it at the end; a
  caller of this program drops what was decoded then, so here decoding just fails.
  The texts of the library's errors are not modelled.
\<close>

definition json_error :: go_error where
  "json_error = errors_New ''json: the text cannot be decoded''"

text \<open>A JSON null leaves a string or an int as it was.\<close>

definition into_string :: "jnode \<Rightarrow> string \<Rightarrow> string option" where
  "into_string n cur = (case jval n of JStr raw \<Rightarrow> unquote_body raw | JNull \<Rightarrow> Some cur | _ \<Rightarrow> None)"

text \<open>\<open>json.Unmarshal\<close> of a whole text into an empty string variable and into a nil map.\<close>

definition unmarshal_string :: "string \<Rightarrow> string option" where
  "unmarshal_string raw = (case json_parse raw of None \<Rightarrow> None | Some n \<Rightarrow> into_string n [])"

definition digits_value :: "string \<Rightarrow> nat" where
  "digits_value s = fold (\<lambda>c n. 10 * n + (byte c - 0x30)) s 0"

text \<open>\<open>strconv.ParseInt(s, 10, 64)\<close> of a JSON number: no fraction, no exponent, in range.\<close>

definition parse_int64 :: "string \<Rightarrow> int option" where
  "parse_int64 s =
     (let (neg, ds) = (case s of c # t \<Rightarrow> if c = CHR ''-'' then (True, t) else (False, s) | [] \<Rightarrow> (False, []))
      in if ds = [] \<or> \<not> list_all is_digit ds then None
         else if neg then (if digits_value ds \<le> 2 ^ 63 then Some (- int (digits_value ds)) else None)
         else (if digits_value ds < 2 ^ 63 then Some (int (digits_value ds)) else None))"

definition into_int :: "jnode \<Rightarrow> goint \<Rightarrow> goint option" where
  "into_int n cur = (case jval n of
     JNum txt \<Rightarrow> map_option word_of_int (parse_int64 txt) | JNull \<Rightarrow> Some cur | _ \<Rightarrow> None)"

text \<open>Unquoting never fails on a key the scanner has accepted.\<close>

definition key_text :: "string \<Rightarrow> string" where
  "key_text raw = (case unquote_body raw of None \<Rightarrow> [] | Some s \<Rightarrow> s)"

text \<open>Of equal keys the last one counts. A null makes a nil map, which reads as an empty one.\<close>

definition into_raw_map :: "jnode \<Rightarrow> (string \<rightharpoonup> string) option" where
  "into_raw_map n = (case jval n of
     JObj ms \<Rightarrow> Some (fold (\<lambda>(k, v) m. m(key_text k \<mapsto> jraw v)) ms Map.empty)
   | JNull \<Rightarrow> Some Map.empty
   | _ \<Rightarrow> None)"

definition unmarshal_raw_map :: "string \<Rightarrow> (string \<rightharpoonup> string) option" where
  "unmarshal_raw_map raw = (case json_parse raw of None \<Rightarrow> None | Some n \<Rightarrow> into_raw_map n)"

text \<open>
  \<open>foldName\<close>: ASCII letters become upper case; of the other runes only the long s and the
  Kelvin sign fold to an ASCII letter, the rest cannot make a name equal to one in ASCII.
\<close>

definition fold_ASCII :: "char \<Rightarrow> char" where
  "fold_ASCII c = (if in_range 0x61 0x7A c then chr (byte c - 0x20) else c)"

fun fold_name :: "string \<Rightarrow> string" where
  "fold_name (c # d # e # s) =
     (if [c, d, e] = [CHR 0xE2, CHR 0x84, CHR 0xAA] then CHR ''K'' # fold_name s
      else if [c, d] = [CHR 0xC5, CHR 0xBF] then CHR ''S'' # fold_name (e # s)
      else fold_ASCII c # fold_name (d # e # s))"
| "fold_name [c, d] = (if [c, d] = [CHR 0xC5, CHR 0xBF] then [CHR ''S''] else [fold_ASCII c, fold_ASCII d])"
| "fold_name [c] = [fold_ASCII c]"
| "fold_name [] = []"

definition field_for :: "string list \<Rightarrow> string \<Rightarrow> string option" where
  "field_for fields key =
     (if List.member fields key then Some key
      else List.find (\<lambda>f. fold_name f = fold_name key) fields)"

fun into_fields :: "string list \<Rightarrow> (string \<Rightarrow> jnode \<Rightarrow> 'a \<Rightarrow> 'a option) \<Rightarrow>
    (string \<times> jnode) list \<Rightarrow> 'a \<Rightarrow> 'a option" where
  "into_fields fields set_field [] x = Some x"
| "into_fields fields set_field ((k, v) # ms) x =
     (case field_for fields (key_text k) of
        None \<Rightarrow> into_fields fields set_field ms x
      | Some f \<Rightarrow>
         (case set_field f v x of
            None \<Rightarrow> None
          | Some y \<Rightarrow> into_fields fields set_field ms y))"

definition into_struct :: "string list \<Rightarrow> (string \<Rightarrow> jnode \<Rightarrow> 'a \<Rightarrow> 'a option) \<Rightarrow> jnode \<Rightarrow> 'a \<Rightarrow> 'a option" where
  "into_struct fields set_field n x = (case jval n of
     JObj ms \<Rightarrow> into_fields fields set_field ms x
   | JNull \<Rightarrow> Some x
   | _ \<Rightarrow> None)"

section \<open>Reading objects of strings\<close>

lemma skip_ws_self [simp]: "\<not> json_space c \<Longrightarrow> skip_ws (c # s) = c # s"
  by (simp add: skip_ws_def)

lemma not_space [simp]: "\<not> json_space dquote" "\<not> json_space (CHR '','')" "\<not> json_space (CHR '':'')"
  "\<not> json_space (CHR ''}'')" "\<not> json_space (CHR ''{'')" "\<not> json_space (CHR ''['')" "\<not> json_space (CHR '']'')"
  by (simp_all add: json_space_def)

lemma scan_string_length: "scan_string s = Some (raw, t) \<Longrightarrow> length t < length s"
proof (induction s arbitrary: raw t rule: scan_string.induct)
  case (2 c s)
  then show ?case by (fastforce split: if_splits list.splits)
qed simp

lemma parse_value_string:
  "scan_string s = Some (raw, t) \<Longrightarrow>
     parse_value d (dquote # s) = Some (JNode (take (length (dquote # s) - length t) (dquote # s)) (JStr raw), t)"
  by (simp add: parse_value.simps [of _ "dquote # s"] node_def)

text \<open>A member whose value is a string, followed by a comma or the end of the object.\<close>

lemma parse_member:
  assumes "scan_string s = Some (key, CHR '':'' # dquote # v)" "scan_string v = Some (raw, b # t)"
    and "\<not> json_space b"
  shows "\<exists>x. parse_members d (dquote # s) =
     (if b = CHR ''}'' then Some ([(key, JNode x (JStr raw))], t)
      else if b = CHR '','' then map_option (\<lambda>(ms, rest). ((key, JNode x (JStr raw)) # ms, rest))
             (parse_members d (skip_ws t))
      else None)"
proof -
  from scan_string_length [OF assms(1)] scan_string_length [OF assms(2)] skip_ws_length [of t]
  have "length (skip_ws t) < length (dquote # s)" "length (dquote # v) < length (dquote # s)" by auto
  then show ?thesis
    using assms parse_value_string [OF assms(2)]
    by (auto simp: parse_members.simps [of _ "dquote # s"])
qed

end
