(* ===== verification/Rfc3339.thy ===== *)
theory Rfc3339
  imports Utf8
begin

text \<open>
  Package \<open>time\<close> as the state file uses it: \<open>MarshalJSON\<close> writes a \<open>time.Time\<close> in the
  RFC 3339 layout with the shortest fraction of a second, and \<open>UnmarshalJSON\<close> reads the
  layout back the way \<open>time.Parse\<close> does. Dates are proleptic Gregorian.
\<close>

section \<open>The calendar\<close>

definition leap :: "int \<Rightarrow> bool" where
  "leap y \<longleftrightarrow> y mod 4 = 0 \<and> (y mod 100 \<noteq> 0 \<or> y mod 400 = 0)"

text \<open>The days from January 1 of year 0 to January 1 of year \<open>y\<close>.\<close>

definition days_before :: "int \<Rightarrow> int" where
  "days_before y = 365 * y + (y + 3) div 4 - (y + 99) div 100 + (y + 399) div 400"

definition month_lengths :: "int \<Rightarrow> nat list" where
  "month_lengths y = [31, if leap y then 29 else 28, 31, 30, 31, 30, 31, 31, 30, 31, 30, 31]"

text \<open>The year of a day: a first guess from the mean year length, which is off by one at most.\<close>

definition year_of :: "int \<Rightarrow> int" where
  "year_of d = (let y = 400 * d div 146097 in
     if d < days_before y then y - 1 else if d \<ge> days_before (y + 1) then y + 1 else y)"

fun split_month :: "nat list \<Rightarrow> nat \<Rightarrow> nat \<times> nat" where
  "split_month [] n = (0, n)"
| "split_month (l # ls) n =
     (if n < l then (0, n) else (case split_month ls (n - l) of (m, d) \<Rightarrow> (Suc m, d)))"

text \<open>Year, month (1 to 12) and day of the month, from the days since January 1 of year 0.\<close>

definition civil :: "int \<Rightarrow> int \<times> nat \<times> nat" where
  "civil d = (let y = year_of d in
     case split_month (month_lengths y) (nat (d - days_before y)) of (m, k) \<Rightarrow> (y, Suc m, Suc k))"

definition days_of_civil :: "int \<Rightarrow> nat \<Rightarrow> nat \<Rightarrow> int" where
  "days_of_civil y m d = days_before y + int (sum_list (take (m - 1) (month_lengths y))) + int d - 1"

text \<open>Days from January 1 of year 0 to the Unix epoch.\<close>

definition epoch_days :: int where
  "epoch_days = 719528"

lemma days_before_bounds:
  "146097 * y - 396 \<le> 400 * days_before y" "400 * days_before y \<le> 146097 * y + 699"
proof -
  define A B C where "A = (y + 3) div 4" and "B = (y + 99) div 100" and "C = (y + 399) div 400"
  then have "4 * A \<le> y + 3" "y \<le> 4 * A" "100 * B \<le> y + 99" "y \<le> 100 * B"
    "400 * C \<le> y + 399" "y \<le> 400 * C"
    by linarith+
  moreover have "days_before y = 365 * y + A - B + C"
    by (simp add: days_before_def A_def B_def C_def)
  ultimately show "146097 * y - 396 \<le> 400 * days_before y"
    "400 * days_before y \<le> 146097 * y + 699"
    by simp_all
qed

lemma div_next:
  fixes x b :: int
  assumes "0 < b"
  shows "(x + 1) div b = x div b + (if (x + 1) mod b = 0 then 1 else 0)"
proof -
  have "x = b * (x div b) + x mod b" by simp
  moreover have "0 \<le> x mod b" "x mod b < b" using assms by auto
  ultimately consider "(x mod b) + 1 = b" "x + 1 = b * (x div b + 1)"
    | "x mod b + 1 < b" "x + 1 = b * (x div b) + (x mod b + 1)"
    by (cases "x mod b + 1 = b") (auto simp: distrib_left)
  then show ?thesis
  proof cases
    case 1
    then have "(x + 1) div b = x div b + 1" "(x + 1) mod b = 0"
      using assms by (metis nonzero_mult_div_cancel_left less_irrefl, metis mod_mult_self1_is_0)
    then show ?thesis by simp
  next
    case 2
    then have "(x + 1) div b = x div b" "(x + 1) mod b = x mod b + 1"
      using assms \<open>0 \<le> x mod b\<close>
      by (metis add.commute int_div_pos_eq less_add_one order_less_imp_le order_trans add_nonneg_nonneg zero_le_one,
          metis add.commute int_mod_pos_eq add_nonneg_nonneg zero_le_one)
    with \<open>0 \<le> x mod b\<close> show ?thesis by simp
  qed
qed

lemma div_shift:
  fixes y b :: int
  assumes "0 < b"
  shows "(y + b) div b = (y + (b - 1)) div b + (if y mod b = 0 then 1 else 0)"
proof -
  have "y + (b - 1) + 1 = y + b" by simp
  with div_next [OF assms, of "y + (b - 1)"] show ?thesis by simp
qed

lemma year_length: "days_before (y + 1) = days_before y + (if leap y then 366 else 365)"
proof -
  obtain A B C where A: "(y + 3) div 4 = A" and B: "(y + 99) div 100 = B" and C: "(y + 399) div 400 = C"
    by blast
  have e: "(4::int) - 1 = 3" "(100::int) - 1 = 99" "(400::int) - 1 = 399"
    "y + 1 + 3 = y + 4" "y + 1 + 99 = y + 100" "y + 1 + 399 = y + 400"
    by simp_all
  have s: "(y + 4) div 4 = A + (if y mod 4 = 0 then 1 else 0)"
    "(y + 100) div 100 = B + (if y mod 100 = 0 then 1 else 0)"
    "(y + 400) div 400 = C + (if y mod 400 = 0 then 1 else 0)"
    unfolding A [symmetric] B [symmetric] C [symmetric]
    using div_shift [of 4 y] div_shift [of 100 y] div_shift [of 400 y] unfolding e
    by (simp_all only: zero_less_numeral simp_thms)
  have m: "y mod 100 = 0 \<Longrightarrow> y mod 4 = 0" "y mod 400 = 0 \<Longrightarrow> y mod 100 = 0"
    using dvd_trans [of 4 100 y] dvd_trans [of 100 400 y] by (simp_all add: dvd_eq_mod_eq_0)
  show ?thesis
    unfolding days_before_def e s A B C leap_def
    using m by (cases "y mod 4 = 0"; cases "y mod 100 = 0"; cases "y mod 400 = 0") simp_all
qed

lemma year_of:
  "days_before (year_of d) \<le> d" "d < days_before (year_of d + 1)"
proof -
  define y where "y = 400 * d div 146097"
  have y: "146097 * y \<le> 400 * d" "400 * d < 146097 * (y + 1)"
    using div_mult_mod_eq [of "400 * d" 146097] pos_mod_bound [of 146097 "400 * d"]
      pos_mod_sign [of 146097 "400 * d"]
    by (simp_all add: y_def algebra_simps)
  have b: "days_before y \<le> d + 1" "d \<le> days_before (y + 1)"
    using y days_before_bounds [of y] days_before_bounds [of "y + 1"] by linarith+
  have c: "days_before (y - 1) + 365 \<le> days_before y" "days_before (y + 1) + 365 \<le> days_before (y + 1 + 1)"
    using year_length [of "y - 1"] year_length [of "y + 1"] by (auto split: if_splits)
  show "days_before (year_of d) \<le> d" "d < days_before (year_of d + 1)"
    using b c unfolding year_of_def y_def [symmetric] Let_def by auto
qed

lemma split_month:
  assumes "split_month ls n = (m, d)" "n < sum_list ls"
  shows "m < length ls \<and> d < ls ! m \<and> sum_list (take m ls) + d = n"
  using assms
proof (induction ls n arbitrary: m d rule: split_month.induct)
  case (2 l ls n)
  show ?case
  proof (cases "n < l")
    case True
    with 2 show ?thesis by auto
  next
    case False
    with "2.prems" obtain m' where s: "split_month ls (n - l) = (m', d)" "m = Suc m'"
      by (auto split: prod.splits)
    from False "2.prems"(2) have "n - l < sum_list ls" by auto
    from "2.IH" [OF False s(1) this] False s(2) show ?thesis by auto
  qed
qed simp

lemma month_lengths_sum: "sum_list (month_lengths y) = (if leap y then 366 else 365)"
  by (simp add: month_lengths_def)

lemma length_month_lengths [simp]: "length (month_lengths y) = 12"
  by (simp add: month_lengths_def)

text \<open>The date of a day is a date of the calendar, and the day is the one of that date.\<close>

lemma civil:
  assumes "civil d = (y, m, k)"
  shows "y = year_of d" "1 \<le> m" "m \<le> 12" "1 \<le> k" "k \<le> month_lengths y ! (m - 1)"
    "days_of_civil y m k = d"
proof -
  obtain m' k' where s: "split_month (month_lengths (year_of d)) (nat (d - days_before (year_of d))) = (m', k')"
    by (cases "split_month (month_lengths (year_of d)) (nat (d - days_before (year_of d)))") auto
  have "nat (d - days_before (year_of d)) < sum_list (month_lengths (year_of d))"
    using year_of [of d] year_length [of "year_of d"] by (auto simp: month_lengths_sum split: if_splits)
  from split_month [OF s this]
  show "y = year_of d" "1 \<le> m" "m \<le> 12" "1 \<le> k" "k \<le> month_lengths y ! (m - 1)"
    "days_of_civil y m k = d"
    using assms s year_of(1) [of d] by (auto simp: civil_def Let_def days_of_civil_def)
qed

lemma month_length_bound: "m < 12 \<Longrightarrow> month_lengths y ! m \<le> 31"
  by (auto simp: month_lengths_def less_Suc_eq numeral_eq_Suc)

section \<open>Numbers\<close>

text \<open>\<open>appendInt\<close> with a width, for the values that fit in it.\<close>

definition digit_char :: "nat \<Rightarrow> char" where
  "digit_char n = chr (0x30 + n)"

fun pad :: "nat \<Rightarrow> nat \<Rightarrow> string" where
  "pad 0 n = []"
| "pad (Suc w) n = pad w (n div 10) @ [digit_char (n mod 10)]"

definition digit :: "char \<Rightarrow> bool" where
  "digit c \<longleftrightarrow> in_range 0x30 0x39 c"

definition digit_value :: "char \<Rightarrow> nat" where
  "digit_value c = byte c - 0x30"

definition number_value :: "string \<Rightarrow> nat" where
  "number_value s = fold (\<lambda>c n. 10 * n + digit_value c) s 0"

lemma digit_char: "n < 10 \<Longrightarrow> digit (digit_char n) \<and> digit_value (digit_char n) = n"
  by (simp add: digit_char_def digit_def digit_value_def in_range_def)

lemma number_value_snoc [simp]: "number_value (s @ [c]) = 10 * number_value s + digit_value c"
  by (simp add: number_value_def)

lemma number_value_Nil [simp]: "number_value [] = 0"
  by (simp add: number_value_def)

lemma length_pad [simp]: "length (pad w n) = w"
  by (induction w arbitrary: n) auto

lemma pad_digits: "list_all digit (pad w n)"
  by (induction w arbitrary: n) (auto simp: digit_char)

lemma pad_value: "n < 10 ^ w \<Longrightarrow> number_value (pad w n) = n"
proof (induction w arbitrary: n)
  case (Suc w)
  then have "n div 10 < 10 ^ w" by auto
  with Suc show ?case by (simp add: digit_char)
qed simp

section \<open>Writing a time\<close>

definition zone_offset :: "zone \<Rightarrow> int" where
  "zone_offset z = (case z of UTCZone \<Rightarrow> 0 | FixedZone off \<Rightarrow> off)"

definition trim_zeros :: "string \<Rightarrow> string" where
  "trim_zeros s = rev (dropWhile (\<lambda>c. c = CHR ''0'') (rev s))"

definition format_fraction :: "nat \<Rightarrow> string" where
  "format_fraction ns = (if ns = 0 then [] else CHR ''.'' # trim_zeros (pad 9 ns))"

text \<open>The offset is written in whole minutes; an hour above 23 is an error.\<close>

definition format_zone :: "int \<Rightarrow> string option" where
  "format_zone off =
     (if off = 0 then Some ''Z''
      else (let minutes = nat (\<bar>off\<bar> div 60) in
        if minutes div 60 \<ge> 24 then None
        else Some ((if off < 0 \<and> minutes > 0 then CHR ''-'' else CHR ''+'')
           # pad 2 (minutes div 60) @ CHR '':'' # pad 2 (minutes mod 60))))"

text \<open>\<open>Time.MarshalJSON\<close>, without the quotes; \<open>None\<close> is its error.\<close>

definition format_time :: "gotime \<Rightarrow> string option" where
  "format_time t =
     (let off = zone_offset (t_zone t);
          secs = t_instant t div 1000000000 + off;
          ns = nat (t_instant t mod 1000000000);
          sod = nat (secs mod 86400)
      in case civil (secs div 86400 + epoch_days) of (y, m, d) \<Rightarrow>
        (if y < 0 \<or> y > 9999 then None
         else map_option (\<lambda>z.
            pad 4 (nat y) @ CHR ''-'' # pad 2 m @ CHR ''-'' # pad 2 d @ CHR ''T''
            # pad 2 (sod div 3600) @ CHR '':'' # pad 2 (sod div 60 mod 60) @ CHR '':''
            # pad 2 (sod mod 60) @ format_fraction ns @ z) (format_zone off)))"

section \<open>Reading a time\<close>

definition getnum :: "bool \<Rightarrow> string \<Rightarrow> (nat \<times> string) option" where
  "getnum fixed s = (case s of
     [] \<Rightarrow> None
   | c # t \<Rightarrow> if \<not> digit c then None else
      (case t of
         [] \<Rightarrow> if fixed then None else Some (digit_value c, t)
       | d # u \<Rightarrow>
          (if digit d then Some (10 * digit_value c + digit_value d, u)
           else if fixed then None else Some (digit_value c, t))))"

text \<open>A number of two digits (or one) in a range, and a literal character.\<close>

definition getnum_in :: "bool \<Rightarrow> nat \<Rightarrow> nat \<Rightarrow> string \<Rightarrow> (nat \<times> string) option" where
  "getnum_in fixed lo hi s = (case getnum fixed s of
     None \<Rightarrow> None | Some (n, t) \<Rightarrow> if lo \<le> n \<and> n \<le> hi then Some (n, t) else None)"

definition expect :: "char \<Rightarrow> string \<Rightarrow> string option" where
  "expect c s = (case s of [] \<Rightarrow> None | d # t \<Rightarrow> if c = d then Some t else None)"

text \<open>\<open>parseNanoseconds\<close>: digits after the ninth are dropped.\<close>

definition fraction_ns :: "string \<Rightarrow> nat" where
  "fraction_ns ds = number_value (take 9 ds) * 10 ^ (9 - min 9 (length ds))"

definition parse_fraction :: "string \<Rightarrow> nat \<times> string" where
  "parse_fraction s = (case s of
     c # d # t \<Rightarrow>
       (if (c = CHR ''.'' \<or> c = CHR '','') \<and> digit d
        then (fraction_ns (takeWhile digit (d # t)), dropWhile digit (d # t)) else (0, s))
   | _ \<Rightarrow> (0, s))"

text \<open>The zone ends the text.\<close>

definition parse_zone :: "string \<Rightarrow> zone option" where
  "parse_zone s =
     (if s = ''Z'' then Some UTCZone
      else case s of
        [pm, a, b, k, c, d] \<Rightarrow>
          (if k \<noteq> CHR '':'' then None else
           case (getnum_in True 0 24 [a, b], getnum_in True 0 60 [c, d]) of
             (Some (hr, _), Some (mm, _)) \<Rightarrow>
               (let off = int ((hr * 60 + mm) * 60) in
                if pm = CHR ''+'' then Some (FixedZone off)
                else if pm = CHR ''-'' then Some (FixedZone (- off)) else None)
           | _ \<Rightarrow> None)
      | _ \<Rightarrow> None)"

definition make_time :: "nat \<Rightarrow> nat \<Rightarrow> nat \<Rightarrow> nat \<Rightarrow> nat \<Rightarrow> nat \<Rightarrow> nat \<Rightarrow> zone \<Rightarrow> gotime" where
  "make_time y m d hh mi ss ns z = GoTime
     (((days_of_civil (int y) m d - epoch_days) * 86400 + int (hh * 3600 + mi * 60 + ss)
       - zone_offset z) * 1000000000 + int ns) z"

text \<open>
  \<open>time.Parse(time.RFC3339, s)\<close>: the hour may have one digit, the fraction may start with a
  comma, and offsets up to 24 hours and 60 minutes are let through, as the library does.
\<close>

definition parse_time :: "string \<Rightarrow> gotime option" where
  "parse_time s0 =
     (if length s0 < 4 \<or> \<not> list_all digit (take 4 s0) then None else
      Option.bind (expect (CHR ''-'') (drop 4 s0)) (\<lambda>s.
      Option.bind (getnum_in True 1 12 s) (\<lambda>(m, s).
      Option.bind (expect (CHR ''-'') s) (\<lambda>s.
      Option.bind (getnum True s) (\<lambda>(d, s).
      Option.bind (expect (CHR ''T'') s) (\<lambda>s.
      Option.bind (getnum_in False 0 23 s) (\<lambda>(hh, s).
      Option.bind (expect (CHR '':'') s) (\<lambda>s.
      Option.bind (getnum_in True 0 59 s) (\<lambda>(mi, s).
      Option.bind (expect (CHR '':'') s) (\<lambda>s.
      Option.bind (getnum_in True 0 59 s) (\<lambda>(ss, s).
      (case parse_fraction s of (ns, s) \<Rightarrow>
      Option.bind (parse_zone s) (\<lambda>z.
        let y = number_value (take 4 s0)
        in if d < 1 \<or> month_lengths (int y) ! (m - 1) < d then None
           else Some (make_time y m d hh mi ss ns z))))))))))))))"

section \<open>Writing and reading back\<close>

text \<open>A zone the layout shows exactly: UTC, or a whole number of minutes other than zero.\<close>

definition zone_exact :: "zone \<Rightarrow> bool" where
  "zone_exact z = (case z of UTCZone \<Rightarrow> True | FixedZone off \<Rightarrow> off \<noteq> 0 \<and> off mod 60 = 0)"

lemma pad2: "pad 2 n = [digit_char (n div 10 mod 10), digit_char (n mod 10)]"
  by (simp add: numeral_2_eq_2)

lemma digit_chars [simp]: "digit (digit_char (n mod 10))" "digit_value (digit_char (n mod 10)) = n mod 10"
  using digit_char [of "n mod 10"] by simp_all

lemma getnum_pad2: "n < 100 \<Longrightarrow> getnum fixed (pad 2 n @ s) = Some (n, s)"
  using digit_char [of "n div 10"] by (simp add: getnum_def pad2)

lemma getnum_in_pad2: "n < 100 \<Longrightarrow> lo \<le> n \<Longrightarrow> n \<le> hi \<Longrightarrow> getnum_in fixed lo hi (pad 2 n @ s) = Some (n, s)"
  by (simp add: getnum_in_def getnum_pad2)

lemma expect_Cons [simp]: "expect c (c # s) = Some s"
  by (simp add: expect_def)

lemma zero_value [simp]: "digit_value (CHR ''0'') = 0" "digit (CHR ''0'')"
  by (simp_all add: digit_value_def digit_def in_range_def byte_def)

lemma number_value_zeros: "number_value (s @ replicate k (CHR ''0'')) = number_value s * 10 ^ k"
proof (induction k)
  case (Suc k)
  have "s @ replicate (Suc k) (CHR ''0'') = (s @ replicate k (CHR ''0'')) @ [CHR ''0'']"
    by (simp add: replicate_append_same)
  then show ?case using Suc by (simp only: number_value_snoc) simp
qed simp

lemma trim_zeros: "\<exists>k. s = trim_zeros s @ replicate k (CHR ''0'') \<and> length s = length (trim_zeros s) + k"
proof -
  let ?t = "takeWhile (\<lambda>c. c = CHR ''0'') (rev s)"
  have "s = rev (?t @ dropWhile (\<lambda>c. c = CHR ''0'') (rev s))" by simp
  then have s: "s = trim_zeros s @ rev ?t" by (simp add: trim_zeros_def del: takeWhile_dropWhile_id)
  have "\<forall>c \<in> set ?t. c = CHR ''0''" by (auto dest: set_takeWhileD)
  then have "?t = replicate (length ?t) (CHR ''0'')" by (simp add: replicate_length_same)
  then have "rev ?t = replicate (length ?t) (CHR ''0'')" by (metis rev_replicate)
  with s have "s = trim_zeros s @ replicate (length ?t) (CHR ''0'')" by simp
  then show ?thesis by (metis length_append length_replicate)
qed

lemma trim_fraction:
  assumes "0 < n" "n < 10 ^ 9"
  shows "fraction_ns (trim_zeros (pad 9 n)) = n" "trim_zeros (pad 9 n) \<noteq> []"
    "list_all digit (trim_zeros (pad 9 n))"
proof -
  obtain k where k: "pad 9 n = trim_zeros (pad 9 n) @ replicate k (CHR ''0'')"
    "9 = length (trim_zeros (pad 9 n)) + k"
    using trim_zeros [of "pad 9 n"] by auto
  have "n = number_value (pad 9 n)" using assms by (simp add: pad_value)
  also have "\<dots> = number_value (trim_zeros (pad 9 n)) * 10 ^ k"
    by (subst k(1)) (rule number_value_zeros)
  finally have n: "n = number_value (trim_zeros (pad 9 n)) * 10 ^ k" .
  have "take 9 (trim_zeros (pad 9 n)) = trim_zeros (pad 9 n)" "9 - min 9 (length (trim_zeros (pad 9 n))) = k"
    using k(2) by simp_all
  with n show "fraction_ns (trim_zeros (pad 9 n)) = n" by (simp add: fraction_ns_def)
  show "trim_zeros (pad 9 n) \<noteq> []" using n assms(1) by auto
  show "list_all digit (trim_zeros (pad 9 n))"
    using pad_digits [of 9 n] by (subst (asm) k(1)) simp
qed

lemma parse_fraction_format:
  assumes "n < 10 ^ 9" "s = z # t" "\<not> digit z" "z \<noteq> CHR ''.''" "z \<noteq> CHR '',''"
  shows "parse_fraction (format_fraction n @ s) = (n, s)"
proof (cases "n = 0")
  case True
  with assms show ?thesis by (auto simp: format_fraction_def parse_fraction_def split: list.split)
next
  case False
  with assms(1) have f: "fraction_ns (trim_zeros (pad 9 n)) = n" "trim_zeros (pad 9 n) \<noteq> []"
    "list_all digit (trim_zeros (pad 9 n))" using trim_fraction by auto
  then obtain d ds where d: "trim_zeros (pad 9 n) = d # ds" by (cases "trim_zeros (pad 9 n)") auto
  have "takeWhile digit ((d # ds) @ s) = d # ds" "dropWhile digit ((d # ds) @ s) = s"
    using f(3) d assms(2,3) by (simp_all add: list_all_iff)
  with False f d show ?thesis by (simp add: format_fraction_def parse_fraction_def)
qed

lemma parse_zone_pad:
  assumes "hr \<le> 24" "mm \<le> 60"
  shows "parse_zone ((if neg then CHR ''-'' else CHR ''+'') # pad 2 hr @ CHR '':'' # pad 2 mm) =
     Some (FixedZone (if neg then - int ((hr * 60 + mm) * 60) else int ((hr * 60 + mm) * 60)))"
  using getnum_in_pad2 [of hr 0 24 True "[]"] getnum_in_pad2 [of mm 0 60 True "[]"] assms
  by (simp add: pad2 parse_zone_def Let_def)

text \<open>The written zone starts with neither a digit nor a fraction mark and is read back.\<close>

lemma format_zone_read:
  assumes "format_zone (zone_offset z) = Some s" "zone_exact z"
  shows "parse_zone s = Some z" "\<exists>c t. s = c # t \<and> \<not> digit c \<and> c \<noteq> CHR ''.'' \<and> c \<noteq> CHR '',''"
proof -
  have nd: "\<not> digit (CHR ''Z'')" "\<not> digit (CHR ''+'')" "\<not> digit (CHR ''-'')"
    by (simp_all add: digit_def in_range_def byte_def)
  show "\<exists>c t. s = c # t \<and> \<not> digit c \<and> c \<noteq> CHR ''.'' \<and> c \<noteq> CHR '',''"
    using assms(1) nd by (auto simp: format_zone_def Let_def split: if_splits)
  show "parse_zone s = Some z"
  proof (cases z)
    case UTCZone
    with assms(1) show ?thesis by (simp add: zone_offset_def format_zone_def parse_zone_def)
  next
    case (FixedZone off)
    define minutes where "minutes = nat (\<bar>off\<bar> div 60)"
    from assms FixedZone have off: "off \<noteq> 0" "off mod 60 = 0" by (auto simp: zone_exact_def)
    then have "60 * (\<bar>off\<bar> div 60) = \<bar>off\<bar>" by (metis abs_minus_cancel dvd_abs_iff dvd_eq_mod_eq_0 dvd_mult_div_cancel)
    then have m: "int (minutes * 60) = \<bar>off\<bar>"
    by (simp add: minutes_def pos_imp_zdiv_nonneg_iff)
    then have pos: "minutes > 0" using off(1) by (cases minutes) auto
    from assms(1) FixedZone off pos have h: "minutes div 60 < 24"
      and s: "s = (if off < 0 then CHR ''-'' else CHR ''+'')
           # pad 2 (minutes div 60) @ CHR '':'' # pad 2 (minutes mod 60)"
      by (auto simp: zone_offset_def format_zone_def Let_def minutes_def [symmetric] split: if_splits)
    have "off = (if off < 0 then - \<bar>off\<bar> else \<bar>off\<bar>)" by simp
    moreover have "int ((minutes div 60 * 60 + minutes mod 60) * 60) = \<bar>off\<bar>"
      using m by (simp only: div_mult_mod_eq)
    ultimately show ?thesis
      using parse_zone_pad [of "minutes div 60" "minutes mod 60" "off < 0"] h unfolding s FixedZone
      by simp
  qed
qed

text \<open>A time that can be written in an exact zone is read back as it was.\<close>

lemma format_parse_time:
  assumes "format_time t = Some s" "zone_exact (t_zone t)"
  shows "parse_time s = Some t"
proof -
  define off where "off = zone_offset (t_zone t)"
  define secs where "secs = t_instant t div 1000000000 + off"
  define ns where "ns = nat (t_instant t mod 1000000000)"
  define sod where "sod = nat (secs mod 86400)"
  obtain y m d where c: "civil (secs div 86400 + epoch_days) = (y, m, d)"
    by (cases "civil (secs div 86400 + epoch_days)") auto
  from assms(1) obtain z where y: "0 \<le> y" "y \<le> 9999" and z: "format_zone off = Some z"
    and s: "s = pad 4 (nat y) @ CHR ''-'' # pad 2 m @ CHR ''-'' # pad 2 d @ CHR ''T''
       # pad 2 (sod div 3600) @ CHR '':'' # pad 2 (sod div 60 mod 60) @ CHR '':''
       # pad 2 (sod mod 60) @ format_fraction ns @ z"
    by (auto simp: format_time_def Let_def off_def [symmetric] secs_def [symmetric] ns_def [symmetric]
        sod_def [symmetric] c split: if_splits)
  from civil [OF c] have md: "1 \<le> m" "m \<le> 12" "1 \<le> d" "d \<le> month_lengths y ! (m - 1)"
    and days: "days_of_civil y m d = secs div 86400 + epoch_days" by auto
  have "m - 1 < 12" using md by auto
  from month_length_bound [OF this, of y] md(4) have d31: "d \<le> 31" by linarith
  have sod: "sod < 86400" by (simp add: sod_def nat_less_iff)
  have "sod div 3600 = sod div 60 div 60" by (simp add: div_mult2_eq [of sod 60 60, simplified])
  with sod have hms: "sod div 3600 \<le> 23" "sod div 60 mod 60 \<le> 59" "sod mod 60 \<le> 59"
    "sod div 3600 * 3600 + sod div 60 mod 60 * 60 + sod mod 60 = sod"
    using div_mult_mod_eq [of sod 60] div_mult_mod_eq [of "sod div 60" 60] by linarith+
  have ns: "ns < 10 ^ 9" by (simp add: ns_def nat_less_iff)
  have val: "number_value (pad 4 (nat y)) = nat y" using y by (intro pad_value) simp
  have zone: "parse_zone z = Some (t_zone t)" and fr: "parse_fraction (format_fraction ns @ z) = (ns, z)"
    using format_zone_read [of "t_zone t" z] z assms(2) parse_fraction_format [OF ns] off_def by auto
  have "make_time (nat y) m d (sod div 3600) (sod div 60 mod 60) (sod mod 60) ns (t_zone t) = t"
  proof -
    have "int (nat y) = y" using y by simp
    moreover have "(secs div 86400) * 86400 + int sod = secs" by (simp add: sod_def)
    moreover have "(secs - off) * 1000000000 + int ns = t_instant t"
      by (simp add: secs_def ns_def)
    ultimately show ?thesis
      using hms(4) days off_def by (simp add: make_time_def)
  qed
  with md d31 hms y fr zone val show ?thesis
    unfolding s parse_time_def
    by (simp add: getnum_in_pad2 getnum_pad2 pad_digits del: of_nat_add)
qed

end
