(* ===== verification/StateCodec.thy ===== *)
theory StateCodec
  imports JsonDecode Rfc3339 Wire
begin

text \<open>
  The JSON text of a \<open>state.State\<close>: what \<open>json.Marshal\<close> writes for the struct and what
  \<open>json.Unmarshal\<close> makes of a state file, and that a written state is read back.
\<close>

definition state_fields :: "string list" where
  "state_fields = [''target'', ''applied_uuid'', ''applied_at'']"

text \<open>\<open>Time.UnmarshalJSON\<close>: null is no time and changes nothing; other values must be strings.\<close>

definition into_time :: "jnode \<Rightarrow> gotime \<Rightarrow> gotime option" where
  "into_time n cur = (case jval n of JNull \<Rightarrow> Some cur | JStr raw \<Rightarrow> parse_time raw | _ \<Rightarrow> None)"

definition set_state_field :: "string \<Rightarrow> jnode \<Rightarrow> State \<Rightarrow> State option" where
  "set_state_field f n st =
     (if f = ''target'' then map_option (\<lambda>v. st\<lparr>st_Target := v\<rparr>) (into_string n (st_Target st))
      else if f = ''applied_uuid'' then map_option (\<lambda>v. st\<lparr>st_AppliedUUID := v\<rparr>) (into_string n (st_AppliedUUID st))
      else map_option (\<lambda>v. st\<lparr>st_AppliedAt := v\<rparr>) (into_time n (st_AppliedAt st)))"

definition unmarshal_State :: "string \<Rightarrow> State option" where
  "unmarshal_State data =
     Option.bind (json_parse data) (\<lambda>n. into_struct state_fields set_state_field n empty_State)"

text \<open>Marshalling fails on a time outside the years 0 to 9999 only.\<close>

definition marshal_State :: "State \<Rightarrow> string option" where
  "marshal_State st = map_option (\<lambda>t.
     ''{'' @ quote ''target'' @ '':'' @ quote (st_Target st) @ '',''
      @ quote ''applied_uuid'' @ '':'' @ quote (st_AppliedUUID st) @ '',''
      @ quote ''applied_at'' @ '':'' @ [dquote] @ t @ [dquote] @ ''}'') (format_time (st_AppliedAt st))"

text \<open>The states a state file represents exactly.\<close>

definition state_exact :: "State \<Rightarrow> bool" where
  "state_exact st \<longleftrightarrow> valid_utf8 (st_Target st) \<and> valid_utf8 (st_AppliedUUID st)
     \<and> zone_exact (t_zone (st_AppliedAt st))"

section \<open>The round trip\<close>

definition time_char :: "char \<Rightarrow> bool" where
  "time_char c \<longleftrightarrow> digit c \<or> List.member ''-:T.Z+'' c"

lemma digits_time: "list_all digit s \<Longrightarrow> list_all time_char s"
  by (simp add: list_all_iff time_char_def)

lemma time_chars:
  "time_char (CHR ''-'')" "time_char (CHR '':'')" "time_char (CHR ''T'')" "time_char (CHR ''.'')"
  "time_char (CHR ''Z'')" "time_char (CHR ''+'')"
  by (simp_all add: time_char_def)

lemma format_fraction_chars: "n < 10 ^ 9 \<Longrightarrow> list_all time_char (format_fraction n)"
  using trim_fraction(3) [of n] by (simp add: format_fraction_def time_chars digits_time)

lemma format_time_chars:
  assumes "format_time t = Some s"
  shows "list_all time_char s"
proof -
  have ns: "nat (t_instant t mod 1000000000) < 10 ^ 9" by (simp add: nat_less_iff)
  have z: "list_all time_char z" if "format_zone off = Some z" for off z
    using that by (auto simp: format_zone_def Let_def time_chars digits_time pad_digits split: if_splits)
  from assms show ?thesis
    by (auto simp: format_time_def Let_def time_chars digits_time pad_digits format_fraction_chars [OF ns]
        dest!: z split: if_splits prod.splits)
qed

lemma scan_time:
  assumes "list_all time_char s"
  shows "scan_string (s @ dquote # t) = Some (s, t)"
  using assms
proof (induction s)
  case (Cons c s)
  have "c \<noteq> dquote" "c \<noteq> backslash" "\<not> byte c < 0x20"
    using Cons.prems by (auto simp: time_char_def digit_def in_range_def byte_def)
  with Cons show ?case by simp
qed simp

lemma scan_quote: "scan_string (quote_body s @ dquote # t) = Some (quote_body s, t)"
  using quote_body_read by blast

lemma unquote_quote: "valid_utf8 s \<Longrightarrow> unquote_body (quote_body s) = Some s"
  using quote_body_read [of s] by (simp add: coerce_valid)

text \<open>The names of the fields stand in the text as they are.\<close>

lemma quote_body_safe: "list_all (\<lambda>c. byte c < 0x80 \<and> html_safe c) s \<Longrightarrow> quote_body s = s"
  by (induction s) (simp_all add: quote_body.simps [of "_ # _"] quote_body.simps [of "[]"])

lemma valid_ASCII_key: "list_all (\<lambda>c. byte c < 0x80 \<and> html_safe c) s \<Longrightarrow> key_text (quote_body s) = s"
  by (simp add: key_text_def unquote_quote valid_utf8_ASCII list_all_iff)

lemma state_field_names:
  "list_all (\<lambda>c. byte c < 0x80 \<and> html_safe c) ''target''"
  "list_all (\<lambda>c. byte c < 0x80 \<and> html_safe c) ''applied_uuid''"
  "list_all (\<lambda>c. byte c < 0x80 \<and> html_safe c) ''applied_at''"
  by (simp_all add: byte_def html_safe_def)

lemma read_member:
  assumes "scan_string v = Some (raw, CHR '','' # dquote # t)"
    and "parse_members d (dquote # t) = Some (ms, rest)"
  shows "\<exists>x. parse_members d (dquote # quote_body k @ dquote # CHR '':'' # dquote # v) =
     Some ((quote_body k, JNode x (JStr raw)) # ms, rest)"
  using parse_member [where d = d and s = "quote_body k @ dquote # CHR '':'' # dquote # v",
      OF scan_quote assms(1)] assms(2) by auto

lemma read_last_member:
  assumes "scan_string v = Some (raw, ''}'')"
  shows "\<exists>x. parse_members d (dquote # quote_body k @ dquote # CHR '':'' # dquote # v) =
     Some ([(quote_body k, JNode x (JStr raw))], [])"
  using parse_member [where d = d and s = "quote_body k @ dquote # CHR '':'' # dquote # v",
      OF scan_quote assms] by auto

lemma state_round_trip:
  assumes "marshal_State st = Some data" "state_exact st"
  shows "unmarshal_State data = Some st"
proof -
  from assms(1) obtain t where t: "format_time (st_AppliedAt st) = Some t"
    and data: "data = CHR ''{'' # dquote # quote_body ''target'' @ dquote # CHR '':'' # dquote
       # quote_body (st_Target st) @ dquote # CHR '','' # dquote # quote_body ''applied_uuid'' @ dquote
       # CHR '':'' # dquote # quote_body (st_AppliedUUID st) @ dquote # CHR '','' # dquote
       # quote_body ''applied_at'' @ dquote # CHR '':'' # dquote # t @ dquote # ''}''"
    by (auto simp: marshal_State_def quote_def)
  obtain x3 where m3: "parse_members 9999 (dquote # quote_body ''applied_at'' @ dquote # CHR '':'' # dquote # t @ dquote # ''}'')
      = Some ([(quote_body ''applied_at'', JNode x3 (JStr t))], [])"
    using read_last_member [OF scan_time [OF format_time_chars [OF t]]] by blast
  obtain x2 where m2: "parse_members 9999 (dquote # quote_body ''applied_uuid'' @ dquote
       # CHR '':'' # dquote # quote_body (st_AppliedUUID st) @ dquote # CHR '','' # dquote
       # quote_body ''applied_at'' @ dquote # CHR '':'' # dquote # t @ dquote # ''}'')
      = Some ([(quote_body ''applied_uuid'', JNode x2 (JStr (quote_body (st_AppliedUUID st)))),
               (quote_body ''applied_at'', JNode x3 (JStr t))], [])"
    using read_member [OF scan_quote m3] by blast
  obtain x1 where m1: "parse_members 9999 (dquote # quote_body ''target'' @ dquote # CHR '':'' # dquote
       # quote_body (st_Target st) @ dquote # CHR '','' # dquote # quote_body ''applied_uuid'' @ dquote
       # CHR '':'' # dquote # quote_body (st_AppliedUUID st) @ dquote # CHR '','' # dquote
       # quote_body ''applied_at'' @ dquote # CHR '':'' # dquote # t @ dquote # ''}'')
      = Some ([(quote_body ''target'', JNode x1 (JStr (quote_body (st_Target st)))),
               (quote_body ''applied_uuid'', JNode x2 (JStr (quote_body (st_AppliedUUID st)))),
               (quote_body ''applied_at'', JNode x3 (JStr t))], [])"
    using read_member [OF scan_quote m2] by blast
  have "\<exists>raw. json_parse data = Some (JNode raw (JObj [(quote_body ''target'', JNode x1 (JStr (quote_body (st_Target st)))),
               (quote_body ''applied_uuid'', JNode x2 (JStr (quote_body (st_AppliedUUID st)))),
               (quote_body ''applied_at'', JNode x3 (JStr t))]))"
    unfolding data json_parse_def using m1
    by (simp add: parse_value.simps [of _ "CHR ''{'' # _"] node_def skip_ws_def [of "[]"])
  then obtain raw where j: "json_parse data = Some (JNode raw (JObj [(quote_body ''target'', JNode x1 (JStr (quote_body (st_Target st)))),
               (quote_body ''applied_uuid'', JNode x2 (JStr (quote_body (st_AppliedUUID st)))),
               (quote_body ''applied_at'', JNode x3 (JStr t))]))" ..
  have f: "field_for state_fields ''target'' = Some ''target''"
    "field_for state_fields ''applied_uuid'' = Some ''applied_uuid''"
    "field_for state_fields ''applied_at'' = Some ''applied_at''"
    by (simp_all add: field_for_def state_fields_def)
  have "parse_time t = Some (st_AppliedAt st)"
    using format_parse_time [OF t] assms(2) by (simp add: state_exact_def)
  moreover note k = state_field_names [THEN valid_ASCII_key]
  ultimately show ?thesis
    using j assms(2)
    by (simp add: unmarshal_State_def into_struct_def set_state_field_def into_string_def into_time_def
        k f unquote_quote state_exact_def)
qed

end
