(* ===== verification/FileStore.thy ===== *)
theory FileStore
  imports StateCodec Interfaces GoStrings
begin

text \<open>
  Package \<open>internal/state\<close>: the state store on a file. The operating system is modelled as
  far as the store uses it: files by name, with what is safe on the disk, faults that any
  call may meet, and the past disks, so that a crash at any moment can be talked about.
\<close>

section \<open>Paths\<close>

fun split_path :: "string \<Rightarrow> string list" where
  "split_path [] = [[]]"
| "split_path (c # s) =
     (if c = CHR ''/'' then [] # split_path s
      else case split_path s of [] \<Rightarrow> [[c]] | w # ws \<Rightarrow> (c # w) # ws)"

fun join_path :: "string list \<Rightarrow> string" where
  "join_path [] = []"
| "join_path [w] = w"
| "join_path (w # ws) = w @ CHR ''/'' # join_path ws"

text \<open>One element of a path, with the elements kept so far, the last one first.\<close>

definition clean_step :: "bool \<Rightarrow> string \<Rightarrow> string list \<Rightarrow> string list" where
  "clean_step rooted w kept =
     (if w = [] \<or> w = ''.'' then kept
      else if w = ''..'' then
        (case kept of
           k # ks \<Rightarrow> if k = ''..'' then w # kept else ks
         | [] \<Rightarrow> if rooted then kept else [w])
      else w # kept)"

definition filepath_Clean :: "string \<Rightarrow> string" where
  "filepath_Clean p =
     (let rooted = (case p of c # _ \<Rightarrow> c = CHR ''/'' | [] \<Rightarrow> False);
          ws = rev (fold (clean_step rooted) (split_path p) []);
          out = (if rooted then ''/'' else []) @ join_path ws
      in if out = [] then ''.'' else out)"

text \<open>\<open>filepath.Dir\<close>: what stands up to the last slash, cleaned.\<close>

definition filepath_Dir :: "string \<Rightarrow> string" where
  "filepath_Dir p = filepath_Clean (rev (dropWhile (\<lambda>c. c \<noteq> CHR ''/'') (rev p)))"

section \<open>The disk\<close>

text \<open>
  A file has its data, whether these are safe on the disk, and its permissions. \<open>d_files\<close>
  is what the names mean now; \<open>d_durable\<close> what the directories on the disk say.
\<close>

record fsfile =
  f_data :: string
  f_synced :: bool
  f_mode :: nat

record disk =
  d_files :: "string \<rightharpoonup> fsfile"
  d_durable :: "string \<rightharpoonup> fsfile"

text \<open>The permissions 600, in octal: read and write for the owner only.\<close>

definition owner_rw :: nat where
  "owner_rw = 6 * 8 * 8"

text \<open>What a name may hold after a crash: \<open>None\<close> is no file.\<close>

definition after_crash :: "disk \<Rightarrow> string \<Rightarrow> string option \<Rightarrow> bool" where
  "after_crash d p c \<longleftrightarrow>
     (\<exists>entry \<in> {d_files d p, d_durable d p}.
        case entry of None \<Rightarrow> c = None
        | Some f \<Rightarrow> (\<exists>s. c = Some s \<and> (f_synced f \<longrightarrow> s = f_data f)))"

text \<open>
  The outcome of the next calls: a fault with its error text, and for a write the number of
  bytes that were written all the same. When the list is used up calls succeed.
  \<open>os_temp\<close> are the random names the system draws, \<open>os_past\<close> the disks so far.
\<close>

datatype fault = NoFault | Fault string nat

record os =
  os_disk :: disk
  os_past :: "disk list"
  os_faults :: "fault list"
  os_temp :: "string list"

definition os_error :: "string \<Rightarrow> string \<Rightarrow> string \<Rightarrow> go_error" where
  "os_error op path errno = Errorf (op @ '' %s: %s'') [FStr path, FStr errno]"

definition commit :: "disk \<Rightarrow> os \<Rightarrow> os" where
  "commit d e = e\<lparr>os_disk := d, os_past := os_past e @ [d]\<rparr>"

text \<open>A call on a path: it changes the disk by \<open>ok\<close>, or by \<open>bad\<close> when it meets a fault.\<close>

definition next_fault :: "os \<Rightarrow> (string \<times> nat) option" where
  "next_fault e = (case os_faults e of Fault errno n # fs \<Rightarrow> Some (errno, n) | _ \<Rightarrow> None)"

definition os_call ::
  "string \<Rightarrow> string \<Rightarrow> (disk \<Rightarrow> disk) \<Rightarrow> (nat \<Rightarrow> disk \<Rightarrow> disk) \<Rightarrow> (os, go_error option) state" where
  "os_call op path ok bad = State (\<lambda>e.
     let e' = e\<lparr>os_faults := tl (os_faults e)\<rparr>
     in case next_fault e of
          Some (errno, n) \<Rightarrow> (Some (os_error op path errno), commit (bad n (os_disk e)) e')
        | None \<Rightarrow> (None, commit (ok (os_disk e)) e'))"

abbreviation unchanged :: "nat \<Rightarrow> disk \<Rightarrow> disk" where
  "unchanged n d \<equiv> d"

definition set_file :: "string \<Rightarrow> fsfile option \<Rightarrow> disk \<Rightarrow> disk" where
  "set_file p f d = d\<lparr>d_files := (d_files d)(p := f)\<rparr>"

section \<open>The system calls\<close>

definition os_ReadFile :: "string \<Rightarrow> (os, go_error + string) state" where
  "os_ReadFile p = do {
     r \<leftarrow> os_call ''open'' p id unchanged;
     (case r of
        Some err \<Rightarrow> State_Monad.return (Inl err)
      | None \<Rightarrow> State (\<lambda>e. (case d_files (os_disk e) p of
            None \<Rightarrow> Inl (Wrapf ''open %s: %w'' [FStr p] os_ErrNotExist)
          | Some f \<Rightarrow> Inr (f_data f), e)))
   }"

definition os_MkdirAll :: "string \<Rightarrow> (os, go_error option) state" where
  "os_MkdirAll dir = os_call ''mkdir'' dir id unchanged"

text \<open>\<open>os.CreateTemp(dir, prefix + "*" + suffix)\<close> draws until a name is free, at most 10000 times.\<close>

definition joinPath :: "string \<Rightarrow> string \<Rightarrow> string" where
  "joinPath dir name = (if dir \<noteq> [] \<and> last dir = CHR ''/'' then dir @ name else dir @ CHR ''/'' # name)"

fun draw_name :: "nat \<Rightarrow> string \<Rightarrow> string \<Rightarrow> (string \<rightharpoonup> fsfile) \<Rightarrow> string list \<Rightarrow> (string \<times> string list) option" where
  "draw_name (Suc tries) prefix suffix files (r # rs) =
     (if files (prefix @ r @ suffix) = None then Some (prefix @ r @ suffix, rs)
      else draw_name tries prefix suffix files rs)"
| "draw_name _ _ _ _ _ = None"

definition os_CreateTemp :: "string \<Rightarrow> string \<Rightarrow> string \<Rightarrow> (os, go_error + string) state" where
  "os_CreateTemp dir prefix suffix = State (\<lambda>e.
     case draw_name 10000 (joinPath dir prefix) suffix (d_files (os_disk e)) (os_temp e) of
       None \<Rightarrow> (Inl (os_error ''createtemp'' (joinPath dir prefix @ ''*'' @ suffix) ''file exists''), e)
     | Some (name, rs) \<Rightarrow>
        (case run_state (os_call ''open'' name
            (set_file name (Some \<lparr>f_data = [], f_synced = False, f_mode = owner_rw\<rparr>)) unchanged)
            (e\<lparr>os_temp := rs\<rparr>) of
           (Some err, e') \<Rightarrow> (Inl err, e')
         | (None, e') \<Rightarrow> (Inr name, e')))"

definition write_data :: "string \<Rightarrow> string \<Rightarrow> disk \<Rightarrow> disk" where
  "write_data p s d =
     set_file p (map_option (\<lambda>f. f\<lparr>f_data := f_data f @ s, f_synced := False\<rparr>) (d_files d p)) d"

definition os_Write :: "string \<Rightarrow> string \<Rightarrow> (os, go_error option) state" where
  "os_Write p s = os_call ''write'' p (write_data p s) (\<lambda>n. write_data p (take n s))"

definition os_Sync :: "string \<Rightarrow> (os, go_error option) state" where
  "os_Sync p = os_call ''sync'' p
     (\<lambda>d. set_file p (map_option (f_synced_update (\<lambda>_. True)) (d_files d p)) d) unchanged"

definition os_Chmod :: "string \<Rightarrow> nat \<Rightarrow> (os, go_error option) state" where
  "os_Chmod p m = os_call ''chmod'' p
     (\<lambda>d. set_file p (map_option (f_mode_update (\<lambda>_. m)) (d_files d p)) d) unchanged"

definition os_Close :: "string \<Rightarrow> (os, go_error option) state" where
  "os_Close p = os_call ''close'' p id unchanged"

definition os_Remove :: "string \<Rightarrow> (os, go_error option) state" where
  "os_Remove p = os_call ''remove'' p (set_file p None) unchanged"

definition rename_file :: "string \<Rightarrow> string \<Rightarrow> disk \<Rightarrow> disk" where
  "rename_file p q d = (if p = q then d else d\<lparr>d_files := (d_files d)(q := d_files d p, p := None)\<rparr>)"

definition os_Rename :: "string \<Rightarrow> string \<Rightarrow> (os, go_error option) state" where
  "os_Rename p q = os_call ''rename'' p (rename_file p q) unchanged"

definition os_Open :: "string \<Rightarrow> (os, go_error option) state" where
  "os_Open p = os_call ''open'' p id unchanged"

text \<open>Syncing a directory makes the names in it durable.\<close>

definition sync_dir :: "string \<Rightarrow> disk \<Rightarrow> disk" where
  "sync_dir dir d = d\<lparr>d_durable := (\<lambda>p. if filepath_Dir p = dir then d_files d p else d_durable d p)\<rparr>"

definition os_SyncDir :: "string \<Rightarrow> (os, go_error option) state" where
  "os_SyncDir dir = os_call ''sync'' dir (sync_dir dir) unchanged"

definition ctx_Err :: "'e ctx \<Rightarrow> ('e, go_error option) state" where
  "ctx_Err c = State (\<lambda>e. (c e, e))"

section \<open>The store\<close>

definition FileStore_Load :: "string \<Rightarrow> os ctx option \<Rightarrow> (os, go_error + State) state" where
  "FileStore_Load path ctx =
     (case ctx of
        None \<Rightarrow> State_Monad.return (Inl (errors_New ''load state: context is nil''))
      | Some c \<Rightarrow> do {
     e1 \<leftarrow> ctx_Err c;
     (case e1 of
        Some err \<Rightarrow> State_Monad.return (Inl (wrap ''load state'' err))
      | None \<Rightarrow>
     (if TrimSpace path = '''' then State_Monad.return (Inl (errors_New ''load state: file path is empty''))
      else do {
     r \<leftarrow> os_ReadFile path;
     (case r of
        Inl err \<Rightarrow>
          (if errors_Is err ''file does not exist'' then State_Monad.return (Inr empty_State)
           else State_Monad.return (Inl (Wrapf ''load state file %q: %w'' [FStr path] err)))
      | Inr data \<Rightarrow> do {
     e2 \<leftarrow> ctx_Err c;
     (case e2 of
        Some err \<Rightarrow> State_Monad.return (Inl (wrap ''load state'' err))
      | None \<Rightarrow>
     (case unmarshal_State data of
        None \<Rightarrow> State_Monad.return (Inl (Wrapf ''decode state file %q: %w'' [FStr path] json_error))
      | Some st \<Rightarrow> State_Monad.return (Inr st)))
     })}))})"

text \<open>After a failed step the temporary file is removed; errors of the removal are ignored.\<close>

definition cleanup :: "string \<Rightarrow> go_error \<Rightarrow> (os, go_error option) state" where
  "cleanup tmpName err = do { os_Remove tmpName; State_Monad.return (Some err) }"

definition close_and_cleanup :: "string \<Rightarrow> go_error \<Rightarrow> (os, go_error option) state" where
  "close_and_cleanup tmpName err = do { os_Close tmpName; cleanup tmpName err }"

definition FileStore_Save :: "string \<Rightarrow> os ctx option \<Rightarrow> State \<Rightarrow> (os, go_error option) state" where
  "FileStore_Save path ctx st =
     (case ctx of
        None \<Rightarrow> State_Monad.return (Some (errors_New ''save state: context is nil''))
      | Some c \<Rightarrow> do {
     e1 \<leftarrow> ctx_Err c;
     (case e1 of Some err \<Rightarrow> State_Monad.return (Some (wrap ''save state'' err)) | None \<Rightarrow>
     (if TrimSpace path = '''' then State_Monad.return (Some (errors_New ''save state: file path is empty''))
      else do {
     let dir = filepath_Dir path;
     e2 \<leftarrow> os_MkdirAll dir;
     (case e2 of Some err \<Rightarrow> State_Monad.return (Some (Wrapf ''create state directory %q: %w'' [FStr dir] err)) | None \<Rightarrow>
     (case marshal_State st of None \<Rightarrow> State_Monad.return (Some (wrap ''marshal state'' json_error)) | Some payload \<Rightarrow> do {
     e3 \<leftarrow> ctx_Err c;
     (case e3 of Some err \<Rightarrow> State_Monad.return (Some (wrap ''save state'' err)) | None \<Rightarrow> do {
     t \<leftarrow> os_CreateTemp dir ''.state-'' ''.tmp'';
     (case t of Inl err \<Rightarrow> State_Monad.return (Some (Wrapf ''create temp state file in %q: %w'' [FStr dir] err))
      | Inr tmpName \<Rightarrow> do {
     e4 \<leftarrow> os_Write tmpName payload;
     (case e4 of Some err \<Rightarrow> close_and_cleanup tmpName (Wrapf ''write temp state file %q: %w'' [FStr tmpName] err) | None \<Rightarrow> do {
     e5 \<leftarrow> os_Sync tmpName;
     (case e5 of Some err \<Rightarrow> close_and_cleanup tmpName (Wrapf ''sync temp state file %q: %w'' [FStr tmpName] err) | None \<Rightarrow> do {
     e6 \<leftarrow> os_Chmod tmpName owner_rw;
     (case e6 of Some err \<Rightarrow> close_and_cleanup tmpName (Wrapf ''chmod temp state file %q: %w'' [FStr tmpName] err) | None \<Rightarrow> do {
     e7 \<leftarrow> os_Close tmpName;
     (case e7 of Some err \<Rightarrow> cleanup tmpName (Wrapf ''close temp state file %q: %w'' [FStr tmpName] err) | None \<Rightarrow> do {
     e8 \<leftarrow> ctx_Err c;
     (case e8 of Some err \<Rightarrow> cleanup tmpName (wrap ''save state'' err) | None \<Rightarrow> do {
     e9 \<leftarrow> os_Rename tmpName path;
     (case e9 of Some err \<Rightarrow> cleanup tmpName (Wrapf ''rename temp state file %q to %q: %w'' [FStr tmpName, FStr path] err) | None \<Rightarrow> do {
     e10 \<leftarrow> os_Open dir;
     (case e10 of Some err \<Rightarrow> State_Monad.return (Some (Wrapf ''open state directory %q for sync: %w'' [FStr dir] err)) | None \<Rightarrow> do {
     e11 \<leftarrow> os_SyncDir dir;
     os_Close dir;
     State_Monad.return (map_option (Wrapf ''sync state directory %q: %w'' [FStr dir]) e11)
     })})})})})})})})})}))}))})"

definition FileStore :: "string \<Rightarrow> os StateStore" where
  "FileStore path = \<lparr>store_Load = (\<lambda>ctx. run_state (FileStore_Load path ctx)),
     store_Save = (\<lambda>ctx st. run_state (FileStore_Save path ctx st))\<rparr>"

end
