(* ===== verification/FileStoreLaws.thy ===== *)
theory FileStoreLaws
  imports FileStore StoreContract
begin

text \<open>
  What the file store guarantees: a save is atomic at every moment a crash may come, it is
  durable when it returns nil, and the store keeps the contract the configure service
  relies on.
\<close>

section \<open>Following a save through the system calls\<close>

text \<open>At a disk that came from \<open>d0\<close> on the way to saving \<open>st\<close>, a crash leaves the old or the new text.\<close>

definition crash_safe :: "string \<Rightarrow> State \<Rightarrow> disk \<Rightarrow> disk \<Rightarrow> bool" where
  "crash_safe p st d0 d \<longleftrightarrow>
     (\<forall>c. after_crash d p c \<longrightarrow> after_crash d0 p c \<or> (c \<noteq> None \<and> c = marshal_State st))"

text \<open>The disk of \<open>e\<close> is \<open>d\<close>, and every disk since \<open>e0\<close> was safe.\<close>

definition reached :: "string \<Rightarrow> State \<Rightarrow> os \<Rightarrow> disk \<Rightarrow> os \<Rightarrow> bool" where
  "reached p st e0 d e \<longleftrightarrow> os_disk e = d
     \<and> (\<exists>ds. os_past e = os_past e0 @ ds \<and> list_all (crash_safe p st (os_disk e0)) ds)"

text \<open>The names of temporary files end in \<open>.tmp\<close>.\<close>

definition temp_name :: "string \<Rightarrow> bool" where
  "temp_name p \<longleftrightarrow> last_n 4 p = ''.tmp''"

definition saved_file :: "string \<Rightarrow> fsfile" where
  "saved_file payload = \<lparr>f_data = payload, f_synced = True, f_mode = owner_rw\<rparr>"

lemma crash_safe_refl: "crash_safe p st d d"
  by (simp add: crash_safe_def)

lemma crash_safe_other: "t \<noteq> p \<Longrightarrow> crash_safe p st d (set_file t f d)"
  by (simp add: crash_safe_def after_crash_def set_file_def)

lemma crash_safe_saved:
  assumes "marshal_State st = Some payload" "d_files d p = Some (saved_file payload)"
    and "d_durable d p \<in> {d_durable d0 p, Some (saved_file payload)}"
  shows "crash_safe p st d0 d"
  using assms by (auto simp: crash_safe_def after_crash_def saved_file_def split: option.splits)

lemma set_file_simps [simp]:
  "d_files (set_file t f d) = (d_files d)(t := f)"
  "d_durable (set_file t f d) = d_durable d"
  "set_file t g (set_file t f d) = set_file t g d"
  by (simp_all add: set_file_def)

lemma reached_start: "reached p st e (os_disk e) e"
  by (auto simp: reached_def)

lemma reached_commit:
  assumes "reached p st e0 d e" "crash_safe p st (os_disk e0) d'"
  shows "reached p st e0 d' (commit d' (e\<lparr>os_faults := fs\<rparr>))"
  using assms by (auto simp: reached_def commit_def intro: exI [of _ "_ @ [d']"])

named_theorems save_rules \<open>rules that follow a save\<close>

lemma call_rule:
  assumes "reached p st e0 d e" "crash_safe p st (os_disk e0) (ok d)"
    and "\<And>n. crash_safe p st (os_disk e0) (bad n d)"
    and "\<And>err n e'. reached p st e0 (bad n d) e' \<Longrightarrow> Q (Some err) e'"
    and "\<And>e'. reached p st e0 (ok d) e' \<Longrightarrow> Q None e'"
  shows "wp (os_call op q ok bad) Q e"
  using assms reached_commit [OF assms(1)]
  by (auto simp: os_call_def wp_State Let_def reached_def split: option.split)

lemma quiet_call_rules [save_rules]:
  assumes "reached p st e0 d e" "crash_safe p st (os_disk e0) d"
    and "\<And>r e'. reached p st e0 d e' \<Longrightarrow> Q r e'"
  shows "wp (os_MkdirAll q) Q e" "wp (os_Close q) Q e" "wp (os_Open q) Q e"
  unfolding os_MkdirAll_def os_Close_def os_Open_def
  by (rule call_rule [OF assms(1)]; simp add: assms)+

lemma temp_call_rules [save_rules]:
  assumes "reached p st e0 (set_file t (Some f) d) e" "t \<noteq> p" "os_disk e0 = d"
    and "\<And>err f' e'. reached p st e0 (set_file t f' d) e' \<Longrightarrow> Q (Some err) e'"
  shows "(\<And>e'. reached p st e0 (set_file t (Some (f\<lparr>f_data := f_data f @ s, f_synced := False\<rparr>)) d) e' \<Longrightarrow> Q None e')
           \<Longrightarrow> wp (os_Write t s) Q e"
    and "(\<And>e'. reached p st e0 (set_file t (Some (f\<lparr>f_synced := True\<rparr>)) d) e' \<Longrightarrow> Q None e')
           \<Longrightarrow> wp (os_Sync t) Q e"
    and "(\<And>e'. reached p st e0 (set_file t (Some (f\<lparr>f_mode := m\<rparr>)) d) e' \<Longrightarrow> Q None e')
           \<Longrightarrow> wp (os_Chmod t m) Q e"
  unfolding os_Write_def os_Sync_def os_Chmod_def write_data_def
  by (rule call_rule [OF assms(1)]; simp add: assms crash_safe_other)+

lemma remove_rule [save_rules]:
  assumes "reached p st e0 (set_file t f d) e" "t \<noteq> p" "os_disk e0 = d"
    and "\<And>r f' e'. reached p st e0 (set_file t f' d) e' \<Longrightarrow> Q r e'"
  shows "wp (os_Remove t) Q e"
  unfolding os_Remove_def
  by (rule call_rule [OF assms(1)]; simp add: assms crash_safe_other)

lemma draw_name:
  "draw_name n prefix suffix files rs = Some (name, rs') \<Longrightarrow> files name = None \<and> (\<exists>r. name = prefix @ r @ suffix)"
  by (induction n prefix suffix files rs rule: draw_name.induct) (auto split: if_splits)

lemma temp_suffix: "temp_name (prefix @ r @ ''.tmp'')"
  by (simp add: temp_name_def last_n_def)

lemma create_rule [save_rules]:
  assumes "reached p st e0 d e" "\<not> temp_name p" "os_disk e0 = d"
    and "\<And>err e'. reached p st e0 d e' \<Longrightarrow> Q (Inl err) e'"
    and "\<And>t e'. reached p st e0 (set_file t (Some \<lparr>f_data = [], f_synced = False, f_mode = owner_rw\<rparr>) d) e'
           \<Longrightarrow> t \<noteq> p \<Longrightarrow> temp_name t \<Longrightarrow> d_files d t = None \<Longrightarrow> Q (Inr t) e'"
  shows "wp (os_CreateTemp dir prefix ''.tmp'') Q e"
proof (cases "draw_name 10000 (joinPath dir prefix) ''.tmp'' (d_files (os_disk e)) (os_temp e)")
  case None
  with assms show ?thesis by (simp add: os_CreateTemp_def wp_State)
next
  case (Some x)
  then obtain t rs where x: "draw_name 10000 (joinPath dir prefix) ''.tmp'' (d_files (os_disk e)) (os_temp e) = Some (t, rs)"
    by (cases x) auto
  from draw_name [OF x] have t: "d_files d t = None" "temp_name t"
    using assms(1) temp_suffix by (auto simp: reached_def)
  with assms(2) have "t \<noteq> p" by auto
  have "reached p st e0 d (e\<lparr>os_temp := rs\<rparr>)" using assms(1) by (simp add: reached_def)
  then have "wp (os_call ''open'' t
            (set_file t (Some \<lparr>f_data = [], f_synced = False, f_mode = owner_rw\<rparr>)) unchanged)
      (\<lambda>r e'. case r of None \<Rightarrow> Q (Inr t) e' | Some err \<Rightarrow> Q (Inl err) e') (e\<lparr>os_temp := rs\<rparr>)"
    by (rule call_rule) (simp_all add: assms t \<open>t \<noteq> p\<close> crash_safe_other crash_safe_refl)
  with x show ?thesis
    by (auto simp: os_CreateTemp_def wp_def split: prod.splits option.splits)
qed

lemma rename_rule [save_rules]:
  assumes "reached p st e0 (set_file t (Some f) d) e" "f = saved_file payload" "t \<noteq> p" "os_disk e0 = d"
    and "marshal_State st = Some payload"
    and "\<And>err f' e'. reached p st e0 (set_file t f' d) e' \<Longrightarrow> Q (Some err) e'"
    and "\<And>e'. reached p st e0 (set_file p (Some (saved_file payload)) (set_file t None d)) e' \<Longrightarrow> Q None e'"
  shows "wp (os_Rename t p) Q e"
proof -
  have "rename_file t p (set_file t (Some (saved_file payload)) d)
      = set_file p (Some (saved_file payload)) (set_file t None d)"
    using assms(3) by (simp add: rename_file_def set_file_def fun_upd_twist)
  then show ?thesis
    unfolding os_Rename_def
    by (intro call_rule [OF assms(1)])
      (simp_all add: assms crash_safe_other crash_safe_saved [OF assms(5)])
qed

lemma sync_dir_rule [save_rules]:
  assumes "reached p st e0 (set_file p (Some (saved_file payload)) d) e"
    and "marshal_State st = Some payload" "d_durable d p = d_durable (os_disk e0) p"
    and "\<And>err e'. reached p st e0 (set_file p (Some (saved_file payload)) d) e' \<Longrightarrow> Q (Some err) e'"
    and "\<And>e'. reached p st e0 (sync_dir (filepath_Dir p) (set_file p (Some (saved_file payload)) d)) e' \<Longrightarrow> Q None e'"
  shows "wp (os_SyncDir (filepath_Dir p)) Q e"
  unfolding os_SyncDir_def
  by (intro call_rule [OF assms(1)])
    (simp_all add: assms sync_dir_def crash_safe_saved [OF assms(2)])

lemma ctx_rule: "(\<And>r. Q r e) \<Longrightarrow> wp (ctx_Err c) Q e"
  by (simp add: ctx_Err_def wp_State)

section \<open>Saving\<close>

definition save_post :: "string \<Rightarrow> State \<Rightarrow> os \<Rightarrow> go_error option \<Rightarrow> os \<Rightarrow> bool" where
  "save_post p st e0 r e \<longleftrightarrow> reached p st e0 (os_disk e) e \<and>
     (let d = os_disk e in case r of
        None \<Rightarrow> \<exists>payload. marshal_State st = Some payload
          \<and> d_files d = (d_files (os_disk e0))(p \<mapsto> saved_file payload)
          \<and> d_durable d p = Some (saved_file payload)
      | Some err \<Rightarrow>
          d_files d = d_files (os_disk e0)
        \<or> (\<exists>t f. temp_name t \<and> d_files (os_disk e0) t = None \<and> d_files d = (d_files (os_disk e0))(t := f))
        \<or> (\<exists>payload. marshal_State st = Some payload
            \<and> d_files d = (d_files (os_disk e0))(p \<mapsto> saved_file payload)))"

lemma reached_disk: "reached p st e0 d e \<Longrightarrow> os_disk e = d \<and> reached p st e0 (os_disk e) e"
  by (auto simp: reached_def)

lemma post_same: "reached p st e0 (os_disk e0) e \<Longrightarrow> save_post p st e0 (Some err) e"
  by (auto simp: save_post_def dest: reached_disk)

lemma post_temp:
  assumes "reached p st e0 (set_file t f (os_disk e0)) e" "temp_name t" "d_files (os_disk e0) t = None"
  shows "save_post p st e0 (Some err) e"
  using reached_disk [OF assms(1)] assms(2,3) by (auto simp: save_post_def Let_def)

lemma no_temp: "d_files d t = None \<Longrightarrow> (d_files d)(t := None) = d_files d"
  by (simp add: fun_upd_idem)

lemma post_renamed:
  assumes "reached p st e0 (set_file p (Some (saved_file payload)) (set_file t None (os_disk e0))) e"
    and "d_files (os_disk e0) t = None" "marshal_State st = Some payload"
  shows "save_post p st e0 (Some err) e"
  using reached_disk [OF assms(1)] assms(3) by (auto simp: save_post_def Let_def no_temp [OF assms(2)])

lemma post_saved:
  assumes "reached p st e0 (sync_dir (filepath_Dir p)
       (set_file p (Some (saved_file payload)) (set_file t None (os_disk e0)))) e"
    and "d_files (os_disk e0) t = None" "marshal_State st = Some payload"
  shows "save_post p st e0 r e"
  using reached_disk [OF assms(1)] assms(3)
  by (auto simp: save_post_def Let_def sync_dir_def no_temp [OF assms(2)] split: option.split)

text \<open>Removing the temporary file, after closing it or not.\<close>

lemma cleanup_rules:
  assumes "reached p st e0 (set_file t f (os_disk e0)) e" "t \<noteq> p" "temp_name t"
    and "d_files (os_disk e0) t = None"
  shows "wp (cleanup t err) (save_post p st e0) e" "wp (close_and_cleanup t err) (save_post p st e0) e"
proof -
  have c: "wp (cleanup t err) (save_post p st e0) e"
    if "reached p st e0 (set_file t f (os_disk e0)) e" for f e
    unfolding cleanup_def wp_bind
    by (rule remove_rule [OF that assms(2) refl]) (simp add: wp_return post_temp assms(3,4))
  show "wp (cleanup t err) (save_post p st e0) e" by (rule c [OF assms(1)])
  show "wp (close_and_cleanup t err) (save_post p st e0) e"
    unfolding close_and_cleanup_def wp_bind
    by (rule quiet_call_rules(2) [OF assms(1)]) (simp_all add: crash_safe_other assms(2) c)
qed

text \<open>The directory is opened and synced once the new file has its name.\<close>

definition save_finish :: "string \<Rightarrow> (os, go_error option) state" where
  "save_finish dir = do {
     e10 \<leftarrow> os_Open dir;
     (case e10 of Some err \<Rightarrow> State_Monad.return (Some (Wrapf ''open state directory %q for sync: %w'' [FStr dir] err)) | None \<Rightarrow> do {
     e11 \<leftarrow> os_SyncDir dir;
     os_Close dir;
     State_Monad.return (map_option (Wrapf ''sync state directory %q: %w'' [FStr dir]) e11)
     })}"

lemma save_finish:
  assumes r: "reached p st e0 (set_file p (Some (saved_file payload)) (set_file t None (os_disk e0))) e"
    and t: "d_files (os_disk e0) t = None" and m: "marshal_State st = Some payload"
  shows "wp (save_finish (filepath_Dir p)) (save_post p st e0) e"
  unfolding save_finish_def wp_bind
proof (rule quiet_call_rules(3) [OF r])
  show safe: "crash_safe p st (os_disk e0) (set_file p (Some (saved_file payload)) (set_file t None (os_disk e0)))"
    by (rule crash_safe_saved [OF m]) simp_all
  have safe': "crash_safe p st (os_disk e0) (sync_dir (filepath_Dir p)
      (set_file p (Some (saved_file payload)) (set_file t None (os_disk e0))))"
    by (rule crash_safe_saved [OF m]) (simp_all add: sync_dir_def)
  fix r1 e1
  assume r1: "reached p st e0 (set_file p (Some (saved_file payload)) (set_file t None (os_disk e0))) e1"
  show "wp (case r1 of None \<Rightarrow> State_Monad.bind (os_SyncDir (filepath_Dir p)) (\<lambda>e11. State_Monad.bind
        (os_Close (filepath_Dir p)) (\<lambda>_. State_Monad.return (map_option (Wrapf ''sync state directory %q: %w''
          [FStr (filepath_Dir p)]) e11)))
      | Some err \<Rightarrow> State_Monad.return (Some (Wrapf ''open state directory %q for sync: %w'' [FStr (filepath_Dir p)] err)))
      (save_post p st e0) e1"
  proof (cases r1)
    case None
    have "wp (os_SyncDir (filepath_Dir p)) (\<lambda>x. wp (os_Close (filepath_Dir p))
        (\<lambda>_. save_post p st e0 (map_option (Wrapf ''sync state directory %q: %w'' [FStr (filepath_Dir p)]) x))) e1"
    proof (rule sync_dir_rule [OF r1 m])
      fix err e' assume "reached p st e0 (set_file p (Some (saved_file payload)) (set_file t None (os_disk e0))) e'"
      then show "wp (os_Close (filepath_Dir p)) (\<lambda>_. save_post p st e0
          (map_option (Wrapf ''sync state directory %q: %w'' [FStr (filepath_Dir p)]) (Some err))) e'"
        by (rule quiet_call_rules(2) [OF _ safe]) (simp add: post_renamed [OF _ t m])
    next
      fix e' assume "reached p st e0 (sync_dir (filepath_Dir p)
          (set_file p (Some (saved_file payload)) (set_file t None (os_disk e0)))) e'"
      then show "wp (os_Close (filepath_Dir p)) (\<lambda>_. save_post p st e0
          (map_option (Wrapf ''sync state directory %q: %w'' [FStr (filepath_Dir p)]) None)) e'"
        by (rule quiet_call_rules(2) [OF _ safe']) (simp add: post_saved [OF _ t m])
    qed simp
    with None show ?thesis by (simp add: wp_bind_eta wp_return_eta)
  next
    case (Some err)
    with post_renamed [OF r1 t m] show ?thesis by (simp add: wp_simps)
  qed
qed

lemma save_rule:
  assumes "\<not> temp_name p"
  shows "wp (FileStore_Save p ctx st) (save_post p st e) e"
  unfolding FileStore_Save_def Let_def save_finish_def [symmetric]
  using reached_start [of p st e] assms
  by - ((simp only: sum.case) | (simp only: option.case)
    | (rule trace_bind ctx_rule trace_case_option trace_case_sum trace_if trace_return)
    | erule post_same
    | (erule quiet_call_rules(1), rule crash_safe_refl)
    | (erule create_rule, assumption, rule refl)
    | (erule temp_call_rules, assumption, rule refl)
    | (erule quiet_call_rules(2), erule crash_safe_other)
    | (erule cleanup_rules, assumption, assumption, assumption)
    | (erule rename_rule, simp add: saved_file_def, assumption, rule refl, assumption)
    | (erule save_finish, assumption, assumption))+

section \<open>Loading\<close>

text \<open>The state a healthy load finds on the disk.\<close>

definition file_stored :: "string \<Rightarrow> os \<Rightarrow> State option" where
  "file_stored p e = (case d_files (os_disk e) p of
     None \<Rightarrow> Some empty_State | Some f \<Rightarrow> unmarshal_State (f_data f))"

lemma os_error_Is [simp]: "errors_Is (os_error op p errno) t = False"
  by (simp add: os_error_def)

lemma load_rule:
  "wp (FileStore_Load p ctx)
     (\<lambda>r e'. os_disk e' = os_disk e \<and> (case r of Inl err \<Rightarrow> True | Inr st \<Rightarrow> file_stored p e = Some st)) e"
proof -
  have "wp (os_ReadFile p) (\<lambda>r e'. os_disk e' = os_disk e \<and>
      (case r of Inl err \<Rightarrow> errors_Is err ''file does not exist'' \<longrightarrow> d_files (os_disk e) p = None
       | Inr data \<Rightarrow> \<exists>f. d_files (os_disk e) p = Some f \<and> data = f_data f)) e"
    by (auto simp: os_ReadFile_def os_call_def wp_simps Let_def commit_def split: option.splits)
  then show ?thesis
    unfolding FileStore_Load_def wp_bind
    by (cases ctx) (auto simp: wp_simps ctx_Err_def wp_bind_eta file_stored_def
        split: option.split sum.split elim!: wp_mono)
qed

section \<open>The store contract\<close>

lemma save_stores:
  assumes "\<not> temp_name p" "run_state (FileStore_Save p ctx st) e = (r, e')" "state_exact st"
  shows "if r = None then file_stored p e' = Some st
     else file_stored p e' = file_stored p e \<or> file_stored p e' = Some st"
proof -
  have "save_post p st e r e'" by (rule wp_run [OF save_rule [OF assms(1)] assms(2)])
  then show ?thesis
    using state_round_trip [OF _ assms(3)] assms(1)
    by (auto simp: save_post_def file_stored_def Let_def saved_file_def split: option.splits if_splits)
qed

text \<open>A path for the state file that no temporary file can have.\<close>

locale state_path =
  fixes path :: string
  assumes no_temp_name: "\<not> temp_name path"

sublocale state_path \<subseteq> on_file: state_store "FileStore path" "file_stored path" state_exact
proof unfold_locales
  fix c e r e' assume l: "store_Load (FileStore path) c e = (r, e')"
  then have "run_state (FileStore_Load path c) e = (r, e')" by (simp add: FileStore_def)
  from wp_run [OF load_rule this] show "file_stored path e' = file_stored path e"
    by (simp add: file_stored_def)
next
  fix c e st e' assume l: "store_Load (FileStore path) c e = (Inr st, e')"
  then have "run_state (FileStore_Load path c) e = (Inr st, e')" by (simp add: FileStore_def)
  from wp_run [OF load_rule this] show "file_stored path e = Some st" by simp
next
  fix c st e e' assume "store_Save (FileStore path) c st e = (None, e')" "state_exact st"
  then show "file_stored path e' = Some st"
    using save_stores [OF no_temp_name, of c st e None e'] by (simp add: FileStore_def)
next
  fix c st e err e' assume "store_Save (FileStore path) c st e = (Some err, e')" "state_exact st"
  then show "file_stored path e' = file_stored path e \<or> file_stored path e' = Some st"
    using save_stores [OF no_temp_name, of c st e "Some err" e'] by (simp add: FileStore_def)
qed

interpretation default_path: state_path "''/tmp/vyos-nats-agent/state.json''"
  by unfold_locales (simp add: temp_name_def last_n_def)

section \<open>The guarantees\<close>

text \<open>A machine with an empty disk and no faults, for the witnesses.\<close>

definition fresh_os :: os where
  "fresh_os = \<lparr>os_disk = \<lparr>d_files = Map.empty, d_durable = Map.empty\<rparr>, os_past = [], os_faults = [],
     os_temp = [''1''] \<rparr>"

definition sample_State :: State where
  "sample_State = \<lparr>st_Target = ''vyos'', st_AppliedUUID = ''cfg-1'',
     st_AppliedAt = GoTime 1700000000123000000 UTCZone\<rparr>"

lemma sample_marshals: "marshal_State sample_State \<noteq> None"
proof -
  obtain y m d where c: "civil (1700000000 div 86400 + epoch_days) = (y, m, d)"
    by (cases "civil (1700000000 div 86400 + epoch_days)") auto
  from civil(1) [OF c] have "y = 2023"
    by (simp add: year_of_def days_before_def epoch_days_def)
  with c show ?thesis
    by (simp add: marshal_State_def format_time_def sample_State_def format_zone_def zone_offset_def)
qed

lemma sample_exact: "state_exact sample_State"
  by (simp add: state_exact_def sample_State_def valid_utf8_ASCII byte_def zone_exact_def)

text \<open>
  \textbf{C14.} A state that can be written, with well-formed strings and a time zone the
  layout shows exactly, is read back from its JSON text as it was, whatever characters the
  target and the UUID hold.
\<close>

theorem state_codec_round_trip:
  assumes "marshal_State st = Some data" "state_exact st"
  shows "unmarshal_State data = Some st"
  by (rule state_round_trip [OF assms])

theorem state_codec_round_trip_witness:
  "\<exists>data. marshal_State sample_State = Some data \<and> unmarshal_State data = Some sample_State"
  using sample_marshals state_codec_round_trip [OF _ sample_exact] by auto

text \<open>
  \textbf{C15.} A save is atomic: whichever of its system calls fail, and at whichever
  moment during or after it the machine crashes, the state file then holds what it could
  hold before, or the complete new text.
\<close>

theorem save_is_atomic:
  assumes "\<not> temp_name p"
  shows "wp (FileStore_Save p ctx st)
     (\<lambda>r e'. \<exists>ds. os_past e' = os_past e @ ds \<and> list_all (crash_safe p st (os_disk e)) ds) e"
  by (rule wp_mono [OF save_rule [OF assms]]) (simp add: save_post_def reached_def)

theorem save_is_atomic_witness:
  "wp (FileStore_Save ''/var/lib/agent/state.json'' (Some (\<lambda>e. None)) sample_State)
     (\<lambda>r e'. \<exists>ds. os_past e' = os_past fresh_os @ ds
        \<and> list_all (crash_safe ''/var/lib/agent/state.json'' sample_State (os_disk fresh_os)) ds) fresh_os"
  by (rule save_is_atomic) (simp add: temp_name_def last_n_def)



lemma commit_simps [simp]:
  "os_faults (commit d e) = os_faults e" "os_disk (commit d e) = d" "os_temp (commit d e) = os_temp e"
  by (simp_all add: commit_def)

lemma wp_call_healthy:
  "os_faults e = [] \<Longrightarrow> wp (os_call op q ok bad) Q e \<longleftrightarrow> Q None (commit (ok (os_disk e)) e)"
  by (cases e) (simp add: os_call_def wp_State next_fault_def commit_def Let_def)

lemma wp_create_healthy:
  assumes "os_faults e = []" "os_temp e = r # rs" "d_files (os_disk e) (joinPath dir prefix @ r @ suffix) = None"
  shows "wp (os_CreateTemp dir prefix suffix) Q e \<longleftrightarrow> Q (Inr (joinPath dir prefix @ r @ suffix))
     (commit (set_file (joinPath dir prefix @ r @ suffix)
        (Some \<lparr>f_data = [], f_synced = False, f_mode = owner_rw\<rparr>) (os_disk e)) (e\<lparr>os_temp := rs\<rparr>))"
proof -
  have "draw_name (Suc n) (joinPath dir prefix) suffix (d_files (os_disk e)) (r # rs)
      = Some (joinPath dir prefix @ r @ suffix, rs)" for n
    using assms(3) by simp
  from this [of 9999] have "draw_name 10000 (joinPath dir prefix) suffix (d_files (os_disk e)) (r # rs)
      = Some (joinPath dir prefix @ r @ suffix, rs)" by simp
  with assms(1,2) show ?thesis
    by (cases e) (simp add: os_CreateTemp_def wp_State os_call_def next_fault_def commit_def Let_def)
qed

lemma save_healthy:
  assumes "TrimSpace p \<noteq> []" "marshal_State st \<noteq> None" "os_faults e = []" "os_temp e = r # rs"
    and "d_files (os_disk e) (joinPath (filepath_Dir p) ''.state-'' @ r @ ''.tmp'') = None"
  shows "wp (FileStore_Save p (Some (\<lambda>_. None)) st) (\<lambda>x e'. x = None \<and> os_faults e' = []) e"
proof -
  obtain payload where "marshal_State st = Some payload" using assms(2) by auto
  with assms(1,3-5) show ?thesis
    by (simp add: FileStore_Save_def wp_bind wp_return_eta ctx_Err_def wp_State Let_def wp_call_healthy
        wp_create_healthy os_MkdirAll_def os_Write_def os_Sync_def os_Chmod_def os_Close_def
        os_Rename_def os_Open_def os_SyncDir_def)
qed

text \<open>
  \textbf{C17.} On a machine without faults, with a context that is not done, a state that
  can be represented is saved, and loading it gives it back.
\<close>

theorem save_then_load:
  assumes "TrimSpace p \<noteq> []" "\<not> temp_name p" "marshal_State st \<noteq> None" "state_exact st"
    and "os_faults e = []" "os_temp e = r # rs"
    and "d_files (os_disk e) (joinPath (filepath_Dir p) ''.state-'' @ r @ ''.tmp'') = None"
  shows "wp (FileStore_Save p (Some (\<lambda>_. None)) st)
     (\<lambda>x e'. x = None \<and> wp (FileStore_Load p (Some (\<lambda>_. None))) (\<lambda>y e''. y = Inr st) e') e"
proof -
  let ?c = "Some (\<lambda>_. None) :: os ctx option"
  obtain payload where m: "marshal_State st = Some payload" using assms(3) by auto
  from wp_conj [OF save_healthy [OF assms(1,3,5-7)] save_rule [OF assms(2)]] show ?thesis
  proof (rule wp_mono)
    fix x e' assume h: "(x = None \<and> os_faults e' = []) \<and> save_post p st e x e'"
    then obtain f where "d_files (os_disk e') p = Some f" "unmarshal_State (f_data f) = Some st"
      using state_round_trip [OF _ assms(4)] m
      by (auto simp: save_post_def Let_def saved_file_def)
    with h assms(1) show "x = None \<and> wp (FileStore_Load p ?c) (\<lambda>y e''. y = Inr st) e'"
      by (simp add: FileStore_Load_def wp_bind wp_return_eta wp_State ctx_Err_def os_ReadFile_def wp_call_healthy)
  qed
qed

theorem save_then_load_witness:
  "wp (FileStore_Save ''/s.json'' (Some (\<lambda>_. None)) sample_State)
     (\<lambda>x e'. x = None \<and> wp (FileStore_Load ''/s.json'' (Some (\<lambda>_. None))) (\<lambda>y e''. y = Inr sample_State) e')
     fresh_os"
proof (rule save_then_load)
  show "TrimSpace ''/s.json'' \<noteq> []" by code_simp
  show "\<not> temp_name ''/s.json''" by (simp add: temp_name_def last_n_def)
  show "marshal_State sample_State \<noteq> None" by (rule sample_marshals)
  show "state_exact sample_State" by (rule sample_exact)
  show "os_faults fresh_os = []" "os_temp fresh_os = ''1'' # []" by (simp_all add: fresh_os_def)
  show "d_files (os_disk fresh_os) (joinPath (filepath_Dir ''/s.json'') ''.state-'' @ ''1'' @ ''.tmp'') = None"
    by (simp add: fresh_os_def)
qed

end
