(* ===== verification/Beside.thy ===== *)
theory Beside
  imports Interfaces
begin

text \<open>
  Two environments side by side, as a pair. A collaborator that acts on the second one alone
  is lifted to the pair and leaves the first one as it is: the disk beside the rest of the
  world, or a record of library calls beside it.
\<close>

section \<open>Acting on the second of two environments\<close>

text \<open>The context may look at both.\<close>

definition ctx_rest :: "'c \<Rightarrow> ('c \<times> 'x) ctx option \<Rightarrow> 'x ctx option" where
  "ctx_rest e ctx = map_option (\<lambda>c x. c (e, x)) ctx"

definition on_rest :: "('x ctx option \<Rightarrow> 'a \<Rightarrow> 'x \<Rightarrow> 'r \<times> 'x) \<Rightarrow>
    ('c \<times> 'x) ctx option \<Rightarrow> 'a \<Rightarrow> 'c \<times> 'x \<Rightarrow> 'r \<times> ('c \<times> 'x)" where
  "on_rest m ctx a = (\<lambda>(e, x). case m (ctx_rest e ctx) a x of (r, x') \<Rightarrow> (r, (e, x')))"

definition client_rest :: "'x CoreClient \<Rightarrow> ('c \<times> 'x) CoreClient" where
  "client_rest cl = \<lparr>LoadDesiredConfig = on_rest (LoadDesiredConfig cl),
     PublishStatus = on_rest (PublishStatus cl), PublishResult = on_rest (PublishResult cl)\<rparr>"

definition clock_rest :: "'x Clock \<Rightarrow> ('c \<times> 'x) Clock" where
  "clock_rest now = (\<lambda>(e, x). case now x of (t, x') \<Rightarrow> (t, (e, x')))"

lemma on_rest_fst: "on_rest m ctx a e = (r, e') \<Longrightarrow> fst e' = fst e"
  by (auto simp: on_rest_def split: prod.splits)

lemma clock_rest_fst: "clock_rest now e = (t, e') \<Longrightarrow> fst e' = fst e"
  by (auto simp: clock_rest_def split: prod.splits)

end
