(* ===== verification/OnDisk.thy ===== *)
theory OnDisk
  imports FileStoreLaws Engines Beside
begin

text \<open>
  The configure service as the agent runs it: the state store is the file store, every
  other collaborator is arbitrary and acts on an environment of its own. The environment
  of the service is the operating system and that environment, side by side.
\<close>

section \<open>Side by side\<close>

definition ctx_os :: "'x \<Rightarrow> (os \<times> 'x) ctx option \<Rightarrow> os ctx option" where
  "ctx_os x ctx = map_option (\<lambda>c e. c (e, x)) ctx"

definition disk_store :: "string \<Rightarrow> (os \<times> 'x) StateStore" where
  "disk_store p = \<lparr>
     store_Load = (\<lambda>ctx (e, x). case store_Load (FileStore p) (ctx_os x ctx) e of (r, e') \<Rightarrow> (r, (e', x))),
     store_Save = (\<lambda>ctx st (e, x). case store_Save (FileStore p) (ctx_os x ctx) st e of (r, e') \<Rightarrow> (r, (e', x)))\<rparr>"

text \<open>The dependencies of the service, as the agent wires them.\<close>

definition disk_service ::
  "string \<Rightarrow> 'x CoreClient \<Rightarrow> 'x Renderer \<Rightarrow> 'x ApplyEngine \<Rightarrow> 'x Clock \<Rightarrow> bool \<Rightarrow> DebugLogging
     \<Rightarrow> (os \<times> 'x) ConfigureService" where
  "disk_service p cl rend eng now lg dbg = \<lparr>cs_client = client_rest cl, cs_stateStore = disk_store p,
     cs_renderer = on_rest rend, cs_applyEngine = on_rest eng, cs_logger = lg,
     cs_now = clock_rest now, cs_debug = dbg\<rparr>"

text \<open>The new service's dependencies are complete, so \<open>NewService\<close> accepts them.\<close>

lemma disk_service_new:
  "configure_NewService time_Now \<lparr>cd_Client = Some (client_rest cl), cd_StateStore = Some (disk_store p),
     cd_Renderer = Some (on_rest rend), cd_ApplyEngine = Some (on_rest eng), cd_Logger = lg,
     cd_Debug = dbg, cd_Now = Some (clock_rest now)\<rparr> = Inr (disk_service p cl rend eng now lg dbg)"
  by (simp add: configure_NewService_def disk_service_def)

section \<open>The contract\<close>

sublocale state_path \<subseteq> on_disk: state_store "disk_store path" "\<lambda>e. file_stored path (fst e)" state_exact
proof unfold_locales
qed (auto simp: disk_store_def split: prod.splits
      dest: on_file.load_keeps on_file.load_reads on_file.save_writes on_file.save_fails)

sublocale state_path \<subseteq> agent: configure_env "disk_store path" "\<lambda>e. file_stored path (fst e)" state_exact
    "disk_service path cl rend eng now lg dbg" for cl rend eng now lg dbg
  by unfold_locales
    (auto simp: disk_service_def client_rest_def clock_rest_def dest: on_rest_fst split: prod.splits)

section \<open>Handling a notification over the state file\<close>

lemma exact_msg:
  "valid_utf8 (cn_Target msg) \<Longrightarrow> valid_utf8 (cn_UUID msg) \<Longrightarrow> msg_storable state_exact msg"
  by (simp add: msg_storable_def state_exact_def zone_exact_def)

context state_path
begin

lemmas agent_store_effect = agent.handle_store_effect [OF exact_msg]
lemmas agent_idempotent = agent.handle_idempotent
lemmas agent_twice = agent.handle_twice [OF exact_msg]

end

text \<open>
  \textbf{C18.} A handled notification and the state file: when the handler returns nil
  the file holds a state with the notification's UUID; when it returns an error the stored
  state is what it was, or the notification's configuration was rendered and applied.
\<close>

theorem disk_handle_store_effect:
  assumes "\<not> temp_name p" "valid_utf8 (cn_Target msg)" "valid_utf8 (cn_UUID msg)"
  shows "wp (configure_Handle (disk_service p cl rend eng now lg dbg) (Some c) msg)
     (\<lambda>r w'. \<exists>evs. trace w' = trace w @ evs
        \<and> store_effect msg evs r (file_stored p (fst (env w))) (file_stored p (fst (env w')))) w"
  by (rule state_path.agent_store_effect [OF state_path.intro [OF assms(1)] assms(2,3)])

text \<open>
  A notification whose UUID the state file records already is acknowledged
  without rendering, applying or saving anything, and the stored state stays as it is.
\<close>

theorem disk_handle_idempotent:
  assumes "\<not> temp_name p" "file_stored p (fst (env w)) = Some st" "st_AppliedUUID st = cn_UUID msg"
  shows "wp (configure_Handle (disk_service p cl rend eng now lg dbg) (Some c) msg)
     (\<lambda>r w'. file_stored p (fst (env w')) = Some st
        \<and> (\<exists>evs. trace w' = trace w @ evs \<and> filter is_effect evs = [])) w"
  by (rule state_path.agent_idempotent [OF state_path.intro [OF assms(1)] assms(2,3)])

text \<open>
  A notification that was handled with success and is handled again, with
  any later context, neither renders nor applies nor saves the second time.
\<close>

theorem disk_handle_twice:
  assumes "\<not> temp_name p" "valid_utf8 (cn_Target msg)" "valid_utf8 (cn_UUID msg)"
  shows "wp (configure_Handle (disk_service p cl rend eng now lg dbg) (Some c) msg)
     (\<lambda>r w1. r = None \<longrightarrow> wp (configure_Handle (disk_service p cl rend eng now lg dbg) (Some c') msg)
        (\<lambda>r2 w2. \<exists>evs. trace w2 = trace w1 @ evs \<and> filter is_effect evs = []) w1) w"
  by (rule state_path.agent_twice [OF state_path.intro [OF assms(1)] assms(2,3)])

section \<open>A sample machine\<close>

definition sample_msg :: ConfigureNotification where
  "sample_msg = \<lparr>cn_Version = ''1.0'', cn_RPCID = ''rpc-1'', cn_Target = ''vyos'',
     cn_CommandType = ''configure'', cn_UUID = ''cfg-1'', cn_KVBucket = ''cfg_desired'',
     cn_KVKey = ''desired.vyos'', cn_Timestamp = zero_time\<rparr>"

definition sample_desired :: StoredDesiredConfig where
  "sample_desired = \<lparr>sd_Record = \<lparr>dr_RPCID = ''rpc-1'', dr_Target = ''vyos'', dr_UUID = ''cfg-1'',
     dr_Payload = Some ''{}'', dr_Timestamp = zero_time\<rparr>, sd_Bucket = ''cfg_desired'', sd_Key = ''desired.vyos''\<rparr>"

definition sample_client :: "unit CoreClient" where
  "sample_client = \<lparr>LoadDesiredConfig = (\<lambda>ctx target e. (Inr (Some sample_desired), e)),
     PublishStatus = (\<lambda>ctx msg e. (None, e)), PublishResult = (\<lambda>ctx msg e. (None, e))\<rparr>"

definition sample_service :: "(os \<times> unit) ConfigureService" where
  "sample_service = disk_service ''/s.json'' sample_client placeholder_Render placeholder_Apply
     (\<lambda>e. (zero_time, e)) True \<lparr>dl_LogPayloads = False, dl_LogRendered = False, dl_LogApplyPlan = False\<rparr>"

definition fresh_world :: "(os \<times> unit) world" where
  "fresh_world = \<lparr>trace = [], logs = [], env = (fresh_os, ())\<rparr>"

text \<open>The same machine with the sample state in its file.\<close>

definition synced_os :: os where
  "synced_os = fresh_os\<lparr>os_disk := \<lparr>d_files = [''/s.json'' \<mapsto> saved_file (the (marshal_State sample_State))],
     d_durable = [''/s.json'' \<mapsto> saved_file (the (marshal_State sample_State))]\<rparr>\<rparr>"

definition synced_world :: "(os \<times> unit) world" where
  "synced_world = \<lparr>trace = [], logs = [], env = (synced_os, ())\<rparr>"

lemma sample_path: "\<not> temp_name ''/s.json''"
  by (simp add: temp_name_def last_n_def)

lemma sample_msg_ids: "valid_utf8 (cn_Target sample_msg)" "valid_utf8 (cn_UUID sample_msg)"
  by (simp_all add: sample_msg_def valid_utf8_ASCII byte_def)

lemma synced_stored: "file_stored ''/s.json'' (fst (env synced_world)) = Some sample_State"
proof -
  obtain data where "marshal_State sample_State = Some data" using sample_marshals by auto
  with state_round_trip [OF this sample_exact] show ?thesis
    by (simp add: file_stored_def synced_world_def synced_os_def saved_file_def)
qed

theorem disk_handle_store_effect_witness:
  "wp (configure_Handle sample_service (Some (\<lambda>e. None)) sample_msg)
     (\<lambda>r w'. \<exists>evs. trace w' = trace fresh_world @ evs
        \<and> store_effect sample_msg evs r (file_stored ''/s.json'' (fst (env fresh_world)))
            (file_stored ''/s.json'' (fst (env w')))) fresh_world"
  unfolding sample_service_def
  by (rule disk_handle_store_effect [OF sample_path sample_msg_ids])

theorem disk_handle_idempotent_witness:
  "wp (configure_Handle sample_service (Some (\<lambda>e. None)) sample_msg)
     (\<lambda>r w'. file_stored ''/s.json'' (fst (env w')) = Some sample_State
        \<and> (\<exists>evs. trace w' = trace synced_world @ evs \<and> filter is_effect evs = [])) synced_world"
  unfolding sample_service_def
  by (rule disk_handle_idempotent [OF sample_path synced_stored])
    (simp add: sample_State_def sample_msg_def)

theorem disk_handle_twice_witness:
  "wp (configure_Handle sample_service (Some (\<lambda>e. None)) sample_msg)
     (\<lambda>r w1. r = None \<longrightarrow> wp (configure_Handle sample_service (Some (\<lambda>e. None)) sample_msg)
        (\<lambda>r2 w2. \<exists>evs. trace w2 = trace w1 @ evs \<and> filter is_effect evs = []) w1) fresh_world"
  unfolding sample_service_def
  by (rule disk_handle_twice [OF sample_path sample_msg_ids])

end
