(* ===== verification/JsonEncode.thy ===== *)
theory JsonEncode
  imports JsonDecode
begin

text \<open>
  \<open>json.Marshal\<close> of a \<open>map[string]any\<close> with strings, booleans and integers, and that the
  text it makes is read back with the same members.
\<close>

text \<open>The members, in the order of their keys; each value is given by its JSON text.\<close>

fun json_members :: "(string \<times> string) list \<Rightarrow> string" where
  "json_members [] = []"
| "json_members [(k, v)] = quote k @ CHR '':'' # v"
| "json_members ((k, v) # ms) = quote k @ CHR '':'' # v @ CHR '','' # json_members ms"

definition json_object :: "(string \<times> string) list \<Rightarrow> string" where
  "json_object ms = CHR ''{'' # json_members ms @ ''}''"

text \<open>\<open>strconv.Itoa\<close> of a number that is not negative.\<close>

fun itoa :: "nat \<Rightarrow> string" where
  "itoa n = (if n < 10 then [chr (0x30 + n)] else itoa (n div 10) @ [chr (0x30 + n mod 10)])"

declare itoa.simps [simp del]

section \<open>Reading the text back\<close>

text \<open>A text that is read as one value wherever it stands in an object.\<close>

definition value_text :: "nat \<Rightarrow> string \<Rightarrow> jnode \<Rightarrow> bool" where
  "value_text d v n \<longleftrightarrow> (\<exists>c u. v = c # u \<and> \<not> json_space c)
     \<and> (\<forall>b t. b = CHR '','' \<or> b = CHR ''}'' \<longrightarrow> parse_value d (v @ b # t) = Some (n, b # t))"

lemma scan_quote_body: "scan_string (quote_body s @ dquote # t) = Some (quote_body s, t)"
  using quote_body_read by blast

lemma value_text_string: "value_text d (quote s) (JNode (quote s) (JStr (quote_body s)))"
proof -
  have "parse_value d (quote s @ b # t) = Some (JNode (quote s) (JStr (quote_body s)), b # t)" for b t
    using parse_value_string [where d = d, OF scan_quote_body [of s "b # t"]] by (simp add: quote_def)
  then show ?thesis by (simp add: value_text_def quote_def)
qed

lemma value_text_true: "value_text d ''true'' (JNode ''true'' (JBool True))"
  by (simp add: value_text_def json_space_def parse_value.simps node_def)

lemma is_digit_chr: "n < 10 \<Longrightarrow> is_digit (chr (0x30 + n))"
  by (simp add: is_digit_def in_range_def)

lemma itoa_digits: "list_all is_digit (itoa n) \<and> itoa n \<noteq> []"
proof (induction n rule: itoa.induct)
  case (1 n)
  then show ?case by (subst (1 2) itoa.simps) (auto simp: is_digit_chr)
qed

lemma itoa_first: "itoa n = c # u \<Longrightarrow> (c = CHR ''0'' \<longleftrightarrow> n = 0) \<and> (n = 0 \<longrightarrow> u = [])"
proof (induction n arbitrary: c u rule: itoa.induct)
  case (1 n)
  show ?case
  proof (cases "n < 10")
    case True
    with "1.prems" have c: "c = chr (0x30 + n)" "u = []" by (simp_all add: itoa.simps [of n])
    have "CHR ''0'' = chr 0x30" by (simp add: chr_def char_of_def bit_Suc_0_iff)
    moreover have "chr (0x30 + n) = chr 0x30 \<longleftrightarrow> n = 0"
    proof
      assume "chr (0x30 + n) = chr 0x30"
      then have "byte (chr (0x30 + n)) = byte (chr 0x30)" by (rule arg_cong)
      with True show "n = 0" by (simp del: chr_byte)
    qed simp
    ultimately show ?thesis using c by simp
  next
    case False
    obtain c' u' where "itoa (n div 10) = c' # u'" using itoa_digits by (meson neq_Nil_conv)
    with "1.IH" [OF False this] "1.prems" False show ?thesis by (simp add: itoa.simps [of n])
  qed
qed

lemma digits_value_itoa: "digits_value (itoa n) = n"
proof (induction n rule: itoa.induct)
  case (1 n)
  then show ?case by (subst itoa.simps) (auto simp: digits_value_def)
qed

lemma value_text_itoa: "value_text d (itoa n) (JNode (itoa n) (JNum (itoa n)))"
proof -
  obtain c u where cu: "itoa n = c # u" using itoa_digits by (meson neq_Nil_conv)
  then have dig: "list_all is_digit (c # u)" using itoa_digits [of n] by simp
  then have range: "0x30 \<le> byte c" "byte c \<le> 0x39" by (simp_all add: is_digit_def in_range_def)
  then have ne: "\<not> json_space c" "c \<noteq> dquote" "c \<noteq> CHR ''['' " "c \<noteq> CHR ''{''" "c \<noteq> CHR ''t''"
      "c \<noteq> CHR ''f''" "c \<noteq> CHR ''n''" "c \<noteq> CHR ''-''"
    by (auto simp: json_space_def byte_def)
  have stop: "\<not> is_digit b" "b \<noteq> CHR ''.''" "b \<noteq> CHR ''e''" "b \<noteq> CHR ''E''"
    if "b = CHR '','' \<or> b = CHR ''}''" for b
    using that by (auto simp: is_digit_def in_range_def byte_def)
  have "scan_number (c # u @ b # t) = Some (c # u, b # t)" if b: "b = CHR '','' \<or> b = CHR ''}''" for b t
  proof -
    have w: "takeWhile is_digit (u @ b # t) = u" "dropWhile is_digit (u @ b # t) = b # t"
      using dig stop(1) [OF b] by (simp_all add: list_all_iff)
    have f: "scan_fraction acc (b # t) = Some (acc, b # t)" for acc
      using stop [OF b] by (simp add: scan_fraction_def scan_exponent_def)
    show ?thesis
    proof (cases "c = CHR ''0''")
      case True
      with itoa_first [OF cu] have "u = []" by simp
      with True f show ?thesis by (simp add: scan_number_def)
    next
      case False
      with dig ne(8) w f show ?thesis by (simp add: scan_number_def)
    qed
  qed
  then show ?thesis
    unfolding cu value_text_def using ne
    by (simp add: parse_value.simps [of d "c # _"] node_def)
qed

lemma members_parse:
  assumes "list_all2 (\<lambda>(k, v) (k', n). k' = quote_body k \<and> value_text d v n) ms ns" "ms \<noteq> []"
  shows "parse_members d (json_members ms @ CHR ''}'' # t) = Some (ns, t)"
  using assms
proof (induction ms arbitrary: ns rule: json_members.induct)
  case (2 k v)
  then obtain n where n: "ns = [(quote_body k, n)]" "value_text d v n"
    by (auto simp: list_all2_Cons1 list_all2_Nil)
  from n(2) obtain c u where v: "v = c # u" "\<not> json_space c"
    and p: "parse_value d (c # u @ CHR ''}'' # t) = Some (n, CHR ''}'' # t)"
    by (auto simp: value_text_def)
  show ?case
    using n(1) v p by (simp add: quote_def parse_members.simps [of _ "dquote # _"] scan_quote_body)
next
  case (3 k v m ms)
  then obtain n ns' where n: "ns = (quote_body k, n) # ns'" "value_text d v n"
    and rest: "list_all2 (\<lambda>(k, v) (k', n). k' = quote_body k \<and> value_text d v n) (m # ms) ns'"
    by (auto simp: list_all2_Cons1)
  from "3.IH" [OF rest] have IH: "parse_members d (json_members (m # ms) @ CHR ''}'' # t) = Some (ns', t)"
    by simp
  from n(2) obtain c u where v: "v = c # u" "\<not> json_space c"
    and p: "\<And>t. parse_value d (c # u @ CHR '','' # t) = Some (n, CHR '','' # t)"
    by (auto simp: value_text_def)
  obtain r where r: "json_members (m # ms) @ CHR ''}'' # t = dquote # r"
    by (cases m; cases ms) (auto simp: quote_def)
  show ?case
    using n(1) v p [of "dquote # r"] IH r
    by (simp add: quote_def parse_members.simps [of _ "dquote # quote_body k @ _"] scan_quote_body)
qed simp

lemma object_parse:
  assumes "list_all2 (\<lambda>(k, v) (k', n). k' = quote_body k \<and> value_text 9999 v n) ms ns" "ms \<noteq> []"
  shows "json_parse (json_object ms) = Some (JNode (json_object ms) (JObj ns))"
proof -
  obtain r where r: "json_members ms @ ''}'' = dquote # r"
    using assms(2) by (cases ms rule: json_members.cases) (auto simp: quote_def)
  with members_parse [OF assms, of "[]"] show ?thesis
    by (simp add: json_parse_def json_object_def parse_value.simps [of _ "CHR ''{'' # _"] node_def
        skip_ws_def [of "[]"])
qed

text \<open>What \<open>json.Unmarshal\<close> makes of a quoted string and of an object.\<close>

lemma unmarshal_string_quote: "unmarshal_string (quote s) = Some (coerce_utf8 s)"
proof -
  have "parse_value 10000 (quote s) = Some (JNode (quote s) (JStr (quote_body s)), [])"
    using parse_value_string [where d = 10000, OF scan_quote_body [of s "[]"]] by (simp add: quote_def)
  moreover have "skip_ws (quote s) = quote s" by (simp add: quote_def)
  moreover have "unquote_body (quote_body s) = Some (coerce_utf8 s)" using quote_body_read by blast
  ultimately show ?thesis
    by (simp add: unmarshal_string_def json_parse_def into_string_def skip_ws_def [of "[]"])
qed

lemma coerce_ASCII: "list_all (\<lambda>c. byte c < 0x80) s \<Longrightarrow> coerce_utf8 s = s"
  by (rule coerce_valid) (induction s, auto simp: valid_utf8.simps)

lemma key_text_quote: "key_text (quote_body k) = coerce_utf8 k"
  using quote_body_read by (fastforce simp: key_text_def)

lemma unmarshal_raw_map_object:
  assumes "list_all2 (\<lambda>(k, v) (k', n). k' = quote_body k \<and> value_text 9999 v n \<and> jraw n = v) ms ns"
    and "ms \<noteq> []"
  shows "unmarshal_raw_map (json_object ms) = Some (fold (\<lambda>(k, v) m. m(coerce_utf8 k \<mapsto> v)) ms Map.empty)"
proof -
  have "fold (\<lambda>(k, v) m. m(key_text k \<mapsto> jraw v)) ns m0 = fold (\<lambda>(k, v) m. m(coerce_utf8 k \<mapsto> v)) ms m0" for m0
    using assms(1)
  proof (induction ms ns arbitrary: m0 rule: list_all2_induct)
    case (Cons x xs y ys)
    then show ?case by (cases x; cases y) (simp add: key_text_quote)
  qed simp
  moreover have "list_all2 (\<lambda>(k, v) (k', n). k' = quote_body k \<and> value_text 9999 v n) ms ns"
    using assms(1) by (rule list_all2_mono) auto
  ultimately show ?thesis
    using assms(2) by (simp add: unmarshal_raw_map_def object_parse into_raw_map_def)
qed

text \<open>An object of strings and of the literal \<open>true\<close>.\<close>

lemma value_text_quote [intro]: "\<exists>n. value_text d (quote s) n \<and> jraw n = quote s"
  using value_text_string by (intro exI conjI) auto

lemma value_text_itoa_ex [intro]: "\<exists>n'. value_text d (itoa n) n' \<and> jraw n' = itoa n"
  using value_text_itoa by (intro exI conjI) auto

lemma value_text_true_ex [intro]: "\<exists>n. value_text d ''true'' n \<and> jraw n = ''true''"
  using value_text_true by (intro exI conjI) auto

lemma unmarshal_raw_map_members:
  assumes "\<forall>(k, v) \<in> set ms. \<exists>n. value_text 9999 v n \<and> jraw n = v" "ms \<noteq> []"
  shows "unmarshal_raw_map (json_object ms) = Some (fold (\<lambda>(k, v) m. m(coerce_utf8 k \<mapsto> v)) ms Map.empty)"
proof -
  define pick where "pick = (\<lambda>(k, v). (quote_body k, SOME n. value_text 9999 v n \<and> jraw n = v))"
  have "list_all2 (\<lambda>(k, v) (k', n). k' = quote_body k \<and> value_text 9999 v n \<and> jraw n = v) ms (map pick ms)"
    unfolding list_all2_map2 list_all2_same
    using assms(1) by (auto simp: pick_def intro: someI_ex [THEN conjunct1] someI_ex [THEN conjunct2])
  then show ?thesis using unmarshal_raw_map_object assms(2) by blast
qed

end
