(* ===== verification/Actions.thy ===== *)
theory Actions
  imports Interfaces GoStrings JsonEncode
begin

text \<open>
  Package \<open>internal/actions\<close>: the action service, which checks that an action is enabled
  and supported, runs its executor and reports, and the placeholder executor of the trace
  action.
\<close>

section \<open>The service\<close>

record 'e ActionClient =
  act_PublishStatus :: "'e ctx option \<Rightarrow> StatusEnvelope \<Rightarrow> 'e \<Rightarrow> go_error option \<times> 'e"
  act_PublishResult :: "'e ctx option \<Rightarrow> ResultEnvelope \<Rightarrow> 'e \<Rightarrow> go_error option \<times> 'e"

record 'e ActionService =
  as_client :: "'e ActionClient"
  as_logger :: bool
  as_now :: "'e Clock"
  as_enabled :: "string set"
  as_executors :: "string \<rightharpoonup> 'e Executor"

text \<open>The entries of the map of executors, in the order a range over it visits them.\<close>

record 'e ActionDeps =
  ad_Client :: "'e ActionClient option"
  ad_Logger :: bool
  ad_Now :: "'e Clock option"
  ad_Enabled :: "string list"
  ad_Executors :: "(string \<times> 'e Executor option) list"

fun enabled_actions :: "string list \<Rightarrow> string set" where
  "enabled_actions [] = {}"
| "enabled_actions (action # actions) =
     (if TrimSpace action = '''' then enabled_actions actions
      else insert (TrimSpace action) (enabled_actions actions))"

fun collect_executors ::
  "(string \<times> 'e Executor option) list \<Rightarrow> (string \<times> 'e Executor) list \<Rightarrow> go_error + (string \<times> 'e Executor) list" where
  "collect_executors [] acc = Inr acc"
| "collect_executors ((action, exec) # entries) acc =
     (if TrimSpace action = '''' then collect_executors entries acc
      else case exec of
        None \<Rightarrow> Inl (Errorf ''action service: executor %q is nil'' [FStr action])
      | Some ex \<Rightarrow> collect_executors entries ((action, ex) # acc))"

definition actions_NewService :: "'e Clock \<Rightarrow> 'e ActionDeps \<Rightarrow> go_error + 'e ActionService" where
  "actions_NewService time_Now deps =
     (case ad_Client deps of
        None \<Rightarrow> Inl (errors_New ''action service: client is required'')
      | Some client \<Rightarrow>
     (case collect_executors (ad_Executors deps) [] of
        Inl err \<Rightarrow> Inl err
      | Inr [] \<Rightarrow> Inl (errors_New ''action service: at least one executor is required'')
      | Inr executors \<Rightarrow>
        Inr \<lparr>as_client = client, as_logger = ad_Logger deps,
             as_now = (case ad_Now deps of None \<Rightarrow> time_Now | Some n \<Rightarrow> n),
             as_enabled = enabled_actions (ad_Enabled deps),
             as_executors = map_of executors\<rparr>))"

section \<open>Logging and publishing\<close>

definition act_logInfo :: "'e ActionService \<Rightarrow> string \<Rightarrow> (string \<times> log_value) list \<Rightarrow> ('e world, unit) state" where
  "act_logInfo s msg kv = log_at (as_logger s) LInfo msg kv"

definition act_logError :: "'e ActionService \<Rightarrow> string \<Rightarrow> (string \<times> log_value) list \<Rightarrow> ('e world, unit) state" where
  "act_logError s msg kv = log_at (as_logger s) LError msg kv"

abbreviation action_kv :: "ActionCommand \<Rightarrow> (string \<times> log_value) list" where
  "action_kv msg \<equiv> [(''target'', LStr (ac_Target msg)), (''action'', LStr (ac_Action msg)),
     (''rpc_id'', LStr (ac_RPCID msg))]"

definition action_status ::
  "ActionCommand \<Rightarrow> string \<Rightarrow> string \<Rightarrow> string \<Rightarrow> gotime \<Rightarrow> StatusEnvelope" where
  "action_status msg status stage message t =
     \<lparr>se_Version = ''1.0'', se_RPCID = ac_RPCID msg, se_Target = ac_Target msg, se_UUID = '''',
      se_Status = status, se_Stage = stage, se_Message = message, se_Timestamp = UTC t\<rparr>"

definition act_publishStatus ::
  "'e ActionService \<Rightarrow> 'e ctx option \<Rightarrow> ActionCommand \<Rightarrow> string \<Rightarrow> string \<Rightarrow> string
     \<Rightarrow> ('e world, go_error option) state" where
  "act_publishStatus s ctx msg status stage message = do {
     t \<leftarrow> peek (as_now s);
     let env = action_status msg status stage message t;
     call (act_PublishStatus (as_client s) ctx env) (EvStatus env)
   }"

definition action_success :: "ActionCommand \<Rightarrow> ActOutput \<Rightarrow> gotime \<Rightarrow> ResultEnvelope" where
  "action_success msg output t =
     \<lparr>re_Version = ''1.0'', re_RPCID = ac_RPCID msg, re_Target = ac_Target msg,
      re_CommandType = ''action'', re_UUID = '''', re_Action = ac_Action msg,
      re_Result = ''success'', re_ErrorCode = '''', re_Message = ao_Message output,
      re_Payload = ao_Payload output, re_Timestamp = UTC t\<rparr>"

definition action_failure :: "ActionCommand \<Rightarrow> string \<Rightarrow> string \<Rightarrow> gotime \<Rightarrow> ResultEnvelope" where
  "action_failure msg code safeMessage t =
     \<lparr>re_Version = ''1.0'', re_RPCID = ac_RPCID msg, re_Target = ac_Target msg,
      re_CommandType = ''action'', re_UUID = '''', re_Action = ac_Action msg,
      re_Result = ''failure'', re_ErrorCode = code, re_Message = safeMessage,
      re_Payload = None, re_Timestamp = UTC t\<rparr>"

definition act_fail ::
  "'e ActionService \<Rightarrow> 'e ctx option \<Rightarrow> ActionCommand \<Rightarrow> string \<Rightarrow> string \<Rightarrow> go_error
     \<Rightarrow> ('e world, go_error option) state" where
  "act_fail s ctx msg code safeMessage originalErr = do {
     act_logError s ''action failed'' (action_kv msg @ [(''stage'', LStr ''failed''),
       (''status'', LStr ''failure''), (''error_code'', LStr code), (''message'', LStr safeMessage)]);
     serr \<leftarrow> act_publishStatus s ctx msg ''failure'' ''failed'' ''action processing failed'';
     t \<leftarrow> peek (as_now s);
     let env = action_failure msg code safeMessage t;
     rerr \<leftarrow> call (act_PublishResult (as_client s) ctx env) (EvResult env);
     State_Monad.return (errors_Join [Some originalErr,
       map_option (wrap ''publish action failure status'') serr,
       map_option (wrap ''publish action failure result'') rerr])
   }"

section \<open>Handling a command\<close>

abbreviation invalid_payload :: string where
  "invalid_payload \<equiv> ''invalid action payload''"

definition ErrInvalidActionPayload :: go_error where
  "ErrInvalidActionPayload = Sentinel invalid_payload"

definition actions_Handle ::
  "'e ActionService \<Rightarrow> 'e ctx option \<Rightarrow> ActionCommand \<Rightarrow> ('e world, go_error option) state" where
  "actions_Handle s ctx msg =
     (case ctx of
        None \<Rightarrow> State_Monad.return (Some (errors_New ''action handle: context is nil''))
      | Some _ \<Rightarrow> do {
     act_logInfo s ''action received'' (action_kv msg @ [(''stage'', LStr ''received''), (''status'', LStr ''running'')]);
     e1 \<leftarrow> act_publishStatus s ctx msg ''running'' ''received'' ''action command received'';
     (case e1 of
       Some err \<Rightarrow> act_fail s ctx msg ''status_publish_failed'' ''action processing failed''
                     (wrap ''publish action status received'' err)
     | None \<Rightarrow>
     (if ac_Action msg \<notin> as_enabled s then
        act_fail s ctx msg ''disabled_action'' ''action is not enabled''
          (Errorf ''action %q is not enabled'' [FStr (ac_Action msg)])
      else
     (case as_executors s (ac_Action msg) of
       None \<Rightarrow> act_fail s ctx msg ''unsupported_action'' ''action is not supported''
                 (Errorf ''action %q has no executor'' [FStr (ac_Action msg)])
     | Some executor \<Rightarrow> do {
     act_logInfo s ''action executing'' (action_kv msg @ [(''stage'', LStr ''executing''), (''status'', LStr ''running'')]);
     e2 \<leftarrow> act_publishStatus s ctx msg ''running'' ''executing'' ''executing trace action'';
     (case e2 of
       Some err \<Rightarrow> act_fail s ctx msg ''status_publish_failed'' ''action processing failed''
                     (wrap ''publish action status executing'' err)
     | None \<Rightarrow> do {
     r \<leftarrow> call (executor ctx msg) (EvExecute msg);
     (case r of
       Inl err \<Rightarrow>
         (if errors_Is err invalid_payload
          then act_fail s ctx msg ''invalid_action_payload'' ''invalid action payload''
                 (Wrapf ''execute action %q: %w'' [FStr (ac_Action msg)] err)
          else act_fail s ctx msg ''action_execute_failed'' ''action execution failed''
                 (Wrapf ''execute action %q: %w'' [FStr (ac_Action msg)] err))
     | Inr output \<Rightarrow> do {
     act_logInfo s ''action completed'' (action_kv msg @ [(''stage'', LStr ''completed''), (''status'', LStr ''success'')]);
     e3 \<leftarrow> act_publishStatus s ctx msg ''success'' ''completed'' ''trace action completed'';
     (case e3 of
       Some err \<Rightarrow> act_fail s ctx msg ''status_publish_failed'' ''action processing failed''
                     (wrap ''publish action status completed'' err)
     | None \<Rightarrow> do {
     act_logInfo s ''action result publishing'' (action_kv msg @ [(''status'', LStr ''success'')]);
     t \<leftarrow> peek (as_now s);
     let env = action_success msg output t;
     e4 \<leftarrow> call (act_PublishResult (as_client s) ctx env) (EvResult env);
     (case e4 of
       Some err \<Rightarrow> act_fail s ctx msg ''result_publish_failed'' ''failed to publish action result''
                     (wrap ''publish action success result'' err)
     | None \<Rightarrow> do {
     act_logInfo s ''action result published'' (action_kv msg @ [(''status'', LStr ''success'')]);
     State_Monad.return None
     })})})})})))})"

section \<open>The placeholder executor\<close>

definition ActionTrace :: string where
  "ActionTrace = ''trace''"

definition placeholder_trace_payload :: "string \<Rightarrow> string" where
  "placeholder_trace_payload target = json_object [
     (''action'', quote ActionTrace), (''executor'', quote ''placeholder_trace''),
     (''placeholder'', ''true''), (''received_payload'', ''true''),
     (''status'', quote ''completed''), (''target'', quote target)]"

text \<open>The checks both executors start with.\<close>

definition check_command :: "'e ctx option \<Rightarrow> ActionCommand \<Rightarrow> 'e \<Rightarrow> go_error option" where
  "check_command ctx msg e =
     (case ctx of
        None \<Rightarrow> Some (errors_New ''execute action: context is nil'')
      | Some c \<Rightarrow>
     (case c e of
        Some err \<Rightarrow> Some (wrap ''execute action'' err)
      | None \<Rightarrow>
        if ac_Target msg = '''' then Some (errors_New ''execute action: target is empty'')
        else if ac_Action msg \<noteq> ActionTrace
        then Some (Errorf ''execute action: unsupported action %q'' [FStr (ac_Action msg)])
        else if ac_RPCID msg = '''' then Some (errors_New ''execute action: rpc id is empty'')
        else if raw_len (ac_Payload msg) = 0 \<or> \<not> json_Valid (the (ac_Payload msg))
        then Some (Wrapf ''%w: payload must be valid json'' [] ErrInvalidActionPayload)
        else None))"

definition placeholder_trace_Execute :: "'e Executor" where
  "placeholder_trace_Execute ctx msg e =
     (case check_command ctx msg e of
        Some err \<Rightarrow> (Inl err, e)
      | None \<Rightarrow> (Inr \<lparr>ao_Payload = Some (placeholder_trace_payload (ac_Target msg)),
          ao_Message = ''placeholder trace action completed''\<rparr>, e))"

end
