(* ===== verification/ActionRuns.thy ===== *)
theory ActionRuns
  imports Actions
begin

text \<open>
  The specification of the action service: the call sequences a command may lead to, as an
  inductive relation, and what follows for execution, reports and correlation.
\<close>

section \<open>The runs\<close>

definition is_action_status :: "ActionCommand \<Rightarrow> string \<Rightarrow> string \<Rightarrow> string \<Rightarrow> StatusEnvelope \<Rightarrow> bool" where
  "is_action_status msg st sg m e \<longleftrightarrow> e = action_status msg st sg m (se_Timestamp e)"

definition is_action_failure :: "ActionCommand \<Rightarrow> string \<Rightarrow> ResultEnvelope \<Rightarrow> bool" where
  "is_action_failure msg code e \<longleftrightarrow> e = action_failure msg code (re_Message e) (re_Timestamp e)"

definition is_action_success :: "ActionCommand \<Rightarrow> ActOutput \<Rightarrow> ResultEnvelope \<Rightarrow> bool" where
  "is_action_success msg out e \<longleftrightarrow> e = action_success msg out (re_Timestamp e)"

text \<open>The two reports of a failure, whatever becomes of them.\<close>

inductive failure_report :: "ActionCommand \<Rightarrow> string \<Rightarrow> event list \<Rightarrow> bool" for msg code where
  "is_action_status msg ''failure'' ''failed'' ''action processing failed'' e1 \<Longrightarrow>
   is_action_failure msg code e2 \<Longrightarrow> failure_report msg code [EvStatus e1 r1, EvResult e2 r2]"

inductive_cases failure_reportE: "failure_report msg code evs"

text \<open>\<open>executing s msg evs\<close>: the command was accepted and announced by the two calls \<open>evs\<close>.\<close>

inductive executing :: "'e ActionService \<Rightarrow> ActionCommand \<Rightarrow> event list \<Rightarrow> bool" for s msg where
  "is_action_status msg ''running'' ''received'' ''action command received'' e1 \<Longrightarrow>
   ac_Action msg \<in> as_enabled s \<Longrightarrow> as_executors s (ac_Action msg) \<noteq> None \<Longrightarrow>
   is_action_status msg ''running'' ''executing'' ''executing trace action'' e2 \<Longrightarrow>
   executing s msg [EvStatus e1 None, EvStatus e2 None]"

inductive_cases executingE: "executing s msg evs"

inductive action_run :: "'e ActionService \<Rightarrow> ActionCommand \<Rightarrow> event list \<Rightarrow> go_error option \<Rightarrow> bool" for s msg where
  not_announced:
    "is_action_status msg ''running'' ''received'' ''action command received'' e \<Longrightarrow>
     failure_report msg ''status_publish_failed'' fs \<Longrightarrow>
     action_run s msg (EvStatus e (Some err) # fs) (Some r)"
| disabled:
    "is_action_status msg ''running'' ''received'' ''action command received'' e \<Longrightarrow>
     ac_Action msg \<notin> as_enabled s \<Longrightarrow> failure_report msg ''disabled_action'' fs \<Longrightarrow>
     action_run s msg (EvStatus e None # fs) (Some r)"
| unsupported:
    "is_action_status msg ''running'' ''received'' ''action command received'' e \<Longrightarrow>
     ac_Action msg \<in> as_enabled s \<Longrightarrow> as_executors s (ac_Action msg) = None \<Longrightarrow>
     failure_report msg ''unsupported_action'' fs \<Longrightarrow>
     action_run s msg (EvStatus e None # fs) (Some r)"
| not_executing:
    "is_action_status msg ''running'' ''received'' ''action command received'' e \<Longrightarrow>
     ac_Action msg \<in> as_enabled s \<Longrightarrow> as_executors s (ac_Action msg) \<noteq> None \<Longrightarrow>
     is_action_status msg ''running'' ''executing'' ''executing trace action'' e2 \<Longrightarrow>
     failure_report msg ''status_publish_failed'' fs \<Longrightarrow>
     action_run s msg (EvStatus e None # EvStatus e2 (Some err) # fs) (Some r)"
| execute_failed:
    "executing s msg pre \<Longrightarrow>
     failure_report msg (if errors_Is err invalid_payload then ''invalid_action_payload''
        else ''action_execute_failed'') fs \<Longrightarrow>
     action_run s msg (pre @ EvExecute msg (Inl err) # fs) (Some r)"
| not_completed:
    "executing s msg pre \<Longrightarrow>
     is_action_status msg ''success'' ''completed'' ''trace action completed'' e \<Longrightarrow>
     failure_report msg ''status_publish_failed'' fs \<Longrightarrow>
     action_run s msg (pre @ EvExecute msg (Inr out) # EvStatus e (Some err) # fs) (Some r)"
| no_result:
    "executing s msg pre \<Longrightarrow>
     is_action_status msg ''success'' ''completed'' ''trace action completed'' e \<Longrightarrow>
     is_action_success msg out e2 \<Longrightarrow> failure_report msg ''result_publish_failed'' fs \<Longrightarrow>
     action_run s msg (pre @ EvExecute msg (Inr out) # EvStatus e None # EvResult e2 (Some err) # fs) (Some r)"
| completed:
    "executing s msg pre \<Longrightarrow>
     is_action_status msg ''success'' ''completed'' ''trace action completed'' e \<Longrightarrow>
     is_action_success msg out e2 \<Longrightarrow>
     action_run s msg (pre @ [EvExecute msg (Inr out), EvStatus e None, EvResult e2 None]) None"

inductive_cases action_run_NoneE: "action_run s msg evs None"

section \<open>The service follows them\<close>

lemma action_envelopes [env_simps]:
  "is_action_status msg st sg m (action_status msg st sg m t)"
  "is_action_failure msg code (action_failure msg code m t)"
  "is_action_success msg out (action_success msg out t)"
  by (simp_all add: is_action_status_def action_status_def is_action_failure_def action_failure_def
      is_action_success_def action_success_def UTC_def)

lemma trace_act_logs [trace_rules]:
  "(\<And>w'. trace w' = trace w \<Longrightarrow> Q () w') \<Longrightarrow> wp (act_logInfo s m kv) Q w"
  "(\<And>w'. trace w' = trace w \<Longrightarrow> Q () w') \<Longrightarrow> wp (act_logError s m kv) Q w"
  by (simp_all add: act_logInfo_def act_logError_def trace_log_at)

lemma trace_act_publishStatus [trace_rules]:
  assumes "\<And>e r w'. is_action_status msg st sg m e \<Longrightarrow> trace w' = trace w @ [EvStatus e r] \<Longrightarrow> Q r w'"
  shows "wp (act_publishStatus s ctx msg st sg m) Q w"
  unfolding act_publishStatus_def Let_def
  by (intro trace_rules) (rule assms [OF action_envelopes(1)], simp)

lemma trace_act_fail [trace_rules]:
  assumes "\<And>fs r w'. failure_report msg code fs \<Longrightarrow> trace w' = trace w @ fs \<Longrightarrow> Q (Some r) w'"
  shows "wp (act_fail s ctx msg code safe err) Q w"
proof -
  have "wp (act_fail s ctx msg code safe err)
      (\<lambda>x w'. \<exists>fs r. x = Some r \<and> failure_report msg code fs \<and> trace w' = trace w @ fs) w"
    unfolding act_fail_def Let_def
    by (intro trace_rules)
      (auto simp: env_simps errors_Join_def intro!: exI [of _ "[_, _]"] failure_report.intros)
  then show ?thesis by (rule wp_mono) (auto intro: assms)
qed

lemma action_rule:
  "wp (actions_Handle s (Some ctx) msg)
     (\<lambda>r w'. \<exists>evs. trace w' = trace w @ evs \<and> action_run s msg evs r) w"
  unfolding actions_Handle_def option.case Let_def
  by (intro trace_rules)
    (auto simp: env_simps intro: action_run.intros
      action_run.execute_failed [OF executing.intros, simplified]
      action_run.not_completed [OF executing.intros, simplified]
      action_run.no_result [OF executing.intros, simplified]
      action_run.completed [OF executing.intros, simplified])

text \<open>
  \textbf{C19.} Whatever its collaborators answer, handling an action command makes one of
  the call sequences of \<open>action_run\<close>: the checks come in the order of the code, every
  failure is reported by a status and a result, and nil is returned after the success
  result was published and only then.
\<close>

theorem action_handle_follows_runs:
  "wp (actions_Handle s (Some ctx) msg)
     (\<lambda>r w'. \<exists>evs. trace w' = trace w @ evs \<and> action_run s msg evs r) w"
  by (rule action_rule)

section \<open>Consequences\<close>

definition is_execute :: "event \<Rightarrow> bool" where
  "is_execute ev = (case ev of EvExecute m r \<Rightarrow> True | _ \<Rightarrow> False)"

definition guarded_execution :: "'e ActionService \<Rightarrow> ActionCommand \<Rightarrow> event list \<Rightarrow> bool" where
  "guarded_execution s msg evs \<longleftrightarrow>
     length (filter is_execute evs) \<le> 1
   \<and> list_all (\<lambda>ev. case ev of
        EvExecute m r \<Rightarrow> m = msg \<and> ac_Action m \<in> as_enabled s \<and> ac_Action m \<in> dom (as_executors s)
      | _ \<Rightarrow> True) evs"

lemma run_guarded: "action_run s msg evs r \<Longrightarrow> guarded_execution s msg evs"
  by (induction rule: action_run.induct)
    (auto simp: guarded_execution_def is_execute_def elim!: failure_reportE executingE)


definition action_codes :: "string list" where
  "action_codes = [''status_publish_failed'', ''disabled_action'', ''unsupported_action'',
     ''action_execute_failed'', ''invalid_action_payload'', ''result_publish_failed'']"

text \<open>The last call of a run is its result report.\<close>

definition action_report :: "ActionCommand \<Rightarrow> go_error option \<Rightarrow> event list \<Rightarrow> bool" where
  "action_report msg r evs \<longleftrightarrow>
     (\<exists>pre e x. evs = pre @ [EvResult e x]
        \<and> (if r = None then x = None \<and> (\<exists>out. EvExecute msg (Inr out) \<in> set pre \<and> is_action_success msg out e)
           else \<exists>code \<in> set action_codes. is_action_failure msg code e))"

lemma failure_report_last:
  assumes "failure_report msg code fs" "code \<in> set action_codes"
  shows "action_report msg (Some r) (pre @ fs)"
  using assms(1)
proof (rule failure_reportE)
  fix e1 e2 r1 r2
  assume "fs = [EvStatus e1 r1, EvResult e2 r2]" "is_action_failure msg code e2"
  with assms(2) show ?thesis
    unfolding action_report_def by (intro exI [of _ "pre @ [EvStatus e1 r1]"] exI [of _ e2]) auto
qed

lemma run_report: "action_run s msg evs r \<Longrightarrow> action_report msg r evs"
proof (induction rule: action_run.induct)
  case (not_announced e fs err r)
  from failure_report_last [OF not_announced(2), where pre = "[EvStatus e (Some err)]"]
  show ?case by (simp add: action_codes_def)
next
  case (disabled e fs r)
  from failure_report_last [OF disabled(3), where pre = "[EvStatus e None]"]
  show ?case by (simp add: action_codes_def)
next
  case (unsupported e fs r)
  from failure_report_last [OF unsupported(4), where pre = "[EvStatus e None]"]
  show ?case by (simp add: action_codes_def)
next
  case (not_executing e e2 fs err r)
  from failure_report_last [OF not_executing(5), where pre = "[EvStatus e None, EvStatus e2 (Some err)]"]
  show ?case by (simp add: action_codes_def)
next
  case (execute_failed pre err fs r)
  from failure_report_last [OF execute_failed(2), where pre = "pre @ [EvExecute msg (Inl err)]"]
  show ?case by (simp add: action_codes_def)
next
  case (not_completed pre e fs out err r)
  from failure_report_last [OF not_completed(3), where pre = "pre @ [EvExecute msg (Inr out), EvStatus e (Some err)]"]
  show ?case by (simp add: action_codes_def)
next
  case (no_result pre e out e2 fs err r)
  from failure_report_last [OF no_result(4),
      where pre = "pre @ [EvExecute msg (Inr out), EvStatus e None, EvResult e2 (Some err)]"]
  show ?case by (simp add: action_codes_def)
next
  case (completed pre e out e2)
  then show ?case
    unfolding action_report_def
    by (intro exI [of _ "pre @ [EvExecute msg (Inr out), EvStatus e None]"] exI [of _ e2]) auto
qed

text \<open>
  \textbf{C21.} A handled action command ends with its result: when nil is returned, the
  published success result with the payload and message the executor gave; otherwise a
  failure result with one of six codes.
\<close>

theorem action_ends_with_report:
  "wp (actions_Handle s (Some ctx) msg)
     (\<lambda>r w'. \<exists>evs. trace w' = trace w @ evs \<and> action_report msg r evs) w"
  by (rule wp_mono [OF action_rule]) (auto dest: run_report)

definition action_correlated :: "ActionCommand \<Rightarrow> event \<Rightarrow> bool" where
  "action_correlated msg ev = (case ev of
     EvStatus e r \<Rightarrow> se_Version e = ''1.0'' \<and> se_RPCID e = ac_RPCID msg \<and> se_Target e = ac_Target msg
       \<and> t_zone (se_Timestamp e) = UTCZone
   | EvResult e r \<Rightarrow> re_Version e = ''1.0'' \<and> re_RPCID e = ac_RPCID msg \<and> re_Target e = ac_Target msg
       \<and> re_CommandType e = ''action'' \<and> re_Action e = ac_Action msg
       \<and> (re_ErrorCode e = '''') = (re_Result e = ''success'') \<and> t_zone (re_Timestamp e) = UTCZone
   | EvExecute m r \<Rightarrow> m = msg
   | _ \<Rightarrow> False)"

lemma action_status_correlated:
  assumes "is_action_status msg st sg m e"
  shows "action_correlated msg (EvStatus e r)"
proof -
  have "e = action_status msg st sg m (se_Timestamp e)" using assms by (simp add: is_action_status_def)
  moreover have "action_correlated msg (EvStatus (action_status msg st sg m t) r)" for t
    by (simp add: action_correlated_def action_status_def)
  ultimately show ?thesis by metis
qed

lemma action_success_correlated:
  assumes "is_action_success msg out e"
  shows "action_correlated msg (EvResult e r)"
proof -
  have "e = action_success msg out (re_Timestamp e)" using assms by (simp add: is_action_success_def)
  moreover have "action_correlated msg (EvResult (action_success msg out t) r)" for t
    by (simp add: action_correlated_def action_success_def)
  ultimately show ?thesis by metis
qed

lemma action_failure_correlated:
  assumes "is_action_failure msg code e" "code \<noteq> ''''"
  shows "action_correlated msg (EvResult e r)"
proof -
  have "e = action_failure msg code (re_Message e) (re_Timestamp e)"
    using assms by (simp add: is_action_failure_def)
  moreover have "action_correlated msg (EvResult (action_failure msg code m t) r)" for m t
    using assms(2) by (simp add: action_correlated_def action_failure_def)
  ultimately show ?thesis by metis
qed

lemma executes_correlated: "action_correlated msg (EvExecute msg r)"
  by (simp add: action_correlated_def)

lemma report_correlated:
  "failure_report msg code fs \<Longrightarrow> code \<noteq> '''' \<Longrightarrow> list_all (action_correlated msg) fs"
  by (auto elim!: failure_reportE simp: action_status_correlated action_failure_correlated)

lemma run_correlated: "action_run s msg evs r \<Longrightarrow> list_all (action_correlated msg) evs"
  by (induction rule: action_run.induct)
    (auto simp: action_status_correlated action_success_correlated executes_correlated
      elim!: executingE dest!: report_correlated split: if_splits)

text \<open>
  \textbf{C22.} Every status and result of an action command carries the wire version, the
  command's request id and target and a UTC timestamp; results name the command type and
  the action, and have an error code exactly when they are failures.
\<close>

theorem action_reports_correlated:
  "wp (actions_Handle s (Some ctx) msg)
     (\<lambda>r w'. \<exists>evs. trace w' = trace w @ evs \<and> list_all (action_correlated msg) evs) w"
  by (rule wp_mono [OF action_rule]) (auto dest: run_correlated)

section \<open>The placeholder executor\<close>

text \<open>
  The placeholder executor answers only a trace command with a target, an RPC
  id and a payload that is JSON. Its answer leaves the environment alone and is an object
  that \<open>json.Unmarshal\<close> reads back: the six members, and of them the target decodes to the
  command's target, with replacement characters for what is not UTF-8.
\<close>

theorem placeholder_trace_answers:
  assumes "placeholder_trace_Execute ctx msg e = (Inr out, e')"
  shows "e' = e \<and> ac_Action msg = ActionTrace \<and> ac_Target msg \<noteq> [] \<and> ac_RPCID msg \<noteq> []
    \<and> json_Valid (the (ac_Payload msg))
    \<and> (\<exists>p m. ao_Payload out = Some p \<and> unmarshal_raw_map p = Some m
         \<and> dom m = {''action'', ''executor'', ''placeholder'', ''received_payload'', ''status'', ''target''}
         \<and> map_option unmarshal_string (m ''status'') = Some (Some ''completed'')
         \<and> map_option unmarshal_string (m ''target'') = Some (Some (coerce_utf8 (ac_Target msg))))"
proof -
  from assms have c: "check_command ctx msg e = None" and e: "e' = e"
    and out: "ao_Payload out = Some (placeholder_trace_payload (ac_Target msg))"
    by (auto simp: placeholder_trace_Execute_def split: option.splits)
  have keys: "coerce_utf8 k = k" if "k \<in> {''action'', ''executor'', ''placeholder'', ''received_payload'',
      ''status'', ''target'', ''completed''}" for k
    using that by (intro coerce_ASCII) (auto simp: byte_def)
  from c have "ac_Action msg = ActionTrace" "ac_Target msg \<noteq> []" "ac_RPCID msg \<noteq> []"
      "json_Valid (the (ac_Payload msg))"
    by (auto simp: check_command_def split: option.splits if_splits)
  moreover from unmarshal_raw_map_members have
    "\<exists>m. unmarshal_raw_map (placeholder_trace_payload (ac_Target msg)) = Some m
         \<and> dom m = {''action'', ''executor'', ''placeholder'', ''received_payload'', ''status'', ''target''}
         \<and> m ''status'' = Some (quote ''completed'') \<and> m ''target'' = Some (quote (ac_Target msg))"
    unfolding placeholder_trace_payload_def by (subst unmarshal_raw_map_members) (auto simp: keys)
  moreover have "coerce_utf8 ''completed'' = ''completed''" by (rule keys) simp
  ultimately show ?thesis
    unfolding e out option.inject by (metis unmarshal_string_quote option.map(2))
qed

text \<open>A command for the witness.\<close>

definition sample_command :: ActionCommand where
  "sample_command = \<lparr>ac_Version = ''1.0'', ac_RPCID = ''r1'', ac_Target = ''edge'', 
     ac_Action = ''trace'', ac_Payload = Some ''{}''\<rparr>"

theorem placeholder_trace_answers_witness:
  "\<exists>out p m. placeholder_trace_Execute (Some (\<lambda>_. None)) sample_command () = (Inr out, ())
     \<and> ao_Payload out = Some p \<and> unmarshal_raw_map p = Some m
     \<and> map_option unmarshal_string (m ''status'') = Some (Some ''completed'')"
proof -
  have "json_Valid ''{}''"
    by (simp add: json_Valid_def json_parse_def parse_value.simps [of _ "CHR ''{'' # _"] node_def skip_ws_def [of "[]"])
  then have c: "check_command (Some (\<lambda>_. None)) sample_command () = None"
    by (simp add: check_command_def sample_command_def ActionTrace_def raw_len_def)
  have "\<exists>out. placeholder_trace_Execute (Some (\<lambda>_. None)) sample_command () = (Inr out, ())"
    unfolding placeholder_trace_Execute_def c option.case by (intro exI) (rule refl)
  then obtain out where run: "placeholder_trace_Execute (Some (\<lambda>_. None)) sample_command () = (Inr out, ())" ..
  from placeholder_trace_answers [OF run] obtain p m where
    "ao_Payload out = Some p" "unmarshal_raw_map p = Some m"
    "map_option unmarshal_string (m ''status'') = Some (Some ''completed'')" by (elim conjE exE)
  with run show ?thesis by (intro exI conjI)
qed

end
