(* ===== verification/Duration.thy ===== *)
theory Duration
  imports JsonEncode
begin

text \<open>
  \<open>time.ParseDuration\<close>, with its 64-bit accumulator and the \<open>float64\<close> arithmetic it uses for
  a fraction, and what it makes of whole numbers of a unit.
\<close>

section \<open>float64\<close>

text \<open>
  A positive fraction \<open>p / q\<close> is rounded to 53 bits, ties to even. Exponents are not bounded:
  where a \<open>float64\<close> would overflow or lose its leading bits, the result below is cut to 0 by
  both.
\<close>

function scale_up :: "nat \<Rightarrow> nat \<Rightarrow> nat" where
  "scale_up p q = (if p = 0 \<or> 2 ^ 52 * q \<le> p then 0 else Suc (scale_up (2 * p) q))"
  by pat_completeness auto
termination by (relation "measure (\<lambda>(p, q). 2 ^ 52 * q - p)") auto

function scale_down :: "nat \<Rightarrow> nat \<Rightarrow> nat" where
  "scale_down p q = (if q = 0 \<or> p < 2 ^ 53 * q then 0 else Suc (scale_down p (2 * q)))"
  by pat_completeness auto
termination by (relation "measure (\<lambda>(p, q). p - q)") auto

declare scale_up.simps [simp del] scale_down.simps [simp del]

definition round_even :: "nat \<Rightarrow> nat \<Rightarrow> nat" where
  "round_even p q =
     (let m = p div q; r = p mod q
      in if 2 * r < q \<or> (2 * r = q \<and> even m) then m else Suc m)"

text \<open>The rounded value, again as a fraction.\<close>

definition round53 :: "nat \<Rightarrow> nat \<Rightarrow> nat \<times> nat" where
  "round53 p q =
     (let u = scale_up p q; d = scale_down p q
      in (round_even (p * 2 ^ u) (q * 2 ^ d) * 2 ^ d, 2 ^ u))"

text \<open>\<open>scale *= 10\<close>, where the scale is a whole number.\<close>

definition float_times10 :: "nat \<Rightarrow> nat" where
  "float_times10 s = (case round53 (10 * s) 1 of (p, q) \<Rightarrow> p div q)"

text \<open>\<open>uint64(float64(f) * (float64(unit) / scale))\<close>\<close>

definition fraction_of_unit :: "nat \<Rightarrow> nat \<Rightarrow> nat \<Rightarrow> nat" where
  "fraction_of_unit f unit scale =
     (case (round53 f 1, round53 unit scale) of ((a, a'), (b, b')) \<Rightarrow>
      case round53 (a * b) (a' * b') of (c, c') \<Rightarrow> c div c')"

section \<open>The parser\<close>

fun leadingInt :: "nat \<Rightarrow> string \<Rightarrow> (nat \<times> string) option" where
  "leadingInt x [] = Some (x, [])"
| "leadingInt x (c # s) =
     (if \<not> is_digit c then Some (x, c # s)
      else if x > 2 ^ 63 div 10 then None
      else let y = 10 * x + (byte c - 0x30)
           in if y > 2 ^ 63 then None else leadingInt y s)"

fun leadingFraction :: "nat \<Rightarrow> nat \<Rightarrow> bool \<Rightarrow> string \<Rightarrow> nat \<times> nat \<times> string" where
  "leadingFraction x scale overflow [] = (x, scale, [])"
| "leadingFraction x scale overflow (c # s) =
     (if \<not> is_digit c then (x, scale, c # s)
      else if overflow \<or> x > (2 ^ 63 - 1) div 10 then leadingFraction x scale True s
      else let y = 10 * x + (byte c - 0x30)
           in if y > 2 ^ 63 then leadingFraction x scale True s
              else leadingFraction y (float_times10 scale) False s)"

definition unitMap :: "string \<rightharpoonup> nat" where
  "unitMap = map_of
     [(''ns'', 1), (''us'', 1000), ([CHR 0xC2, CHR 0xB5, CHR ''s''], 1000),
      ([CHR 0xCE, CHR 0xBC, CHR ''s''], 1000), (''ms'', 1000000), (''s'', 1000000000),
      (''m'', 60000000000), (''h'', 3600000000000)]"

definition unit_char :: "char \<Rightarrow> bool" where
  "unit_char c \<longleftrightarrow> c \<noteq> CHR ''.'' \<and> \<not> is_digit c"

definition invalid_duration :: "string \<Rightarrow> go_error" where
  "invalid_duration orig = Errorf ''time: invalid duration %s'' [FStr orig]"

text \<open>The fraction, if there is one: its digits, their scale, and whether it has any.\<close>

definition optional_fraction :: "string \<Rightarrow> nat \<times> nat \<times> bool \<times> string" where
  "optional_fraction s = (case s of
     c # t \<Rightarrow>
       (if c = CHR ''.'' then
          (case leadingFraction 0 1 False t of (f, scale, r) \<Rightarrow> (f, scale, length r \<noteq> length t, r))
        else (0, 1, False, s))
   | [] \<Rightarrow> (0, 1, False, s))"

text \<open>One number with its unit: the nanoseconds it adds, and what follows it.\<close>

definition unit_amount :: "string \<Rightarrow> nat \<Rightarrow> nat \<Rightarrow> nat \<Rightarrow> string \<Rightarrow> go_error + nat" where
  "unit_amount orig v f scale u =
     (if u = [] then Inl (Errorf ''time: missing unit in duration %s'' [FStr orig])
      else (case unitMap u of
         None \<Rightarrow> Inl (Errorf ''time: unknown unit %s in duration %s'' [FStr u, FStr orig])
       | Some unit \<Rightarrow>
           (if v > 2 ^ 63 div unit then Inl (invalid_duration orig)
            else let w = v * unit + (if f > 0 then fraction_of_unit f unit scale else 0)
                 in if w > 2 ^ 63 then Inl (invalid_duration orig) else Inr w)))"

definition parse_component :: "string \<Rightarrow> string \<Rightarrow> go_error + nat \<times> string" where
  "parse_component orig s =
     (if s = [] \<or> \<not> (hd s = CHR ''.'' \<or> is_digit (hd s)) then Inl (invalid_duration orig) else
      (case leadingInt 0 s of
         None \<Rightarrow> Inl (invalid_duration orig)
       | Some (v, s1) \<Rightarrow>
      (case optional_fraction s1 of (f, scale, post, s2) \<Rightarrow>
         if length s1 = length s \<and> \<not> post then Inl (invalid_duration orig)
         else (case unit_amount orig v f scale (takeWhile unit_char s2) of
                 Inl err \<Rightarrow> Inl err
               | Inr w \<Rightarrow> Inr (w, dropWhile unit_char s2)))))"

lemma leadingInt_length: "leadingInt x s = Some (v, t) \<Longrightarrow> length t \<le> length s"
  by (induction x s rule: leadingInt.induct) (auto simp: Let_def split: if_splits)

lemma leadingFraction_length: "leadingFraction x sc ov s = (f, sc', t) \<Longrightarrow> length t \<le> length s"
proof (induction s arbitrary: x sc ov)
  case (Cons c s)
  then show ?case by (auto simp: Let_def le_SucI split: if_splits)
qed simp

lemma optional_fraction_length: "optional_fraction s = (f, sc, post, t) \<Longrightarrow> length t \<le> length s"
  by (auto simp: optional_fraction_def split: list.splits if_splits prod.splits dest: leadingFraction_length)

lemma parse_component_length:
  assumes "parse_component orig s = Inr (w, t)"
  shows "length t < length s"
proof -
  from assms obtain v s1 f scale post s2 where
    "leadingInt 0 s = Some (v, s1)" "optional_fraction s1 = (f, scale, post, s2)"
    and u: "takeWhile unit_char s2 \<noteq> []" and t: "t = dropWhile unit_char s2"
    by (auto simp: parse_component_def unit_amount_def split: option.splits if_splits prod.splits sum.splits)
  then have "length s2 \<le> length s" by (meson leadingInt_length optional_fraction_length le_trans)
  moreover have "length t < length s2"
    unfolding t using u by (cases s2) (auto simp: length_dropWhile_le less_Suc_eq_le split: if_splits)
  ultimately show ?thesis by simp
qed

text \<open>The components are added in a \<open>uint64\<close>, so the sum wraps before it is compared.\<close>

function parse_components :: "string \<Rightarrow> string \<Rightarrow> nat \<Rightarrow> go_error + nat" where
  "parse_components orig s d =
     (if s = [] then Inr d
      else (case parse_component orig s of
              Inl err \<Rightarrow> Inl err
            | Inr (w, t) \<Rightarrow>
                (let d' = (d + w) mod 2 ^ 64
                 in if d' > 2 ^ 63 then Inl (invalid_duration orig) else parse_components orig t d')))"
  by pat_completeness auto
termination
  by (relation "measure (\<lambda>(orig, s, d). length s)") (auto dest: parse_component_length)

declare parse_components.simps [simp del]

definition ParseDuration :: "string \<Rightarrow> go_error + int" where
  "ParseDuration orig =
     (let (neg, s) = (case orig of
            c # t \<Rightarrow> if c = CHR ''-'' \<or> c = CHR ''+'' then (c = CHR ''-'', t) else (False, orig)
          | [] \<Rightarrow> (False, []))
      in if s = ''0'' then Inr 0
         else if s = [] then Inl (invalid_duration orig)
         else (case parse_components orig s 0 of
                 Inl err \<Rightarrow> Inl err
               | Inr d \<Rightarrow>
                   if neg then Inr (- int d)
                   else if d > 2 ^ 63 - 1 then Inl (invalid_duration orig)
                   else Inr (int d)))"

section \<open>Durations fit in 64 bits\<close>

lemma parse_components_bound:
  "parse_components orig s d = Inr d' \<Longrightarrow> d \<le> 2 ^ 63 \<Longrightarrow> d' \<le> 2 ^ 63"
proof (induction orig s d rule: parse_components.induct)
  case (1 orig s d)
  then show ?case
    by (auto simp: parse_components.simps [of orig s d] Let_def split: if_splits sum.splits prod.splits)
qed

lemma ParseDuration_range: "ParseDuration s = Inr d \<Longrightarrow> - (2 ^ 63) \<le> d \<and> d < 2 ^ 63"
  by (auto simp: ParseDuration_def Let_def split: list.splits if_splits sum.splits
      dest!: parse_components_bound)

section \<open>Whole numbers of units\<close>

definition push_digit :: "char \<Rightarrow> nat \<Rightarrow> nat" where
  "push_digit c n = 10 * n + (byte c - 0x30)"

lemma digits_value_push: "digits_value s = fold push_digit s 0"
  by (simp add: digits_value_def push_digit_def [abs_def])

lemma fold_push_ge: "x \<le> fold push_digit ds x"
proof (induction ds arbitrary: x)
  case (Cons c ds)
  have "x \<le> push_digit c x" by (simp add: push_digit_def)
  also have "\<dots> \<le> fold push_digit ds (push_digit c x)" by (rule Cons)
  finally show ?case by simp
qed simp

lemma leadingInt_digits:
  "list_all is_digit ds \<Longrightarrow> fold push_digit ds x \<le> 2 ^ 63 \<Longrightarrow> r = [] \<or> \<not> is_digit (hd r) \<Longrightarrow>
     leadingInt x (ds @ r) = Some (fold push_digit ds x, r)"
proof (induction ds arbitrary: x)
  case Nil
  then show ?case by (cases r) auto
next
  case (Cons c ds)
  have "push_digit c x \<le> fold push_digit ds (push_digit c x)" by (rule fold_push_ge)
  with Cons.prems(2) have "push_digit c x \<le> 2 ^ 63" by simp
  moreover have "10 * x \<le> push_digit c x" by (simp add: push_digit_def)
  ultimately have "10 * x \<le> push_digit c x" "push_digit c x \<le> 2 ^ 63" by simp_all
  then show ?case using Cons by (simp add: push_digit_def Let_def)
qed

lemma unitMap_string:
  assumes "unitMap u = Some k"
  shows "u \<noteq> []" "list_all unit_char u" "0 < k"
  using assms
  by (auto simp: unitMap_def unit_char_def is_digit_def in_range_def byte_def split: if_splits)

text \<open>A whole number with its unit, and what the texts of a list of them say.\<close>

definition whole_text :: "nat \<times> string \<Rightarrow> string" where
  "whole_text = (\<lambda>(n, u). itoa n @ u)"

definition whole_value :: "nat \<times> string \<Rightarrow> nat" where
  "whole_value = (\<lambda>(n, u). n * the (unitMap u))"

lemma whole_texts_start: "concat (map whole_text cs) = [] \<or> is_digit (hd (concat (map whole_text cs)))"
proof (cases cs)
  case (Cons c cs')
  then show ?thesis
    using itoa_digits [of "fst c"] by (cases c) (auto simp: whole_text_def neq_Nil_conv)
qed simp

lemma parse_whole_component:
  assumes "unitMap u = Some k" "n * k \<le> 2 ^ 63" "r = [] \<or> is_digit (hd r)"
  shows "parse_component orig (itoa n @ u @ r) = Inr (n * k, r)"
proof -
  note u = unitMap_string [OF assms(1)]
  obtain c ds where ds: "itoa n = c # ds" using itoa_digits by (meson neq_Nil_conv)
  then have c: "is_digit c" using itoa_digits [of n] by simp
  obtain b v where v: "u = b # v" "unit_char b" using u(1,2) by (cases u) auto
  have "n \<le> n * k" using u(3) by simp
  with assms(2) have "n \<le> 2 ^ 63" by linarith
  then have "leadingInt 0 (itoa n @ u @ r) = Some (n, u @ r)"
    using itoa_digits [of n] digits_value_itoa [of n] v
    by (subst leadingInt_digits) (auto simp: digits_value_push unit_char_def)
  moreover have "optional_fraction (u @ r) = (0, 1, False, u @ r)"
    using v by (simp add: optional_fraction_def unit_char_def)
  moreover have "takeWhile unit_char (u @ r) = u" "dropWhile unit_char (u @ r) = r"
    using u(2) assms(3) by (cases r; auto simp: list_all_iff unit_char_def)+
  moreover have "unit_amount orig n 0 1 u = Inr (n * k)"
    using assms(1,2) u(1,3) by (simp add: unit_amount_def not_less less_eq_div_iff_mult_less_eq)
  ultimately show ?thesis
    using c ds by (simp add: parse_component_def)
qed

lemma parse_whole_components:
  assumes "\<forall>(n, u) \<in> set cs. u \<in> dom unitMap" "d + sum_list (map whole_value cs) < 2 ^ 63"
  shows "parse_components orig (concat (map whole_text cs)) d = Inr (d + sum_list (map whole_value cs))"
  using assms
proof (induction cs arbitrary: d)
  case Nil
  then show ?case by (simp add: parse_components.simps)
next
  case (Cons c cs)
  obtain n u where c: "c = (n, u)" by (cases c)
  with Cons.prems(1) obtain k where k: "unitMap u = Some k" by auto
  have "parse_component orig (itoa n @ u @ concat (map whole_text cs)) = Inr (n * k, concat (map whole_text cs))"
    using Cons.prems(2) c k whole_texts_start
    by (intro parse_whole_component) (auto simp: whole_value_def)
  moreover have "itoa n \<noteq> []" using itoa_digits by blast
  moreover have "parse_components orig (concat (map whole_text cs)) (d + n * k)
      = Inr (d + n * k + sum_list (map whole_value cs))"
    using Cons.prems c k by (intro Cons.IH) (auto simp: whole_value_def)
  ultimately show ?case
    using Cons.prems(2) c k
    by (simp add: parse_components.simps [of orig "_ @ _"] whole_text_def whole_value_def Let_def)
qed

lemma parse_wholes:
  assumes "cs \<noteq> []" "\<forall>(n, u) \<in> set cs. u \<in> dom unitMap" "sum_list (map whole_value cs) < 2 ^ 63"
  shows "ParseDuration (concat (map whole_text cs)) = Inr (int (sum_list (map whole_value cs)))"
proof -
  obtain n u cs' where cs: "cs = (n, u) # cs'" using assms(1) by (cases cs) auto
  then have u: "u \<noteq> []" using assms(2) unitMap_string(1) by auto
  obtain c ds where ds: "itoa n = c # ds" "is_digit c"
    using itoa_digits [of n] by (cases "itoa n") auto
  have start: "concat (map whole_text cs) = c # (ds @ u @ concat (map whole_text cs'))"
    by (simp add: cs whole_text_def ds)
  have "c \<noteq> CHR ''-''" "c \<noteq> CHR ''+''" using ds(2) by (auto simp: is_digit_def in_range_def byte_def)
  with u start parse_whole_components [of cs 0] assms show ?thesis
    by (auto simp: ParseDuration_def)
qed

end
