(* ===== verification/Config.thy ===== *)
theory Config
  imports Duration GoStrings
begin

text \<open>
  The configuration (\<open>internal/config\<close>): its records and defaults, validation, the
  conversion to the configuration of \<open>agentcore\<close>, redaction and loading. The YAML codec is
  a parameter, and so are the files and the process environment that loading reads.
\<close>

section \<open>Records\<close>

record LoggingConfig =
  lg_Enabled :: bool
  lg_Level :: string
  lg_Format :: string

record ConfigureConfig =
  cc_Mode :: string

record DebugConfig =
  db_LogPayloads :: bool
  db_LogRendered :: bool
  db_LogApplyPlan :: bool

record ApplyConfig =
  ap_SaveAfterCommit :: bool

record ActionsConfig =
  ax_Mode :: string
  ax_Enabled :: "string list"

record AgentConfig =
  ag_Name :: string
  ag_Version :: string
  ag_Target :: string
  ag_StateFile :: string
  ag_Logging :: LoggingConfig
  ag_Configure :: ConfigureConfig
  ag_Debug :: DebugConfig
  ag_Apply :: ApplyConfig
  ag_Actions :: ActionsConfig

record TLSConfig =
  tls_Enabled :: bool
  tls_InsecureSkipVerify :: bool
  tls_CAFile :: string
  tls_CertFile :: string
  tls_KeyFile :: string
  tls_ServerName :: string

record NATSConfig =
  nt_Servers :: "string list"
  nt_ClientName :: string
  nt_CredentialsFile :: string
  nt_NKeySeedFile :: string
  nt_UserJWTFile :: string
  nt_Username :: string
  nt_Password :: string
  nt_Token :: string
  nt_ConnectTimeout :: string
  nt_RetryOnFailedConnect :: bool
  nt_MaxReconnects :: goint
  nt_ReconnectWait :: string
  nt_ReconnectBufSize :: goint
  nt_TLS :: TLSConfig

record JetStreamConfig =
  js_Domain :: string
  js_APIPrefix :: string
  js_DefaultTimeout :: string

record SubjectConfig =
  sj_ConfigurePattern :: string
  sj_ActionPattern :: string
  sj_ResultPattern :: string
  sj_StatusPattern :: string
  sj_HealthPattern :: string

record KVConfig =
  kv_Bucket :: string
  kv_KeyPattern :: string
  kv_AutoCreateBucket :: bool
  kv_History :: uint8
  kv_TTL :: string
  kv_MaxValueSize :: int32
  kv_Storage :: string
  kv_Replicas :: goint

record TimeoutConfig =
  to_PublishTimeout :: string
  to_SubscribeTimeout :: string
  to_KVTimeout :: string
  to_ShutdownTimeout :: string
  to_HandlerWarnAfter :: string

record RetryConfig =
  rt_PublishAttempts :: goint
  rt_PublishBackoff :: string

record ExecutionConfig =
  ex_HandlerMode :: string

record AgentCoreConfig =
  co_NATS :: NATSConfig
  co_JetStream :: JetStreamConfig
  co_Subjects :: SubjectConfig
  co_KV :: KVConfig
  co_Timeouts :: TimeoutConfig
  co_Retry :: RetryConfig
  co_Execution :: ExecutionConfig

record AppConfig =
  app_Agent :: AgentConfig
  app_AgentCore :: AgentCoreConfig

definition DefaultAppConfig :: AppConfig where
  "DefaultAppConfig = \<lparr>
     app_Agent = \<lparr>
       ag_Name = ''vyos-nats-agent'',
       ag_Version = ''0.1.0'',
       ag_Target = ''vyos'',
       ag_StateFile = ''/tmp/vyos-nats-agent/state.json'',
       ag_Logging = \<lparr>lg_Enabled = True, lg_Level = ''info'', lg_Format = ''text''\<rparr>,
       ag_Configure = \<lparr>cc_Mode = ''placeholder''\<rparr>,
       ag_Debug = \<lparr>db_LogPayloads = False, db_LogRendered = False, db_LogApplyPlan = False\<rparr>,
       ag_Apply = \<lparr>ap_SaveAfterCommit = False\<rparr>,
       ag_Actions = \<lparr>ax_Mode = ''placeholder'', ax_Enabled = [''trace'']\<rparr>\<rparr>,
     app_AgentCore = \<lparr>
       co_NATS = \<lparr>nt_Servers = [''nats://127.0.0.1:4222''], nt_ClientName = ''vyos-nats-agent'',
         nt_CredentialsFile = '''', nt_NKeySeedFile = '''', nt_UserJWTFile = '''', nt_Username = '''',
         nt_Password = '''', nt_Token = '''', nt_ConnectTimeout = ''5s'', nt_RetryOnFailedConnect = False,
         nt_MaxReconnects = -1, nt_ReconnectWait = ''2s'', nt_ReconnectBufSize = 0,
         nt_TLS = \<lparr>tls_Enabled = False, tls_InsecureSkipVerify = False, tls_CAFile = '''',
           tls_CertFile = '''', tls_KeyFile = '''', tls_ServerName = ''''\<rparr>\<rparr>,
       co_JetStream = \<lparr>js_Domain = '''', js_APIPrefix = '''', js_DefaultTimeout = ''5s''\<rparr>,
       co_Subjects = \<lparr>sj_ConfigurePattern = ''cmd.configure.%s'', sj_ActionPattern = ''cmd.action.%s.%s'',
         sj_ResultPattern = ''result.%s'', sj_StatusPattern = ''status.%s'', sj_HealthPattern = ''health.%s''\<rparr>,
       co_KV = \<lparr>kv_Bucket = ''cfg_desired'', kv_KeyPattern = ''desired.%s'', kv_AutoCreateBucket = True,
         kv_History = 1, kv_TTL = '''', kv_MaxValueSize = 0, kv_Storage = ''file'', kv_Replicas = 1\<rparr>,
       co_Timeouts = \<lparr>to_PublishTimeout = ''5s'', to_SubscribeTimeout = ''5s'', to_KVTimeout = ''5s'',
         to_ShutdownTimeout = ''10s'', to_HandlerWarnAfter = ''2s''\<rparr>,
       co_Retry = \<lparr>rt_PublishAttempts = 1, rt_PublishBackoff = ''250ms''\<rparr>,
       co_Execution = \<lparr>ex_HandlerMode = ''sync''\<rparr>\<rparr>\<rparr>"

section \<open>Validation of the parts\<close>

definition validateNoWhitespace :: "string \<Rightarrow> string \<Rightarrow> go_error option" where
  "validateNoWhitespace field v =
     (if contains_space v then Some (Errorf ''%s must not contain whitespace'' [FStr field]) else None)"

text \<open>The loop over the bytes of the pattern.\<close>

fun placeholder_loop :: "string \<Rightarrow> string \<Rightarrow> nat \<Rightarrow> go_error + nat" where
  "placeholder_loop field [] count = Inr count"
| "placeholder_loop field (c # s) count =
     (if c \<noteq> CHR ''%'' then placeholder_loop field s count
      else (case s of
         [] \<Rightarrow> Inl (Errorf ''%s contains unsupported format directive %%'' [FStr field])
       | n # s' \<Rightarrow>
           (if n \<noteq> CHR ''s''
            then Inl (Errorf ''%s contains unsupported format directive %%%c'' [FStr field, FInt (int (byte n))])
            else placeholder_loop field s' (Suc count))))"

definition validateFormatPlaceholders :: "string \<Rightarrow> string \<Rightarrow> nat \<Rightarrow> go_error option" where
  "validateFormatPlaceholders field v placeholders =
     (case placeholder_loop field v 0 of
        Inl err \<Rightarrow> Some err
      | Inr count \<Rightarrow>
          (if count \<noteq> placeholders
           then Some (Errorf ''%s must contain exactly %d %%s placeholder(s)'' [FStr field, FInt (int placeholders)])
           else None))"

text \<open>A failed check returns its error; a sequence of checks stops at the first one.\<close>

definition unless :: "bool \<Rightarrow> go_error \<Rightarrow> go_error option" where
  "unless b e = (if b then None else Some e)"

definition validateSubjectPattern :: "string \<Rightarrow> string \<Rightarrow> nat \<Rightarrow> go_error option" where
  "validateSubjectPattern field p placeholders = first_some [
     unless (p \<noteq> '''') (Errorf ''%s is required'' [FStr field]),
     unless (TrimSpace p = p) (Errorf ''%s must not contain leading or trailing whitespace'' [FStr field]),
     validateNoWhitespace field p,
     unless (\<not> ContainsAny p ''*>'') (Errorf ''%s must not contain wildcard tokens * or >'' [FStr field]),
     validateFormatPlaceholders field p placeholders]"

definition validateKeyPattern :: "string \<Rightarrow> go_error option" where
  "validateKeyPattern p = (let field = ''agentcore.kv.key_pattern'' in first_some [
     unless (p \<noteq> '''') (Errorf ''%s is required'' [FStr field]),
     unless (TrimSpace p = p) (Errorf ''%s must not contain leading or trailing whitespace'' [FStr field]),
     validateNoWhitespace field p,
     validateFormatPlaceholders field p 1])"

definition parseDurationField :: "string \<Rightarrow> string \<Rightarrow> bool \<Rightarrow> go_error + int" where
  "parseDurationField field raw optional =
     (let trimmed = TrimSpace raw
      in if trimmed = '''' then (if optional then Inr 0 else Inl (Errorf ''%s is required'' [FStr field]))
         else (case ParseDuration trimmed of
                 Inl err \<Rightarrow> Inl (Wrapf ''%s is not a valid duration: %w'' [FStr field] err)
               | Inr d \<Rightarrow>
                   (if d < 0 then Inl (Errorf ''%s must not be negative'' [FStr field]) else Inr d)))"

definition duration_error :: "string \<Rightarrow> string \<Rightarrow> bool \<Rightarrow> go_error option" where
  "duration_error field raw optional =
     (case parseDurationField field raw optional of Inl err \<Rightarrow> Some err | Inr d \<Rightarrow> None)"

section \<open>Validation\<close>

definition subject_rules :: "SubjectConfig \<Rightarrow> (string \<times> string \<times> nat) list" where
  "subject_rules s = [
     (''agentcore.subjects.configure_pattern'', sj_ConfigurePattern s, 1),
     (''agentcore.subjects.action_pattern'', sj_ActionPattern s, 2),
     (''agentcore.subjects.result_pattern'', sj_ResultPattern s, 1),
     (''agentcore.subjects.status_pattern'', sj_StatusPattern s, 1),
     (''agentcore.subjects.health_pattern'', sj_HealthPattern s, 1)]"

definition required_durations :: "AgentCoreConfig \<Rightarrow> (string \<times> string) list" where
  "required_durations c = [
     (''agentcore.nats.connect_timeout'', nt_ConnectTimeout (co_NATS c)),
     (''agentcore.nats.reconnect_wait'', nt_ReconnectWait (co_NATS c)),
     (''agentcore.jetstream.default_timeout'', js_DefaultTimeout (co_JetStream c)),
     (''agentcore.timeouts.publish_timeout'', to_PublishTimeout (co_Timeouts c)),
     (''agentcore.timeouts.subscribe_timeout'', to_SubscribeTimeout (co_Timeouts c)),
     (''agentcore.timeouts.kv_timeout'', to_KVTimeout (co_Timeouts c)),
     (''agentcore.timeouts.shutdown_timeout'', to_ShutdownTimeout (co_Timeouts c)),
     (''agentcore.timeouts.handler_warn_after'', to_HandlerWarnAfter (co_Timeouts c)),
     (''agentcore.retry.publish_backoff'', rt_PublishBackoff (co_Retry c))]"

definition AppConfig_Validate :: "AppConfig \<Rightarrow> go_error option" where
  "AppConfig_Validate c =
     (let a = app_Agent c; core = app_AgentCore c; nats = co_NATS core; kv = co_KV core in
      first_some (
        [unless (TrimSpace (ag_Target a) \<noteq> '''') (errors_New ''agent.target is required''),
         unless (TrimSpace (ag_StateFile a) \<noteq> '''') (errors_New ''agent.state_file is required''),
         unless (List.member [''debug'', ''info'', ''warn'', ''error''] (lg_Level (ag_Logging a)))
           (errors_New ''agent.logging.level must be one of debug, info, warn, error''),
         unless (List.member [''text'', ''json''] (lg_Format (ag_Logging a)))
           (errors_New ''agent.logging.format must be one of text, json''),
         unless (List.member [''placeholder'', ''real''] (cc_Mode (ag_Configure a)))
           (errors_New ''agent.configure.mode must be one of placeholder, real''),
         unless (List.member [''placeholder'', ''real''] (ax_Mode (ag_Actions a)))
           (errors_New ''agent.actions.mode must be one of placeholder, real'')]
        @ map (\<lambda>action. unless (action = ''trace'')
             (Errorf ''agent.actions.enabled contains unsupported action %q'' [FStr action]))
           (ax_Enabled (ag_Actions a))
        @ [unless (nt_Servers nats \<noteq> []) (errors_New ''agentcore.nats.servers must not be empty''),
           unless (list_ex (\<lambda>server. TrimSpace server \<noteq> '''') (nt_Servers nats))
             (errors_New ''agentcore.nats.servers must contain at least one non-empty server''),
           unless (\<not> nt_RetryOnFailedConnect nats)
             (errors_New ''agentcore.nats.retry_on_failed_connect is not supported in this phase''),
           unless (\<not> sint (nt_MaxReconnects nats) < -1)
             (errors_New ''agentcore.nats.max_reconnects must be -1 or greater''),
           unless (\<not> sint (nt_ReconnectBufSize nats) < 0)
             (errors_New ''agentcore.nats.reconnect_buf_size must not be negative'')]
        @ map (\<lambda>(field, p, n). validateSubjectPattern field p n) (subject_rules (co_Subjects core))
        @ [unless (TrimSpace (kv_Bucket kv) \<noteq> '''') (errors_New ''agentcore.kv.bucket is required''),
           validateKeyPattern (kv_KeyPattern kv),
           unless (\<not> (unat (kv_History kv) < 1 \<or> unat (kv_History kv) > 64))
             (errors_New ''agentcore.kv.history must be between 1 and 64''),
           unless (\<not> sint (kv_MaxValueSize kv) < 0)
             (errors_New ''agentcore.kv.max_value_size must not be negative''),
           unless (List.member [''file'', ''memory''] (kv_Storage kv))
             (errors_New ''agentcore.kv.storage must be either file or memory''),
           unless (\<not> sint (kv_Replicas kv) < 1) (errors_New ''agentcore.kv.replicas must be at least 1''),
           unless (\<not> sint (rt_PublishAttempts (co_Retry core)) < 1)
             (errors_New ''agentcore.retry.publish_attempts must be at least 1''),
           unless (ex_HandlerMode (co_Execution core) = ''sync'')
             (errors_New ''agentcore.execution.handler_mode must be sync'')]
        @ map (\<lambda>(field, raw). duration_error field raw False) (required_durations core)
        @ [duration_error ''agentcore.kv.ttl'' (kv_TTL kv) True]))"

section \<open>Conversion\<close>

text \<open>The records of \<open>agentcore.Config\<close>, with the fields the conversion sets.\<close>

record CoreTLSConfig =
  ct_Enabled :: bool
  ct_InsecureSkipVerify :: bool
  ct_CAFile :: string
  ct_CertFile :: string
  ct_KeyFile :: string
  ct_ServerName :: string

record CoreNATSConfig =
  cna_Servers :: "string list"
  cna_ClientName :: string
  cna_CredentialsFile :: string
  cna_NKeySeedFile :: string
  cna_UserJWTFile :: string
  cna_Username :: string
  cna_Password :: string
  cna_Token :: string
  cna_ConnectTimeout :: int
  cna_RetryOnFailedConnect :: bool
  cna_MaxReconnects :: goint
  cna_ReconnectWait :: int
  cna_ReconnectBufSize :: goint
  cna_TLS :: "CoreTLSConfig option"

record CoreJetStreamConfig =
  cj_Domain :: string
  cj_APIPrefix :: string
  cj_DefaultTimeout :: int

record CoreSubjectConfig =
  cb_ConfigurePattern :: string
  cb_ActionPattern :: string
  cb_ResultPattern :: string
  cb_StatusPattern :: string
  cb_HealthPattern :: string

record CoreKVConfig =
  ck_Bucket :: string
  ck_KeyPattern :: string
  ck_AutoCreateBucket :: bool
  ck_History :: uint8
  ck_TTL :: int
  ck_MaxValueSize :: int32
  ck_Storage :: string
  ck_Replicas :: goint

record CoreTimeoutConfig =
  cm_PublishTimeout :: int
  cm_SubscribeTimeout :: int
  cm_KVTimeout :: int
  cm_ShutdownTimeout :: int
  cm_HandlerWarnAfter :: int

record CoreRetryConfig =
  cr_PublishAttempts :: goint
  cr_PublishBackoff :: int

record CoreExecutionConfig =
  ce_HandlerMode :: string

record CoreConfig =
  core_AgentName :: string
  core_Version :: string
  core_NATS :: CoreNATSConfig
  core_JetStream :: CoreJetStreamConfig
  core_Subjects :: CoreSubjectConfig
  core_KV :: CoreKVConfig
  core_Timeouts :: CoreTimeoutConfig
  core_Retry :: CoreRetryConfig
  core_Execution :: CoreExecutionConfig

text \<open>A call whose error is returned at once.\<close>

definition checked :: "go_error + 'a \<Rightarrow> ('a \<Rightarrow> go_error + 'b) \<Rightarrow> go_error + 'b" where
  "checked r k = (case r of Inl err \<Rightarrow> Inl err | Inr x \<Rightarrow> k x)"

definition ToAgentCoreConfig :: "AppConfig \<Rightarrow> go_error + CoreConfig" where
  "ToAgentCoreConfig c =
     (let agent = app_Agent c; core = app_AgentCore c; nats = co_NATS core; js = co_JetStream core;
          subjects = co_Subjects core; kv = co_KV core; timeouts = co_Timeouts core; tls = nt_TLS nats in
      checked (parseDurationField ''agentcore.nats.connect_timeout'' (nt_ConnectTimeout nats) False) (\<lambda>connectTimeout.
      checked (parseDurationField ''agentcore.nats.reconnect_wait'' (nt_ReconnectWait nats) False) (\<lambda>reconnectWait.
      checked (parseDurationField ''agentcore.jetstream.default_timeout'' (js_DefaultTimeout js) False) (\<lambda>defaultTimeout.
      checked (parseDurationField ''agentcore.kv.ttl'' (kv_TTL kv) True) (\<lambda>kvTTL.
      checked (parseDurationField ''agentcore.timeouts.publish_timeout'' (to_PublishTimeout timeouts) False) (\<lambda>publishTimeout.
      checked (parseDurationField ''agentcore.timeouts.subscribe_timeout'' (to_SubscribeTimeout timeouts) False) (\<lambda>subscribeTimeout.
      checked (parseDurationField ''agentcore.timeouts.kv_timeout'' (to_KVTimeout timeouts) False) (\<lambda>kvTimeout.
      checked (parseDurationField ''agentcore.timeouts.shutdown_timeout'' (to_ShutdownTimeout timeouts) False) (\<lambda>shutdownTimeout.
      checked (parseDurationField ''agentcore.timeouts.handler_warn_after'' (to_HandlerWarnAfter timeouts) False) (\<lambda>handlerWarnAfter.
      checked (parseDurationField ''agentcore.retry.publish_backoff'' (rt_PublishBackoff (co_Retry core)) False) (\<lambda>publishBackoff.
      Inr \<lparr>core_AgentName = ag_Name agent, core_Version = ag_Version agent,
        core_NATS = \<lparr>cna_Servers = nt_Servers nats, cna_ClientName = nt_ClientName nats,
          cna_CredentialsFile = nt_CredentialsFile nats, cna_NKeySeedFile = nt_NKeySeedFile nats,
          cna_UserJWTFile = nt_UserJWTFile nats, cna_Username = nt_Username nats,
          cna_Password = nt_Password nats, cna_Token = nt_Token nats, cna_ConnectTimeout = connectTimeout,
          cna_RetryOnFailedConnect = nt_RetryOnFailedConnect nats, cna_MaxReconnects = nt_MaxReconnects nats,
          cna_ReconnectWait = reconnectWait, cna_ReconnectBufSize = nt_ReconnectBufSize nats,
          cna_TLS = Some \<lparr>ct_Enabled = tls_Enabled tls, ct_InsecureSkipVerify = tls_InsecureSkipVerify tls,
            ct_CAFile = tls_CAFile tls, ct_CertFile = tls_CertFile tls, ct_KeyFile = tls_KeyFile tls,
            ct_ServerName = tls_ServerName tls\<rparr>\<rparr>,
        core_JetStream = \<lparr>cj_Domain = js_Domain js, cj_APIPrefix = js_APIPrefix js,
          cj_DefaultTimeout = defaultTimeout\<rparr>,
        core_Subjects = \<lparr>cb_ConfigurePattern = sj_ConfigurePattern subjects,
          cb_ActionPattern = sj_ActionPattern subjects, cb_ResultPattern = sj_ResultPattern subjects,
          cb_StatusPattern = sj_StatusPattern subjects, cb_HealthPattern = sj_HealthPattern subjects\<rparr>,
        core_KV = \<lparr>ck_Bucket = kv_Bucket kv, ck_KeyPattern = kv_KeyPattern kv,
          ck_AutoCreateBucket = kv_AutoCreateBucket kv, ck_History = kv_History kv, ck_TTL = kvTTL,
          ck_MaxValueSize = kv_MaxValueSize kv, ck_Storage = kv_Storage kv, ck_Replicas = kv_Replicas kv\<rparr>,
        core_Timeouts = \<lparr>cm_PublishTimeout = publishTimeout, cm_SubscribeTimeout = subscribeTimeout,
          cm_KVTimeout = kvTimeout, cm_ShutdownTimeout = shutdownTimeout,
          cm_HandlerWarnAfter = handlerWarnAfter\<rparr>,
        core_Retry = \<lparr>cr_PublishAttempts = rt_PublishAttempts (co_Retry core), cr_PublishBackoff = publishBackoff\<rparr>,
        core_Execution = \<lparr>ce_HandlerMode = ex_HandlerMode (co_Execution core)\<rparr>\<rparr>)))))))))))"

section \<open>Redaction\<close>

definition redactedValue :: string where
  "redactedValue = ''********''"

definition redactString :: "string \<Rightarrow> string" where
  "redactString v = (if TrimSpace v = '''' then '''' else redactedValue)"

definition tls_redacted :: "TLSConfig \<Rightarrow> TLSConfig" where
  "tls_redacted t = t\<lparr>tls_KeyFile := redactString (tls_KeyFile t),
     tls_CertFile := redactString (tls_CertFile t), tls_CAFile := redactString (tls_CAFile t)\<rparr>"

definition nats_redacted :: "NATSConfig \<Rightarrow> NATSConfig" where
  "nats_redacted n = n\<lparr>nt_Password := redactString (nt_Password n), nt_Token := redactString (nt_Token n),
     nt_CredentialsFile := redactString (nt_CredentialsFile n),
     nt_NKeySeedFile := redactString (nt_NKeySeedFile n),
     nt_UserJWTFile := redactString (nt_UserJWTFile n), nt_TLS := tls_redacted (nt_TLS n)\<rparr>"

definition AppConfig_Redacted :: "AppConfig \<Rightarrow> AppConfig" where
  "AppConfig_Redacted c =
     c\<lparr>app_AgentCore := (app_AgentCore c)\<lparr>co_NATS := nats_redacted (co_NATS (app_AgentCore c))\<rparr>\<rparr>"

definition MarshalRedactedYAML :: "(AppConfig \<Rightarrow> go_error + string) \<Rightarrow> AppConfig \<Rightarrow> go_error + string" where
  "MarshalRedactedYAML yaml_Marshal c = yaml_Marshal (AppConfig_Redacted c)"

section \<open>Loading\<close>

definition defaultConfigPath :: string where
  "defaultConfigPath = ''/etc/vyos-nats-agent/config.yaml''"

definition envConfigPathKey :: string where
  "envConfigPathKey = ''VYOS_NATS_AGENT_CONFIG''"

text \<open>An unset variable reads as an empty string.\<close>

definition ResolvePath :: "(string \<Rightarrow> string) \<Rightarrow> string \<Rightarrow> string" where
  "ResolvePath Getenv flagPath =
     (if flagPath \<noteq> '''' then flagPath
      else if Getenv envConfigPathKey \<noteq> '''' then Getenv envConfigPathKey
      else defaultConfigPath)"

text \<open>
  What loading uses: the environment variables, the files, and the YAML decoder, which fills
  in a configuration and rejects unknown fields.
\<close>

record config_host =
  ch_Getenv :: "string \<Rightarrow> string"
  ch_ReadFile :: "string \<Rightarrow> go_error + string"
  ch_Decode :: "string \<Rightarrow> AppConfig \<Rightarrow> go_error + AppConfig"
  ch_Marshal :: "AppConfig \<Rightarrow> go_error + string"

definition config_Load :: "config_host \<Rightarrow> string \<Rightarrow> go_error + AppConfig" where
  "config_Load h path =
     (case ch_ReadFile h path of
        Inl err \<Rightarrow> Inl (Wrapf ''read config file %q: %w'' [FStr path] err)
      | Inr data \<Rightarrow>
     (case ch_Decode h data DefaultAppConfig of
        Inl err \<Rightarrow> Inl (wrap ''unmarshal config yaml'' err)
      | Inr cfg \<Rightarrow>
     (case AppConfig_Validate cfg of
        Some err \<Rightarrow> Inl err
      | None \<Rightarrow> Inr cfg)))"

definition LoadResolved :: "config_host \<Rightarrow> string \<Rightarrow> (go_error + AppConfig) \<times> string" where
  "LoadResolved h flagPath =
     (let path = ResolvePath (ch_Getenv h) flagPath in (config_Load h path, path))"

end
