(* ===== verification/ConfigLaws.thy ===== *)
theory ConfigLaws
  imports Config
begin

text \<open>
  What validation accepts, stated without its loops; that what it accepts converts; what
  redaction hides and keeps; and what loading gives.
\<close>

section \<open>Patterns\<close>

text \<open>Some encoded white space rune stands somewhere in the text.\<close>

definition has_space :: "string \<Rightarrow> bool" where
  "has_space s \<longleftrightarrow> (\<exists>u w v. s = u @ w @ v \<and> w \<in> set space_runes)"

lemma contains_space_iff: "contains_space s \<longleftrightarrow> has_space s"
proof (induction s)
  case Nil
  then show ?case using space_rune_nonempty by (auto simp: has_space_def)
next
  case (Cons c s)
  have "leading_space (c # s) > 0 \<longleftrightarrow> (\<exists>w v. c # s = w @ v \<and> w \<in> set space_runes)"
  proof
    assume "leading_space (c # s) > 0"
    then have "take (leading_space (c # s)) (c # s) \<in> set space_runes" by (intro leading_space_pos) simp
    then show "\<exists>w v. c # s = w @ v \<and> w \<in> set space_runes"
      by (metis append_take_drop_id)
  next
    assume "\<exists>w v. c # s = w @ v \<and> w \<in> set space_runes"
    then show "leading_space (c # s) > 0"
      using leading_space_rune space_rune_nonempty by fastforce
  qed
  moreover have "has_space (c # s) \<longleftrightarrow> (\<exists>w v. c # s = w @ v \<and> w \<in> set space_runes) \<or> has_space s"
    (is "_ \<longleftrightarrow> ?here \<or> _")
  proof
    assume "has_space (c # s)"
    then obtain u w v where uwv: "c # s = u @ w @ v" "w \<in> set space_runes" by (auto simp: has_space_def)
    then show "?here \<or> has_space s" by (cases u) (auto simp: has_space_def)
  next
    assume "?here \<or> has_space s"
    then show "has_space (c # s)"
    proof
      assume ?here
      then show ?thesis unfolding has_space_def by (metis append_Nil)
    next
      assume "has_space s"
      then show ?thesis unfolding has_space_def by (metis append_Cons)
    qed
  qed
  ultimately show ?case using Cons by simp
qed

lemma no_space_trimmed: "\<not> has_space s \<Longrightarrow> TrimSpace s = s"
proof (rule TrimSpace_id; rule ccontr)
  assume s: "\<not> has_space s"
  show False if "leading_space s \<noteq> 0"
    using leading_space_pos [OF that] s
    unfolding has_space_def by (metis append_Nil append_take_drop_id)
  show False if "trailing_space s \<noteq> 0"
    using trailing_space_pos [OF that] s
    unfolding has_space_def by (metis append_Nil2 append_take_drop_id)
qed

text \<open>A pattern is its segments with \<open>%s\<close> between them; no segment has a percent sign.\<close>

fun with_placeholders :: "string list \<Rightarrow> string" where
  "with_placeholders [] = []"
| "with_placeholders [s] = s"
| "with_placeholders (s # ss) = s @ ''%s'' @ with_placeholders ss"

definition placeholders_exactly :: "nat \<Rightarrow> string \<Rightarrow> bool" where
  "placeholders_exactly n p \<longleftrightarrow>
     (\<exists>ss. length ss = Suc n \<and> p = with_placeholders ss \<and> (\<forall>s \<in> set ss. CHR ''%'' \<notin> set s))"

lemma with_placeholders_Cons:
  "with_placeholders ((c # s) # ss) = c # with_placeholders (s # ss)"
  by (cases ss) simp_all

lemma placeholder_loop_segments:
  "placeholder_loop f (with_placeholders ss) n = Inr (n + (length ss - 1))"
  if "ss \<noteq> []" "\<forall>s \<in> set ss. CHR ''%'' \<notin> set s"
  using that
proof (induction ss arbitrary: n rule: with_placeholders.induct)
  case (2 s)
  then show ?case by (induction s) auto
next
  case (3 s t ts)
  then have IH: "placeholder_loop f (with_placeholders (t # ts)) m = Inr (m + length ts)" for m by simp
  from "3.prems" have "CHR ''%'' \<notin> set s" by simp
  then have "placeholder_loop f (s @ ''%s'' @ with_placeholders (t # ts)) n = Inr (Suc n + length ts)"
    by (induction s) (auto simp: IH)
  then show ?case by simp
qed simp

lemma placeholder_loop_Inr:
  "placeholder_loop f s n = Inr m \<Longrightarrow>
     \<exists>ss. m = n + (length ss - 1) \<and> ss \<noteq> [] \<and> s = with_placeholders ss \<and> (\<forall>s \<in> set ss. CHR ''%'' \<notin> set s)"
proof (induction f s n rule: placeholder_loop.induct)
  case (1 f n)
  then show ?case by (intro exI [of _ "[[]]"]) simp
next
  case (2 f c s n)
  show ?case
  proof (cases "c = CHR ''%''")
    case False
    with 2 obtain t ts where "m = n + length ts" "s = with_placeholders (t # ts)"
      "\<forall>s \<in> set (t # ts). CHR ''%'' \<notin> set s"
      by (metis (no_types, lifting) diff_Suc_1 length_Cons neq_Nil_conv placeholder_loop.simps(2))
    with False show ?thesis
      by (intro exI [of _ "(c # t) # ts"]) (auto simp: with_placeholders_Cons)
  next
    case True
    with "2.prems" obtain s' where s': "s = CHR ''s'' # s'" "placeholder_loop f s' (Suc n) = Inr m"
      by (auto split: list.splits if_splits)
    with "2.IH"(2) True obtain t ts where "m = Suc n + length ts" "s' = with_placeholders (t # ts)"
      "\<forall>s \<in> set (t # ts). CHR ''%'' \<notin> set s"
      by (metis (no_types, lifting) diff_Suc_1 length_Cons neq_Nil_conv)
    with True s' show ?thesis by (intro exI [of _ "[] # t # ts"]) auto
  qed
qed

lemma placeholders_None: "validateFormatPlaceholders f p n = None \<longleftrightarrow> placeholders_exactly n p"
proof
  assume "validateFormatPlaceholders f p n = None"
  then have "placeholder_loop f p 0 = Inr n"
    by (auto simp: validateFormatPlaceholders_def split: sum.splits if_splits)
  from placeholder_loop_Inr [OF this] show "placeholders_exactly n p"
    unfolding placeholders_exactly_def by (metis Suc_diff_1 add_0 length_greater_0_conv)
next
  assume "placeholders_exactly n p"
  then obtain ss where "length ss = Suc n" "p = with_placeholders ss" "\<forall>s \<in> set ss. CHR ''%'' \<notin> set s"
    by (auto simp: placeholders_exactly_def)
  moreover from this have "ss \<noteq> []" by auto
  ultimately show "validateFormatPlaceholders f p n = None"
    by (simp add: validateFormatPlaceholders_def placeholder_loop_segments)
qed

lemma first_some_None: "first_some xs = None \<longleftrightarrow> list_all (\<lambda>x. x = None) xs"
  by (induction xs rule: first_some.induct) auto

lemma unless_None [simp]: "unless b e = None \<longleftrightarrow> b"
  by (simp add: unless_def)

lemma no_whitespace_None: "validateNoWhitespace f p = None \<longleftrightarrow> \<not> has_space p"
  by (simp add: validateNoWhitespace_def contains_space_iff)

definition subject_ok :: "nat \<Rightarrow> string \<Rightarrow> bool" where
  "subject_ok n p \<longleftrightarrow> p \<noteq> [] \<and> \<not> has_space p \<and> CHR ''*'' \<notin> set p \<and> CHR ''>'' \<notin> set p
     \<and> placeholders_exactly n p"

lemma subject_None: "validateSubjectPattern f p n = None \<longleftrightarrow> subject_ok n p"
  by (auto simp: validateSubjectPattern_def subject_ok_def first_some_None no_whitespace_None
      placeholders_None ContainsAny_def list_ex_iff no_space_trimmed)

lemma key_None: "validateKeyPattern p = None \<longleftrightarrow> p \<noteq> [] \<and> \<not> has_space p \<and> placeholders_exactly 1 p"
  by (auto simp: validateKeyPattern_def Let_def first_some_None no_whitespace_None placeholders_None no_space_trimmed)

section \<open>Valid configurations\<close>

text \<open>
  A duration field that is accepted: the trimmed text is a duration of at least 0; one that
  is optional may be blank.
\<close>

definition duration_ok :: "bool \<Rightarrow> string \<Rightarrow> bool" where
  "duration_ok optional s \<longleftrightarrow> (optional \<and> blank s) \<or> (\<not> blank s \<and> (\<exists>d \<ge> 0. ParseDuration (TrimSpace s) = Inr d))"

definition agent_ok :: "AgentConfig \<Rightarrow> bool" where
  "agent_ok a \<longleftrightarrow> \<not> blank (ag_Target a) \<and> \<not> blank (ag_StateFile a)
     \<and> lg_Level (ag_Logging a) \<in> {''debug'', ''info'', ''warn'', ''error''}
     \<and> lg_Format (ag_Logging a) \<in> {''text'', ''json''}
     \<and> cc_Mode (ag_Configure a) \<in> {''placeholder'', ''real''}
     \<and> ax_Mode (ag_Actions a) \<in> {''placeholder'', ''real''}
     \<and> set (ax_Enabled (ag_Actions a)) \<subseteq> {''trace''}"

definition nats_ok :: "NATSConfig \<Rightarrow> bool" where
  "nats_ok n \<longleftrightarrow> (\<exists>s \<in> set (nt_Servers n). \<not> blank s) \<and> \<not> nt_RetryOnFailedConnect n
     \<and> -1 \<le> sint (nt_MaxReconnects n) \<and> 0 \<le> sint (nt_ReconnectBufSize n)"

definition subjects_ok :: "SubjectConfig \<Rightarrow> bool" where
  "subjects_ok s \<longleftrightarrow> subject_ok 1 (sj_ConfigurePattern s) \<and> subject_ok 2 (sj_ActionPattern s)
     \<and> subject_ok 1 (sj_ResultPattern s) \<and> subject_ok 1 (sj_StatusPattern s) \<and> subject_ok 1 (sj_HealthPattern s)"

definition kv_ok :: "KVConfig \<Rightarrow> bool" where
  "kv_ok k \<longleftrightarrow> \<not> blank (kv_Bucket k)
     \<and> kv_KeyPattern k \<noteq> [] \<and> \<not> has_space (kv_KeyPattern k) \<and> placeholders_exactly 1 (kv_KeyPattern k)
     \<and> 1 \<le> unat (kv_History k) \<and> unat (kv_History k) \<le> 64 \<and> 0 \<le> sint (kv_MaxValueSize k)
     \<and> kv_Storage k \<in> {''file'', ''memory''} \<and> 1 \<le> sint (kv_Replicas k) \<and> duration_ok True (kv_TTL k)"

definition config_valid :: "AppConfig \<Rightarrow> bool" where
  "config_valid c \<longleftrightarrow> (let core = app_AgentCore c in
     agent_ok (app_Agent c) \<and> nats_ok (co_NATS core) \<and> subjects_ok (co_Subjects core) \<and> kv_ok (co_KV core)
     \<and> 1 \<le> sint (rt_PublishAttempts (co_Retry core)) \<and> ex_HandlerMode (co_Execution core) = ''sync''
     \<and> (\<forall>(field, s) \<in> set (required_durations core). duration_ok False s))"

lemma duration_None: "duration_error f s opt = None \<longleftrightarrow> duration_ok opt s"
  by (auto simp: duration_error_def parseDurationField_def duration_ok_def Let_def TrimSpace_Nil_iff
      not_less split: sum.splits if_splits)

lemma subjects_None:
  "list_all (\<lambda>x. x = None) (map (\<lambda>(field, p, n). validateSubjectPattern field p n) (subject_rules s))
     \<longleftrightarrow> subjects_ok s"
  by (simp add: subject_rules_def subject_None subjects_ok_def)

lemma durations_None:
  "list_all (\<lambda>x. x = None) (map (\<lambda>(field, raw). duration_error field raw False) ds)
     \<longleftrightarrow> (\<forall>(field, s) \<in> set ds. duration_ok False s)"
  by (auto simp: list_all_iff duration_None)

lemma enabled_None:
  "list_all (\<lambda>x. x = None) (map (\<lambda>a. unless (a = t) (e a)) as) \<longleftrightarrow> set as \<subseteq> {t}"
  by (auto simp: list_all_iff)

lemma servers_None:
  "s \<noteq> [] \<and> list_ex (\<lambda>x. TrimSpace x \<noteq> []) s \<longleftrightarrow> (\<exists>x \<in> set s. \<not> blank x)"
  by (auto simp: list_ex_iff TrimSpace_Nil_iff)

lemma Validate_None: "AppConfig_Validate c = None \<longleftrightarrow> config_valid c"
  unfolding AppConfig_Validate_def Let_def first_some_None list_all_append subjects_None durations_None
    enabled_None list.pred_inject unless_None TrimSpace_Nil_iff duration_None key_None config_valid_def
    agent_ok_def nats_ok_def kv_ok_def servers_None [symmetric]
  by (auto simp: not_less TrimSpace_Nil_iff)

text \<open>
  \textbf{C24.} Validation returns nil exactly for the configurations that satisfy the
  rules: no required text blank, the words of every switch among the documented ones, at
  least one server, the numbers in their ranges, no white space or wildcard in a subject,
  every pattern with exactly its placeholders and no other directive, and every duration
  well formed and not negative.
\<close>

theorem AppConfig_Validate_correct: "AppConfig_Validate c = None \<longleftrightarrow> config_valid c"
  by (rule Validate_None)

section \<open>The default configuration\<close>

lemma whole_duration:
  "unitMap u = Some k \<Longrightarrow> n * k < 2 ^ 63 \<Longrightarrow> ParseDuration (itoa n @ u) = Inr (int (n * k))"
  using parse_wholes [of "[(n, u)]"] by (auto simp: whole_text_def whole_value_def)

lemma whole_duration_ok:
  assumes "unitMap u = Some k" "n * k < 2 ^ 63" "TrimSpace (itoa n @ u) = itoa n @ u"
  shows "duration_ok opt (itoa n @ u)"
proof -
  have "itoa n @ u \<noteq> []" using itoa_digits by blast
  then have "\<not> blank (itoa n @ u)" using assms(3) by (metis TrimSpace_Nil_iff)
  with whole_duration [OF assms(1,2)] assms(3) show ?thesis by (simp add: duration_ok_def)
qed

lemma itoa_small: "itoa 1 = ''1''" "itoa 2 = ''2''" "itoa 5 = ''5''" "itoa 10 = ''10''" "itoa 250 = ''250''"
  by (simp_all add: itoa.simps chr_def char_of_def bit_Suc_0_iff)

lemma default_durations:
  "duration_ok opt ''5s''" "duration_ok opt ''2s''" "duration_ok opt ''10s''" "duration_ok opt ''250ms''"
proof -
  have s: "unitMap ''s'' = Some 1000000000" "unitMap ''ms'' = Some 1000000" by (simp_all add: unitMap_def)
  have t: "TrimSpace ''5s'' = ''5s''" "TrimSpace ''2s'' = ''2s''" "TrimSpace ''10s'' = ''10s''"
    "TrimSpace ''250ms'' = ''250ms''"
    by (simp_all add: TrimSpace_eq_iff leading_space_def trailing_space_def last_n_def
        spaces1_def spaces2_def spaces3_def)
  show "duration_ok opt ''5s''" "duration_ok opt ''2s''" "duration_ok opt ''10s''" "duration_ok opt ''250ms''"
    using whole_duration_ok [OF s(1), of 5] whole_duration_ok [OF s(1), of 2]
      whole_duration_ok [OF s(1), of 10] whole_duration_ok [OF s(2), of 250]
    by (simp_all add: itoa_small t)
qed

lemma space_rune_byte: "w \<in> set space_runes \<Longrightarrow> byte (hd w) \<le> 0x20 \<or> 0x80 \<le> byte (hd w)"
proof -
  have "list_all (\<lambda>w. byte (hd w) \<le> 0x20 \<or> 0x80 \<le> byte (hd w)) space_runes"
    by (simp add: space_runes_def spaces1_def spaces2_def spaces3_def byte_def)
  then show "w \<in> set space_runes \<Longrightarrow> ?thesis" by (simp add: list_all_iff)
qed

lemma plain_spaces: "\<not> has_space s" if "list_all (\<lambda>c. 0x20 < byte c \<and> byte c < 0x80) s"
proof -
  have "leading_space (c # t) = 0" if "0x20 < byte c" "byte c < 0x80" for c t
    using leading_space_pos [of "c # t", THEN space_rune_byte] that
    by (cases "leading_space (c # t)") auto
  then have "\<not> contains_space s" using that by (induction s) auto
  then show ?thesis by (simp add: contains_space_iff)
qed

lemma one_placeholder: "CHR ''%'' \<notin> set u \<Longrightarrow> CHR ''%'' \<notin> set v \<Longrightarrow> placeholders_exactly 1 (u @ ''%s'' @ v)"
  unfolding placeholders_exactly_def by (intro exI [of _ "[u, v]"]) simp

lemma two_placeholders:
  "CHR ''%'' \<notin> set u \<Longrightarrow> CHR ''%'' \<notin> set v \<Longrightarrow> CHR ''%'' \<notin> set w \<Longrightarrow>
     placeholders_exactly 2 (u @ ''%s'' @ v @ ''%s'' @ w)"
  unfolding placeholders_exactly_def by (intro exI [of _ "[u, v, w]"]) simp

lemma not_blank: "s \<noteq> [] \<Longrightarrow> TrimSpace s = s \<Longrightarrow> \<not> blank s"
  by (metis TrimSpace_Nil_iff)

lemma plain_not_blank: "s \<noteq> [] \<Longrightarrow> list_all (\<lambda>c. 0x20 < byte c \<and> byte c < 0x80) s \<Longrightarrow> \<not> blank s"
  by (rule not_blank) (simp_all add: no_space_trimmed plain_spaces)

lemma blank_Nil: "blank []"
  by (metis TrimSpace_Nil TrimSpace_Nil_iff)

lemma default_subjects: "subjects_ok (co_Subjects (app_AgentCore DefaultAppConfig))"
proof -
  have "placeholders_exactly 1 ''cmd.configure.%s''" "placeholders_exactly 1 ''result.%s''"
      "placeholders_exactly 1 ''status.%s''" "placeholders_exactly 1 ''health.%s''"
    using one_placeholder [of "''cmd.configure.''" "[]"] one_placeholder [of "''result.''" "[]"]
      one_placeholder [of "''status.''" "[]"] one_placeholder [of "''health.''" "[]"] by simp_all
  moreover have "placeholders_exactly 2 ''cmd.action.%s.%s''"
    using two_placeholders [of "''cmd.action.''" "''.''" "[]"] by simp
  ultimately show ?thesis
    by (simp add: subjects_ok_def subject_ok_def DefaultAppConfig_def plain_spaces byte_def)
qed

lemma default_kv: "kv_ok (co_KV (app_AgentCore DefaultAppConfig))"
proof -
  have "placeholders_exactly 1 ''desired.%s''" using one_placeholder [of "''desired.''" "[]"] by simp
  then show ?thesis
    by (simp add: kv_ok_def DefaultAppConfig_def plain_spaces plain_not_blank byte_def duration_ok_def blank_Nil)
qed

lemma default_valid: "AppConfig_Validate DefaultAppConfig = None"
proof -
  have "agent_ok (app_Agent DefaultAppConfig)"
    by (simp add: agent_ok_def DefaultAppConfig_def plain_not_blank byte_def)
  moreover have "nats_ok (co_NATS (app_AgentCore DefaultAppConfig))"
    by (simp add: nats_ok_def DefaultAppConfig_def plain_not_blank byte_def)
  ultimately show ?thesis
    unfolding Validate_None config_valid_def Let_def
    using default_subjects default_kv
    by (simp add: required_durations_def) (simp add: DefaultAppConfig_def default_durations)
qed

section \<open>Conversion\<close>

lemma parseDurationField_ok:
  "duration_ok opt s \<longleftrightarrow> (\<exists>d. parseDurationField f s opt = Inr d)"
  using duration_None [of f s opt] by (auto simp: duration_error_def split: sum.splits)

lemma parseDurationField_range: "parseDurationField f s opt = Inr d \<Longrightarrow> 0 \<le> d \<and> d < 2 ^ 63"
  by (auto simp: parseDurationField_def Let_def split: if_splits sum.splits dest: ParseDuration_range)

lemma parseDurationField_obtain:
  assumes "duration_ok opt s"
  obtains d where "parseDurationField f s opt = Inr d" "0 \<le> d" "d < 2 ^ 63"
  using assms parseDurationField_ok parseDurationField_range by blast

text \<open>The durations of the converted configuration.\<close>

definition core_durations :: "CoreConfig \<Rightarrow> int list" where
  "core_durations k = [cna_ConnectTimeout (core_NATS k), cna_ReconnectWait (core_NATS k),
     cj_DefaultTimeout (core_JetStream k), ck_TTL (core_KV k), cm_PublishTimeout (core_Timeouts k),
     cm_SubscribeTimeout (core_Timeouts k), cm_KVTimeout (core_Timeouts k),
     cm_ShutdownTimeout (core_Timeouts k), cm_HandlerWarnAfter (core_Timeouts k),
     cr_PublishBackoff (core_Retry k)]"

text \<open>A computation that gives a value with a property.\<close>

definition gives :: "go_error + 'a \<Rightarrow> ('a \<Rightarrow> bool) \<Rightarrow> bool" where
  "gives r Q \<longleftrightarrow> (\<exists>x. r = Inr x \<and> Q x)"

lemma gives_Inr: "Q x \<Longrightarrow> gives (Inr x) Q"
  by (simp add: gives_def)

lemma gives_duration:
  "duration_ok opt s \<Longrightarrow> (\<And>d. 0 \<le> d \<Longrightarrow> d < 2 ^ 63 \<Longrightarrow> gives (k d) Q) \<Longrightarrow>
     gives (checked (parseDurationField f s opt) k) Q"
  by (erule parseDurationField_obtain [of opt s f]) (simp add: checked_def)

lemma required_durations_ok:
  "(\<forall>(field, s) \<in> set (required_durations c). duration_ok False s) \<longleftrightarrow>
     duration_ok False (nt_ConnectTimeout (co_NATS c)) \<and> duration_ok False (nt_ReconnectWait (co_NATS c))
     \<and> duration_ok False (js_DefaultTimeout (co_JetStream c))
     \<and> duration_ok False (to_PublishTimeout (co_Timeouts c)) \<and> duration_ok False (to_SubscribeTimeout (co_Timeouts c))
     \<and> duration_ok False (to_KVTimeout (co_Timeouts c)) \<and> duration_ok False (to_ShutdownTimeout (co_Timeouts c))
     \<and> duration_ok False (to_HandlerWarnAfter (co_Timeouts c)) \<and> duration_ok False (rt_PublishBackoff (co_Retry c))"
  by (simp add: required_durations_def)

lemma valid_converts:
  assumes "AppConfig_Validate c = None"
  shows "\<exists>k. ToAgentCoreConfig c = Inr k \<and> (\<forall>d \<in> set (core_durations k). 0 \<le> d \<and> d < 2 ^ 63)
    \<and> core_AgentName k = ag_Name (app_Agent c) \<and> core_Version k = ag_Version (app_Agent c)
    \<and> cna_Servers (core_NATS k) = nt_Servers (co_NATS (app_AgentCore c))
    \<and> subject_ok 1 (cb_ConfigurePattern (core_Subjects k)) \<and> subject_ok 2 (cb_ActionPattern (core_Subjects k))
    \<and> subject_ok 1 (cb_ResultPattern (core_Subjects k)) \<and> subject_ok 1 (cb_StatusPattern (core_Subjects k))
    \<and> subject_ok 1 (cb_HealthPattern (core_Subjects k)) \<and> placeholders_exactly 1 (ck_KeyPattern (core_KV k))
    \<and> ck_Bucket (core_KV k) = kv_Bucket (co_KV (app_AgentCore c))"
proof -
  have v: "config_valid c" using assms Validate_None by blast
  note ds = v [unfolded config_valid_def Let_def required_durations_ok]
  have "duration_ok True (kv_TTL (co_KV (app_AgentCore c)))" using ds by (simp add: kv_ok_def)
  with ds show ?thesis
    unfolding gives_def [symmetric] ToAgentCoreConfig_def Let_def
    by (intro gives_duration gives_Inr) (simp_all add: core_durations_def subjects_ok_def kv_ok_def)
qed

lemma default_converts: "\<exists>k. ToAgentCoreConfig DefaultAppConfig = Inr k"
  using valid_converts [OF default_valid] by blast

text \<open>
  \textbf{C25.} A valid configuration always converts: every duration of the result is
  between 0 and 2^63 nanoseconds, the subjects and the key pattern are the validated ones,
  and the name, version, bucket and server list are those of the configuration.
\<close>

theorem validated_config_converts:
  assumes "AppConfig_Validate c = None"
  shows "\<exists>k. ToAgentCoreConfig c = Inr k \<and> (\<forall>d \<in> set (core_durations k). 0 \<le> d \<and> d < 2 ^ 63)
    \<and> core_AgentName k = ag_Name (app_Agent c) \<and> core_Version k = ag_Version (app_Agent c)
    \<and> cna_Servers (core_NATS k) = nt_Servers (co_NATS (app_AgentCore c))
    \<and> subject_ok 1 (cb_ConfigurePattern (core_Subjects k)) \<and> subject_ok 2 (cb_ActionPattern (core_Subjects k))
    \<and> subject_ok 1 (cb_ResultPattern (core_Subjects k)) \<and> subject_ok 1 (cb_StatusPattern (core_Subjects k))
    \<and> subject_ok 1 (cb_HealthPattern (core_Subjects k)) \<and> placeholders_exactly 1 (ck_KeyPattern (core_KV k))
    \<and> ck_Bucket (core_KV k) = kv_Bucket (co_KV (app_AgentCore c))"
  by (rule valid_converts [OF assms])

theorem validated_config_converts_witness:
  "\<exists>k. ToAgentCoreConfig DefaultAppConfig = Inr k \<and> (\<forall>d \<in> set (core_durations k). 0 \<le> d \<and> d < 2 ^ 63)"
  using validated_config_converts [of DefaultAppConfig] default_valid by blast

section \<open>Duration fields\<close>

text \<open>A byte some white space rune has, and no duration.\<close>

definition space_byte :: "char \<Rightarrow> bool" where
  "space_byte c \<longleftrightarrow> byte c \<le> 0x20 \<or> byte c = 0x85 \<or> byte c = 0xA0 \<or> 0xE1 \<le> byte c"

lemma space_rune_space_byte: "w \<in> set space_runes \<Longrightarrow> \<exists>c \<in> set w. space_byte c"
proof -
  have "list_all (list_ex space_byte) space_runes"
    by (simp add: space_runes_def spaces1_def spaces2_def spaces3_def space_byte_def byte_def)
  then show "w \<in> set space_runes \<Longrightarrow> ?thesis" by (simp add: list_all_iff list_ex_iff)
qed

lemma unit_no_space: "u \<in> dom unitMap \<Longrightarrow> \<forall>c \<in> set u. \<not> space_byte c"
  by (auto simp: unitMap_def space_byte_def byte_def split: if_splits)

lemma whole_no_space: "\<forall>(n, u) \<in> set cs. u \<in> dom unitMap \<Longrightarrow> \<not> has_space (concat (map whole_text cs))"
proof
  assume units: "\<forall>(n, u) \<in> set cs. u \<in> dom unitMap"
  have "\<not> space_byte c" if "is_digit c" for c
    using that by (auto simp: is_digit_def in_range_def space_byte_def)
  then have "\<forall>c \<in> set (concat (map whole_text cs)). \<not> space_byte c"
    using units unit_no_space itoa_digits by (fastforce simp: whole_text_def list_all_iff)
  moreover assume "has_space (concat (map whole_text cs))"
  then obtain w where "w \<in> set space_runes" "set w \<subseteq> set (concat (map whole_text cs))"
    unfolding has_space_def by (metis Un_upper1 Un_upper2 set_append subset_trans)
  ultimately show False using space_rune_space_byte by blast
qed

text \<open>
  \textbf{C28.} A duration field written as whole numbers of units, one or several, is their
  sum in nanoseconds, whenever that is below 2^63. Whatever the text, an accepted duration
  is a non-negative 64-bit number; a blank one is 0 where it is optional and refused where
  it is not.
\<close>

theorem duration_field_correct:
  assumes "cs \<noteq> []" "\<forall>(n, u) \<in> set cs. u \<in> dom unitMap" "sum_list (map whole_value cs) < 2 ^ 63"
  shows "parseDurationField f (concat (map whole_text cs)) opt = Inr (int (sum_list (map whole_value cs)))
    \<and> (\<forall>s d. parseDurationField f s opt = Inr d \<longrightarrow> 0 \<le> d \<and> d < 2 ^ 63)
    \<and> (\<forall>s. blank s \<longrightarrow> parseDurationField f s opt = (if opt then Inr 0 else Inl (Errorf ''%s is required'' [FStr f])))"
proof -
  note trimmed = no_space_trimmed [OF whole_no_space [OF assms(2)]]
  have "concat (map whole_text cs) \<noteq> []"
    using assms(1) itoa_digits by (cases cs) (auto simp: whole_text_def split: prod.splits)
  then show ?thesis
    using parse_wholes [OF assms] parseDurationField_range
    by (auto simp: parseDurationField_def trimmed TrimSpace_Nil_iff)
qed

theorem duration_field_correct_witness:
  "parseDurationField ''x'' ''1h30m'' False = Inr 5400000000000"
proof -
  have "unitMap ''h'' = Some 3600000000000" "unitMap ''m'' = Some 60000000000" by (simp_all add: unitMap_def)
  moreover have "itoa 1 = ''1''" "itoa 30 = ''30''" by (simp_all add: itoa.simps chr_def char_of_def bit_Suc_0_iff)
  ultimately show ?thesis
    using duration_field_correct [of "[(1, ''h''), (30, ''m'')]" "''x''" False]
    by (simp add: whole_text_def whole_value_def dom_def)
qed

section \<open>Redaction\<close>

text \<open>The secrets of a configuration, and the configuration with other text in their place.\<close>

definition secrets :: "AppConfig \<Rightarrow> string list" where
  "secrets c = (let n = co_NATS (app_AgentCore c); t = nt_TLS n in
     [nt_Password n, nt_Token n, nt_CredentialsFile n, nt_NKeySeedFile n, nt_UserJWTFile n,
      tls_KeyFile t, tls_CertFile t, tls_CAFile t])"

definition erased :: "AppConfig \<Rightarrow> AppConfig" where
  "erased c = c\<lparr>app_AgentCore := (app_AgentCore c)\<lparr>co_NATS := (co_NATS (app_AgentCore c))\<lparr>
     nt_Password := [], nt_Token := [], nt_CredentialsFile := [], nt_NKeySeedFile := [], nt_UserJWTFile := [],
     nt_TLS := (nt_TLS (co_NATS (app_AgentCore c)))\<lparr>tls_KeyFile := [], tls_CertFile := [], tls_CAFile := []\<rparr>\<rparr>\<rparr>\<rparr>"

lemma redactString_blank: "redactString v = (if blank v then [] else redactedValue)"
  by (simp add: redactString_def TrimSpace_Nil_iff)

lemma redacted_value: "\<not> blank redactedValue"
  by (simp add: redactedValue_def plain_not_blank byte_def)

lemma redactString_idem: "redactString (redactString v) = redactString v"
  by (simp add: redactString_blank redacted_value blank_Nil)

lemmas redaction = Let_def AppConfig_Redacted_def nats_redacted_def tls_redacted_def secrets_def erased_def

lemma redacted_secrets: "secrets (AppConfig_Redacted c) = map redactString (secrets c)"
  by (simp add: redaction)

lemma redact_map: "map blank xs = map blank ys \<Longrightarrow> map redactString xs = map redactString ys"
  by (induction xs ys rule: list_induct2') (auto simp: redactString_blank)

lemma redacted_erased: "erased (AppConfig_Redacted c) = erased c"
  by (simp add: redaction)

text \<open>A configuration is its secrets and the rest.\<close>

lemma config_eqI: "erased c = erased d \<Longrightarrow> secrets c = secrets d \<Longrightarrow> c = d"
  by (cases c; cases d; cases "app_AgentCore c"; cases "app_AgentCore d";
      cases "co_NATS (app_AgentCore c)"; cases "co_NATS (app_AgentCore d)";
      cases "nt_TLS (co_NATS (app_AgentCore c))"; cases "nt_TLS (co_NATS (app_AgentCore d))")
    (simp add: redaction)

lemma redacted_eq:
  assumes "erased c = erased d" "map blank (secrets c) = map blank (secrets d)"
  shows "AppConfig_Redacted c = AppConfig_Redacted d"
proof (rule config_eqI)
  show "erased (AppConfig_Redacted c) = erased (AppConfig_Redacted d)" using assms(1) by (simp add: redacted_erased)
  show "secrets (AppConfig_Redacted c) = secrets (AppConfig_Redacted d)"
    unfolding redacted_secrets using assms(2) by (rule redact_map)
qed

text \<open>
  \textbf{C26.} Redaction hides the secrets: each becomes eight stars, or empty when it was
  blank, and two configurations that differ in their secrets only, blank at the same
  places, redact to the same one. It changes nothing else, so what is valid stays valid, and
  redacting again changes nothing.
\<close>

theorem redaction_hides_secrets:
  "secrets (AppConfig_Redacted c) = map (\<lambda>s. if blank s then [] else ''********'') (secrets c)
   \<and> erased (AppConfig_Redacted c) = erased c
   \<and> (erased c = erased d \<and> map blank (secrets c) = map blank (secrets d) \<longrightarrow>
        AppConfig_Redacted c = AppConfig_Redacted d)
   \<and> AppConfig_Redacted (AppConfig_Redacted c) = AppConfig_Redacted c
   \<and> (AppConfig_Validate c = None \<longrightarrow> AppConfig_Validate (AppConfig_Redacted c) = None)"
proof (intro conjI impI)
  have eq: "map redactString xs = map (\<lambda>s. if blank s then [] else ''********'') xs" for xs
    by (simp add: redactString_blank redactedValue_def)
  then show "secrets (AppConfig_Redacted c) = map (\<lambda>s. if blank s then [] else ''********'') (secrets c)"
    by (simp only: redacted_secrets)
  show "erased (AppConfig_Redacted c) = erased c" by (rule redacted_erased)
  show "AppConfig_Redacted c = AppConfig_Redacted d"
    if "erased c = erased d \<and> map blank (secrets c) = map blank (secrets d)"
    using that by (intro redacted_eq) simp_all
  show "AppConfig_Redacted (AppConfig_Redacted c) = AppConfig_Redacted c"
    by (rule config_eqI) (simp_all add: redacted_erased redacted_secrets redactString_idem comp_def)
  show "AppConfig_Validate (AppConfig_Redacted c) = None" if "AppConfig_Validate c = None"
    using that unfolding Validate_None config_valid_def Let_def
    by (simp add: AppConfig_Redacted_def nats_redacted_def nats_ok_def required_durations_def)
qed

theorem redaction_hides_secrets_witness:
  "AppConfig_Redacted (DefaultAppConfig\<lparr>app_AgentCore := (app_AgentCore DefaultAppConfig)\<lparr>co_NATS :=
       (co_NATS (app_AgentCore DefaultAppConfig))\<lparr>nt_Password := ''one''\<rparr>\<rparr>\<rparr>)
   = AppConfig_Redacted (DefaultAppConfig\<lparr>app_AgentCore := (app_AgentCore DefaultAppConfig)\<lparr>co_NATS :=
       (co_NATS (app_AgentCore DefaultAppConfig))\<lparr>nt_Password := ''two''\<rparr>\<rparr>\<rparr>)"
  by (rule redaction_hides_secrets [THEN conjunct2, THEN conjunct2, THEN conjunct1, THEN mp])
    (simp add: erased_def secrets_def Let_def plain_not_blank byte_def)

section \<open>Loading\<close>

text \<open>
  \textbf{C27.} Loading gives a configuration exactly when the file can be read and decoded
  over the defaults and the result is valid; it is read from the path of the flag, or else
  of the environment variable, or else the default path. A failure to read or to decode
  wraps the cause.
\<close>

theorem config_load_correct:
  "(config_Load h path = Inr c \<longleftrightarrow>
      (\<exists>data. ch_ReadFile h path = Inr data \<and> ch_Decode h data DefaultAppConfig = Inr c \<and> config_valid c))
   \<and> (ch_ReadFile h path = Inl e \<longrightarrow> config_Load h path = Inl (Wrapf ''read config file %q: %w'' [FStr path] e))
   \<and> snd (LoadResolved h flag) = (if flag \<noteq> [] then flag
        else if ch_Getenv h ''VYOS_NATS_AGENT_CONFIG'' \<noteq> [] then ch_Getenv h ''VYOS_NATS_AGENT_CONFIG''
        else ''/etc/vyos-nats-agent/config.yaml'')
   \<and> fst (LoadResolved h flag) = config_Load h (snd (LoadResolved h flag))"
  by (auto simp: config_Load_def LoadResolved_def ResolvePath_def Let_def envConfigPathKey_def
      defaultConfigPath_def Validate_None [symmetric] split: sum.splits option.splits)

theorem config_load_correct_witness:
  "config_Load \<lparr>ch_Getenv = (\<lambda>_. []), ch_ReadFile = (\<lambda>_. Inl os_ErrNotExist),
      ch_Decode = (\<lambda>_ c. Inr c), ch_Marshal = (\<lambda>_. Inr [])\<rparr> ''a.yaml''
   = Inl (Wrapf ''read config file %q: %w'' [FStr ''a.yaml''] os_ErrNotExist)"
  by (rule config_load_correct [THEN conjunct2, THEN conjunct1, THEN mp]) simp

end
