(* ===== verification/RendererVyos.thy ===== *)
theory RendererVyos
  imports Engines JsonEncode
begin

text \<open>
  The adapter of \<open>internal/renderervyos\<close> around the renderer library: it builds the
  library's input from a desired record, with the schema name and version found in the
  payload, and hands over what the library renders. The library (its backend and what
  \<open>GetInfo\<close> tells of it) is a parameter.
\<close>

section \<open>The library's types\<close>

record RenderInput =
  ri_Target :: string
  ri_ConfigUUID :: string
  ri_SchemaName :: string
  ri_SchemaVersion :: string
  ri_PayloadJSON :: "string option"

record RenderOutput =
  ro_Target :: string
  ro_ConfigUUID :: string
  ro_SchemaName :: string
  ro_SchemaVersion :: string
  ro_RenderedText :: string

record RenderInfo =
  in_SupportedSchemaName :: string
  in_SupportedSchemaVersions :: "string list"

type_synonym 'e RenderBackend = "'e ctx option \<Rightarrow> RenderInput \<Rightarrow> 'e \<Rightarrow> (go_error + RenderOutput) \<times> 'e"

section \<open>The adapter\<close>

record RenderDebug =
  rd_LogPayloads :: bool
  rd_LogRendered :: bool

record 'e RenderAdapter =
  rn_backend :: "'e RenderBackend option"
  rn_logger :: "'e Logger option"
  rn_debug :: RenderDebug

type_synonym 'e RenderOption = "'e RenderAdapter \<Rightarrow> 'e RenderAdapter"

definition render_WithLogger :: "'e Logger option \<Rightarrow> 'e RenderOption" where
  "render_WithLogger lg a = a\<lparr>rn_logger := lg\<rparr>"

definition render_WithDebugLogging :: "RenderDebug \<Rightarrow> 'e RenderOption" where
  "render_WithDebugLogging dbg a = a\<lparr>rn_debug := dbg\<rparr>"

fun render_options :: "'e RenderOption option list \<Rightarrow> 'e RenderAdapter \<Rightarrow> 'e RenderAdapter" where
  "render_options [] a = a"
| "render_options (None # opts) a = render_options opts a"
| "render_options (Some opt # opts) a = render_options opts (opt a)"

definition render_NewWithBackend ::
  "'e RenderBackend option \<Rightarrow> 'e RenderOption option list \<Rightarrow> go_error + 'e RenderAdapter" where
  "render_NewWithBackend backend opts =
     (if backend = None then Inl (errors_New ''vyos renderer backend is required'')
      else Inr (render_options opts \<lparr>rn_backend = backend, rn_logger = None,
        rn_debug = \<lparr>rd_LogPayloads = False, rd_LogRendered = False\<rparr>\<rparr>))"

definition render_New ::
  "(go_error + 'e RenderBackend) \<Rightarrow> 'e RenderOption option list \<Rightarrow> go_error + 'e RenderAdapter" where
  "render_New vyosrenderer_New opts =
     (case vyosrenderer_New of
        Inl err \<Rightarrow> Inl (wrap ''create vyos renderer'' err)
      | Inr backend \<Rightarrow> render_NewWithBackend (Some backend) opts)"

section \<open>The input\<close>

text \<open>An empty slice is cloned to a nil one.\<close>

definition cloneRaw :: "string option \<Rightarrow> string option" where
  "cloneRaw raw = (case raw of None \<Rightarrow> None | Some s \<Rightarrow> if s = [] then None else Some s)"

definition firstSupportedSchemaVersion :: "RenderInfo \<Rightarrow> string" where
  "firstSupportedSchemaVersion info =
     (case in_SupportedSchemaVersions info of [] \<Rightarrow> '''' | v # _ \<Rightarrow> v)"

definition stringField :: "(string \<rightharpoonup> string) \<Rightarrow> string \<Rightarrow> string option" where
  "stringField obj key = (case obj key of None \<Rightarrow> None | Some raw \<Rightarrow> unmarshal_string raw)"

text \<open>The name and the version are written through pointers; here they are passed along.\<close>

definition set_if :: "string option \<Rightarrow> string \<Rightarrow> string" where
  "set_if v cur = (case v of Some value \<Rightarrow> value | None \<Rightarrow> cur)"

definition mergeMetadata :: "(string \<rightharpoonup> string) \<Rightarrow> string \<times> string \<Rightarrow> string \<times> string" where
  "mergeMetadata obj = (\<lambda>(schemaName, schemaVersion).
     let n1 = set_if (stringField obj ''schema_name'') schemaName;
         v1 = set_if (stringField obj ''schema_version'') schemaVersion
     in case obj ''schema'' of
          None \<Rightarrow> (n1, v1)
        | Some rawSchema \<Rightarrow>
       (case unmarshal_raw_map rawSchema of
          None \<Rightarrow> (n1, v1)
        | Some schema \<Rightarrow>
            (set_if (stringField schema ''name'') n1, set_if (stringField schema ''version'') v1)))"

definition payloadAndMetadata ::
  "RenderInfo \<Rightarrow> string option \<Rightarrow> go_error + string option \<times> string \<times> string" where
  "payloadAndMetadata info raw =
     (let payload = cloneRaw raw;
          schema = (in_SupportedSchemaName info, firstSupportedSchemaVersion info)
      in case unmarshal_raw_map (case raw of None \<Rightarrow> [] | Some s \<Rightarrow> s) of
           None \<Rightarrow> Inl (wrap ''decode desired payload metadata'' json_error)
         | Some root \<Rightarrow>
          (let schema = mergeMetadata root schema
           in case root ''config'' of
                None \<Rightarrow> Inr (payload, fst schema, snd schema)
              | Some wrapped \<Rightarrow>
                 (let schema = (case unmarshal_raw_map wrapped of
                        None \<Rightarrow> schema
                      | Some configRoot \<Rightarrow> mergeMetadata configRoot schema)
                  in Inr (cloneRaw (Some wrapped), fst schema, snd schema))))"

definition render_BuildInput :: "RenderInfo \<Rightarrow> StoredDesiredConfig \<Rightarrow> go_error + RenderInput" where
  "render_BuildInput info desired =
     (case payloadAndMetadata info (dr_Payload (sd_Record desired)) of
        Inl err \<Rightarrow> Inl err
      | Inr (payload, schemaName, schemaVersion) \<Rightarrow>
          Inr \<lparr>ri_Target = dr_Target (sd_Record desired), ri_ConfigUUID = dr_UUID (sd_Record desired),
            ri_SchemaName = schemaName, ri_SchemaVersion = schemaVersion, ri_PayloadJSON = payload\<rparr>)"

section \<open>Rendering\<close>

definition render_adapter ::
  "RenderInfo \<Rightarrow> 'e RenderAdapter option \<Rightarrow> 'e ctx option \<Rightarrow> StoredDesiredConfig \<Rightarrow> ('e, go_error + Output) state" where
  "render_adapter info adapter ctx desired =
     (case adapter of
        None \<Rightarrow> State_Monad.return (Inl (errors_New ''vyos renderer adapter is not initialized''))
      | Some a \<Rightarrow>
     (case rn_backend a of
        None \<Rightarrow> State_Monad.return (Inl (errors_New ''vyos renderer adapter is not initialized''))
      | Some backend \<Rightarrow>
     (case render_BuildInput info desired of
        Inl err \<Rightarrow> State_Monad.return (Inl err)
      | Inr input \<Rightarrow> do {
     env_log (rn_logger a) LInfo ''vyos renderer input prepared''
       [(''target'', LStr (ri_Target input)), (''uuid'', LStr (ri_ConfigUUID input)),
        (''schema_name'', LStr (ri_SchemaName input)), (''schema_version'', LStr (ri_SchemaVersion input)),
        (''payload_size_bytes'', LInt (int (raw_len (ri_PayloadJSON input))))];
     (if rd_LogPayloads (rn_debug a)
      then env_log (rn_logger a) LDebug ''vyos renderer input payload summary''
        [(''target'', LStr (ri_Target input)), (''uuid'', LStr (ri_ConfigUUID input)),
         (''schema_name'', LStr (ri_SchemaName input)), (''schema_version'', LStr (ri_SchemaVersion input)),
         (''payload_size_bytes'', LInt (int (raw_len (ri_PayloadJSON input)))),
         (''payload_body_omitted'', LBool True)]
      else State_Monad.return ());
     r \<leftarrow> State (backend ctx input);
     (case r of
       Inl err \<Rightarrow> State_Monad.return (Inl (wrap ''vyos render failed'' err))
     | Inr out \<Rightarrow> do {
         env_log (rn_logger a) LInfo ''vyos renderer output produced''
           [(''target'', LStr (ro_Target out)), (''uuid'', LStr (ro_ConfigUUID out)),
            (''schema_name'', LStr (ro_SchemaName out)), (''schema_version'', LStr (ro_SchemaVersion out)),
            (''rendered_size_bytes'', LInt (int (length (ro_RenderedText out)))),
            (''rendered_command_count'', LInt (int (countNonEmptyLines (ro_RenderedText out))))];
         (if rd_LogRendered (rn_debug a)
          then env_log (rn_logger a) LDebug ''vyos renderer output commands produced''
            [(''target'', LStr (ro_Target out)), (''uuid'', LStr (ro_ConfigUUID out)),
             (''schema_name'', LStr (ro_SchemaName out)), (''schema_version'', LStr (ro_SchemaVersion out)),
             (''rendered_commands'', LStr (ro_RenderedText out))]
          else State_Monad.return ());
         State_Monad.return (Inr \<lparr>o_Target = ro_Target out, o_UUID = ro_ConfigUUID out,
           o_Text = ro_RenderedText out\<rparr>)
       })
     })))"

text \<open>The adapter as a renderer.\<close>

definition vyos_Renderer :: "RenderInfo \<Rightarrow> 'e RenderAdapter option \<Rightarrow> 'e Renderer" where
  "vyos_Renderer info adapter ctx desired = run_state (render_adapter info adapter ctx desired)"

section \<open>Where the schema comes from\<close>

text \<open>The string at a path of member names, if there is one.\<close>

fun string_at :: "string list \<Rightarrow> string \<Rightarrow> string option" where
  "string_at [] raw = unmarshal_string raw"
| "string_at (k # ks) raw =
     (case unmarshal_raw_map raw of
        None \<Rightarrow> None
      | Some m \<Rightarrow> (case m k of None \<Rightarrow> None | Some r \<Rightarrow> string_at ks r))"

text \<open>The last of the strings that were found, or else the default.\<close>

fun last_found :: "string \<Rightarrow> string option list \<Rightarrow> string" where
  "last_found d [] = d"
| "last_found d (x # xs) = last_found (set_if x d) xs"

definition schema_name_at :: "string \<Rightarrow> string option list" where
  "schema_name_at raw = map (\<lambda>path. string_at path raw)
     [[''schema_name''], [''schema'', ''name''], [''config'', ''schema_name''], [''config'', ''schema'', ''name'']]"

definition schema_version_at :: "string \<Rightarrow> string option list" where
  "schema_version_at raw = map (\<lambda>path. string_at path raw)
     [[''schema_version''], [''schema'', ''version''], [''config'', ''schema_version''],
      [''config'', ''schema'', ''version'']]"

lemma merge_string_at:
  assumes "unmarshal_raw_map raw = Some m"
  shows "mergeMetadata m (n, v) =
    (last_found n [string_at [''schema_name''] raw, string_at [''schema'', ''name''] raw],
     last_found v [string_at [''schema_version''] raw, string_at [''schema'', ''version''] raw])"
  using assms
  by (auto simp: mergeMetadata_def stringField_def set_if_def Let_def split: option.splits)

definition payload_text :: "StoredDesiredConfig \<Rightarrow> string" where
  "payload_text desired = (case dr_Payload (sd_Record desired) of None \<Rightarrow> [] | Some s \<Rightarrow> s)"

text \<open>The strings under a member of the payload.\<close>

lemma string_at_member:
  assumes "unmarshal_raw_map raw = Some m"
  shows "string_at (k # ks) raw = (case m k of None \<Rightarrow> None | Some r \<Rightarrow> string_at ks r)"
  using assms by simp

lemma last_found_append: "last_found d (xs @ ys) = last_found (last_found d xs) ys"
  by (induction xs arbitrary: d) simp_all

lemma last_found_None: "list_all (\<lambda>x. x = None) xs \<Longrightarrow> last_found d xs = d"
  by (induction xs arbitrary: d) (simp_all add: set_if_def)

text \<open>
  \textbf{C34.} The renderer's input exists exactly when the payload is a JSON object (or
  null). It has the record's target and UUID; its payload is the member \<open>config\<close> where there
  is one and the whole payload otherwise; its schema name is the last string found at
  \<open>schema_name\<close>, \<open>schema.name\<close>, \<open>config.schema_name\<close> and \<open>config.schema.name\<close>, or else the
  library's own, and its schema version likewise.
\<close>

theorem build_input_correct:
  "case unmarshal_raw_map (payload_text desired) of
     None \<Rightarrow> \<exists>err. render_BuildInput info desired = Inl err
   | Some root \<Rightarrow> render_BuildInput info desired = Inr \<lparr>
       ri_Target = dr_Target (sd_Record desired), ri_ConfigUUID = dr_UUID (sd_Record desired),
       ri_SchemaName = last_found (in_SupportedSchemaName info) (schema_name_at (payload_text desired)),
       ri_SchemaVersion = last_found (firstSupportedSchemaVersion info) (schema_version_at (payload_text desired)),
       ri_PayloadJSON = (case root ''config'' of
          None \<Rightarrow> cloneRaw (dr_Payload (sd_Record desired)) | Some c \<Rightarrow> cloneRaw (Some c))\<rparr>"
proof (cases "unmarshal_raw_map (payload_text desired)")
  case None
  then show ?thesis
    by (simp add: render_BuildInput_def payloadAndMetadata_def payload_text_def Let_def)
next
  case (Some root)
  note at = string_at_member [OF Some] merge_string_at [OF Some]
  show ?thesis
  proof (cases "root ''config''")
    case None
    with Some show ?thesis
      by (simp add: render_BuildInput_def payloadAndMetadata_def payload_text_def [symmetric] Let_def at
          schema_name_at_def schema_version_at_def set_if_def)
  next
    case config: (Some c)
    show ?thesis
    proof (cases "unmarshal_raw_map c")
      case None
      with Some config show ?thesis
        by (simp add: render_BuildInput_def payloadAndMetadata_def payload_text_def [symmetric] Let_def at
            schema_name_at_def schema_version_at_def set_if_def)
    next
      case inner: (Some m)
      from Some config show ?thesis
        by (simp add: render_BuildInput_def payloadAndMetadata_def payload_text_def [symmetric] Let_def at
            schema_name_at_def schema_version_at_def inner merge_string_at [OF inner])
    qed
  qed
qed

section \<open>What rendering does\<close>

text \<open>An environment with a log that the logger appends to and no one else touches.\<close>

definition append_log :: "(log_entry list \<times> 'x) Logger" where
  "append_log ent = (\<lambda>(ls, x). (ls @ [ent], x))"

definition beside_log :: "('i \<Rightarrow> 'x \<Rightarrow> 'r \<times> 'x) \<Rightarrow> 'c \<Rightarrow> 'i \<Rightarrow> log_entry list \<times> 'x \<Rightarrow> 'r \<times> log_entry list \<times> 'x" where
  "beside_log b ctx input = (\<lambda>(ls, x). case b input x of (r, x') \<Rightarrow> (r, (ls, x')))"

text \<open>
  A record that tells nothing of a payload or of rendered text: it holds numbers, flags and
  the identifiers given.
\<close>

definition discreet :: "string set \<Rightarrow> log_entry \<Rightarrow> bool" where
  "discreet ids ent \<longleftrightarrow>
     (\<forall>(k, v) \<in> set (le_kv ent). case v of LStr s \<Rightarrow> s \<in> ids | LInt n \<Rightarrow> True | LBool b \<Rightarrow> True | _ \<Rightarrow> False)"

definition input_ids :: "RenderInput \<Rightarrow> string set" where
  "input_ids i = {ri_Target i, ri_ConfigUUID i, ri_SchemaName i, ri_SchemaVersion i}"

definition output_ids :: "RenderOutput \<Rightarrow> string set" where
  "output_ids r = {ro_Target r, ro_ConfigUUID r, ro_SchemaName r, ro_SchemaVersion r}"

definition answer_ids :: "go_error + RenderOutput \<Rightarrow> string set" where
  "answer_ids r = (case r of Inl err \<Rightarrow> {} | Inr out \<Rightarrow> output_ids out)"

definition rendered_output :: "go_error + RenderOutput \<Rightarrow> go_error + Output" where
  "rendered_output r = (case r of
     Inl err \<Rightarrow> Inl (wrap ''vyos render failed'' err)
   | Inr out \<Rightarrow> Inr \<lparr>o_Target = ro_Target out, o_UUID = ro_ConfigUUID out, o_Text = ro_RenderedText out\<rparr>)"

text \<open>
  \textbf{C35.} Rendering builds the input, calls the library once with it and hands over
  its target, UUID and text; when the input cannot be built the library is not called. The
  records it logs hold the identifiers and sizes only, and the rendered text is logged in a
  record of its own, when the debug switch for it is on.
\<close>

theorem vyos_render_correct:
  assumes "rn_backend a = Some (beside_log b)" "rn_logger a = Some append_log"
    and "vyos_Renderer info (Some a) ctx desired (ls, x) = (res, (ls', x'))"
  shows "case render_BuildInput info desired of
     Inl err \<Rightarrow> res = Inl err \<and> ls' = ls \<and> x' = x
   | Inr input \<Rightarrow> (case b input x of (r, y) \<Rightarrow> x' = y \<and> res = rendered_output r
       \<and> (\<exists>new. ls' = ls @ new \<and> (\<forall>ent \<in> set new. discreet (input_ids input \<union> answer_ids r) ent
            \<or> (rd_LogRendered (rn_debug a) \<and> le_msg ent = ''vyos renderer output commands produced''))))"
proof (cases "render_BuildInput info desired")
  case (Inl err)
  with assms show ?thesis by (simp add: vyos_Renderer_def render_adapter_def run_return)
next
  case (Inr input)
  obtain r y where b: "b input x = (r, y)" by (cases "b input x")
  show ?thesis
    using assms Inr b
    by (cases r)
      (auto simp: vyos_Renderer_def render_adapter_def run_return run_bind env_log_def beside_log_def
        append_log_def discreet_def input_ids_def answer_ids_def output_ids_def rendered_output_def split: if_splits)
qed

definition sample_desired :: StoredDesiredConfig where
  "sample_desired = \<lparr>sd_Record = \<lparr>dr_RPCID = ''r1'', dr_Target = ''edge'', dr_UUID = ''u1'',
     dr_Payload = Some ''{}'', dr_Timestamp = GoTime 0 UTCZone\<rparr>, sd_Bucket = ''b'', sd_Key = ''k''\<rparr>"

definition sample_backend :: "RenderInput \<Rightarrow> unit \<Rightarrow> (go_error + RenderOutput) \<times> unit" where
  "sample_backend i x = (Inr \<lparr>ro_Target = ri_Target i, ro_ConfigUUID = ri_ConfigUUID i,
     ro_SchemaName = [], ro_SchemaVersion = [], ro_RenderedText = ''set''\<rparr>, x)"

definition sample_adapter :: "(log_entry list \<times> unit) RenderAdapter" where
  "sample_adapter = \<lparr>rn_backend = Some (beside_log sample_backend), rn_logger = Some append_log,
     rn_debug = \<lparr>rd_LogPayloads = True, rd_LogRendered = False\<rparr>\<rparr>"

lemma empty_object: "unmarshal_raw_map ''{}'' = Some Map.empty"
  by (simp add: unmarshal_raw_map_def into_raw_map_def json_parse_def parse_value.simps [of _ "CHR ''{'' # _"]
      node_def skip_ws_def [of "[]"])

theorem vyos_render_correct_witness:
  "\<exists>ls'. vyos_Renderer \<lparr>in_SupportedSchemaName = ''olg'', in_SupportedSchemaVersions = []\<rparr>
      (Some sample_adapter) None sample_desired ([], ())
    = (Inr \<lparr>o_Target = ''edge'', o_UUID = ''u1'', o_Text = ''set''\<rparr>, (ls', ()))"
proof -
  let ?info = "\<lparr>in_SupportedSchemaName = ''olg'', in_SupportedSchemaVersions = []\<rparr>"
  obtain res ls' where run: "vyos_Renderer ?info (Some sample_adapter) None sample_desired ([], ()) = (res, (ls', ()))"
    by (metis old.unit.exhaust surj_pair)
  from empty_object have "\<exists>input. render_BuildInput ?info sample_desired = Inr input \<and> ri_Target input = ''edge''
      \<and> ri_ConfigUUID input = ''u1''"
    by (simp add: render_BuildInput_def payloadAndMetadata_def sample_desired_def Let_def split: prod.split)
  then have "res = Inr \<lparr>o_Target = ''edge'', o_UUID = ''u1'', o_Text = ''set''\<rparr>"
    using vyos_render_correct [OF _ _ run, of sample_backend]
    by (auto simp: sample_adapter_def rendered_output_def sample_backend_def)
  with run show ?thesis by blast
qed

text \<open>
  A member that is null counts as a string found, the empty one, and so replaces the
  library's name or version.
\<close>

lemma null_field_found: "stringField [''schema_name'' \<mapsto> ''null''] ''schema_name'' = Some ''''"
  by (simp add: stringField_def unmarshal_string_def json_parse_def parse_value.simps [of _ "CHR ''n'' # _"]
      node_def skip_ws_def json_space_def byte_def into_string_def)


end
