(* ===== verification/Agent.thy ===== *)
theory Agent
  imports Configure Actions RendererVyos Config
begin

text \<open>
  Package \<open>internal/agent\<close>: the runtime that wires the services to an \<open>agentcore\<close> client,
  and its lifecycle. The client, the libraries and the scheduler are parameters. What the
  mutex guards is a state of its own beside the rest of the environment.
\<close>

section \<open>The state the mutex guards\<close>

text \<open>
  \<open>rs_wg\<close> is the counter of the wait group; \<open>rs_cancelled\<close> says that the runtime's own
  context was cancelled. The pass counter is an \<open>atomic.Uint64\<close>.
\<close>

record RuntimeState =
  rs_started :: bool
  rs_closed :: bool
  rs_cancelled :: bool
  rs_wg :: nat
  rs_count :: uint64

definition new_RuntimeState :: RuntimeState where
  "new_RuntimeState = \<lparr>rs_started = False, rs_closed = False, rs_cancelled = False, rs_wg = 0, rs_count = 0\<rparr>"

definition beginStart :: "RuntimeState \<Rightarrow> go_error option \<times> RuntimeState" where
  "beginStart rs =
     (if rs_closed rs then (Some (errors_New ''runtime is closed''), rs)
      else if rs_started rs then (Some (errors_New ''runtime already started''), rs)
      else (None, rs\<lparr>rs_started := True\<rparr>))"

definition markClosed :: "RuntimeState \<Rightarrow> bool \<times> RuntimeState" where
  "markClosed rs = (if rs_closed rs then (True, rs) else (False, rs\<lparr>rs_closed := True\<rparr>))"

text \<open>
  The locked part of the reconnect handler: whether a pass is started. The handler knows the
  runtime only once it is made.
\<close>

definition reconnect_enter :: "bool \<Rightarrow> RuntimeState \<Rightarrow> bool \<times> RuntimeState" where
  "reconnect_enter has_service rs =
     (if rs_closed rs \<or> \<not> has_service then (False, rs) else (True, rs\<lparr>rs_wg := rs_wg rs + 1\<rparr>))"

definition count_pass :: "RuntimeState \<Rightarrow> unit \<times> RuntimeState" where
  "count_pass rs = ((), rs\<lparr>rs_count := rs_count rs + 1\<rparr>)"

definition wg_Done :: "RuntimeState \<Rightarrow> unit \<times> RuntimeState" where
  "wg_Done rs = ((), rs\<lparr>rs_wg := rs_wg rs - 1\<rparr>)"

definition cancel_runtime :: "RuntimeState \<Rightarrow> unit \<times> RuntimeState" where
  "cancel_runtime rs = ((), rs\<lparr>rs_cancelled := True\<rparr>)"

definition ReconnectReconcileCount :: "RuntimeState \<Rightarrow> uint64" where
  "ReconnectReconcileCount rs = rs_count rs"

type_synonym 'x renv = "RuntimeState \<times> 'x"

definition guarded :: "(RuntimeState \<Rightarrow> 'a \<times> RuntimeState) \<Rightarrow> ('x renv world, 'a) state" where
  "guarded f = peek (\<lambda>(rs, x). case f rs of (a, rs') \<Rightarrow> (a, (rs', x)))"

definition runtime_ctx :: "'x renv ctx" where
  "runtime_ctx = (\<lambda>(rs, x). if rs_cancelled rs then Some context_Canceled else None)"

section \<open>The client and the scheduler\<close>

record HealthSnapshot =
  hs_State :: log_value
  hs_ConnectedURL :: log_value
  hs_JetStreamReady :: log_value
  hs_KVReady :: log_value
  hs_RegisteredSubscriptions :: log_value
  hs_ActiveSubscriptions :: log_value
  hs_LastError :: log_value

type_synonym 'e ConfigureHandler = "'e ctx option \<Rightarrow> ConfigureNotification \<Rightarrow> ('e world, go_error option) state"
type_synonym 'e ActionHandler = "'e ctx option \<Rightarrow> ActionCommand \<Rightarrow> ('e world, go_error option) state"

record 'e AgentClient =
  cl_core :: "'e CoreClient"
  cl_RegisterConfigure :: "string \<Rightarrow> 'e ConfigureHandler \<Rightarrow> 'e \<Rightarrow> go_error option \<times> 'e"
  cl_RegisterAction :: "string \<Rightarrow> string \<Rightarrow> 'e ActionHandler \<Rightarrow> 'e \<Rightarrow> go_error option \<times> 'e"
  cl_Start :: "'e ctx \<Rightarrow> 'e \<Rightarrow> go_error option \<times> 'e"
  cl_Health :: "'e \<Rightarrow> HealthSnapshot \<times> 'e"
  cl_Close :: "'e ctx \<Rightarrow> 'e \<Rightarrow> go_error option \<times> 'e"

text \<open>
  What the scheduler decides: \<open>sch_Timeout d\<close> is a new context that ends after \<open>d\<close>
  nanoseconds; \<open>sch_Done\<close> lets time pass until a context is done and tells why;
  \<open>sch_Wait\<close> is the select of \<open>Close\<close>: nil when the wait group reached 0 first, else the
  error of the context.
\<close>

record 'e Scheduler =
  sch_Timeout :: "int \<Rightarrow> 'e ctx"
  sch_Done :: "'e ctx \<Rightarrow> 'e \<Rightarrow> go_error \<times> 'e"
  sch_Wait :: "'e ctx \<Rightarrow> 'e \<Rightarrow> go_error option \<times> 'e"

section \<open>The runtime\<close>

record 'e Runtime =
  ru_appConfig :: AppConfig
  ru_coreConfig :: CoreConfig
  ru_client :: "'e AgentClient"
  ru_logger :: bool
  ru_now :: "'e Clock"
  ru_configureService :: "'e ConfigureService option"
  ru_actionService :: "'e ActionService option"

definition ru_target :: "'e Runtime \<Rightarrow> string" where
  "ru_target r = ag_Target (app_Agent (ru_appConfig r))"

definition ru_logInfo :: "'e Runtime \<Rightarrow> string \<Rightarrow> (string \<times> log_value) list \<Rightarrow> ('e world, unit) state" where
  "ru_logInfo r msg kv = log_at (ru_logger r) LInfo msg kv"

definition ru_logWarn :: "'e Runtime \<Rightarrow> string \<Rightarrow> (string \<times> log_value) list \<Rightarrow> ('e world, unit) state" where
  "ru_logWarn r msg kv = log_at (ru_logger r) LWarn msg kv"

definition ru_logError :: "'e Runtime \<Rightarrow> string \<Rightarrow> (string \<times> log_value) list \<Rightarrow> ('e world, unit) state" where
  "ru_logError r msg kv = log_at (ru_logger r) LError msg kv"

definition ru_logDebug :: "'e Runtime \<Rightarrow> string \<Rightarrow> (string \<times> log_value) list \<Rightarrow> ('e world, unit) state" where
  "ru_logDebug r msg kv = log_at (ru_logger r) LDebug msg kv"

definition handleConfigure :: "'e Runtime \<Rightarrow> 'e ConfigureHandler" where
  "handleConfigure r ctx msg = do {
     ru_logInfo r ''configure handler invoked'' (msg_kv msg);
     (case ru_configureService r of
        None \<Rightarrow> State_Monad.return (Some (errors_New ''configure service is not initialized''))
      | Some s \<Rightarrow> configure_Handle s ctx msg)
   }"

definition handleAction :: "'e Runtime \<Rightarrow> 'e ActionHandler" where
  "handleAction r ctx msg = do {
     ru_logInfo r ''action handler invoked'' (action_kv msg);
     (case ru_actionService r of
        None \<Rightarrow> State_Monad.return (Some (errors_New ''action service is not initialized''))
      | Some s \<Rightarrow> actions_Handle s ctx msg)
   }"

fun register_actions :: "'e Runtime \<Rightarrow> string \<Rightarrow> string list \<Rightarrow> ('e world, go_error option) state" where
  "register_actions r target [] = State_Monad.return None"
| "register_actions r target (action # actions) = do {
     e \<leftarrow> call (cl_RegisterAction (ru_client r) target action (handleAction r)) (EvRegAction target action);
     (case e of
        Some err \<Rightarrow> State_Monad.return (Some (Wrapf ''register action handler %q: %w'' [FStr action] err))
      | None \<Rightarrow> do {
          ru_logInfo r ''action handler registered'' [(''target'', LStr target), (''action'', LStr action)];
          register_actions r target actions
        })
   }"

definition registerHandlers :: "'e Runtime \<Rightarrow> ('e world, go_error option) state" where
  "registerHandlers r = do {
     let target = ru_target r;
     e \<leftarrow> call (cl_RegisterConfigure (ru_client r) target (handleConfigure r)) (EvRegConfigure target);
     (case e of
        Some err \<Rightarrow> State_Monad.return (Some (wrap ''register configure handler'' err))
      | None \<Rightarrow> do {
          ru_logInfo r ''configure handler registered'' [(''target'', LStr target)];
          register_actions r target (ax_Enabled (ag_Actions (app_Agent (ru_appConfig r))))
        })
   }"

definition startup_status :: "string \<Rightarrow> gotime \<Rightarrow> StatusEnvelope" where
  "startup_status target t = \<lparr>se_Version = ''1.0'', se_RPCID = '''', se_Target = target, se_UUID = '''',
     se_Status = ''running'', se_Stage = ''startup'', se_Message = ''vyos-nats-agent started'',
     se_Timestamp = UTC t\<rparr>"

definition startup_kv :: "string \<Rightarrow> (string \<times> log_value) list" where
  "startup_kv target = [(''target'', LStr target), (''stage'', LStr ''startup''), (''status'', LStr ''running'')]"

definition publishStartupStatus :: "'e Runtime \<Rightarrow> 'e ctx \<Rightarrow> ('e world, go_error option) state" where
  "publishStartupStatus r ctx = do {
     ru_logInfo r ''startup status publishing'' (startup_kv (ru_target r));
     t \<leftarrow> peek (ru_now r);
     let msg = startup_status (ru_target r) t;
     e \<leftarrow> call (PublishStatus (cl_core (ru_client r)) (Some ctx) msg) (EvStatus msg);
     (case e of
        Some err \<Rightarrow> State_Monad.return (Some (wrap ''publish startup status'' err))
      | None \<Rightarrow> do {
          ru_logInfo r ''startup status published'' (startup_kv (ru_target r));
          State_Monad.return None
        })
   }"

definition healthLogFields :: "HealthSnapshot \<Rightarrow> (string \<times> log_value) list" where
  "healthLogFields h = [(''health_state'', hs_State h), (''connected_url'', hs_ConnectedURL h),
     (''jetstream_ready'', hs_JetStreamReady h), (''kv_ready'', hs_KVReady h),
     (''registered_subscriptions'', hs_RegisteredSubscriptions h),
     (''active_subscriptions'', hs_ActiveSubscriptions h), (''last_error'', hs_LastError h)]"

section \<open>The lifecycle\<close>

definition startupCloseTimeout :: int where
  "startupCloseTimeout = 5 * 1000000000"

definition defaultShutdownTimeout :: int where
  "defaultShutdownTimeout = 10 * 1000000000"

definition runtime_Close ::
  "'x renv Scheduler \<Rightarrow> 'x renv Runtime \<Rightarrow> 'x renv ctx option \<Rightarrow> ('x renv world, go_error option) state" where
  "runtime_Close sch r ctx =
     (case ctx of
        None \<Rightarrow> State_Monad.return (Some (errors_New ''close context is nil''))
      | Some c \<Rightarrow> do {
     already \<leftarrow> guarded markClosed;
     (if already then State_Monad.return None
      else do {
        guarded cancel_runtime;
        waited \<leftarrow> peek (sch_Wait sch c);
        (case waited of
           Some err \<Rightarrow> do {
             ru_logWarn r ''close context timed out or was cancelled before background tasks finished''
               [(''error'', LErr (Some err))];
             State_Monad.return (Some (wrap ''close'' err))
           }
         | None \<Rightarrow> do {
             ru_logInfo r ''agentcore client closing'' [(''target'', LStr (ru_target r))];
             e \<leftarrow> call (cl_Close (ru_client r) c) EvClientClose;
             (case e of
                Some err \<Rightarrow> State_Monad.return (Some (wrap ''close agentcore client'' err))
              | None \<Rightarrow> do {
                  h \<leftarrow> peek (cl_Health (ru_client r));
                  ru_logInfo r ''agentcore client closed'' (healthLogFields h);
                  State_Monad.return None
                })
           })
      })
     })"

text \<open>
  \<open>runtime_New\<close> always gives the runtime a configure service, so \<open>Start\<close> calls it without a
  test; calling it on nil would panic.
\<close>

definition startup_reconcile :: "'e Runtime \<Rightarrow> 'e ctx \<Rightarrow> 'e ConfigureService \<Rightarrow> ('e world, go_error option) state" where
  "startup_reconcile r ctx s = do {
     ru_logInfo r ''running startup reconcile'' [(''target'', LStr (ru_target r))];
     e \<leftarrow> configure_Reconcile s (Some ctx) (ru_target r);
     (case e of
        Some err \<Rightarrow> ru_logWarn r ''startup reconcile completed with error''
          [(''target'', LStr (ru_target r)), (''error'', LErr (Some err))]
      | None \<Rightarrow> ru_logInfo r ''startup reconcile completed'' [(''target'', LStr (ru_target r))]);
     State_Monad.return None
   }"

definition runtime_Start ::
  "'x renv Scheduler \<Rightarrow> 'x renv Runtime \<Rightarrow> 'x renv ConfigureService \<Rightarrow> 'x renv ctx option
     \<Rightarrow> ('x renv world, go_error option) state" where
  "runtime_Start sch r s ctx =
     (case ctx of
        None \<Rightarrow> State_Monad.return (Some (errors_New ''start context is nil''))
      | Some c \<Rightarrow> do {
     begun \<leftarrow> guarded beginStart;
     (case begun of
        Some err \<Rightarrow> State_Monad.return (Some err)
      | None \<Rightarrow> do {
     e1 \<leftarrow> registerHandlers r;
     (case e1 of
        Some err \<Rightarrow> State_Monad.return (Some err)
      | None \<Rightarrow> do {
     ru_logInfo r ''agentcore client starting'' [(''target'', LStr (ru_target r))];
     e2 \<leftarrow> call (cl_Start (ru_client r) c) EvClientStart;
     (case e2 of
        Some err \<Rightarrow> State_Monad.return (Some (wrap ''start agentcore client'' err))
      | None \<Rightarrow> do {
     h \<leftarrow> peek (cl_Health (ru_client r));
     ru_logInfo r ''agentcore client started'' (healthLogFields h);
     e3 \<leftarrow> publishStartupStatus r c;
     (case e3 of
        Some err \<Rightarrow> do {
          ru_logError r ''startup status publish failed'' [(''error'', LErr (Some err))];
          closeErr \<leftarrow> runtime_Close sch r (Some (sch_Timeout sch startupCloseTimeout));
          (case closeErr of
             Some ce \<Rightarrow> State_Monad.return (Some (Wrapf ''startup status failed and close failed: %v: %w'' [FErr ce] err))
           | None \<Rightarrow> State_Monad.return (Some err))
        }
      | None \<Rightarrow> startup_reconcile r c s)
     })})})})"

definition runtime_Run ::
  "'x renv Scheduler \<Rightarrow> 'x renv Runtime \<Rightarrow> 'x renv ConfigureService \<Rightarrow> 'x renv ctx option
     \<Rightarrow> ('x renv world, go_error option) state" where
  "runtime_Run sch r s ctx =
     (case ctx of
        None \<Rightarrow> State_Monad.return (Some (errors_New ''run context is nil''))
      | Some c \<Rightarrow> do {
     e \<leftarrow> runtime_Start sch r s (Some c);
     (case e of
        Some err \<Rightarrow> State_Monad.return (Some err)
      | None \<Rightarrow> do {
     why \<leftarrow> peek (sch_Done sch c);
     ru_logInfo r ''shutdown requested'' [(''error'', LErr (Some why))];
     let configured = cm_ShutdownTimeout (core_Timeouts (ru_coreConfig r));
     let shutdownTimeout = (if configured \<le> 0 then defaultShutdownTimeout else configured);
     closeErr \<leftarrow> runtime_Close sch r (Some (sch_Timeout sch shutdownTimeout));
     (case closeErr of
        Some err \<Rightarrow> do {
          ru_logError r ''shutdown error'' [(''error'', LErr (Some err))];
          State_Monad.return (Some err)
        }
      | None \<Rightarrow> State_Monad.return None)
     })})"

section \<open>The reconnect pass\<close>

text \<open>The goroutine a reconnect starts; its reconcile runs under the runtime's own context.\<close>

definition reconnect_pass :: "'x renv Runtime \<Rightarrow> 'x renv ConfigureService \<Rightarrow> ('x renv world, unit) state" where
  "reconnect_pass r s = do {
     guarded count_pass;
     ru_logInfo r ''reconnect detected, starting reconciliation pass'' [(''target'', LStr (ru_target r))];
     e \<leftarrow> configure_Reconcile s (Some runtime_ctx) (ru_target r);
     (case e of
        Some err \<Rightarrow> ru_logError r ''reconnection reconciliation failed'' [(''error'', LErr (Some err))]
      | None \<Rightarrow> State_Monad.return ());
     ru_logInfo r ''reconnect reconciliation pass finished'' [(''target'', LStr (ru_target r))];
     guarded wg_Done
   }"

definition reconnect_handler :: "'x renv Runtime option \<Rightarrow> ('x renv world, ('x renv world, unit) state option) state" where
  "reconnect_handler runtime =
     (case runtime of
        None \<Rightarrow> State_Monad.return None
      | Some r \<Rightarrow> do {
          go \<leftarrow> guarded (reconnect_enter (ru_configureService r \<noteq> None));
          State_Monad.return (if go then map_option (reconnect_pass r) (ru_configureService r) else None)
        })"

section \<open>Construction\<close>

text \<open>
  What the constructor calls outside this package: \<open>agentcore.New\<close>, the two libraries, the
  file store of a path, the executor of real traces and \<open>time.Now\<close>.
\<close>

record 'e runtime_libs =
  lb_agentcore_New :: "CoreConfig \<Rightarrow> go_error + 'e AgentClient"
  lb_vyosrenderer_New :: "go_error + 'e RenderBackend"
  lb_vyosrenderer_Info :: RenderInfo
  lb_vyosapply_New :: "bool \<Rightarrow> go_error + 'e ApplyBackend"
  lb_FileStore :: "string \<Rightarrow> 'e StateStore"
  lb_VyOSTrace :: "'e Executor"
  lb_time_Now :: "'e Clock"

record 'e runtimeOptions =
  op_logger :: "'e Logger option"
  op_now :: "'e Clock"

type_synonym 'e Option = "'e runtimeOptions \<Rightarrow> go_error + 'e runtimeOptions"

definition agent_WithLogger :: "'e Logger option \<Rightarrow> 'e Option" where
  "agent_WithLogger lg opts = Inr (opts\<lparr>op_logger := lg\<rparr>)"

definition agent_WithClock :: "'e Clock option \<Rightarrow> 'e Option" where
  "agent_WithClock now opts =
     (case now of None \<Rightarrow> Inl (errors_New ''clock function is nil'') | Some n \<Rightarrow> Inr (opts\<lparr>op_now := n\<rparr>))"

fun agent_options :: "'e Option option list \<Rightarrow> 'e runtimeOptions \<Rightarrow> go_error + 'e runtimeOptions" where
  "agent_options [] options = Inr options"
| "agent_options (None # opts) options = agent_options opts options"
| "agent_options (Some opt # opts) options =
     (case opt options of Inl err \<Rightarrow> Inl err | Inr options' \<Rightarrow> agent_options opts options')"

definition configureDebugConfig :: "AppConfig option \<Rightarrow> DebugLogging" where
  "configureDebugConfig appCfg =
     (case appCfg of
        None \<Rightarrow> \<lparr>dl_LogPayloads = False, dl_LogRendered = False, dl_LogApplyPlan = False\<rparr>
      | Some c \<Rightarrow>
         (if lg_Level (ag_Logging (app_Agent c)) \<noteq> ''debug''
          then \<lparr>dl_LogPayloads = False, dl_LogRendered = False, dl_LogApplyPlan = False\<rparr>
          else \<lparr>dl_LogPayloads = db_LogPayloads (ag_Debug (app_Agent c)),
                dl_LogRendered = db_LogRendered (ag_Debug (app_Agent c)),
                dl_LogApplyPlan = db_LogApplyPlan (ag_Debug (app_Agent c))\<rparr>))"

definition newConfigureEngines ::
  "'e runtime_libs \<Rightarrow> AppConfig option \<Rightarrow> 'e Logger option \<Rightarrow> go_error + 'e Renderer \<times> 'e ApplyEngine" where
  "newConfigureEngines lb appCfg logger =
     (case appCfg of
        None \<Rightarrow> Inl (errors_New ''app config is required'')
      | Some c \<Rightarrow>
     (let debug = configureDebugConfig appCfg; mode = cc_Mode (ag_Configure (app_Agent c)) in
      if mode = ''placeholder'' then Inr (placeholder_Render, placeholder_Apply)
      else if mode = ''real'' then
        (case render_New (lb_vyosrenderer_New lb)
           [Some (render_WithLogger logger),
            Some (render_WithDebugLogging \<lparr>rd_LogPayloads = dl_LogPayloads debug, rd_LogRendered = dl_LogRendered debug\<rparr>)] of
           Inl err \<Rightarrow> Inl (wrap ''create real configure renderer'' err)
         | Inr rend \<Rightarrow>
        (case apply_New (lb_vyosapply_New lb) (ap_SaveAfterCommit (ag_Apply (app_Agent c)))
           [Some (apply_WithLogger logger),
            Some (apply_WithDebugLogging \<lparr>ad_LogRendered = dl_LogRendered debug, ad_LogApplyPlan = dl_LogApplyPlan debug\<rparr>)] of
           Inl err \<Rightarrow> Inl (wrap ''create real configure apply engine'' err)
         | Inr eng \<Rightarrow> Inr (vyos_Renderer (lb_vyosrenderer_Info lb) (Some rend), vyos_ApplyEngine (Some eng))))
      else Inl (errors_New ''agent.configure.mode must be one of placeholder, real'')))"

definition action_client :: "'e AgentClient \<Rightarrow> 'e ActionClient" where
  "action_client c = \<lparr>act_PublishStatus = PublishStatus (cl_core c), act_PublishResult = PublishResult (cl_core c)\<rparr>"

text \<open>
  The client's callbacks: the error sink logs, and the reconnect handler is
  \<open>reconnect_handler\<close> above. \<open>agent_build\<close> makes the runtime, \<open>agent_New\<close> also logs it.
\<close>

definition error_sink :: "'e Logger \<Rightarrow> go_error option \<Rightarrow> ('e, unit) state" where
  "error_sink logger err =
     (case err of
        None \<Rightarrow> State_Monad.return ()
      | Some e \<Rightarrow> env_log (Some logger) LError ''agentcore async error'' [(''error'', LErr (Some e))])"

definition agent_build ::
  "'e runtime_libs \<Rightarrow> AppConfig option \<Rightarrow> CoreConfig \<Rightarrow> 'e Option option list \<Rightarrow> go_error + 'e Runtime" where
  "agent_build lb appCfg coreCfg opts =
     (case appCfg of
        None \<Rightarrow> Inl (errors_New ''app config is required'')
      | Some c \<Rightarrow>
     (case agent_options opts \<lparr>op_logger = None, op_now = lb_time_Now lb\<rparr> of
        Inl err \<Rightarrow> Inl err
      | Inr options \<Rightarrow>
     (case lb_agentcore_New lb coreCfg of
        Inl err \<Rightarrow> Inl (wrap ''create agentcore client'' err)
      | Inr client \<Rightarrow>
     (let stateStore = lb_FileStore lb (ag_StateFile (app_Agent c)) in
     (case newConfigureEngines lb appCfg (op_logger options) of
        Inl err \<Rightarrow> Inl err
      | Inr (rend, eng) \<Rightarrow>
     (case configure_NewService (lb_time_Now lb)
         \<lparr>cd_Client = Some (cl_core client), cd_StateStore = Some stateStore, cd_Renderer = Some rend,
          cd_ApplyEngine = Some eng, cd_Logger = (op_logger options \<noteq> None),
          cd_Debug = configureDebugConfig appCfg, cd_Now = Some (op_now options)\<rparr> of
        Inl err \<Rightarrow> Inl (wrap ''create configure service'' err)
      | Inr configureService \<Rightarrow>
     (let traceExecutor =
            (if ax_Mode (ag_Actions (app_Agent c)) = ''real'' then lb_VyOSTrace lb else placeholder_trace_Execute) in
     (case actions_NewService (lb_time_Now lb)
         \<lparr>ad_Client = Some (action_client client), ad_Logger = (op_logger options \<noteq> None),
          ad_Now = Some (op_now options), ad_Enabled = ax_Enabled (ag_Actions (app_Agent c)),
          ad_Executors = [(ActionTrace, Some traceExecutor)]\<rparr> of
        Inl err \<Rightarrow> Inl (wrap ''create action service'' err)
      | Inr actionService \<Rightarrow>
          Inr \<lparr>ru_appConfig = c, ru_coreConfig = coreCfg, ru_client = client,
            ru_logger = (op_logger options \<noteq> None), ru_now = op_now options,
            ru_configureService = Some configureService, ru_actionService = Some actionService\<rparr>))))))))"

definition agent_New ::
  "'e runtime_libs \<Rightarrow> AppConfig option \<Rightarrow> CoreConfig \<Rightarrow> 'e Option option list \<Rightarrow> ('e world, go_error + 'e Runtime) state" where
  "agent_New lb appCfg coreCfg opts =
     (case agent_build lb appCfg coreCfg opts of
        Inl err \<Rightarrow> State_Monad.return (Inl err)
      | Inr r \<Rightarrow> do {
          ru_logInfo r ''agentcore client created'' [(''target'', LStr (ru_target r))];
          State_Monad.return (Inr r)
        })"

section \<open>The logger\<close>

text \<open>\<open>NewLogger\<close>: the threshold and the format of the handler it makes.\<close>

datatype log_format = TextFormat | JSONFormat

definition NewLogger :: "LoggingConfig \<Rightarrow> go_error + log_level \<times> log_format" where
  "NewLogger cfg =
     (case (if lg_Level cfg = ''debug'' then Some LDebug else if lg_Level cfg = ''info'' then Some LInfo
            else if lg_Level cfg = ''warn'' then Some LWarn else if lg_Level cfg = ''error'' then Some LError
            else None) of
        None \<Rightarrow> Inl (Errorf ''unsupported logging level %q'' [FStr (lg_Level cfg)])
      | Some level \<Rightarrow>
         (if lg_Format cfg = ''text'' then Inr (level, TextFormat)
          else if lg_Format cfg = ''json'' then Inr (level, JSONFormat)
          else Inl (Errorf ''unsupported logging format %q'' [FStr (lg_Format cfg)])))"

end
