(* ===== verification/AgentRuns.thy ===== *)
theory AgentRuns
  imports Agent Protocol ConfigLaws
begin

text \<open>
  What the runtime promises: a valid configuration is wired to complete services, and the
  calls that starting, running and closing make.
\<close>

section \<open>Wiring\<close>

lemma trim_trace: "TrimSpace ''trace'' = ''trace''"
  by (rule no_space_trimmed) (simp add: plain_spaces byte_def)

lemma enabled_trace: "set as \<subseteq> {''trace''} \<Longrightarrow> enabled_actions as = set as"
  by (induction as) (auto simp: trim_trace)

lemma action_service_built:
  assumes "set (ad_Enabled deps) \<subseteq> {''trace''}" "ad_Client deps = Some cl" "ad_Executors deps = [(ActionTrace, Some ex)]"
  shows "\<exists>a. actions_NewService now deps = Inr a \<and> as_enabled a = set (ad_Enabled deps) \<and> as_executors a = [''trace'' \<mapsto> ex]"
  using assms by (simp add: actions_NewService_def ActionTrace_def trim_trace enabled_trace)

text \<open>The libraries a configuration needs have loaded.\<close>

definition libs_ready :: "'e runtime_libs \<Rightarrow> AppConfig \<Rightarrow> bool" where
  "libs_ready lb c \<longleftrightarrow> cc_Mode (ag_Configure (app_Agent c)) = ''real'' \<longrightarrow>
     (\<exists>b. lb_vyosrenderer_New lb = Inr b)
     \<and> (\<exists>b. lb_vyosapply_New lb (ap_SaveAfterCommit (ag_Apply (app_Agent c))) = Inr b)"

lemma engines_built:
  assumes "agent_ok (app_Agent c)" "libs_ready lb c"
  shows "\<exists>rend eng. newConfigureEngines lb (Some c) logger = Inr (rend, eng)
    \<and> (cc_Mode (ag_Configure (app_Agent c)) = ''placeholder'' \<longrightarrow> rend = placeholder_Render \<and> eng = placeholder_Apply)"
  using assms
  by (auto simp: agent_ok_def libs_ready_def newConfigureEngines_def Let_def render_New_def
      render_NewWithBackend_def apply_New_def apply_NewWithBackend_def)


text \<open>Libraries whose calls all succeed and do nothing.\<close>

definition idle_core :: "unit CoreClient" where
  "idle_core = \<lparr>LoadDesiredConfig = (\<lambda>c t e. (Inr None, e)), PublishStatus = (\<lambda>c m e. (None, e)),
     PublishResult = (\<lambda>c m e. (None, e))\<rparr>"

definition idle_client :: "unit AgentClient" where
  "idle_client = \<lparr>cl_core = idle_core, cl_RegisterConfigure = (\<lambda>t h e. (None, e)),
     cl_RegisterAction = (\<lambda>t a h e. (None, e)), cl_Start = (\<lambda>c e. (None, e)),
     cl_Health = (\<lambda>e. (\<lparr>hs_State = LStr ''ok'', hs_ConnectedURL = LStr [], hs_JetStreamReady = LBool True,
       hs_KVReady = LBool True, hs_RegisteredSubscriptions = LInt 2, hs_ActiveSubscriptions = LInt 2,
       hs_LastError = LStr []\<rparr>, e)),
     cl_Close = (\<lambda>c e. (None, e))\<rparr>"

definition idle_libs :: "unit runtime_libs" where
  "idle_libs = \<lparr>lb_agentcore_New = (\<lambda>k. Inr idle_client), lb_vyosrenderer_New = Inl (errors_New ''none''),
     lb_vyosrenderer_Info = \<lparr>in_SupportedSchemaName = [], in_SupportedSchemaVersions = []\<rparr>,
     lb_vyosapply_New = (\<lambda>b. Inl (errors_New ''none'')),
     lb_FileStore = (\<lambda>p. \<lparr>store_Load = (\<lambda>c e. (Inr empty_State, e)), store_Save = (\<lambda>c s e. (None, e))\<rparr>),
     lb_VyOSTrace = placeholder_trace_Execute, lb_time_Now = (\<lambda>e. (GoTime 0 UTCZone, e))\<rparr>"


section \<open>The calls of the lifecycle\<close>

definition registrations :: "string \<Rightarrow> string list \<Rightarrow> event list" where
  "registrations target actions = EvRegConfigure target None # map (\<lambda>a. EvRegAction target a None) actions"

inductive registering :: "string \<Rightarrow> string list \<Rightarrow> event list \<Rightarrow> go_error option \<Rightarrow> bool" for target actions where
  configure_refused: "registering target actions [EvRegConfigure target (Some e)] (Some r)"
| action_refused: "actions = pre @ a # post \<Longrightarrow>
    registering target actions (registrations target pre @ [EvRegAction target a (Some e)]) (Some r)"
| registered: "registering target actions (registrations target actions) None"

text \<open>Closing: the client is closed at most once, and not when closing was begun before.\<close>

inductive close_run :: "event list \<Rightarrow> go_error option \<Rightarrow> bool" where
  closed_before: "close_run [] None"
| not_finished: "close_run [] (Some (wrap ''close'' e))"
| client_closed: "close_run [EvClientClose x] (map_option (wrap ''close agentcore client'') x)"

inductive start_run :: "string \<Rightarrow> string list \<Rightarrow> event list \<Rightarrow> go_error option \<Rightarrow> bool" for target actions where
  refused: "start_run target actions [] (Some e)"
| unregistered: "registering target actions evs (Some e) \<Longrightarrow> start_run target actions evs (Some e)"
| not_started: "start_run target actions (registrations target actions @ [EvClientStart (Some e)])
    (Some (wrap ''start agentcore client'' e))"
| unannounced: "close_run evs c \<Longrightarrow> start_run target actions
    (registrations target actions @ [EvClientStart None, EvStatus (startup_status target t) (Some e)] @ evs) (Some r)"
| running: "reconcile_run target evs r \<Longrightarrow> start_run target actions
    (registrations target actions @ [EvClientStart None, EvStatus (startup_status target t) None] @ evs) None"

text \<open>Running: a start that failed ends the run, else a close follows.\<close>

inductive run_run :: "string \<Rightarrow> string list \<Rightarrow> event list \<Rightarrow> go_error option \<Rightarrow> bool" for target actions where
  start_failed: "start_run target actions evs (Some e) \<Longrightarrow> run_run target actions evs (Some e)"
| stopped: "start_run target actions evs None \<Longrightarrow> close_run cls r \<Longrightarrow> run_run target actions (evs @ cls) r"

abbreviation adds_trace :: "(event list \<Rightarrow> 'a \<Rightarrow> bool) \<Rightarrow> 'e world \<Rightarrow> 'a \<Rightarrow> 'e world \<Rightarrow> bool" where
  "adds_trace P w r w' \<equiv> \<exists>evs. trace w' = trace w @ evs \<and> P evs r"

lemma trace_guarded [trace_rules]:
  "(\<And>a w'. trace w' = trace w \<Longrightarrow> Q a w') \<Longrightarrow> wp (guarded f) Q w"
  unfolding guarded_def by (rule trace_peek)

lemma trace_ru_logs [trace_rules]:
  "(\<And>w'. trace w' = trace w \<Longrightarrow> Q () w') \<Longrightarrow> wp (ru_logInfo r m kv) Q w"
  "(\<And>w'. trace w' = trace w \<Longrightarrow> Q () w') \<Longrightarrow> wp (ru_logWarn r m kv) Q w"
  "(\<And>w'. trace w' = trace w \<Longrightarrow> Q () w') \<Longrightarrow> wp (ru_logError r m kv) Q w"
  unfolding ru_logInfo_def ru_logWarn_def ru_logError_def by (rule trace_log_at, simp)+

text \<open>The calls of the registration loop.\<close>

inductive action_regs :: "string \<Rightarrow> string list \<Rightarrow> event list \<Rightarrow> go_error option \<Rightarrow> bool" for target where
  no_more: "action_regs target [] [] None"
| refused_here: "action_regs target (a # as) [EvRegAction target a (Some e)] (Some r)"
| registered_one: "action_regs target as evs x \<Longrightarrow> action_regs target (a # as) (EvRegAction target a None # evs) x"

lemma register_actions_rule:
  "wp (register_actions r target as) (adds_trace (action_regs target as) w) w"
proof (induction as arbitrary: w)
  case Nil
  then show ?case by (simp add: wp_return action_regs.intros)
next
  case (Cons a as)
  show ?case
    unfolding register_actions.simps
    by (intro trace_rules; (rule wp_mono [OF Cons])?) (auto intro: action_regs.intros)
qed

lemma action_regs_registering:
  "action_regs target as evs x \<Longrightarrow> registering target (pre @ as) (registrations target pre @ evs) x"
proof (induction arbitrary: pre rule: action_regs.induct)
  case no_more
  show ?case using registering.registered [of target pre] by simp
next
  case (refused_here a as e r)
  show ?case by (rule registering.action_refused) simp
next
  case (registered_one as evs x a)
  from registered_one.IH [of "pre @ [a]"] show ?case by (simp add: registrations_def)
qed

lemma register_rule:
  "wp (registerHandlers r)
     (adds_trace (registering (ru_target r) (ax_Enabled (ag_Actions (app_Agent (ru_appConfig r))))) w) w"
  unfolding registerHandlers_def Let_def
  by (intro trace_rules; (rule wp_mono [OF register_actions_rule])?)
    (auto intro: registering.configure_refused
      dest: action_regs_registering [of _ _ _ _ "[]", unfolded registrations_def, simplified])

lemma close_rule: "wp (runtime_Close sch r (Some c)) (adds_trace close_run w) w"
  unfolding runtime_Close_def option.case
  by (intro trace_rules) (auto intro: close_run.intros close_run.client_closed [of "Some _", simplified]
      close_run.client_closed [of None, simplified])

lemma startup_status_rule:
  "wp (publishStartupStatus r c)
     (adds_trace (\<lambda>evs x. \<exists>t e. evs = [EvStatus (startup_status (ru_target r) t) e] \<and> (x = None \<longleftrightarrow> e = None)) w) w"
  unfolding publishStartupStatus_def Let_def
  by (intro trace_rules) auto

lemma startup_reconcile_rule:
  "wp (startup_reconcile r c s) (adds_trace (\<lambda>evs x. x = None \<and> (\<exists>y. reconcile_run (ru_target r) evs y)) w) w"
  unfolding startup_reconcile_def
proof (intro trace_rules; rule wp_mono [OF reconcile_rule])
qed (intro trace_rules, auto)

lemma trace_parts [trace_rules]:
  "(\<And>x evs w'. trace w' = trace w @ evs \<Longrightarrow>
      registering (ru_target r) (ax_Enabled (ag_Actions (app_Agent (ru_appConfig r)))) evs x \<Longrightarrow> Q x w') \<Longrightarrow>
    wp (registerHandlers r) Q w"
  "(\<And>x evs w'. trace w' = trace w @ evs \<Longrightarrow> close_run evs x \<Longrightarrow> Q x w') \<Longrightarrow>
    wp (runtime_Close sch r (Some c)) Q w"
  "(\<And>x t e w'. trace w' = trace w @ [EvStatus (startup_status (ru_target r) t) e] \<Longrightarrow> (x = None \<longleftrightarrow> e = None)
      \<Longrightarrow> Q x w') \<Longrightarrow> wp (publishStartupStatus r c) Q w"
  "(\<And>evs y w'. trace w' = trace w @ evs \<Longrightarrow> reconcile_run (ru_target r) evs y \<Longrightarrow> Q None w') \<Longrightarrow>
    wp (startup_reconcile r c s) Q w"
  by (rule wp_mono [OF register_rule] wp_mono [OF close_rule] wp_mono [OF startup_status_rule]
      wp_mono [OF startup_reconcile_rule], blast)+

lemma registering_None: "registering t as evs None \<Longrightarrow> evs = registrations t as"
  by (cases rule: registering.cases) auto

lemma start_rule:
  "wp (runtime_Start sch r s (Some c))
     (adds_trace (start_run (ru_target r) (ax_Enabled (ag_Actions (app_Agent (ru_appConfig r))))) w) w"
  unfolding runtime_Start_def option.case
  by (intro trace_rules)
    (auto dest!: registering_None intro: start_run.refused start_run.unregistered
      start_run.not_started start_run.unannounced [simplified] start_run.running [simplified])

lemma trace_start [trace_rules]:
  "(\<And>x evs w'. trace w' = trace w @ evs \<Longrightarrow>
      start_run (ru_target r) (ax_Enabled (ag_Actions (app_Agent (ru_appConfig r)))) evs x \<Longrightarrow> Q x w') \<Longrightarrow>
    wp (runtime_Start sch r s (Some c)) Q w"
  by (rule wp_mono [OF start_rule]) blast

text \<open>
  \textbf{C32.} Running the runtime, whatever its collaborators answer, makes the calls of
  \<open>run_run\<close>: the configure handler is registered, then the enabled actions in their order,
  then the client is started, the startup status published and one reconcile run; the first
  failure ends the run with its error, after a close when it was the startup status. After
  a start the client is closed at most once, and the error is that of the close.
\<close>

theorem runtime_run_correct:
  "wp (runtime_Run sch r s (Some c))
     (\<lambda>x w'. \<exists>evs. trace w' = trace w @ evs
        \<and> run_run (ru_target r) (ax_Enabled (ag_Actions (app_Agent (ru_appConfig r)))) evs x) w"
  unfolding runtime_Run_def option.case Let_def
  by (intro trace_rules) (auto intro: run_run.intros)

end
