(* ===== verification/Lifecycle.thy ===== *)
theory Lifecycle
  imports Agent "HOL-Library.Multiset"
begin

text \<open>
  The runtime's operations side by side: any number of starts, closes and reconnect
  callbacks run at once, each a thread that moves by the steps the mutex, the atomic counter
  and the wait group make atomic. Runs carry the labels of their steps; the properties are
  about every run, so about every interleaving.
\<close>

section \<open>Threads\<close>

text \<open>
  Where a thread stands: a callback before its locked part; a pass that was started, that is
  counted and reconciles; a start; a close before its locked part, before it cancels, in its
  select, and before it closes the client. A thread that has returned is gone.
\<close>

datatype thread = Callback | Spawned | Passing | Starter | Closer | Cancelling | Waiting | ClosingClient

datatype label =
    Arrives thread
  | Reconnected bool
  | Counted
  | PassDone
  | Begun bool
  | Marked bool
  | Cancelled
  | AllDone
  | TimedOut
  | ClientClosed

type_synonym lifecycle = "RuntimeState \<times> thread multiset"

inductive lstep :: "lifecycle \<Rightarrow> label \<Rightarrow> lifecycle \<Rightarrow> bool" where
  arrives: "t \<in> {Callback, Starter, Closer} \<Longrightarrow> lstep (rs, ts) (Arrives t) (rs, add_mset t ts)"
| reconnected: "reconnect_enter True rs = (True, rs') \<Longrightarrow>
    lstep (rs, add_mset Callback ts) (Reconnected True) (rs', add_mset Spawned ts)"
| ignored: "reconnect_enter True rs = (False, rs') \<Longrightarrow>
    lstep (rs, add_mset Callback ts) (Reconnected False) (rs', ts)"
| counted: "count_pass rs = ((), rs') \<Longrightarrow> lstep (rs, add_mset Spawned ts) Counted (rs', add_mset Passing ts)"
| pass_done: "wg_Done rs = ((), rs') \<Longrightarrow> lstep (rs, add_mset Passing ts) PassDone (rs', ts)"
| begun: "beginStart rs = (e, rs') \<Longrightarrow> lstep (rs, add_mset Starter ts) (Begun (e = None)) (rs', ts)"
| marked: "markClosed rs = (False, rs') \<Longrightarrow>
    lstep (rs, add_mset Closer ts) (Marked True) (rs', add_mset Cancelling ts)"
| closed_before: "markClosed rs = (True, rs') \<Longrightarrow> lstep (rs, add_mset Closer ts) (Marked False) (rs', ts)"
| cancelled: "cancel_runtime rs = ((), rs') \<Longrightarrow>
    lstep (rs, add_mset Cancelling ts) Cancelled (rs', add_mset Waiting ts)"
| all_done: "rs_wg rs = 0 \<Longrightarrow> lstep (rs, add_mset Waiting ts) AllDone (rs, add_mset ClosingClient ts)"
| timed_out: "lstep (rs, add_mset Waiting ts) TimedOut (rs, ts)"
| client_closed: "lstep (rs, add_mset ClosingClient ts) ClientClosed (rs, ts)"

inductive_cases lstepE: "lstep s l s'"

inductive lrun :: "lifecycle \<Rightarrow> label list \<Rightarrow> lifecycle \<Rightarrow> bool" for s where
  lrun_nil: "lrun s [] s"
| lrun_snoc: "lrun s h s' \<Longrightarrow> lstep s' l s'' \<Longrightarrow> lrun s (h @ [l]) s''"

definition initial :: lifecycle where
  "initial = (new_RuntimeState, {#})"

section \<open>The invariant\<close>

definition passes :: "thread multiset \<Rightarrow> nat" where
  "passes ts = count ts Spawned + count ts Passing"

definition closers :: "thread multiset \<Rightarrow> nat" where
  "closers ts = count ts Cancelling + count ts Waiting + count ts ClosingClient"

abbreviation times :: "label list \<Rightarrow> label \<Rightarrow> nat" where
  "times h l \<equiv> count_list h l"

definition linv :: "label list \<Rightarrow> lifecycle \<Rightarrow> bool" where
  "linv h s \<longleftrightarrow> (case s of (rs, ts) \<Rightarrow>
     rs_wg rs = passes ts
     \<and> rs_count rs = of_nat (times h Counted)
     \<and> times h (Reconnected True) = passes ts + times h PassDone
     \<and> times h (Marked True) = (if rs_closed rs then 1 else 0)
     \<and> times h (Marked True) = closers ts + times h TimedOut + times h ClientClosed
     \<and> times h (Begun True) = (if rs_started rs then 1 else 0)
     \<and> (rs_cancelled rs \<longleftrightarrow> rs_closed rs \<and> count ts Cancelling = 0)
     \<and> (count ts ClosingClient > 0 \<or> times h ClientClosed > 0 \<longrightarrow> passes ts = 0))"

lemmas section_defs = reconnect_enter_def count_pass_def wg_Done_def beginStart_def markClosed_def cancel_runtime_def

lemma linv_initial: "linv [] initial"
  by (simp add: linv_def initial_def new_RuntimeState_def passes_def closers_def)

lemma linv_step: "linv h s \<Longrightarrow> lstep s l s' \<Longrightarrow> linv (h @ [l]) s'"
  by (erule lstepE) (auto simp: linv_def passes_def closers_def section_defs not_in_iff count_greater_zero_iff [symmetric]
      simp del: count_greater_zero_iff split: if_splits)

lemma linv_run: "lrun initial h s \<Longrightarrow> linv h s"
  by (induction rule: lrun.induct) (auto intro: linv_initial linv_step)

text \<open>
  \textbf{C29.} Whatever the interleaving of starts, closes and reconnects: the wait group
  counts the reconcile passes that run and the pass counter the passes that were counted,
  modulo 2^64; at most one start begins and at most one close gets past its first step; the
  client is closed at most once, and from then on, and while it is being closed, no pass
  runs.
\<close>

theorem lifecycle_invariant:
  assumes "lrun initial h (rs, ts)"
  shows "rs_wg rs = passes ts \<and> ReconnectReconcileCount rs = of_nat (times h Counted)
    \<and> times h (Begun True) \<le> 1 \<and> times h (Marked True) \<le> 1 \<and> times h ClientClosed \<le> 1
    \<and> (times h ClientClosed = 1 \<or> ClosingClient \<in># ts \<longrightarrow> passes ts = 0 \<and> rs_closed rs \<and> rs_cancelled rs)"
proof -
  have inv: "linv h (rs, ts)" by (rule linv_run [OF assms])
  then have "closers ts + times h TimedOut + times h ClientClosed \<le> 1"
    by (auto simp: linv_def split: if_splits)
  with inv show ?thesis
    by (auto simp: linv_def closers_def ReconnectReconcileCount_def not_in_iff count_greater_zero_iff [symmetric]
        simp del: count_greater_zero_iff split: if_splits)
qed

section \<open>After a close\<close>

lemma closed_stays: "lstep s l s' \<Longrightarrow> rs_closed (fst s) \<Longrightarrow> rs_closed (fst s') \<and> l \<noteq> Reconnected True \<and> l \<noteq> Begun True \<and> l \<noteq> Marked True"
  by (erule lstepE) (auto simp: section_defs split: if_splits)

lemma marked_closed: "lrun s h s' \<Longrightarrow> Marked True \<in> set h \<or> rs_closed (fst s) \<Longrightarrow> rs_closed (fst s')"
proof (induction rule: lrun.induct)
  case (lrun_snoc h s' l s'')
  then show ?case
    using closed_stays [OF lrun_snoc.hyps(2)]
    by (auto elim!: lstepE simp: section_defs split: if_splits)
qed simp

lemma lrun_split: "lrun s (h1 @ h2) s' \<Longrightarrow> \<exists>t. lrun s h1 t \<and> lrun t h2 s'"
proof (induction h2 arbitrary: s' rule: rev_induct)
  case Nil
  then show ?case using lrun_nil [of s'] by (intro exI [of _ s']) simp
next
  case (snoc l h2)
  from snoc.prems obtain t where "lrun s (h1 @ h2) t" "lstep t l s'"
    by (cases rule: lrun.cases) auto
  with snoc.IH show ?case by (blast intro: lrun_snoc)
qed

lemma closed_run:
  "lrun s h s' \<Longrightarrow> rs_closed (fst s) \<Longrightarrow> Reconnected True \<notin> set h \<and> Begun True \<notin> set h \<and> Marked True \<notin> set h"
proof (induction rule: lrun.induct)
  case (lrun_snoc h s' l s'')
  then show ?case using closed_stays [OF lrun_snoc.hyps(2)] marked_closed [OF lrun_snoc.hyps(1)] by auto
qed simp

text \<open>
  \textbf{C30.} Once a close has got past its first step, no start begins, no further close
  gets past its own, and no reconnect starts a pass: the wait group only falls, so waiting
  for it cannot miss a pass.
\<close>

theorem nothing_begins_after_close:
  assumes "lrun initial (before @ Marked True # after) s"
  shows "Reconnected True \<notin> set after \<and> Begun True \<notin> set after \<and> Marked True \<notin> set after
    \<and> times (before @ Marked True # after) PassDone \<le> times before (Reconnected True)"
proof -
  have "lrun initial ((before @ [Marked True]) @ after) s" using assms by simp
  then obtain t where t: "lrun initial (before @ [Marked True]) t" "lrun t after s"
    using lrun_split by blast
  from marked_closed [OF t(1)] have closed: "rs_closed (fst t)" by simp
  note none = closed_run [OF t(2) closed]
  moreover have "times (before @ Marked True # after) PassDone \<le> times (before @ Marked True # after) (Reconnected True)"
    using linv_run [OF assms] by (simp add: linv_def split: prod.splits)
  moreover have "times after (Reconnected True) = 0" using none by (simp add: count_list_0_iff)
  ultimately show ?thesis by simp
qed

section \<open>Running out of steps\<close>

text \<open>How many steps a thread has left.\<close>

fun steps_left :: "thread \<Rightarrow> nat" where
  "steps_left Callback = 3"
| "steps_left Spawned = 2"
| "steps_left Passing = 1"
| "steps_left Starter = 1"
| "steps_left Closer = 4"
| "steps_left Cancelling = 3"
| "steps_left Waiting = 2"
| "steps_left ClosingClient = 1"

definition work :: "lifecycle \<Rightarrow> nat" where
  "work s = sum_mset (image_mset steps_left (snd s))"

definition is_arrival :: "label \<Rightarrow> bool" where
  "is_arrival l \<longleftrightarrow> (\<exists>t. l = Arrives t)"

lemma work_decreases: "lstep s l s' \<Longrightarrow> \<not> is_arrival l \<Longrightarrow> work s' < work s"
  by (erule lstepE) (auto simp: work_def is_arrival_def)

lemma work_run: "lrun s h s' \<Longrightarrow> list_all (\<lambda>l. \<not> is_arrival l) h \<Longrightarrow> length h + work s' \<le> work s"
proof (induction rule: lrun.induct)
  case (lrun_snoc h s' l s'')
  then show ?case using work_decreases [OF lrun_snoc.hyps(2)] by simp
qed simp

lemma canI: "lstep s l s' \<Longrightarrow> \<not> is_arrival l \<Longrightarrow> \<exists>l s'. lstep s l s' \<and> \<not> is_arrival l"
  by blast

lemma not_arrival [simp]:
  "\<not> is_arrival (Reconnected b)" "\<not> is_arrival Counted" "\<not> is_arrival PassDone" "\<not> is_arrival (Begun b)"
  "\<not> is_arrival (Marked b)" "\<not> is_arrival Cancelled" "\<not> is_arrival TimedOut" "\<not> is_arrival ClientClosed"
  by (simp_all add: is_arrival_def)

lemma thread_can_step:
  assumes "t \<in># ts"
  shows "\<exists>l s'. lstep (rs, ts) l s' \<and> \<not> is_arrival l"
proof -
  from assms obtain us where ts: "ts = add_mset t us" by (meson mset_add)
  show ?thesis
  proof (cases t)
    case Callback
    obtain b rs' where e: "reconnect_enter True rs = (b, rs')" by (cases "reconnect_enter True rs")
    show ?thesis
    proof (cases b)
      case True
      with e have "reconnect_enter True rs = (True, rs')" by simp
      then show ?thesis unfolding ts Callback by (rule canI [OF lstep.reconnected]) simp
    next
      case False
      with e have "reconnect_enter True rs = (False, rs')" by simp
      then show ?thesis unfolding ts Callback by (rule canI [OF lstep.ignored]) simp
    qed
  next
    case Closer
    obtain b rs' where e: "markClosed rs = (b, rs')" by (cases "markClosed rs")
    show ?thesis
    proof (cases b)
      case True
      with e have "markClosed rs = (True, rs')" by simp
      then show ?thesis unfolding ts Closer by (rule canI [OF lstep.closed_before]) simp
    next
      case False
      with e have "markClosed rs = (False, rs')" by simp
      then show ?thesis unfolding ts Closer by (rule canI [OF lstep.marked]) simp
    qed
  next
    case Starter
    obtain e rs' where "beginStart rs = (e, rs')" by (cases "beginStart rs")
    then show ?thesis unfolding ts Starter by (rule canI [OF lstep.begun]) simp
  next
    case Spawned
    show ?thesis unfolding ts Spawned by (rule canI [OF lstep.counted [OF count_pass_def]]) simp
  next
    case Passing
    show ?thesis unfolding ts Passing by (rule canI [OF lstep.pass_done [OF wg_Done_def]]) simp
  next
    case Cancelling
    show ?thesis unfolding ts Cancelling by (rule canI [OF lstep.cancelled [OF cancel_runtime_def]]) simp
  next
    case Waiting
    show ?thesis unfolding ts Waiting by (rule canI [OF lstep.timed_out]) simp
  next
    case ClosingClient
    show ?thesis unfolding ts ClosingClient by (rule canI [OF lstep.client_closed]) simp
  qed
qed


section \<open>A run\<close>

text \<open>A reconnect whose pass is counted and finished, then a close.\<close>

definition sample_history :: "label list" where
  "sample_history = [Arrives Callback, Reconnected True, Counted, PassDone, Arrives Closer] @ Marked True #
     [Cancelled, AllDone, ClientClosed]"

lemma sample_run:
  "lrun initial sample_history (new_RuntimeState\<lparr>rs_count := 1, rs_closed := True, rs_cancelled := True\<rparr>, {#})"
proof -
  let ?s = new_RuntimeState
  have "lrun initial [] (?s, {#})" by (simp add: initial_def lrun_nil [of initial, unfolded initial_def])
  then have "lrun initial ([] @ [Arrives Callback]) (?s, {#Callback#})" by (rule lrun_snoc) (simp add: lstep.arrives)
  then have "lrun initial (([] @ [Arrives Callback]) @ [Reconnected True]) (?s\<lparr>rs_wg := 1\<rparr>, {#Spawned#})"
    by (rule lrun_snoc) (simp add: lstep.reconnected reconnect_enter_def new_RuntimeState_def)
  then have "lrun initial ((([] @ [Arrives Callback]) @ [Reconnected True]) @ [Counted]) (?s\<lparr>rs_wg := 1, rs_count := 1\<rparr>, {#Passing#})"
    by (rule lrun_snoc) (simp add: lstep.counted count_pass_def new_RuntimeState_def)
  then have "lrun initial (((([] @ [Arrives Callback]) @ [Reconnected True]) @ [Counted]) @ [PassDone]) (?s\<lparr>rs_count := 1\<rparr>, {#})"
    by (rule lrun_snoc) (simp add: lstep.pass_done wg_Done_def new_RuntimeState_def)
  then have "lrun initial ((((([] @ [Arrives Callback]) @ [Reconnected True]) @ [Counted]) @ [PassDone]) @ [Arrives Closer])
      (?s\<lparr>rs_count := 1\<rparr>, {#Closer#})"
    by (rule lrun_snoc) (simp add: lstep.arrives)
  then have "lrun initial (((((([] @ [Arrives Callback]) @ [Reconnected True]) @ [Counted]) @ [PassDone]) @ [Arrives Closer]) @ [Marked True])
      (?s\<lparr>rs_count := 1, rs_closed := True\<rparr>, {#Cancelling#})"
    by (rule lrun_snoc) (simp add: lstep.marked markClosed_def new_RuntimeState_def)
  then have "lrun initial ((((((([] @ [Arrives Callback]) @ [Reconnected True]) @ [Counted]) @ [PassDone]) @ [Arrives Closer]) @ [Marked True]) @ [Cancelled])
      (?s\<lparr>rs_count := 1, rs_closed := True, rs_cancelled := True\<rparr>, {#Waiting#})"
    by (rule lrun_snoc) (simp add: lstep.cancelled cancel_runtime_def new_RuntimeState_def)
  then have "lrun initial (((((((([] @ [Arrives Callback]) @ [Reconnected True]) @ [Counted]) @ [PassDone]) @ [Arrives Closer]) @ [Marked True]) @ [Cancelled]) @ [AllDone])
      (?s\<lparr>rs_count := 1, rs_closed := True, rs_cancelled := True\<rparr>, {#ClosingClient#})"
    by (rule lrun_snoc) (simp add: lstep.all_done new_RuntimeState_def)
  then have "lrun initial ((((((((([] @ [Arrives Callback]) @ [Reconnected True]) @ [Counted]) @ [PassDone]) @ [Arrives Closer]) @ [Marked True]) @ [Cancelled]) @ [AllDone]) @ [ClientClosed])
      (?s\<lparr>rs_count := 1, rs_closed := True, rs_cancelled := True\<rparr>, {#})"
    by (rule lrun_snoc) (simp add: lstep.client_closed)
  then show ?thesis by (simp add: sample_history_def)
qed

theorem lifecycle_invariant_witness:
  "times sample_history ClientClosed = 1 \<and> times sample_history (Marked True) \<le> 1"
  using lifecycle_invariant [OF sample_run] by (simp add: sample_history_def)

theorem nothing_begins_after_close_witness:
  "times sample_history PassDone \<le> 1"
  using nothing_begins_after_close [OF sample_run [unfolded sample_history_def]] by (simp add: sample_history_def)


end
