(* ===== verification/Logging.thy ===== *)
theory Logging
  imports AgentRuns Invariants
begin

text \<open>
  The logger of \<open>internal/agent/logging.go\<close>: a \<open>log/slog\<close> logger with a level, which drops
  the records below it, and an attribute of its own; and what the configure service writes
  through it.
\<close>

section \<open>Levels\<close>

text \<open>The levels are ordered as \<open>slog.Level\<close> orders its numbers.\<close>

instantiation log_level :: linorder
begin

definition level_number :: "log_level \<Rightarrow> int" where
  "level_number l = (case l of LDebug \<Rightarrow> -4 | LInfo \<Rightarrow> 0 | LWarn \<Rightarrow> 4 | LError \<Rightarrow> 8)"

definition less_eq_log_level :: "log_level \<Rightarrow> log_level \<Rightarrow> bool" where
  "less_eq_log_level a b \<longleftrightarrow> level_number a \<le> level_number b"

definition less_log_level :: "log_level \<Rightarrow> log_level \<Rightarrow> bool" where
  "less_log_level a b \<longleftrightarrow> level_number a < level_number b"

instance
  by intro_classes
    (auto simp: less_eq_log_level_def less_log_level_def level_number_def split: log_level.splits)

end

lemma debug_least [simp]: "LDebug \<le> l" and debug_only [simp]: "l \<le> LDebug \<longleftrightarrow> l = LDebug"
  by (cases l; simp add: less_eq_log_level_def level_number_def)+

section \<open>What reaches the output\<close>

text \<open>\<open>slog.New(handler).With("component", "vyos-nats-agent")\<close>, where the handler has a level.\<close>

definition with_component :: "log_entry \<Rightarrow> log_entry" where
  "with_component ent = LogEntry (le_level ent) (le_msg ent) ((''component'', LStr ''vyos-nats-agent'') # le_kv ent)"

definition slog_records :: "log_level \<Rightarrow> log_entry list \<Rightarrow> log_entry list" where
  "slog_records level ls = map with_component (filter (\<lambda>ent. level \<le> le_level ent) ls)"

lemma slog_records_append: "slog_records level (xs @ ys) = slog_records level xs @ slog_records level ys"
  by (simp add: slog_records_def)

text \<open>A valid configuration has a logger.\<close>

lemma valid_logger:
  assumes "AppConfig_Validate c = None"
  shows "\<exists>level fmt. NewLogger (ag_Logging (app_Agent c)) = Inr (level, fmt)"
  using assms unfolding Validate_None config_valid_def agent_ok_def Let_def NewLogger_def by auto

text \<open>
  At any level but debug, nothing but identifiers and the service's fixed words is written
  while a notification is handled, whatever the debug switches are.
\<close>

definition plain_entry :: "(string \<Rightarrow> bool) \<Rightarrow> log_entry \<Rightarrow> bool" where
  "plain_entry ident ent \<longleftrightarrow>
     list_all (\<lambda>(k, v). safe_value ident v \<or> v = LStr ''vyos-nats-agent'') (le_kv ent)"

lemma plain_above_debug:
  assumes "list_all (safe_entry ident flag) new" "level \<noteq> LDebug"
  shows "list_all (plain_entry ident) (slog_records level new)"
  using assms by (induction new)
    (auto simp: slog_records_def plain_entry_def with_component_def safe_entry_def list_all_iff)

lemma handle_output_plain:
  assumes "level \<noteq> LDebug"
  shows "wp (configure_Handle s c msg)
     (\<lambda>r w'. \<exists>new. slog_records level (logs w') = slog_records level (logs w) @ new
        \<and> list_all (plain_entry (msg_ident msg)) new) w"
proof -
  have "wp (configure_Handle s c msg)
      (\<lambda>r. log_extends (safe_entry (msg_ident msg) (dl_LogRendered (cs_debug s))) (logs w)) w"
    by (rule keeps_wp [OF secrecy.handle_keeps])
      (simp_all add: secrecy.ids_ok_def msg_ident_def log_extends_def)
  then show ?thesis
    by (rule wp_mono) (use assms in \<open>auto simp: log_extends_def slog_records_append intro: plain_above_debug\<close>)
qed

end
