(* ===== verification/Multipart.thy ===== *)
theory Multipart
  imports Json GoStrings
begin

text \<open>
  Package \<open>mime/multipart\<close> as the trace executor uses it: the text of a form with one file,
  and a reader of such forms that shows the text to be one.
\<close>

section \<open>The first occurrence of a separator\<close>

text \<open>\<open>strings.Cut\<close>: the text before and after the first occurrence.\<close>

fun cut :: "string \<Rightarrow> string \<Rightarrow> (string \<times> string) option" where
  "cut sep [] = (if sep = [] then Some ([], []) else None)"
| "cut sep (c # s) =
     (case strip_prefix sep (c # s) of
        Some r \<Rightarrow> Some ([], r)
      | None \<Rightarrow> map_option (\<lambda>(a, r). (c # a, r)) (cut sep s))"

lemma strip_prefix_iff: "strip_prefix k s = Some r \<longleftrightarrow> s = k @ r"
  by (induction k s rule: strip_prefix.induct) auto

lemma strip_prefix_append [simp]: "strip_prefix k (k @ r) = Some r"
  by (simp add: strip_prefix_iff)

lemma cut_joined: "cut sep s = Some (a, r) \<Longrightarrow> s = a @ sep @ r"
  by (induction sep s arbitrary: a r rule: cut.induct)
    (auto split: if_splits option.splits simp: strip_prefix_iff)

text \<open>A separator whose first character does not come again is found where it was put.\<close>

lemma cut_found:
  assumes "d \<notin> set ds" "\<nexists>u v. s = u @ (d # ds) @ v"
  shows "cut (d # ds) (s @ (d # ds) @ r) = Some (s, r)"
  using assms(2)
proof (induction s)
  case Nil
  have "strip_prefix (d # ds) (d # ds @ r) = Some r" by (simp add: strip_prefix_iff)
  then show ?case by simp
next
  case (Cons c s)
  have "strip_prefix (d # ds) (c # s @ d # ds @ r) \<noteq> Some r'" for r'
  proof
    assume "strip_prefix (d # ds) (c # s @ d # ds @ r) = Some r'"
    then have eq: "(c # s) @ (d # ds @ r) = (d # ds) @ r'" unfolding strip_prefix_iff by simp
    then obtain w where "c # s = (d # ds) @ w \<or> ((c # s) @ w = d # ds \<and> d # ds @ r = w @ r')"
      unfolding append_eq_append_conv2 by blast
    then show False
    proof (elim disjE conjE)
      assume "c # s = (d # ds) @ w"
      with Cons.prems show False by (metis append_Nil)
    next
      assume w: "(c # s) @ w = d # ds" "d # ds @ r = w @ r'"
      show False
      proof (cases w)
        case Nil
        with w(1) Cons.prems show False by (metis append_Nil append_Nil2)
      next
        case (Cons x xs)
        with w have "d \<in> set w" by simp
        moreover have "ds = s @ w" using w(1) by simp
        ultimately show False using assms(1) by simp
      qed
    qed
  qed
  then have "strip_prefix (d # ds) (c # s @ d # ds @ r) = None" by blast
  moreover have "\<nexists>u v. s = u @ (d # ds) @ v" using Cons.prems by (metis append_Cons)
  ultimately show ?case using Cons.IH by (simp del: strip_prefix.simps)
qed

section \<open>The form\<close>

definition CRLF :: string where
  "CRLF = [CHR 0x0D, CHR 0x0A]"

text \<open>\<open>quoteEscaper\<close>.\<close>

definition escape_quotes :: "string \<Rightarrow> string" where
  "escape_quotes s = concat (map (\<lambda>c. if c = backslash \<or> c = dquote then [backslash, c] else [c]) s)"

definition form_file_disposition :: "string \<Rightarrow> string \<Rightarrow> string" where
  "form_file_disposition field name =
     ''Content-Disposition: form-data; name='' @ [dquote] @ escape_quotes field @ [dquote]
       @ ''; filename='' @ [dquote] @ escape_quotes name @ [dquote]"

definition octet_stream :: string where
  "octet_stream = ''Content-Type: application/octet-stream''"

text \<open>What \<open>CreateFormFile\<close> writes when it makes the first part, and \<open>Close\<close> after it.\<close>

definition CreateFormFile :: "string \<Rightarrow> string \<Rightarrow> string \<Rightarrow> string" where
  "CreateFormFile boundary field name = ''--'' @ boundary @ CRLF
     @ form_file_disposition field name @ CRLF @ octet_stream @ CRLF @ CRLF"

definition multipart_Close :: "string \<Rightarrow> string" where
  "multipart_Close boundary = CRLF @ ''--'' @ boundary @ ''--'' @ CRLF"

definition FormDataContentType :: "string \<Rightarrow> string" where
  "FormDataContentType boundary = ''multipart/form-data; boundary='' @
     (if ContainsAny boundary (''()<>@,;:'' @ [backslash, dquote] @ ''/[]?= '')
      then [dquote] @ boundary @ [dquote] else boundary)"

definition form_body :: "string \<Rightarrow> string \<Rightarrow> string \<Rightarrow> string \<Rightarrow> string" where
  "form_body boundary field name data = CreateFormFile boundary field name @ data @ multipart_Close boundary"

section \<open>Reading a form\<close>

text \<open>The header lines up to an empty line.\<close>

function read_headers :: "string \<Rightarrow> (string list \<times> string) option" where
  "read_headers s = (case cut CRLF s of
     None \<Rightarrow> None
   | Some (l, r) \<Rightarrow> if l = [] then Some ([], r) else map_option (\<lambda>(ls, q). (l # ls, q)) (read_headers r))"
  by pat_completeness auto
termination
  by (relation "measure length") (auto dest!: cut_joined simp: CRLF_def)

declare read_headers.simps [simp del]

text \<open>A form of one part: its headers and its content.\<close>

definition read_form :: "string \<Rightarrow> string \<Rightarrow> (string list \<times> string) option" where
  "read_form boundary body =
     (case strip_prefix (''--'' @ boundary @ CRLF) body of
        None \<Rightarrow> None
      | Some part \<Rightarrow>
     (case read_headers part of
        None \<Rightarrow> None
      | Some (headers, rest) \<Rightarrow>
     (case cut (CRLF @ ''--'' @ boundary) rest of
        Some (data, end) \<Rightarrow> if end = ''--'' @ CRLF then Some (headers, data) else None
      | None \<Rightarrow> None)))"

text \<open>The boundary is not met in the file, and neither it nor the name breaks a line.\<close>

definition form_clean :: "string \<Rightarrow> string \<Rightarrow> string \<Rightarrow> bool" where
  "form_clean boundary name data \<longleftrightarrow> CHR 0x0D \<notin> set boundary \<and> CHR 0x0D \<notin> set name
     \<and> (\<nexists>u v. data = u @ (CRLF @ ''--'' @ boundary) @ v)"

lemma read_header_line:
  assumes "CHR 0x0D \<notin> set l" "l \<noteq> []"
  shows "read_headers (l @ CRLF @ s) = map_option (\<lambda>(ls, q). (l # ls, q)) (read_headers s)"
proof -
  have "cut CRLF (l @ CRLF @ s) = Some (l, s)"
    unfolding CRLF_def by (rule cut_found) (use assms in auto)
  with assms(2) show ?thesis by (subst read_headers.simps) simp
qed

lemma read_headers_end: "read_headers (CRLF @ s) = Some ([], s)"
  by (subst read_headers.simps) (simp add: CRLF_def)

lemma disposition_line: "CHR 0x0D \<notin> set name \<Longrightarrow> CHR 0x0D \<notin> set (form_file_disposition ''file'' name)"
  by (auto simp: form_file_disposition_def escape_quotes_def split: if_splits)

lemma octet_line: "CHR 0x0D \<notin> set octet_stream" "octet_stream \<noteq> []"
  by (simp_all add: octet_stream_def)

lemma disposition_some: "form_file_disposition field name \<noteq> []"
  by (simp add: form_file_disposition_def)

lemma form_reads_back:
  assumes "form_clean boundary name data"
  shows "read_form boundary (form_body boundary ''file'' name data)
    = Some ([form_file_disposition ''file'' name, octet_stream], data)"
proof -
  let ?disp = "form_file_disposition ''file'' name"
  have "strip_prefix (''--'' @ boundary @ CRLF) (form_body boundary ''file'' name data)
      = Some (?disp @ CRLF @ octet_stream @ CRLF @ CRLF @ data @ multipart_Close boundary)"
    by (simp add: strip_prefix_iff form_body_def CreateFormFile_def)
  moreover have "read_headers (?disp @ CRLF @ octet_stream @ CRLF @ CRLF @ data @ multipart_Close boundary)
      = Some ([?disp, octet_stream], data @ multipart_Close boundary)"
    using assms
    by (simp add: form_clean_def read_header_line disposition_line read_headers_end disposition_some octet_line)
  moreover have "cut (CRLF @ ''--'' @ boundary) (data @ multipart_Close boundary) = Some (data, ''--'' @ CRLF)"
    using cut_found [of "CHR 0x0D" "CHR 0x0A # ''--'' @ boundary" data "''--'' @ CRLF"] assms
    by (simp add: form_clean_def CRLF_def multipart_Close_def)
  ultimately show ?thesis by (simp add: read_form_def)
qed

end
