(* ===== verification/VyosTrace.thy ===== *)
theory VyosTrace
  imports Actions Multipart
begin

text \<open>
  The executor of real traces (\<open>internal/actions/vyos_trace.go\<close>): it checks the payload of
  the command, captures packets into a temporary file for a bounded time, uploads the file
  and removes it. The files, the capture command and the HTTP client are parameters; the form
  that is uploaded is the one of theory \<open>Multipart\<close>.
\<close>

section \<open>The payload\<close>

record tracePayload =
  tp_Interface :: string
  tp_Duration :: goint
  tp_Packets :: goint
  tp_URI :: string

definition set_trace_field :: "string \<Rightarrow> jnode \<Rightarrow> tracePayload \<Rightarrow> tracePayload option" where
  "set_trace_field f n p =
     (if f = ''interface'' then map_option (\<lambda>s. p\<lparr>tp_Interface := s\<rparr>) (into_string n (tp_Interface p))
      else if f = ''duration'' then map_option (\<lambda>i. p\<lparr>tp_Duration := i\<rparr>) (into_int n (tp_Duration p))
      else if f = ''packets'' then map_option (\<lambda>i. p\<lparr>tp_Packets := i\<rparr>) (into_int n (tp_Packets p))
      else map_option (\<lambda>s. p\<lparr>tp_URI := s\<rparr>) (into_string n (tp_URI p)))"

definition unmarshal_tracePayload :: "string \<Rightarrow> tracePayload option" where
  "unmarshal_tracePayload s =
     (case json_parse s of
        None \<Rightarrow> None
      | Some n \<Rightarrow> into_struct [''interface'', ''duration'', ''packets'', ''uri''] set_trace_field n
          \<lparr>tp_Interface = [], tp_Duration = 0, tp_Packets = 0, tp_URI = []\<rparr>)"

definition maxDuration :: int where
  "maxDuration = 300"

definition maxPackets :: int where
  "maxPackets = 10000"

text \<open>\<open>^(eth|bond|dum|vlan|wlan|lo)[0-9]+(\.[0-9]+)?$\<close>\<close>

definition interface_kinds :: "string list" where
  "interface_kinds = [''eth'', ''bond'', ''dum'', ''vlan'', ''wlan'', ''lo'']"

definition numbered :: "string \<Rightarrow> bool" where
  "numbered s \<longleftrightarrow> (let ds = takeWhile is_digit s; t = dropWhile is_digit s in
     ds \<noteq> [] \<and> (case t of [] \<Rightarrow> True | c # fs \<Rightarrow> c = CHR ''.'' \<and> fs \<noteq> [] \<and> list_all is_digit fs))"

definition vyosInterfaceRegex :: "string \<Rightarrow> bool" where
  "vyosInterfaceRegex s \<longleftrightarrow>
     list_ex (\<lambda>k. case strip_prefix k s of None \<Rightarrow> False | Some r \<Rightarrow> numbered r) interface_kinds"

text \<open>
  \<open>url.Parse\<close>, as far as its error and the scheme it finds go. Whether what follows the
  scheme is a well-formed authority, path and fragment is the parameter \<open>rest_ok\<close>.
\<close>

definition is_letter :: "char \<Rightarrow> bool" where
  "is_letter c \<longleftrightarrow> in_range 0x41 0x5A c \<or> in_range 0x61 0x7A c"

definition to_lower :: "char \<Rightarrow> char" where
  "to_lower c = (if in_range 0x41 0x5A c then chr (byte c + 0x20) else c)"

fun getScheme :: "string \<Rightarrow> string \<Rightarrow> string option" where
  "getScheme acc [] = Some []"
| "getScheme acc (c # s) =
     (if is_letter c then getScheme (acc @ [c]) s
      else if is_digit c \<or> List.member ''+-.'' c then (if acc = [] then Some [] else getScheme (acc @ [c]) s)
      else if c = CHR '':'' then (if acc = [] then None else Some acc)
      else Some [])"

definition url_scheme :: "(string \<Rightarrow> bool) \<Rightarrow> string \<Rightarrow> string option" where
  "url_scheme rest_ok raw =
     (let u = takeWhile (\<lambda>c. c \<noteq> CHR ''#'') raw in
      if list_ex (\<lambda>c. byte c < 0x20 \<or> byte c = 0x7F) u then None
      else case getScheme [] u of
             None \<Rightarrow> None
           | Some scheme \<Rightarrow> if rest_ok raw then Some (map to_lower scheme) else None)"

section \<open>The host\<close>

text \<open>
  \<open>th_Run\<close> runs a command under a context; \<open>th_Read\<close> gives the bytes a copy of an open file
  gets and the error that ended it, if any; \<open>th_Boundary\<close> is the random boundary of a new
  form. \<open>th_Post\<close> sends a request with a content type and a body, and gives the status code
  and the body of the response. The body is what a reader of the pipe gets, with the error
  it gets at the end in place of the end of the stream.
\<close>

record 'e trace_host =
  th_Stat :: "string \<Rightarrow> ('e, bool) state"
  th_CreateTemp :: "string \<Rightarrow> ('e, go_error + string) state"
  th_Open :: "string \<Rightarrow> ('e, go_error option) state"
  th_Read :: "string \<Rightarrow> ('e, string \<times> go_error option) state"
  th_Close :: "string \<Rightarrow> ('e, unit) state"
  th_Remove :: "string \<Rightarrow> ('e, unit) state"
  th_Timeout :: "'e ctx \<Rightarrow> int \<Rightarrow> 'e ctx"
  th_Run :: "'e ctx \<Rightarrow> string \<Rightarrow> string list \<Rightarrow> ('e, go_error option) state"
  th_Boundary :: "('e, string) state"
  th_NewRequest :: "string \<Rightarrow> go_error option"
  th_Post :: "'e ctx \<Rightarrow> string \<Rightarrow> string \<Rightarrow> string \<times> go_error option \<Rightarrow> ('e, go_error + int \<times> string) state"
  th_url_rest_ok :: "string \<Rightarrow> bool"

definition filepath_Base :: "string \<Rightarrow> string" where
  "filepath_Base p =
     (if p = [] then ''.''
      else let q = rev (dropWhile (\<lambda>c. c = CHR ''/'') (rev p))
           in if q = [] then ''/'' else rev (takeWhile (\<lambda>c. c \<noteq> CHR ''/'') (rev q)))"

text \<open>
  What the goroutine of \<open>uploadFile\<close> writes to the pipe, and the error it closes it with. It
  writes as the request is sent; here the file is read before. When no request can be made
  nothing reads the pipe, and the goroutine never gets past the form's header.
\<close>

definition upload_stream :: "'e trace_host \<Rightarrow> string \<Rightarrow> string \<Rightarrow> ('e, string \<times> go_error option) state" where
  "upload_stream h boundary filePath = do {
     opened \<leftarrow> th_Open h filePath;
     (case opened of
        Some err \<Rightarrow> State_Monad.return ([], Some err)
      | None \<Rightarrow> do {
          copied \<leftarrow> th_Read h filePath;
          th_Close h filePath;
          State_Monad.return
            (CreateFormFile boundary ''file'' (filepath_Base filePath) @ fst copied
               @ (if snd copied = None then multipart_Close boundary else []), snd copied)
        })
   }"

definition uploadFile :: "'e trace_host \<Rightarrow> 'e ctx \<Rightarrow> string \<Rightarrow> string \<Rightarrow> ('e, go_error option) state" where
  "uploadFile h ctx uri filePath = do {
     boundary \<leftarrow> th_Boundary h;
     (case th_NewRequest h uri of
        Some err \<Rightarrow> State_Monad.return (Some (wrap ''create upload request'' err))
      | None \<Rightarrow> do {
          stream \<leftarrow> upload_stream h boundary filePath;
          r \<leftarrow> th_Post h ctx uri (FormDataContentType boundary) stream;
          (case r of
             Inl err \<Rightarrow> State_Monad.return (Some (wrap ''send upload request'' err))
           | Inr (status, body) \<Rightarrow>
               (if status < 200 \<or> status \<ge> 300
                then State_Monad.return (Some (Errorf ''upload failed status=%d response=%q'' [FInt status, FStr body]))
                else State_Monad.return None))
        })
   }"

section \<open>Checking the payload\<close>

definition invalid :: "string \<Rightarrow> fmt_arg list \<Rightarrow> go_error" where
  "invalid fmt args = Wrapf (''%w: '' @ fmt) args ErrInvalidActionPayload"

definition checkInterface :: "'e trace_host \<Rightarrow> string \<Rightarrow> ('e, go_error option) state" where
  "checkInterface h name =
     (if name = '''' then State_Monad.return (Some (invalid ''interface is required'' []))
      else if Contains name ''..'' \<or> Contains name ''/'' \<or> Contains name [backslash]
      then State_Monad.return (Some (invalid ''invalid interface name %q'' [FStr name]))
      else do {
        found \<leftarrow> th_Stat h (''/sys/class/net/'' @ name);
        State_Monad.return
          (if found \<or> vyosInterfaceRegex name then None
           else Some (invalid ''invalid interface name %q'' [FStr name]))
      })"

definition checkBounds :: "tracePayload \<Rightarrow> go_error option" where
  "checkBounds p =
     (if sint (tp_Duration p) < 0 \<or> sint (tp_Duration p) > maxDuration
      then Some (invalid ''duration %d must be between 0 and %d seconds'' [FInt (sint (tp_Duration p)), FInt maxDuration])
      else if sint (tp_Packets p) < 0 \<or> sint (tp_Packets p) > maxPackets
      then Some (invalid ''packets %d must be between 0 and %d'' [FInt (sint (tp_Packets p)), FInt maxPackets])
      else None)"

definition checkURI :: "'e trace_host \<Rightarrow> string \<Rightarrow> go_error option" where
  "checkURI h uri =
     (if uri = '''' then Some (invalid ''uri is required'' [])
      else case url_scheme (th_url_rest_ok h) uri of
             None \<Rightarrow> Some (invalid ''invalid upload uri %q'' [FStr uri])
           | Some scheme \<Rightarrow>
               (if scheme \<noteq> ''http'' \<and> scheme \<noteq> ''https''
                then Some (invalid ''invalid upload uri %q'' [FStr uri]) else None))"

text \<open>The payload, when everything the executor asks of the command holds.\<close>

definition checkPayload :: "'e trace_host \<Rightarrow> ActionCommand \<Rightarrow> ('e, go_error + tracePayload) state" where
  "checkPayload h msg =
     (case unmarshal_tracePayload (the (ac_Payload msg)) of
        None \<Rightarrow> State_Monad.return (Inl (invalid ''failed to unmarshal payload: %v'' [FErr json_error]))
      | Some p \<Rightarrow>
     (case checkBounds p of
        Some err \<Rightarrow> State_Monad.return (Inl err)
      | None \<Rightarrow> do {
     bad \<leftarrow> checkInterface h (tp_Interface p);
     (case bad of
        Some err \<Rightarrow> State_Monad.return (Inl err)
      | None \<Rightarrow>
     (case checkURI h (tp_URI p) of
        Some err \<Rightarrow> State_Monad.return (Inl err)
      | None \<Rightarrow> State_Monad.return (Inr p)))
     }))"

section \<open>Capturing\<close>

definition tcpdump_args :: "tracePayload \<Rightarrow> string \<Rightarrow> string list" where
  "tcpdump_args p pcapPath = [''-U'', ''-i'', tp_Interface p, ''-w'', pcapPath] @
     (if sint (tp_Packets p) > 0 then [''-c'', itoa (nat (sint (tp_Packets p)))] else [])"

definition durationSec :: "tracePayload \<Rightarrow> int" where
  "durationSec p = (if sint (tp_Duration p) \<le> 0 then 60 else sint (tp_Duration p))"

text \<open>\<open>errors.Is\<close> of an error that may be nil.\<close>

definition is_err :: "go_error option \<Rightarrow> string \<Rightarrow> bool" where
  "is_err e t = (case e of None \<Rightarrow> False | Some err \<Rightarrow> errors_Is err t)"

text \<open>A command that ended with an error: whether that fails the capture, and how.\<close>

definition capture_failure :: "go_error option \<Rightarrow> go_error option \<Rightarrow> go_error option \<Rightarrow> go_error option" where
  "capture_failure runErr captureErr ctxErr =
     (case runErr of
        None \<Rightarrow> None
      | Some err \<Rightarrow>
         (if is_err captureErr ''context deadline exceeded'' then None
          else if is_err ctxErr ''context canceled'' then map_option (wrap ''capture aborted'') ctxErr
          else Some (wrap ''packet capture failed'' err)))"

definition trace_result :: "ActionCommand \<Rightarrow> tracePayload \<Rightarrow> string \<Rightarrow> string" where
  "trace_result msg p pcapPath = json_object [
     (''action'', quote ActionTrace), (''duration_seconds'', itoa (nat (durationSec p))),
     (''executor'', quote ''vyos_trace''), (''interface'', quote (tp_Interface p)),
     (''pcap_file'', quote (filepath_Base pcapPath)), (''status'', quote ''completed''),
     (''target'', quote (ac_Target msg))]"

text \<open>What is done with the temporary file between its making and its removal.\<close>

definition captureAndUpload ::
  "'e trace_host \<Rightarrow> 'e ctx \<Rightarrow> ActionCommand \<Rightarrow> tracePayload \<Rightarrow> string \<Rightarrow> ('e, go_error + ActOutput) state" where
  "captureAndUpload h ctx msg p pcapPath = do {
     let captureCtx = th_Timeout h ctx (durationSec p * 1000000000);
     runErr \<leftarrow> th_Run h captureCtx ''/usr/bin/tcpdump'' (tcpdump_args p pcapPath);
     failure \<leftarrow> State (\<lambda>e. (capture_failure runErr (captureCtx e) (ctx e), e));
     (case failure of
        Some err \<Rightarrow> State_Monad.return (Inl err)
      | None \<Rightarrow> do {
          upErr \<leftarrow> uploadFile h ctx (tp_URI p) pcapPath;
          (case upErr of
             Some err \<Rightarrow> State_Monad.return (Inl (wrap ''upload captured file'' err))
           | None \<Rightarrow> State_Monad.return (Inr \<lparr>ao_Payload = Some (trace_result msg p pcapPath),
               ao_Message = ''trace action completed''\<rparr>))
        })
   }"

definition vyos_trace_run :: "'e trace_host \<Rightarrow> 'e ctx option \<Rightarrow> ActionCommand \<Rightarrow> ('e, go_error + ActOutput) state" where
  "vyos_trace_run h ctx msg = do {
     bad \<leftarrow> State (\<lambda>e. (check_command ctx msg e, e));
     (case bad of
        Some err \<Rightarrow> State_Monad.return (Inl err)
      | None \<Rightarrow> do {
     r \<leftarrow> checkPayload h msg;
     (case r of
        Inl err \<Rightarrow> State_Monad.return (Inl err)
      | Inr p \<Rightarrow> do {
     t \<leftarrow> th_CreateTemp h ''pcap-*.pcap'';
     (case t of
        Inl err \<Rightarrow> State_Monad.return (Inl (wrap ''create temporary pcap file'' err))
      | Inr pcapPath \<Rightarrow> do {
     th_Close h pcapPath;
     out \<leftarrow> captureAndUpload h (the ctx) msg p pcapPath;
     th_Remove h pcapPath;
     State_Monad.return out
     })})})}"

text \<open>The executor's method.\<close>

definition vyos_trace_Execute :: "'e trace_host \<Rightarrow> 'e Executor" where
  "vyos_trace_Execute h ctx msg = run_state (vyos_trace_run h ctx msg)"

section \<open>Construction\<close>

text \<open>
  A runner starts a command under a context and waits for it; the real one is
  \<open>exec.CommandContext\<close> and its \<open>Run\<close>, a parameter. \<open>th_Post\<close> of the host given is that of
  \<open>http.DefaultClient\<close>, which stands in when no client is given.
\<close>

type_synonym 'e CommandRunner = "'e ctx \<Rightarrow> string \<Rightarrow> string list \<Rightarrow> ('e, go_error option) state"

type_synonym 'e HTTPClient =
  "'e ctx \<Rightarrow> string \<Rightarrow> string \<Rightarrow> string \<times> go_error option \<Rightarrow> ('e, go_error + int \<times> string) state"

definition NewRealCommandRunner :: "'e CommandRunner \<Rightarrow> 'e CommandRunner" where
  "NewRealCommandRunner exec_CommandContext = (\<lambda>ctx name args. exec_CommandContext ctx name args)"

definition NewVyOSTraceExecutor ::
  "'e trace_host \<Rightarrow> 'e CommandRunner \<Rightarrow> 'e HTTPClient option \<Rightarrow> 'e trace_host" where
  "NewVyOSTraceExecutor host runner client =
     (let client = (case client of None \<Rightarrow> th_Post host | Some c \<Rightarrow> c)
      in host\<lparr>th_Run := runner, th_Post := client\<rparr>)"

end
