(* ===== verification/VyosTraceLaws.thy ===== *)
theory VyosTraceLaws
  imports VyosTrace
begin

text \<open>
  What the trace executor does to the host: which payloads it accepts, the calls it makes,
  and the answer it gives.
\<close>

section \<open>Interface names\<close>

text \<open>The names the expression matches: a kind, a number, and maybe a dot and a number.\<close>

definition digits :: "string \<Rightarrow> bool" where
  "digits s \<longleftrightarrow> s \<noteq> [] \<and> list_all is_digit s"

definition vyos_interface :: "string \<Rightarrow> bool" where
  "vyos_interface s \<longleftrightarrow> (\<exists>k \<in> set interface_kinds. \<exists>ds. digits ds \<and>
     (s = k @ ds \<or> (\<exists>fs. digits fs \<and> s = k @ ds @ ''.'' @ fs)))"

lemma not_digit_dot: "\<not> is_digit (CHR ''.'')"
  by (simp add: is_digit_def in_range_def byte_def)

lemma numbered_iff: "numbered s \<longleftrightarrow> (\<exists>ds. digits ds \<and> (s = ds \<or> (\<exists>fs. digits fs \<and> s = ds @ ''.'' @ fs)))"
proof
  assume "numbered s"
  then show "\<exists>ds. digits ds \<and> (s = ds \<or> (\<exists>fs. digits fs \<and> s = ds @ ''.'' @ fs))"
  proof (intro exI [of _ "takeWhile is_digit s"] conjI)
    have split: "s = takeWhile is_digit s @ dropWhile is_digit s" by simp
    assume n: "numbered s"
    then show "digits (takeWhile is_digit s)"
      by (auto simp: numbered_def Let_def digits_def list_all_iff dest: set_takeWhileD)
    show "s = takeWhile is_digit s \<or> (\<exists>fs. digits fs \<and> s = takeWhile is_digit s @ ''.'' @ fs)"
    proof (cases "dropWhile is_digit s")
      case Nil
      then show ?thesis by (metis append_Nil2 split)
    next
      case (Cons c fs)
      with n have "c = CHR ''.''" "digits fs" by (simp_all add: numbered_def Let_def digits_def)
      with split [unfolded Cons] show ?thesis by auto
    qed
  qed
next
  assume "\<exists>ds. digits ds \<and> (s = ds \<or> (\<exists>fs. digits fs \<and> s = ds @ ''.'' @ fs))"
  then obtain ds where ds: "digits ds" "s = ds \<or> (\<exists>fs. digits fs \<and> s = ds @ ''.'' @ fs)" by blast
  have d: "\<forall>c \<in> set ds. is_digit c" using ds(1) by (simp add: digits_def list_all_iff)
  from ds(2) show "numbered s"
  proof (elim disjE exE conjE)
    assume s: "s = ds"
    from d have tw: "takeWhile is_digit ds = ds" "dropWhile is_digit ds = []"
      by (simp_all add: takeWhile_eq_all_conv)
    show ?thesis unfolding numbered_def Let_def s tw using ds(1) by (simp add: digits_def)
  next
    fix fs
    assume "digits fs" "s = ds @ ''.'' @ fs"
    with ds(1) d show ?thesis by (simp add: numbered_def digits_def not_digit_dot)
  qed
qed

lemma vyosInterfaceRegex_iff: "vyosInterfaceRegex s \<longleftrightarrow> vyos_interface s"
  unfolding vyosInterfaceRegex_def vyos_interface_def list_ex_iff
  by (auto simp: strip_prefix_iff numbered_iff split: option.splits) blast+

lemma Contains_iff: "Contains s t \<longleftrightarrow> (\<exists>u v. s = u @ t @ v)"
proof (induction s t rule: Contains.induct)
  case (2 c s t)
  have "take (length t) (c # s) = t \<longleftrightarrow> (\<exists>v. c # s = t @ v)"
    by (metis append_eq_conv_conj append_take_drop_id)
  moreover have "(\<exists>u v. c # s = u @ t @ v) \<longleftrightarrow> (\<exists>v. c # s = t @ v) \<or> (\<exists>u v. s = u @ t @ v)"
    by (metis (no_types, lifting) append_Cons append_Nil list.sel(3) neq_Nil_conv tl_append2)
  ultimately show ?case using 2 by simp
qed simp

section \<open>Accepted payloads\<close>

definition accepted_payload :: "(string \<Rightarrow> bool) \<Rightarrow> bool \<Rightarrow> tracePayload \<Rightarrow> bool" where
  "accepted_payload rest_ok found p \<longleftrightarrow>
     0 \<le> sint (tp_Duration p) \<and> sint (tp_Duration p) \<le> 300 \<and>
     0 \<le> sint (tp_Packets p) \<and> sint (tp_Packets p) \<le> 10000 \<and>
     tp_Interface p \<noteq> [] \<and> CHR ''/'' \<notin> set (tp_Interface p) \<and> backslash \<notin> set (tp_Interface p) \<and>
     (\<nexists>u v. tp_Interface p = u @ ''..'' @ v) \<and> (found \<or> vyos_interface (tp_Interface p)) \<and>
     url_scheme rest_ok (tp_URI p) \<in> {Some ''http'', Some ''https''}"

section \<open>A host that records\<close>

datatype host_call =
    HStat string bool
  | HCreate "go_error + string"
  | HClose string
  | HRun "string list" "go_error option"
  | HOpen string "go_error option"
  | HRead string "string \<times> go_error option"
  | HBoundary string
  | HPost string string "string \<times> go_error option" "go_error + int \<times> string"
  | HRemove string

definition recording :: "(host_call list \<times> 'x, 'a) state \<Rightarrow> ('a \<Rightarrow> host_call) \<Rightarrow> bool" where
  "recording m ev \<longleftrightarrow> (\<forall>e. fst (snd (run_state m e)) = fst e @ [ev (fst (run_state m e))])"

definition records :: "(host_call list \<times> 'x) trace_host \<Rightarrow> bool" where
  "records h \<longleftrightarrow> (\<forall>p. recording (th_Stat h p) (HStat p)) \<and> (\<forall>p. recording (th_CreateTemp h p) HCreate)
     \<and> (\<forall>p. recording (th_Close h p) (\<lambda>_. HClose p)) \<and> (\<forall>p. recording (th_Remove h p) (\<lambda>_. HRemove p))
     \<and> (\<forall>c n args. recording (th_Run h c n args) (HRun args))
     \<and> (\<forall>p. recording (th_Open h p) (HOpen p)) \<and> (\<forall>p. recording (th_Read h p) (HRead p))
     \<and> recording (th_Boundary h) HBoundary
     \<and> (\<forall>c u t b. recording (th_Post h c u t b) (HPost u t b))"

lemma recording_rule:
  "recording m ev \<Longrightarrow> (\<And>r e'. fst e' = fst e @ [ev r] \<Longrightarrow> Q r e') \<Longrightarrow> wp m Q e"
proof (rule wpI)
  fix a s'
  assume m: "recording m ev" and Q: "\<And>r e'. fst e' = fst e @ [ev r] \<Longrightarrow> Q r e'" and run: "run_state m e = (a, s')"
  have "fst (snd (run_state m e)) = fst e @ [ev (fst (run_state m e))]" using m unfolding recording_def by (rule spec)
  with run show "Q a s'" by (intro Q) simp
qed

named_theorems host_rules \<open>rules that follow the calls on the host\<close>

lemma host_calls [host_rules]:
  assumes "records h"
  shows "(\<And>r e'. fst e' = fst e @ [HStat p r] \<Longrightarrow> Qs r e') \<Longrightarrow> wp (th_Stat h p) Qs e"
    "(\<And>r e'. fst e' = fst e @ [HCreate r] \<Longrightarrow> Qc r e') \<Longrightarrow> wp (th_CreateTemp h p) Qc e"
    "(\<And>r e'. fst e' = fst e @ [HClose p] \<Longrightarrow> Qu r e') \<Longrightarrow> wp (th_Close h p) Qu e"
    "(\<And>r e'. fst e' = fst e @ [HRemove p] \<Longrightarrow> Qu r e') \<Longrightarrow> wp (th_Remove h p) Qu e"
    "(\<And>r e'. fst e' = fst e @ [HRun args r] \<Longrightarrow> Qr r e') \<Longrightarrow> wp (th_Run h c n args) Qr e"
    "(\<And>r e'. fst e' = fst e @ [HOpen p r] \<Longrightarrow> Qr r e') \<Longrightarrow> wp (th_Open h p) Qr e"
    "(\<And>r e'. fst e' = fst e @ [HRead p r] \<Longrightarrow> Qd r e') \<Longrightarrow> wp (th_Read h p) Qd e"
    "(\<And>r e'. fst e' = fst e @ [HBoundary r] \<Longrightarrow> Qb r e') \<Longrightarrow> wp (th_Boundary h) Qb e"
    "(\<And>r e'. fst e' = fst e @ [HPost u t b r] \<Longrightarrow> Qp r e') \<Longrightarrow> wp (th_Post h c u t b) Qp e"
  using assms unfolding records_def by (blast intro: recording_rule)+

section \<open>The calls of a trace\<close>

text \<open>The payload of the command, as the executor reads it.\<close>

abbreviation command_payload :: "ActionCommand \<Rightarrow> tracePayload option" where
  "command_payload msg \<equiv> unmarshal_tracePayload (the (ac_Payload msg))"

definition net_device :: "tracePayload \<Rightarrow> string" where
  "net_device p = ''/sys/class/net/'' @ tp_Interface p"

text \<open>The stream of an upload: the calls that make it, and the body.\<close>

inductive stream_run :: "string \<Rightarrow> string \<Rightarrow> host_call list \<Rightarrow> string \<times> go_error option \<Rightarrow> bool" for b path where
  not_opened: "stream_run b path [HOpen path (Some err)] ([], Some err)"
| copied: "stream_run b path [HOpen path None, HRead path (data, None), HClose path]
    (form_body b ''file'' (filepath_Base path) data, None)"
| not_copied: "stream_run b path [HOpen path None, HRead path (data, Some err), HClose path]
    (CreateFormFile b ''file'' (filepath_Base path) @ data, Some err)"

definition answered_ok :: "go_error + int \<times> string \<Rightarrow> bool" where
  "answered_ok a \<longleftrightarrow> (case a of Inl err \<Rightarrow> False | Inr (st, resp) \<Rightarrow> 200 \<le> st \<and> st < 300)"

inductive upload_run :: "string \<Rightarrow> string \<Rightarrow> host_call list \<Rightarrow> go_error option \<Rightarrow> bool" for uri path where
  no_request: "upload_run uri path [HBoundary b] (Some err)"
| sent: "stream_run b path evs body \<Longrightarrow> (res = None \<longleftrightarrow> answered_ok a) \<Longrightarrow>
    upload_run uri path (HBoundary b # evs @ [HPost uri (FormDataContentType b) body a]) res"

text \<open>What happens between the making of the file and its removal, and the answer.\<close>

inductive capture_run :: "ActionCommand \<Rightarrow> tracePayload \<Rightarrow> string \<Rightarrow> host_call list \<Rightarrow> go_error + ActOutput \<Rightarrow> bool"
  for msg p path where
  no_capture: "capture_run msg p path [HRun (tcpdump_args p path) (Some e)] (Inl err)"
| not_uploaded: "upload_run (tp_URI p) path evs (Some e) \<Longrightarrow>
    capture_run msg p path (HRun (tcpdump_args p path) r # evs) (Inl err)"
| uploaded: "upload_run (tp_URI p) path evs None \<Longrightarrow>
    capture_run msg p path (HRun (tcpdump_args p path) r # evs)
      (Inr \<lparr>ao_Payload = Some (trace_result msg p path), ao_Message = ''trace action completed''\<rparr>)"

inductive trace_run :: "(string \<Rightarrow> bool) \<Rightarrow> ActionCommand \<Rightarrow> host_call list \<Rightarrow> go_error + ActOutput \<Rightarrow> bool"
  for rest_ok msg where
  command_refused: "trace_run rest_ok msg [] (Inl err)"
| payload_refused: "errors_Is err invalid_payload \<Longrightarrow> evs = [] \<or> (\<exists>p b. evs = [HStat p b]) \<Longrightarrow>
    (\<nexists>p. command_payload msg = Some p \<and> (\<exists>b. evs = [HStat (net_device p) b] \<and> accepted_payload rest_ok b p)) \<Longrightarrow>
    trace_run rest_ok msg evs (Inl err)"
| no_file: "command_payload msg = Some p \<Longrightarrow> accepted_payload rest_ok found p \<Longrightarrow>
    trace_run rest_ok msg [HStat (net_device p) found, HCreate (Inl e)]
      (Inl (wrap ''create temporary pcap file'' e))"
| captured: "command_payload msg = Some p \<Longrightarrow> accepted_payload rest_ok found p \<Longrightarrow>
    capture_run msg p path evs res \<Longrightarrow>
    trace_run rest_ok msg
      ([HStat (net_device p) found, HCreate (Inr path), HClose path] @ evs @ [HRemove path]) res"

abbreviation adds_calls :: "(host_call list \<Rightarrow> 'a \<Rightarrow> bool) \<Rightarrow> host_call list \<times> 'x \<Rightarrow> 'a \<Rightarrow> host_call list \<times> 'x \<Rightarrow> bool" where
  "adds_calls P e r e' \<equiv> \<exists>evs. fst e' = fst e @ evs \<and> P evs r"

lemma wp_pure [host_rules]:
  "Q x e \<Longrightarrow> wp (State_Monad.return x) Q e"
  "wp m (\<lambda>a. wp (f a) Q) e \<Longrightarrow> wp (State_Monad.bind m f) Q e"
  "(\<And>r. r = g e \<Longrightarrow> Q r e) \<Longrightarrow> wp (State (\<lambda>e. (g e, e))) Q e"
  by (simp_all add: wp_return wp_bind wp_State)

lemma is_invalid [simp]: "errors_Is (invalid f args) invalid_payload"
  by (simp add: invalid_def ErrInvalidActionPayload_def)

lemma stream_rule:
  assumes "records h"
  shows "wp (upload_stream h b f) (adds_calls (stream_run b f) e) e"
  unfolding upload_stream_def wp_bind
proof (intro host_calls [OF assms])
  fix opened and e1 :: "host_call list \<times> 'a"
  assume e1: "fst e1 = fst e @ [HOpen f opened]"
  show "wp (case opened of Some err \<Rightarrow> State_Monad.return ([], Some err)
      | None \<Rightarrow> do {
          copied \<leftarrow> th_Read h f;
          th_Close h f;
          State_Monad.return (CreateFormFile b ''file'' (filepath_Base f) @ fst copied
             @ (if snd copied = None then multipart_Close b else []), snd copied)
        }) (adds_calls (stream_run b f) e) e1"
  proof (cases opened)
    case (Some err)
    with e1 show ?thesis by (auto simp: wp_return intro: stream_run.intros)
  next
    case None
    have stream: "stream_run b f [HOpen f None, HRead f r, HClose f] (CreateFormFile b ''file'' (filepath_Base f) @ fst r
             @ (if snd r = None then multipart_Close b else []), snd r)" for r
      using stream_run.copied [of b f "fst r"] stream_run.not_copied [of b f "fst r"]
      by (cases r; cases "snd r") (simp_all add: form_body_def)
    show ?thesis
      unfolding None option.case
      by (intro wp_pure host_calls [OF assms]) (use e1 None stream in fastforce)
  qed
qed

lemma upload_rule:
  assumes "records h"
  shows "wp (uploadFile h ctx uri f) (adds_calls (upload_run uri f) e) e"
  unfolding uploadFile_def wp_bind
proof (intro host_calls [OF assms])
  fix b and e1 :: "host_call list \<times> 'a"
  assume e1: "fst e1 = fst e @ [HBoundary b]"
  show "wp (case th_NewRequest h uri of
        Some err \<Rightarrow> State_Monad.return (Some (wrap ''create upload request'' err))
      | None \<Rightarrow> do {
          stream \<leftarrow> upload_stream h b f;
          r \<leftarrow> th_Post h ctx uri (FormDataContentType b) stream;
          (case r of
             Inl err \<Rightarrow> State_Monad.return (Some (wrap ''send upload request'' err))
           | Inr (status, body) \<Rightarrow>
               (if status < 200 \<or> status \<ge> 300
                then State_Monad.return (Some (Errorf ''upload failed status=%d response=%q'' [FInt status, FStr body]))
                else State_Monad.return None))
        }) (adds_calls (upload_run uri f) e) e1"
  proof (cases "th_NewRequest h uri")
    case (Some err)
    with e1 show ?thesis by (auto simp: wp_return intro: upload_run.no_request)
  next
    case None
    show ?thesis
      unfolding None option.case wp_bind
    proof (rule wp_mono [OF stream_rule [OF assms]], intro host_calls [OF assms])
      fix body r and e2 e3 :: "host_call list \<times> 'a"
      assume e2: "adds_calls (stream_run b f) e1 body e2" and e3: "fst e3 = fst e2 @ [HPost uri (FormDataContentType b) body r]"
      then obtain evs where evs: "stream_run b f evs body"
        and e3: "fst e3 = fst e @ HBoundary b # evs @ [HPost uri (FormDataContentType b) body r]"
        using e1 by auto
      note sent = upload_run.sent [OF evs]
      show "wp (case r of
             Inl err \<Rightarrow> State_Monad.return (Some (wrap ''send upload request'' err))
           | Inr (status, body) \<Rightarrow>
               (if status < 200 \<or> status \<ge> 300
                then State_Monad.return (Some (Errorf ''upload failed status=%d response=%q'' [FInt status, FStr body]))
                else State_Monad.return None)) (adds_calls (upload_run uri f) e) e3"
        using e3 by (cases r) (auto simp: wp_return answered_ok_def intro!: sent)
    qed
  qed
qed

lemma capture_rule:
  assumes "records h"
  shows "wp (captureAndUpload h ctx msg p path) (adds_calls (capture_run msg p path) e) e"
  unfolding captureAndUpload_def Let_def
proof (intro wp_pure host_calls [OF assms])
  fix r failure and e1 :: "host_call list \<times> 'a"
  let ?captureCtx = "th_Timeout h ctx (durationSec p * 1000000000)"
  assume e1: "fst e1 = fst e @ [HRun (tcpdump_args p path) r]"
    and f: "failure = capture_failure r (?captureCtx e1) (ctx e1)"
  show "wp (case failure of Some err \<Rightarrow> State_Monad.return (Inl err) | None \<Rightarrow> do {
          upErr \<leftarrow> uploadFile h ctx (tp_URI p) path;
          (case upErr of
             Some err \<Rightarrow> State_Monad.return (Inl (wrap ''upload captured file'' err))
           | None \<Rightarrow> State_Monad.return (Inr \<lparr>ao_Payload = Some (trace_result msg p path),
               ao_Message = ''trace action completed''\<rparr>))
        }) (adds_calls (capture_run msg p path) e) e1"
  proof (cases failure)
    case (Some err)
    with f obtain err' where "r = Some err'" by (cases r) (auto simp: capture_failure_def)
    with Some e1 show ?thesis by (auto simp: wp_return intro: capture_run.no_capture)
  next
    case None
    have rest: "wp (case x of Some err \<Rightarrow> State_Monad.return (Inl (wrap ''upload captured file'' err))
           | None \<Rightarrow> State_Monad.return (Inr \<lparr>ao_Payload = Some (trace_result msg p path),
               ao_Message = ''trace action completed''\<rparr>)) (adds_calls (capture_run msg p path) e) e2"
      if "adds_calls (upload_run (tp_URI p) path) e1 x e2"
      for x and e2 :: "host_call list \<times> 'a"
      using that e1
      by (cases x) (auto simp: wp_return intro: capture_run.intros)
    show ?thesis unfolding None option.case wp_bind
      by (rule wp_mono [OF upload_rule [OF assms]]) (rule rest)
  qed
qed

text \<open>A name that may be looked up among the network devices.\<close>

definition plain_name :: "string \<Rightarrow> bool" where
  "plain_name name \<longleftrightarrow> name \<noteq> [] \<and> CHR ''/'' \<notin> set name \<and> backslash \<notin> set name \<and> (\<nexists>u v. name = u @ ''..'' @ v)"

lemma plain_name_checked:
  "name = [] \<or> Contains name ''..'' \<or> Contains name ''/'' \<or> Contains name [backslash] \<longleftrightarrow> \<not> plain_name name"
proof -
  have "Contains name [c] \<longleftrightarrow> c \<in> set name" for c
    by (auto simp: Contains_iff in_set_conv_decomp)
  then show ?thesis by (auto simp: plain_name_def Contains_iff)
qed

text \<open>An error that says the payload is invalid.\<close>

fun refusal :: "go_error option \<Rightarrow> bool" where
  "refusal None = False"
| "refusal (Some err) = errors_Is err invalid_payload"

lemma interface_rule:
  assumes "records h"
  shows "wp (checkInterface h name)
    (adds_calls (\<lambda>evs r. (evs = [] \<and> refusal r) \<or>
       (\<exists>b. evs = [HStat (''/sys/class/net/'' @ name) b] \<and>
          (if plain_name name \<and> (b \<or> vyos_interface name) then r = None else refusal r))) e) e"
proof (cases "plain_name name")
  case False
  then have "\<exists>f a. checkInterface h name = State_Monad.return (Some (invalid f a))"
    unfolding plain_name_checked [symmetric] checkInterface_def by auto
  then show ?thesis by (auto simp: wp_return)
next
  case True
  then have run: "checkInterface h name = do {
      found \<leftarrow> th_Stat h (''/sys/class/net/'' @ name);
      State_Monad.return (if found \<or> vyosInterfaceRegex name then None
        else Some (invalid ''invalid interface name %q'' [FStr name]))
    }"
    using plain_name_checked [of name] unfolding checkInterface_def by auto
  show ?thesis
    unfolding run vyosInterfaceRegex_iff by (intro wp_pure host_calls [OF assms]) (use True in auto)
qed

lemma bounds_None:
  "checkBounds p = None \<longleftrightarrow> 0 \<le> sint (tp_Duration p) \<and> sint (tp_Duration p) \<le> 300
     \<and> 0 \<le> sint (tp_Packets p) \<and> sint (tp_Packets p) \<le> 10000"
  by (auto simp: checkBounds_def maxDuration_def maxPackets_def)

lemma bounds_Some: "checkBounds p = Some err \<Longrightarrow> errors_Is err invalid_payload"
  by (auto simp: checkBounds_def split: if_splits)

lemma uri_None: "checkURI h uri = None \<longleftrightarrow> url_scheme (th_url_rest_ok h) uri \<in> {Some ''http'', Some ''https''}"
  by (auto simp: checkURI_def url_scheme_def split: option.splits if_splits)

lemma uri_Some: "checkURI h uri = Some err \<Longrightarrow> errors_Is err invalid_payload"
  by (auto simp: checkURI_def split: option.splits if_splits)

lemma accepted_parts:
  "accepted_payload (th_url_rest_ok h) b p \<longleftrightarrow> checkBounds p = None \<and> plain_name (tp_Interface p)
     \<and> (b \<or> vyos_interface (tp_Interface p)) \<and> checkURI h (tp_URI p) = None"
  by (auto simp: accepted_payload_def bounds_None uri_None plain_name_def)


lemma payload_rule:
  assumes "records h"
  shows "wp (checkPayload h msg)
    (adds_calls (\<lambda>evs r. case r of
       Inl err \<Rightarrow> trace_run (th_url_rest_ok h) msg evs (Inl err)
     | Inr p \<Rightarrow> command_payload msg = Some p \<and>
         (\<exists>b. evs = [HStat (net_device p) b] \<and> accepted_payload (th_url_rest_ok h) b p)) e) e"
proof (cases "command_payload msg")
  case None
  then show ?thesis by (auto simp: checkPayload_def wp_return intro!: trace_run.payload_refused)
next
  case p: (Some p)
  show ?thesis
  proof (cases "checkBounds p")
    case (Some err)
    with p bounds_Some [OF Some] show ?thesis
      by (auto simp: checkPayload_def wp_return accepted_parts intro!: trace_run.payload_refused)
  next
    case None
    note bounds = None
    show ?thesis
      unfolding checkPayload_def p bounds option.case wp_bind
    proof (rule wp_mono [OF interface_rule [OF assms, of "tp_Interface p", folded net_device_def]])
      fix bad and e1 :: "host_call list \<times> 'a"
      assume bad: "adds_calls (\<lambda>evs r. (evs = [] \<and> refusal r) \<or>
       (\<exists>b. evs = [HStat (net_device p) b] \<and>
          (if plain_name (tp_Interface p) \<and> (b \<or> vyos_interface (tp_Interface p)) then r = None else refusal r))) e bad e1"
      show "wp (case bad of Some err \<Rightarrow> State_Monad.return (Inl err)
          | None \<Rightarrow> (case checkURI h (tp_URI p) of Some err \<Rightarrow> State_Monad.return (Inl err)
              | None \<Rightarrow> State_Monad.return (Inr p)))
          (adds_calls (\<lambda>evs r. case r of
              Inl err \<Rightarrow> trace_run (th_url_rest_ok h) msg evs (Inl err)
            | Inr q \<Rightarrow> Some p = Some q \<and>
                (\<exists>b. evs = [HStat (net_device q) b] \<and> accepted_payload (th_url_rest_ok h) b q)) e) e1"
      proof (cases bad)
        case (Some err)
        have "(if c then Some err = None else refusal (Some err)) \<longleftrightarrow> \<not> c \<and> errors_Is err invalid_payload" for c
          by simp
        with bad obtain evs where e1: "fst e1 = fst e @ evs" and inv: "errors_Is err invalid_payload"
          and evs: "evs = [] \<or> (\<exists>b. evs = [HStat (net_device p) b]
             \<and> \<not> (plain_name (tp_Interface p) \<and> (b \<or> vyos_interface (tp_Interface p))))"
          unfolding Some by fastforce
        from evs have "trace_run (th_url_rest_ok h) msg evs (Inl err)"
          by (intro trace_run.payload_refused) (auto simp: inv p accepted_parts)
        with e1 Some show ?thesis by (auto simp: wp_return)
      next
        case None
        have "(if c then None = None else refusal None) \<longleftrightarrow> c" for c
          by simp
        with bad obtain b where b: "fst e1 = fst e @ [HStat (net_device p) b]" "plain_name (tp_Interface p)"
          "b \<or> vyos_interface (tp_Interface p)"
          unfolding None by fastforce
        show ?thesis
        proof (cases "checkURI h (tp_URI p)")
          case None
          with \<open>bad = None\<close> b bounds show ?thesis by (auto simp: wp_return accepted_parts)
        next
          case (Some err)
          with \<open>bad = None\<close> b p uri_Some [OF Some] show ?thesis
            by (auto simp: wp_return accepted_parts intro!: trace_run.payload_refused)
        qed
      qed
    qed
  qed
qed

lemma trace_rule:
  assumes "records h"
  shows "wp (vyos_trace_run h (Some ctx) msg) (adds_calls (trace_run (th_url_rest_ok h) msg) e) e"
  unfolding vyos_trace_run_def option.sel
proof (intro wp_pure)
  fix bad
  show "wp (case bad of Some err \<Rightarrow> State_Monad.return (Inl err) | None \<Rightarrow> do {
     r \<leftarrow> checkPayload h msg;
     (case r of
        Inl err \<Rightarrow> State_Monad.return (Inl err)
      | Inr p \<Rightarrow> do {
     t \<leftarrow> th_CreateTemp h ''pcap-*.pcap'';
     (case t of
        Inl err \<Rightarrow> State_Monad.return (Inl (wrap ''create temporary pcap file'' err))
      | Inr pcapPath \<Rightarrow> do {
     th_Close h pcapPath;
     out \<leftarrow> captureAndUpload h ctx msg p pcapPath;
     th_Remove h pcapPath;
     State_Monad.return out
     })})}) (adds_calls (trace_run (th_url_rest_ok h) msg) e) e"
  proof (cases bad)
    case (Some err)
    then show ?thesis by (auto simp: wp_return intro: trace_run.command_refused)
  next
    case None
    have made: "wp (case t of
        Inl err \<Rightarrow> State_Monad.return (Inl (wrap ''create temporary pcap file'' err))
      | Inr pcapPath \<Rightarrow> do {
          th_Close h pcapPath;
          out \<leftarrow> captureAndUpload h ctx msg p pcapPath;
          th_Remove h pcapPath;
          State_Monad.return out
        }) (adds_calls (trace_run (th_url_rest_ok h) msg) e) e2"
      if "command_payload msg = Some p" "accepted_payload (th_url_rest_ok h) b p"
        and e2: "fst e2 = fst e @ [HStat (net_device p) b, HCreate t]"
      for p b t and e2 :: "host_call list \<times> 'a"
    proof (cases t)
      case (Inl err)
      with that show ?thesis by (auto simp: wp_return intro: trace_run.no_file)
    next
      case (Inr path)
      have cap: "wp (do { out \<leftarrow> captureAndUpload h ctx msg p path; th_Remove h path; State_Monad.return out })
          (adds_calls (trace_run (th_url_rest_ok h) msg) e) e3"
        if e3: "fst e3 = fst e @ [HStat (net_device p) b, HCreate (Inr path), HClose path]"
        for e3 :: "host_call list \<times> 'a"
        unfolding wp_bind
        by (rule wp_mono [OF capture_rule [OF assms]], intro wp_pure host_calls [OF assms])
          (use e3 \<open>command_payload msg = Some p\<close> \<open>accepted_payload _ b p\<close> in
            \<open>auto dest: trace_run.captured [simplified]\<close>)
      show ?thesis
        unfolding Inr sum.case
        by (rule wp_pure(2), rule host_calls(3) [OF assms], rule cap) (use e2 Inr in simp)
    qed
    show ?thesis
      unfolding None option.case wp_bind
    proof (rule wp_mono [OF payload_rule [OF assms]])
      fix r and e1 :: "host_call list \<times> 'a"
      assume r: "adds_calls (\<lambda>evs r. case r of
       Inl err \<Rightarrow> trace_run (th_url_rest_ok h) msg evs (Inl err)
     | Inr p \<Rightarrow> command_payload msg = Some p \<and>
         (\<exists>b. evs = [HStat (net_device p) b] \<and> accepted_payload (th_url_rest_ok h) b p)) e r e1"
      show "wp (case r of
          Inl err \<Rightarrow> State_Monad.return (Inl err)
        | Inr p \<Rightarrow> do {
            t \<leftarrow> th_CreateTemp h ''pcap-*.pcap'';
            (case t of
               Inl err \<Rightarrow> State_Monad.return (Inl (wrap ''create temporary pcap file'' err))
             | Inr pcapPath \<Rightarrow> do {
                 th_Close h pcapPath;
                 out \<leftarrow> captureAndUpload h ctx msg p pcapPath;
                 th_Remove h pcapPath;
                 State_Monad.return out
               })
          }) (adds_calls (trace_run (th_url_rest_ok h) msg) e) e1"
      proof (cases r)
        case (Inl err)
        with r show ?thesis by (auto simp: wp_return)
      next
        case (Inr p)
        with r obtain b where b: "command_payload msg = Some p" "accepted_payload (th_url_rest_ok h) b p"
          "fst e1 = fst e @ [HStat (net_device p) b]" by auto
        show ?thesis
          unfolding Inr sum.case wp_bind
          by (intro host_calls [OF assms], rule made [OF b(1,2)]) (simp add: b(3))
      qed
    qed
  qed
qed

section \<open>What follows\<close>

lemma trace_run_calls:
  assumes "records h" "vyos_trace_Execute h (Some ctx) msg e = (res, e')"
  shows "\<exists>new. fst e' = fst e @ new \<and> trace_run (th_url_rest_ok h) msg new res"
  using wp_run [OF trace_rule [OF assms(1)]] assms(2) unfolding vyos_trace_Execute_def by blast

fun is_run :: "host_call \<Rightarrow> bool" where
  "is_run (HRun args r) = True"
| "is_run _ = False"

text \<open>
  What is posted is the form of a file: its content type names the boundary that was drawn,
  and unless reading the file failed its text is the form with what was read.
\<close>

definition form_of :: "host_call list \<Rightarrow> string \<Rightarrow> string \<Rightarrow> string \<times> go_error option \<Rightarrow> bool" where
  "form_of evs path ct body \<longleftrightarrow> (\<exists>b. HBoundary b \<in> set evs \<and> ct = FormDataContentType b
     \<and> (snd body = None \<longrightarrow> (\<exists>data. HRead path (data, None) \<in> set evs
          \<and> fst body = form_body b ''file'' (filepath_Base path) data)))"

lemma form_of_mono: "form_of evs path ct body \<Longrightarrow> set evs \<subseteq> set evs' \<Longrightarrow> form_of evs' path ct body"
  unfolding form_of_def by (elim exE conjE, intro exI conjI) auto

text \<open>The files and the URI a call of a capture is about.\<close>

fun about :: "host_call list \<Rightarrow> string \<Rightarrow> string list \<Rightarrow> string \<Rightarrow> host_call \<Rightarrow> bool" where
  "about evs uri args path (HRun as r) = (as = args)"
| "about evs uri args path (HOpen f r) = (f = path)"
| "about evs uri args path (HRead f r) = (f = path)"
| "about evs uri args path (HClose f) = (f = path)"
| "about evs uri args path (HBoundary b) = True"
| "about evs uri args path (HPost u ct body a) = (u = uri \<and> form_of evs path ct body)"
| "about evs uri args path _ = False"

lemma about_mono: "about evs uri args path c \<Longrightarrow> set evs \<subseteq> set evs' \<Longrightarrow> about evs' uri args path c"
  by (cases c) (auto intro: form_of_mono)

lemma upload_run_calls:
  assumes "upload_run uri path evs res"
  shows "filter is_run evs = [] \<and> (\<forall>c \<in> set evs. about evs uri args path c)
    \<and> (res = None \<longrightarrow> (\<exists>ct body a. HPost uri ct body a \<in> set evs \<and> answered_ok a))"
  using assms
proof (cases rule: upload_run.cases)
  case (sent b evs' body a)
  from sent(2) show ?thesis
    by (cases rule: stream_run.cases) (use sent in \<open>auto simp: form_of_def\<close>)
qed auto

text \<open>A capture is one command, and maybe one upload of its file.\<close>

lemma capture_run_calls:
  assumes "capture_run msg p path evs res"
  shows "length (filter is_run evs) = 1 \<and> (\<forall>c \<in> set evs. about evs (tp_URI p) (tcpdump_args p path) path c)
     \<and> (\<forall>out. res = Inr out \<longrightarrow> ao_Payload out = Some (trace_result msg p path)
          \<and> (\<exists>ct body a. HPost (tp_URI p) ct body a \<in> set evs \<and> answered_ok a))"
  using assms
proof (cases rule: capture_run.cases)
  case (not_uploaded up e err r)
  from upload_run_calls [OF not_uploaded(3), of "tcpdump_args p path"] not_uploaded(1,2) show ?thesis
    by (auto intro: about_mono)
next
  case (uploaded up r)
  from upload_run_calls [OF uploaded(3), of "tcpdump_args p path"] uploaded(1,2) show ?thesis
    by (auto intro: about_mono)
qed auto



section \<open>A trace\<close>

definition answer_with :: "'a \<Rightarrow> host_call \<Rightarrow> (host_call list \<times> unit, 'a) state" where
  "answer_with r ev = State (\<lambda>(ls, x). (r, (ls @ [ev], x)))"

definition sample_host :: "(host_call list \<times> unit) trace_host" where
  "sample_host = \<lparr>th_Stat = (\<lambda>p. answer_with True (HStat p True)),
     th_CreateTemp = (\<lambda>p. answer_with (Inr ''/tmp/pcap-1.pcap'') (HCreate (Inr ''/tmp/pcap-1.pcap''))),
     th_Open = (\<lambda>p. answer_with None (HOpen p None)),
     th_Read = (\<lambda>p. answer_with (''pcap'', None) (HRead p (''pcap'', None))),
     th_Close = (\<lambda>p. answer_with () (HClose p)), th_Remove = (\<lambda>p. answer_with () (HRemove p)),
     th_Timeout = (\<lambda>c d. c), th_Run = (\<lambda>c n args. answer_with None (HRun args None)),
     th_Boundary = answer_with ''b'' (HBoundary ''b''), th_NewRequest = (\<lambda>u. None),
     th_Post = (\<lambda>c u t b. answer_with (Inr (200, [])) (HPost u t b (Inr (200, [])))),
     th_url_rest_ok = (\<lambda>u. True)\<rparr>"

lemma sample_host_records: "records sample_host"
  by (simp add: records_def recording_def sample_host_def answer_with_def split: prod.splits)

definition sample_trace :: ActionCommand where
  "sample_trace = \<lparr>ac_Version = ''1.0'', ac_RPCID = ''r1'', ac_Target = ''edge'', ac_Action = ''trace'',
     ac_Payload = Some (json_object [(''interface'', quote ''eth0''), (''uri'', quote ''http:u'')])\<rparr>"

lemma sample_parse:
  "json_parse (the (ac_Payload sample_trace)) =
     Some (JNode (the (ac_Payload sample_trace)) (JObj [(quote_body ''interface'', JNode (quote ''eth0'') (JStr (quote_body ''eth0''))),
       (quote_body ''uri'', JNode (quote ''http:u'') (JStr (quote_body ''http:u'')))]))"
  unfolding sample_trace_def
  by (simp, rule object_parse) (simp_all add: value_text_string)

lemma sample_payload:
  "command_payload sample_trace = Some \<lparr>tp_Interface = ''eth0'', tp_Duration = 0, tp_Packets = 0, tp_URI = ''http:u''\<rparr>"
proof -
  have a: "coerce_utf8 ''interface'' = ''interface''" "coerce_utf8 ''uri'' = ''uri''" "coerce_utf8 ''eth0'' = ''eth0''"
    "coerce_utf8 ''http:u'' = ''http:u''"
    by (rule coerce_ASCII, simp add: byte_def)+
  have u: "unquote_body (quote_body s) = Some (coerce_utf8 s)" for s using quote_body_read by blast
  show ?thesis
    by (simp add: unmarshal_tracePayload_def sample_parse into_struct_def key_text_quote a field_for_def
        set_trace_field_def into_string_def u)
qed

lemma sample_calls:
  "run_state (th_Stat sample_host p) (ls, x) = (True, ls @ [HStat p True], x)"
  "run_state (th_CreateTemp sample_host p) (ls, x) =
     (Inr ''/tmp/pcap-1.pcap'', ls @ [HCreate (Inr ''/tmp/pcap-1.pcap'')], x)"
  "run_state (th_Close sample_host p) (ls, x) = ((), ls @ [HClose p], x)"
  "run_state (th_Remove sample_host p) (ls, x) = ((), ls @ [HRemove p], x)"
  "run_state (th_Run sample_host c n args) (ls, x) = (None, ls @ [HRun args None], x)"
  "run_state (th_Open sample_host p) (ls, x) = (None, ls @ [HOpen p None], x)"
  "run_state (th_Read sample_host p) (ls, x) = ((''pcap'', None), ls @ [HRead p (''pcap'', None)], x)"
  "run_state (th_Boundary sample_host) (ls, x) = (''b'', ls @ [HBoundary ''b''], x)"
  "run_state (th_Post sample_host c u t b) (ls, x) = (Inr (200, []), ls @ [HPost u t b (Inr (200, []))], x)"
  "th_NewRequest sample_host u = None"
  by (simp_all add: sample_host_def answer_with_def)

lemma sample_checks:
  "checkBounds \<lparr>tp_Interface = ''eth0'', tp_Duration = 0, tp_Packets = 0, tp_URI = ''http:u''\<rparr> = None"
  "Contains ''eth0'' ''..'' = False" "Contains ''eth0'' ''/'' = False" "Contains ''eth0'' [backslash] = False"
  "checkURI sample_host ''http:u'' = None"
proof -
  show "checkBounds \<lparr>tp_Interface = ''eth0'', tp_Duration = 0, tp_Packets = 0, tp_URI = ''http:u''\<rparr> = None"
    by (simp add: checkBounds_def maxDuration_def maxPackets_def)
  show "Contains ''eth0'' ''..'' = False" "Contains ''eth0'' ''/'' = False" "Contains ''eth0'' [backslash] = False"
    by simp_all
  show "checkURI sample_host ''http:u'' = None"
    by (simp add: checkURI_def url_scheme_def sample_host_def is_letter_def is_digit_def in_range_def byte_def to_lower_def)
qed

lemma sample_trace_ok:
  "\<exists>out e'. vyos_trace_Execute sample_host (Some (\<lambda>_. None)) sample_trace ([], ()) = (Inr out, e')"
proof -
  let ?ctx = "\<lambda>e :: host_call list \<times> unit. None :: go_error option"
  have c: "check_command (Some ?ctx) sample_trace e = None" for e
    using sample_parse
    by (simp add: check_command_def json_Valid_def) (simp add: sample_trace_def ActionTrace_def raw_len_def json_object_def)
  let ?p = "\<lparr>tp_Interface = ''eth0'', tp_Duration = 0, tp_Packets = 0, tp_URI = ''http:u''\<rparr>"
  have p: "run_state (checkPayload sample_host sample_trace) (ls, x) = (Inr ?p, ls @ [HStat ''/sys/class/net/eth0'' True], x)" for ls x
    unfolding checkPayload_def sample_payload option.case sample_checks(1)
    by (simp add: run_bind run_return checkInterface_def sample_checks sample_calls)
  have u: "\<exists>e'. run_state (uploadFile sample_host ?ctx uri f) (ls, x) = (None, e')" for uri f ls x
    by (simp add: uploadFile_def upload_stream_def run_bind run_return sample_calls)
  have k: "\<exists>out e'. run_state (captureAndUpload sample_host ?ctx sample_trace ?p path) e = (Inr out, e')" for path e
  proof (cases e)
    case (Pair ls x)
    obtain e' where "run_state (uploadFile sample_host ?ctx (tp_URI ?p) path) (ls @ [HRun (tcpdump_args ?p path) None], x) = (None, e')"
      using u by blast
    with Pair show ?thesis
      by (simp add: captureAndUpload_def Let_def run_bind run_return sample_calls capture_failure_def) (cases e', simp)
  qed
  obtain out e' where "run_state (captureAndUpload sample_host ?ctx sample_trace ?p ''/tmp/pcap-1.pcap'')
      ([HStat ''/sys/class/net/eth0'' True, HCreate (Inr ''/tmp/pcap-1.pcap''), HClose ''/tmp/pcap-1.pcap''], ()) = (Inr out, e')"
    using k by blast
  then show ?thesis
    unfolding vyos_trace_Execute_def vyos_trace_run_def
    by (cases e') (simp add: run_bind run_return c p sample_calls)
qed



text \<open>The name of the directory itself passes the check, since a file of that path exists.\<close>

lemma dot_interface_accepted:
  "run_state (th_Stat h ''/sys/class/net/.'') e = (True, e') \<Longrightarrow> run_state (checkInterface h ''.'') e = (None, e')"
  by (simp add: checkInterface_def run_return run_bind)


end
