(* ===== verification/Cli.thy ===== *)
theory Cli
  imports Agent
begin

text \<open>
  The command \<open>cmd/vyos-nats-agent\<close>: its flags, as package \<open>flag\<close> parses them, and what it
  prints, returns and runs.
\<close>

section \<open>Flags\<close>

record cliOptions =
  cli_configPath :: string
  cli_validateConfig :: bool
  cli_printEffectiveConfig :: bool

definition no_options :: cliOptions where
  "no_options = \<lparr>cli_configPath = '''', cli_validateConfig = False, cli_printEffectiveConfig = False\<rparr>"

abbreviation help_requested :: string where
  "help_requested \<equiv> ''flag: help requested''"

definition ParseBool :: "string \<Rightarrow> bool option" where
  "ParseBool s =
     (if List.member [''1'', ''t'', ''T'', ''TRUE'', ''true'', ''True''] s then Some True
      else if List.member [''0'', ''f'', ''F'', ''FALSE'', ''false'', ''False''] s then Some False
      else None)"

text \<open>\<open>name=value\<close>; the first byte of the name is never the equals sign.\<close>

definition split_value :: "string \<Rightarrow> string \<times> string option" where
  "split_value s =
     (case s of [] \<Rightarrow> ([], None)
      | c # t \<Rightarrow>
         (case dropWhile (\<lambda>d. d \<noteq> CHR ''='') t of
            [] \<Rightarrow> (s, None)
          | _ # v \<Rightarrow> (c # takeWhile (\<lambda>d. d \<noteq> CHR ''='') t, Some v)))"

definition set_bool_flag :: "string \<Rightarrow> bool \<Rightarrow> cliOptions \<Rightarrow> cliOptions" where
  "set_bool_flag name b o' =
     (if name = ''validate-config'' then o'\<lparr>cli_validateConfig := b\<rparr> else o'\<lparr>cli_printEffectiveConfig := b\<rparr>)"

text \<open>One argument: \<open>None\<close> ends the flags; else what is left and the options so far.\<close>

definition flag_name :: "string \<Rightarrow> string option" where
  "flag_name s = (case s of
     m # n # t \<Rightarrow> if m = CHR ''-'' then Some (if n = CHR ''-'' then t else n # t) else None
   | _ \<Rightarrow> None)"

function parseFlags :: "cliOptions \<Rightarrow> string list \<Rightarrow> go_error + cliOptions \<times> string list" where
  "parseFlags opts args =
     (case args of [] \<Rightarrow> Inr (opts, []) | s # rest \<Rightarrow>
      if s = ''--'' then Inr (opts, rest) else
      (case flag_name s of
         None \<Rightarrow> Inr (opts, args)
       | Some name \<Rightarrow>
      if name = [] \<or> hd name = CHR ''-'' \<or> hd name = CHR ''='' then Inl (Errorf ''bad flag syntax: %s'' [FStr s]) else
      (case split_value name of (name, value) \<Rightarrow>
      if name = ''config'' then
        (case value of
           Some v \<Rightarrow> parseFlags (opts\<lparr>cli_configPath := v\<rparr>) rest
         | None \<Rightarrow>
            (case rest of
               [] \<Rightarrow> Inl (Errorf ''flag needs an argument: -%s'' [FStr name])
             | v # rest' \<Rightarrow> parseFlags (opts\<lparr>cli_configPath := v\<rparr>) rest'))
      else if name = ''validate-config'' \<or> name = ''print-effective-config'' then
        (case value of
           None \<Rightarrow> parseFlags (set_bool_flag name True opts) rest
         | Some v \<Rightarrow>
            (case ParseBool v of
               None \<Rightarrow> Inl (Errorf ''invalid boolean value %q for -%s: %v'' [FStr v, FStr name])
             | Some b \<Rightarrow> parseFlags (set_bool_flag name b opts) rest))
      else if name = ''help'' \<or> name = ''h'' then Inl (Sentinel help_requested)
      else Inl (Errorf ''flag provided but not defined: -%s'' [FStr name]))))"
  by pat_completeness auto
termination by (relation "measure (\<lambda>(opts, args). length args)") auto

declare parseFlags.simps [simp del]

section \<open>Output\<close>

text \<open>
  What was written to the standard output, and the formats and arguments of what was written
  to the standard error.
\<close>

record cli_output =
  out_stdout :: string
  out_stderr :: "(string \<times> fmt_arg list) list"

definition no_output :: cli_output where
  "no_output = \<lparr>out_stdout = [], out_stderr = []\<rparr>"

definition println :: "string \<Rightarrow> string" where
  "println s = s @ LF"

definition errorf :: "cli_output \<Rightarrow> string \<Rightarrow> fmt_arg list \<Rightarrow> cli_output" where
  "errorf o' fmt args = o'\<lparr>out_stderr := out_stderr o' @ [(fmt, args)]\<rparr>"

definition printUsage :: string where
  "printUsage = concat (map println
     [''Usage:'', ''  vyos-nats-agent [options]'', '''', ''Options:'',
      ''  --config <path>             Path to YAML config file'',
      ''  --validate-config           Validate config and exit'',
      ''  --print-effective-config    Print sanitized effective config and continue'',
      ''  --help                      Show help'', '''', ''Config path resolution:'',
      ''  1. --config'', ''  2. VYOS_NATS_AGENT_CONFIG'', ''  3. /etc/vyos-nats-agent/config.yaml'', '''',
      ''Phase 2 behavior:'',
      ''  --validate-config: only load, validate, print, and convert configuration.'',
      ''  default run: start agentcore client, register handlers, and run until SIGINT/SIGTERM.''])"

text \<open>The options, or the exit code and what was written.\<close>

definition parseCLIArgs :: "string list \<Rightarrow> int \<times> cli_output + cliOptions" where
  "parseCLIArgs args =
     (case parseFlags no_options args of
        Inl err \<Rightarrow>
          (if errors_Is err help_requested then Inl (0, no_output\<lparr>out_stdout := printUsage\<rparr>)
           else Inl (2, errorf no_output ''failed to parse flags: %v\<newline>'' [FErr err]))
      | Inr (opts, rest) \<Rightarrow>
          (if rest \<noteq> []
           then Inl (2, errorf no_output ''failed to parse flags: unexpected positional arguments: %s\<newline>'' (map FStr rest))
           else Inr opts))"

definition loadAndConvertConfig :: "config_host \<Rightarrow> string \<Rightarrow> go_error + AppConfig \<times> CoreConfig \<times> string" where
  "loadAndConvertConfig h configPath =
     (case LoadResolved h configPath of
        (Inl err, path) \<Rightarrow> Inl (wrap ''failed to load config'' err)
      | (Inr cfg, path) \<Rightarrow>
         (case ToAgentCoreConfig cfg of
            Inl err \<Rightarrow> Inl (wrap ''failed to convert config to agentcore.Config'' err)
          | Inr coreCfg \<Rightarrow> Inr (cfg, coreCfg, path)))"

definition printEffectiveConfig :: "config_host \<Rightarrow> AppConfig \<Rightarrow> cli_output \<Rightarrow> go_error + cli_output" where
  "printEffectiveConfig h cfg o' =
     (case MarshalRedactedYAML (ch_Marshal h) cfg of
        Inl err \<Rightarrow> Inl err
      | Inr payload \<Rightarrow> Inr (o'\<lparr>out_stdout := out_stdout o' @ payload\<rparr>))"

section \<open>The command\<close>

text \<open>
  What starting the agent uses: the libraries, the scheduler, the context that ends on a
  signal, and the logger that \<open>slog\<close> makes of a level and a format.
\<close>

record 'e cli_host =
  cl_config :: config_host
  cl_libs :: "'e runtime_libs"
  cl_sched :: "'e Scheduler"
  cl_signals :: "'e ctx"
  cl_slog :: "log_level \<times> log_format \<Rightarrow> 'e Logger"

text \<open>
  The part after the configuration is known, printed, and not only to be validated. A
  runtime that was made has a configure service, so the last case does not arise.
\<close>

definition run_agent ::
  "'x renv cli_host \<Rightarrow> AppConfig \<Rightarrow> CoreConfig \<Rightarrow> string \<Rightarrow> cli_output \<Rightarrow> ('x renv world, int \<times> cli_output) state" where
  "run_agent h cfg coreCfg path o' =
     (let logging = ag_Logging (app_Agent cfg); target = ag_Target (app_Agent cfg) in
     (case (if lg_Enabled logging then NewLogger logging else Inr (LInfo, TextFormat)) of
        Inl err \<Rightarrow> State_Monad.return (1, errorf o' ''failed to configure logger: %v\<newline>'' [FErr err])
      | Inr handler \<Rightarrow> do {
     log_at (lg_Enabled logging) LInfo ''config loaded'' [(''path'', LStr path), (''target'', LStr target)];
     log_at (lg_Enabled logging) LInfo ''agentcore config prepared'' [(''target'', LStr target)];
     let opts = (if lg_Enabled logging then [Some (agent_WithLogger (Some (cl_slog h handler)))] else []);
     made \<leftarrow> agent_New (cl_libs h) (Some cfg) coreCfg opts;
     (case made of
        Inl err \<Rightarrow> State_Monad.return (1, errorf o' ''failed to create runtime: %v\<newline>'' [FErr err])
      | Inr r \<Rightarrow>
     (case ru_configureService r of
        None \<Rightarrow> State_Monad.return (1, o')
      | Some s \<Rightarrow> do {
     e \<leftarrow> runtime_Run (cl_sched h) r s (Some (cl_signals h));
     State_Monad.return (case e of
        Some err \<Rightarrow> (1, errorf o' ''runtime error: %v\<newline>'' [FErr err])
      | None \<Rightarrow> (0, o'))
     }))
     }))"

definition runConfigCLI :: "'x renv cli_host \<Rightarrow> string list \<Rightarrow> ('x renv world, int \<times> cli_output) state" where
  "runConfigCLI h args =
     (case parseCLIArgs args of
        Inl done \<Rightarrow> State_Monad.return done
      | Inr opts \<Rightarrow>
     (case loadAndConvertConfig (cl_config h) (cli_configPath opts) of
        Inl err \<Rightarrow> State_Monad.return (1, errorf no_output ''%v\<newline>'' [FErr err])
      | Inr (cfg, coreCfg, path) \<Rightarrow>
     (case (if cli_printEffectiveConfig opts then printEffectiveConfig (cl_config h) cfg no_output else Inr no_output) of
        Inl err \<Rightarrow> State_Monad.return (1, errorf no_output ''failed to marshal effective config yaml: %v\<newline>'' [FErr err])
      | Inr o' \<Rightarrow>
          (if cli_validateConfig opts
           then State_Monad.return (0, o'\<lparr>out_stdout := out_stdout o' @ println ''configuration valid''\<rparr>)
           else run_agent h cfg coreCfg path o'))))"

end
