(* ===== verification/CliLaws.thy ===== *)
theory CliLaws
  imports Cli ConfigLaws
begin

text \<open>What the command prints and returns.\<close>

lemma load_valid: "config_Load h path = Inr c \<Longrightarrow> AppConfig_Validate c = None"
  by (auto simp: config_Load_def split: sum.splits option.splits)

lemma load_convert:
  assumes "config_Load h (ResolvePath (ch_Getenv h) flag) = Inr c"
  shows "\<exists>k. loadAndConvertConfig h flag = Inr (c, k, ResolvePath (ch_Getenv h) flag)"
proof -
  obtain k where "ToAgentCoreConfig c = Inr k" using valid_converts [OF load_valid [OF assms]] by blast
  with assms show ?thesis by (simp add: loadAndConvertConfig_def LoadResolved_def Let_def)
qed

lemma load_fails:
  "config_Load h (ResolvePath (ch_Getenv h) flag) = Inl err \<Longrightarrow>
     loadAndConvertConfig h flag = Inl (wrap ''failed to load config'' err)"
  by (simp add: loadAndConvertConfig_def LoadResolved_def Let_def)

text \<open>What a run that only validates prints and returns, given the configuration.\<close>

definition validation_answer :: "config_host \<Rightarrow> bool \<Rightarrow> AppConfig \<Rightarrow> int \<times> cli_output" where
  "validation_answer h shown c =
     (if shown then
        (case ch_Marshal h (AppConfig_Redacted c) of
           Inl err \<Rightarrow> (1, errorf no_output ''failed to marshal effective config yaml: %v\<newline>'' [FErr err])
         | Inr yaml \<Rightarrow> (0, no_output\<lparr>out_stdout := yaml @ println ''configuration valid''\<rparr>))
      else (0, no_output\<lparr>out_stdout := println ''configuration valid''\<rparr>))"

lemma validate_only:
  assumes "parseCLIArgs args = Inr opts" "cli_validateConfig opts"
    and "config_Load (cl_config h) (ResolvePath (ch_Getenv (cl_config h)) (cli_configPath opts)) = Inr c"
  shows "run_state (runConfigCLI h args) w = (validation_answer (cl_config h) (cli_printEffectiveConfig opts) c, w)"
proof -
  obtain k where "loadAndConvertConfig (cl_config h) (cli_configPath opts)
      = Inr (c, k, ResolvePath (ch_Getenv (cl_config h)) (cli_configPath opts))"
    using load_convert [OF assms(3)] by blast
  with assms(1,2) show ?thesis
    by (auto simp: runConfigCLI_def run_return validation_answer_def printEffectiveConfig_def MarshalRedactedYAML_def
        no_output_def split: sum.split)
qed

text \<open>
  \textbf{C39.} The command's answers when it does not start the agent. Arguments it cannot
  parse give exit code 2 and nothing on the standard output, a request for help code 0 and
  the usage; a configuration that cannot be loaded code 1, nothing printed and its error;
  and with the flag to validate only, one that loads code 0 and the confirmation, after the
  redacted configuration where it was asked for. None of them makes a call.
\<close>

theorem cli_answers:
  "(\<forall>err. parseFlags no_options args = Inl err \<longrightarrow> run_state (runConfigCLI h args) w =
      (if errors_Is err help_requested then (0, no_output\<lparr>out_stdout := printUsage\<rparr>)
       else (2, errorf no_output ''failed to parse flags: %v\<newline>'' [FErr err]), w))
   \<and> (\<forall>opts path. parseFlags no_options args = Inr (opts, []) \<longrightarrow>
        path = ResolvePath (ch_Getenv (cl_config h)) (cli_configPath opts) \<longrightarrow>
      (case config_Load (cl_config h) path of
         Inl err \<Rightarrow> run_state (runConfigCLI h args) w =
           ((1, errorf no_output ''%v\<newline>'' [FErr (wrap ''failed to load config'' err)]), w)
       | Inr c \<Rightarrow> cli_validateConfig opts \<longrightarrow> run_state (runConfigCLI h args) w =
           (validation_answer (cl_config h) (cli_printEffectiveConfig opts) c, w)))"
proof (intro conjI allI impI)
  fix err
  assume "parseFlags no_options args = Inl err"
  then show "run_state (runConfigCLI h args) w =
      (if errors_Is err help_requested then (0, no_output\<lparr>out_stdout := printUsage\<rparr>)
       else (2, errorf no_output ''failed to parse flags: %v\<newline>'' [FErr err]), w)"
    by (simp add: runConfigCLI_def parseCLIArgs_def run_return)
next
  fix opts path
  assume parsed: "parseFlags no_options args = Inr (opts, [])"
    and path: "path = ResolvePath (ch_Getenv (cl_config h)) (cli_configPath opts)"
  then have args: "parseCLIArgs args = Inr opts" by (simp add: parseCLIArgs_def)
  show "case config_Load (cl_config h) path of
         Inl err \<Rightarrow> run_state (runConfigCLI h args) w =
           ((1, errorf no_output ''%v\<newline>'' [FErr (wrap ''failed to load config'' err)]), w)
       | Inr c \<Rightarrow> cli_validateConfig opts \<longrightarrow> run_state (runConfigCLI h args) w =
           (validation_answer (cl_config h) (cli_printEffectiveConfig opts) c, w)"
  proof (cases "config_Load (cl_config h) path")
    case (Inl err)
    with load_fails [of "cl_config h" "cli_configPath opts" err] path args show ?thesis
      by (simp add: runConfigCLI_def run_return)
  next
    case (Inr c)
    with validate_only [OF args] path show ?thesis by auto
  qed
qed

text \<open>The files and the decoder of two hosts may differ; what they share.\<close>

definition same_shell :: "config_host \<Rightarrow> config_host \<Rightarrow> bool" where
  "same_shell h h' \<longleftrightarrow> ch_Getenv h = ch_Getenv h' \<and> ch_Marshal h = ch_Marshal h'"

text \<open>
  \textbf{C40.} Validating and printing a configuration tells nothing of its secrets: where
  two configurations differ in their secrets only, blank at the same places, the command
  prints the same and returns the same code.
\<close>

theorem cli_hides_secrets:
  assumes "parseFlags no_options args = Inr (opts, [])" "cli_validateConfig opts"
    and "same_shell (cl_config h) (cl_config h')"
    and "config_Load (cl_config h) (ResolvePath (ch_Getenv (cl_config h)) (cli_configPath opts)) = Inr c"
    and "config_Load (cl_config h') (ResolvePath (ch_Getenv (cl_config h')) (cli_configPath opts)) = Inr d"
    and "erased c = erased d" "map blank (secrets c) = map blank (secrets d)"
  shows "run_state (runConfigCLI h args) w = run_state (runConfigCLI h' args) w"
proof -
  have args: "parseCLIArgs args = Inr opts" using assms(1) by (simp add: parseCLIArgs_def)
  have "AppConfig_Redacted c = AppConfig_Redacted d"
    by (rule redacted_eq [OF assms(6,7)])
  then show ?thesis
    using validate_only [OF args assms(2,4)] validate_only [OF args assms(2,5)] assms(3)
    by (simp add: validation_answer_def same_shell_def)
qed

section \<open>Two hosts\<close>

definition with_password :: "string \<Rightarrow> AppConfig" where
  "with_password s = DefaultAppConfig\<lparr>app_AgentCore := (app_AgentCore DefaultAppConfig)\<lparr>co_NATS :=
     (co_NATS (app_AgentCore DefaultAppConfig))\<lparr>nt_Password := s\<rparr>\<rparr>\<rparr>"

definition sample_shell :: "string \<Rightarrow> config_host" where
  "sample_shell s = \<lparr>ch_Getenv = (\<lambda>_. []), ch_ReadFile = (\<lambda>_. Inr ''x''), ch_Decode = (\<lambda>t c. Inr (with_password s)),
     ch_Marshal = (\<lambda>c. Inr (nt_Password (co_NATS (app_AgentCore c))))\<rparr>"

lemma with_password_valid: "AppConfig_Validate (with_password s) = None"
  using default_valid
  by (simp add: Validate_None config_valid_def Let_def with_password_def nats_ok_def required_durations_def)

lemma sample_load: "config_Load (sample_shell s) path = Inr (with_password s)"
  by (simp add: config_Load_def sample_shell_def with_password_valid)

definition sample_cli :: "string \<Rightarrow> unit renv cli_host \<Rightarrow> unit renv cli_host" where
  "sample_cli s h = h\<lparr>cl_config := sample_shell s\<rparr>"

lemma sample_args:
  "parseFlags no_options [''--print-effective-config'', ''--validate-config'']
     = Inr (\<lparr>cli_configPath = '''', cli_validateConfig = True, cli_printEffectiveConfig = True\<rparr>, [])"
  by (simp add: parseFlags.simps flag_name_def split_value_def set_bool_flag_def no_options_def)

lemma help_args: "parseFlags no_options [''--help''] = Inl (Sentinel help_requested)"
  by (simp add: parseFlags.simps flag_name_def split_value_def)

theorem cli_answers_witness:
  "\<forall>h w. run_state (runConfigCLI (sample_cli [] h) [''--help'']) w = ((0, no_output\<lparr>out_stdout := printUsage\<rparr>), w)"
proof (intro allI)
  fix h :: "unit renv cli_host" and w
  from cli_answers [of "[''--help'']" "sample_cli [] h" w]
  show "run_state (runConfigCLI (sample_cli [] h) [''--help'']) w = ((0, no_output\<lparr>out_stdout := printUsage\<rparr>), w)"
    by (simp only: help_args) simp
qed

theorem cli_hides_secrets_witness:
  "\<forall>h w. run_state (runConfigCLI (sample_cli ''one'' h) [''--print-effective-config'', ''--validate-config'']) w
   = run_state (runConfigCLI (sample_cli ''two'' h) [''--print-effective-config'', ''--validate-config'']) w"
proof (intro allI, rule cli_hides_secrets [OF sample_args])
  fix h :: "unit renv cli_host" and p
  show "config_Load (cl_config (sample_cli ''one'' h)) p = Inr (with_password ''one'')"
    "config_Load (cl_config (sample_cli ''two'' h)) p = Inr (with_password ''two'')" for p
    by (simp_all add: sample_cli_def sample_load)
  show "erased (with_password ''one'') = erased (with_password ''two'')"
    by (simp add: with_password_def erased_def)
  show "map blank (secrets (with_password ''one'')) = map blank (secrets (with_password ''two''))"
    by (simp add: with_password_def secrets_def Let_def plain_not_blank byte_def)
qed (simp_all add: same_shell_def sample_cli_def sample_shell_def)

end
