(* ===== verification/Doubles.thy ===== *)
theory Doubles
  imports Fakes RendererVyos
begin

text \<open>
  More of \<open>internal/testutil\<close>: what the doubles give back and how they are reset, the
  fixtures, the log capture and the fake backend of the apply library; and what the adapter
  of \<open>internal/applyvyos\<close> does with a backend.
\<close>

section \<open>Accessors\<close>

text \<open>A \<open>LastX\<close> method gives the last element, and whether there is one.\<close>

definition last_of :: "'a list \<Rightarrow> 'a option" where
  "last_of xs = (if xs = [] then None else Some (last xs))"

definition StatusStages :: "StatusRecorder \<Rightarrow> string list" where
  "StatusStages r = map se_Stage (sr_statuses r)"

definition LastStatus :: "StatusRecorder \<Rightarrow> StatusEnvelope option" where
  "LastStatus r = last_of (sr_statuses r)"

definition ContainsStatus :: "string \<Rightarrow> string \<Rightarrow> StatusRecorder \<Rightarrow> bool" where
  "ContainsStatus status stage r \<longleftrightarrow> FindStatus status stage (sr_statuses r) \<noteq> None"

definition StatusRecorder_Reset :: "StatusRecorder \<Rightarrow> StatusRecorder" where
  "StatusRecorder_Reset r = r\<lparr>sr_statuses := []\<rparr>"

definition LastResult :: "ResultRecorder \<Rightarrow> ResultEnvelope option" where
  "LastResult r = last_of (rr_results r)"

definition ContainsResult :: "string \<Rightarrow> string \<Rightarrow> ResultRecorder \<Rightarrow> bool" where
  "ContainsResult result commandType r \<longleftrightarrow> FindResult result commandType (rr_results r) \<noteq> None"

definition ResultRecorder_Reset :: "ResultRecorder \<Rightarrow> ResultRecorder" where
  "ResultRecorder_Reset r = r\<lparr>rr_results := []\<rparr>"

definition FakeConfigureClient_Reset :: "FakeConfigureClient \<Rightarrow> FakeConfigureClient" where
  "FakeConfigureClient_Reset f = f\<lparr>fc_loadCalls := 0,
     fc_StatusRecorder := StatusRecorder_Reset (fc_StatusRecorder f),
     fc_ResultRecorder := ResultRecorder_Reset (fc_ResultRecorder f)\<rparr>"

definition LastSavedState :: "FakeStateStore \<Rightarrow> State option" where
  "LastSavedState f = last_of (fs_savedStates f)"

definition FakeStateStore_Reset :: "FakeStateStore \<Rightarrow> FakeStateStore" where
  "FakeStateStore_Reset f = f\<lparr>fs_loadCalls := 0, fs_saveCalls := 0, fs_savedStates := []\<rparr>"

definition FakeRenderer_LastInput :: "FakeRenderer \<Rightarrow> StoredDesiredConfig option" where
  "FakeRenderer_LastInput f = last_of (fr_inputs f)"

definition FakeRenderer_Reset :: "FakeRenderer \<Rightarrow> FakeRenderer" where
  "FakeRenderer_Reset f = f\<lparr>fr_calls := 0, fr_inputs := []\<rparr>"

definition FakeApplyEngine_LastInput :: "FakeApplyEngine \<Rightarrow> Output option" where
  "FakeApplyEngine_LastInput f = last_of (fa_inputs f)"

definition FakeApplyEngine_Reset :: "FakeApplyEngine \<Rightarrow> FakeApplyEngine" where
  "FakeApplyEngine_Reset f = f\<lparr>fa_calls := 0, fa_inputs := []\<rparr>"

section \<open>Fixtures\<close>

definition MinimalTarget :: string where "MinimalTarget = ''vyos''"
definition MinimalUUID :: string where "MinimalUUID = ''cfg-test-1''"
definition MinimalRPCID :: string where "MinimalRPCID = ''rpc-test-1''"

definition fixture_DesiredConfig :: "string \<Rightarrow> string \<Rightarrow> string option \<Rightarrow> StoredDesiredConfig" where
  "fixture_DesiredConfig target uuid payload = \<lparr>sd_Record = \<lparr>dr_RPCID = '''', dr_Target = target,
     dr_UUID = uuid, dr_Payload = cloneRawMessage payload, dr_Timestamp = zero_time\<rparr>,
     sd_Bucket = '''', sd_Key = ''''\<rparr>"

definition MinimalPlaceholderDesiredConfig :: StoredDesiredConfig where
  "MinimalPlaceholderDesiredConfig = fixture_DesiredConfig MinimalTarget MinimalUUID
     (Some (CHR ''{'' # dquote # ''interfaces'' @ dquote # '':[],'' @ dquote # ''services'' @ dquote # '':{}}''))"

definition MinimalConfigureNotification :: ConfigureNotification where
  "MinimalConfigureNotification = \<lparr>cn_Version = ''1.0'', cn_RPCID = MinimalRPCID, cn_Target = MinimalTarget,
     cn_CommandType = '''', cn_UUID = MinimalUUID, cn_KVBucket = '''', cn_KVKey = '''', cn_Timestamp = zero_time\<rparr>"

definition MinimalActionCommand :: "string \<Rightarrow> ActionCommand" where
  "MinimalActionCommand action = \<lparr>ac_Version = ''1.0'', ac_RPCID = MinimalRPCID, ac_Target = MinimalTarget,
     ac_Action = action, ac_Payload = None\<rparr>"

definition MinimalRenderedOutput :: Output where
  "MinimalRenderedOutput = \<lparr>o_Target = MinimalTarget, o_UUID = MinimalUUID,
     o_Text = ''# rendered by test fixture'' @ LF\<rparr>"

section \<open>The log capture\<close>

type_synonym LogCapture = "log_entry list"

definition LogCapture_record :: "log_level \<Rightarrow> string \<Rightarrow> (string \<times> log_value) list \<Rightarrow> LogCapture \<Rightarrow> LogCapture" where
  "LogCapture_record level msg kv l = l @ [LogEntry level msg kv]"

definition EntriesByLevel :: "log_level \<Rightarrow> LogCapture \<Rightarrow> log_entry list" where
  "EntriesByLevel level l = filter (\<lambda>entry. le_level entry = level) l"

definition LogCapture_Reset :: "LogCapture \<Rightarrow> LogCapture" where
  "LogCapture_Reset l = []"

section \<open>The fake backend\<close>

record FakeApplyBackend =
  fb_Plan :: ApplyPlan
  fb_UsePlan :: bool
  fb_Result :: ApplyResult
  fb_UseResult :: bool
  fb_PrepareErr :: "go_error option"
  fb_ApplyErr :: "go_error option"
  fb_ValidatePrepare :: "(ApplyInput \<Rightarrow> go_error option) option"
  fb_ValidateApply :: "(ApplyInput \<Rightarrow> go_error option) option"
  fb_MutateOnPrepare :: bool
  fb_MutatePrepareInput :: "(ApplyInput \<Rightarrow> ApplyInput) option"
  fb_Events :: bool
  fb_prepareCalls :: int
  fb_applyCalls :: int
  fb_prepareInputs :: "ApplyInput list"
  fb_applyInputs :: "ApplyInput list"

text \<open>The backend and the event recorder it points to, when \<open>fb_Events\<close> says it is not nil.\<close>

type_synonym backend_env = "FakeApplyBackend \<times> EventRecorder"

definition backend_event :: "string \<Rightarrow> backend_env \<Rightarrow> EventRecorder" where
  "backend_event name = (\<lambda>(f, evs). if fb_Events f then EventRecorder_Record name evs else evs)"

text \<open>\<open>strings.TrimRight(s, "\n")\<close>\<close>

definition trim_right_LF :: "string \<Rightarrow> string" where
  "trim_right_LF s = rev (dropWhile (\<lambda>c. c = CHR 0x0A) (rev s))"

definition default_mutation :: "ApplyInput \<Rightarrow> ApplyInput" where
  "default_mutation i = i\<lparr>ai_DesiredCommands := trim_right_LF (ai_DesiredCommands i) @ LF
     @ ''# mutated by FakeApplyBackend Prepare'' @ LF\<rparr>"

text \<open>Slices are copied; as values they are what they were.\<close>

definition cloneApplyPlan :: "ApplyPlan \<Rightarrow> ApplyPlan" where
  "cloneApplyPlan p = p\<lparr>ap_DeleteCommands := ap_DeleteCommands p, ap_SetCommands := ap_SetCommands p\<rparr>"

definition cloneApplyResult :: "ApplyResult \<Rightarrow> ApplyResult" where
  "cloneApplyResult r = r\<lparr>ar_DeleteCommands := ar_DeleteCommands r, ar_SetCommands := ar_SetCommands r\<rparr>"

definition run_validate :: "(ApplyInput \<Rightarrow> go_error option) option \<Rightarrow> ApplyInput \<Rightarrow> go_error option" where
  "run_validate v input = (case v of None \<Rightarrow> None | Some f \<Rightarrow> f input)"

definition FakeApplyBackend_Prepare :: "ApplyInput \<Rightarrow> backend_env \<Rightarrow> (go_error + ApplyPlan) \<times> backend_env" where
  "FakeApplyBackend_Prepare input = (\<lambda>(f, evs).
     let evs' = backend_event ''prepare'' (f, evs);
         recorded = (if fb_MutateOnPrepare f
           then (case fb_MutatePrepareInput f of None \<Rightarrow> default_mutation | Some m \<Rightarrow> m) input else input);
         f' = f\<lparr>fb_prepareCalls := fb_prepareCalls f + 1, fb_prepareInputs := fb_prepareInputs f @ [recorded]\<rparr>
     in (case run_validate (fb_ValidatePrepare f) input of
           Some err \<Rightarrow> Inl err
         | None \<Rightarrow>
        (case fb_PrepareErr f of
           Some err \<Rightarrow> Inl err
         | None \<Rightarrow>
             if fb_UsePlan f then Inr (cloneApplyPlan (fb_Plan f))
             else Inr \<lparr>ap_Target = ai_Target input, ap_ConfigUUID = ai_ConfigUUID input,
               ap_DeleteCommands = [], ap_SetCommands = [], ap_Commit = True, ap_Save = False\<rparr>),
         (f', evs')))"

definition FakeApplyBackend_Apply :: "ApplyInput \<Rightarrow> backend_env \<Rightarrow> (go_error + ApplyResult) \<times> backend_env" where
  "FakeApplyBackend_Apply input = (\<lambda>(f, evs).
     let evs' = backend_event ''apply'' (f, evs);
         f' = f\<lparr>fb_applyCalls := fb_applyCalls f + 1, fb_applyInputs := fb_applyInputs f @ [input]\<rparr>
     in (case run_validate (fb_ValidateApply f) input of
           Some err \<Rightarrow> Inl err
         | None \<Rightarrow>
        (case fb_ApplyErr f of
           Some err \<Rightarrow> Inl err
         | None \<Rightarrow>
             if fb_UseResult f then Inr (cloneApplyResult (fb_Result f))
             else Inr \<lparr>ar_Target = ai_Target input, ar_ConfigUUID = ai_ConfigUUID input,
               ar_Applied = True, ar_DeleteCommands = [], ar_SetCommands = []\<rparr>),
         (f', evs')))"

definition LastPrepareInput :: "FakeApplyBackend \<Rightarrow> ApplyInput option" where
  "LastPrepareInput f = last_of (fb_prepareInputs f)"

definition LastApplyInput :: "FakeApplyBackend \<Rightarrow> ApplyInput option" where
  "LastApplyInput f = last_of (fb_applyInputs f)"

definition FakeApplyBackend_Reset :: "FakeApplyBackend \<Rightarrow> FakeApplyBackend" where
  "FakeApplyBackend_Reset f = f\<lparr>fb_prepareCalls := 0, fb_applyCalls := 0, fb_prepareInputs := [], fb_applyInputs := []\<rparr>"

section \<open>What the apply adapter does\<close>

text \<open>A backend that acts beside the log.\<close>

definition backend_beside_log ::
  "(ApplyInput \<Rightarrow> 'x \<Rightarrow> (go_error + ApplyResult) \<times> 'x) \<Rightarrow> (ApplyInput \<Rightarrow> 'x \<Rightarrow> (go_error + ApplyPlan) \<times> 'x) option
     \<Rightarrow> (log_entry list \<times> 'x) ApplyBackend" where
  "backend_beside_log ap prep = \<lparr>be_Apply = beside_log ap, be_Prepare = map_option beside_log prep\<rparr>"

definition applied_answer :: "go_error + ApplyResult \<Rightarrow> go_error option" where
  "applied_answer r = (case r of Inl err \<Rightarrow> Some (wrap ''vyos apply failed'' err) | Inr res \<Rightarrow> None)"

text \<open>The calls of one apply: the answer and the state of the backend.\<close>

definition backend_calls ::
  "(ApplyInput \<Rightarrow> 'x \<Rightarrow> (go_error + ApplyResult) \<times> 'x) \<Rightarrow> (ApplyInput \<Rightarrow> 'x \<Rightarrow> (go_error + ApplyPlan) \<times> 'x) option
     \<Rightarrow> ApplyInput \<Rightarrow> 'x \<Rightarrow> go_error option \<times> 'x" where
  "backend_calls ap prep input x =
     (case prep of
        None \<Rightarrow> (case ap input x of (r, y) \<Rightarrow> (applied_answer r, y))
      | Some p \<Rightarrow>
         (case p input x of
            (Inl err, y) \<Rightarrow> (Some (wrap ''prepare vyos apply plan'' err), y)
          | (Inr plan, y) \<Rightarrow> (case ap input y of (r, z) \<Rightarrow> (applied_answer r, z))))"

text \<open>The identifiers a prepared plan brings.\<close>

definition plan_ids :: "(ApplyInput \<Rightarrow> 'x \<Rightarrow> (go_error + ApplyPlan) \<times> 'x) option \<Rightarrow> ApplyInput \<Rightarrow> 'x \<Rightarrow> string set" where
  "plan_ids prep input x = (case prep of None \<Rightarrow> {} | Some p \<Rightarrow>
     (case fst (p input x) of Inl err \<Rightarrow> {} | Inr plan \<Rightarrow> {ap_Target plan, ap_ConfigUUID plan}))"

text \<open>The two records that hold commands, each behind its switch.\<close>

definition flagged_commands :: "ApplyDebug \<Rightarrow> log_entry \<Rightarrow> bool" where
  "flagged_commands dbg ent \<longleftrightarrow>
     (ad_LogRendered dbg \<and> ent = LogEntry LDebug ''vyos apply desired commands prepared'' (le_kv ent))
   \<or> (ad_LogApplyPlan dbg \<and> ent = LogEntry LDebug ''vyos apply plan command arrays prepared'' (le_kv ent))"

text \<open>
  \textbf{C36.} The apply adapter prepares a plan where the backend can, and applies only
  when that succeeded, both once and with the same input, made of the rendered output's
  target, UUID and text; it gives nil exactly when the backend applied. The records it logs
  hold identifiers, sizes and flags only; commands are logged at debug level in two records
  of their own, each when its switch is on.
\<close>

theorem vyos_apply_correct:
  assumes "aa_backend a = Some (backend_beside_log ap prep)" "aa_logger a = Some append_log"
    and "vyos_ApplyEngine (Some a) ctx out (ls, x) = (res, (ls', x'))"
    and "input = \<lparr>ai_Target = o_Target out, ai_ConfigUUID = o_UUID out, ai_DesiredCommands = o_Text out\<rparr>"
  shows "(res, x') = backend_calls ap prep input x
    \<and> (\<exists>new. ls' = ls @ new \<and> (\<forall>ent \<in> set new.
         discreet ({o_Target out, o_UUID out} \<union> plan_ids prep input x) ent \<or> flagged_commands (aa_debug a) ent))"
proof -
  note run = vyos_ApplyEngine_def apply_adapter_def apply_BuildInput_def run_return run_bind env_log_def
    beside_log_def backend_beside_log_def append_log_def backend_calls_def applied_answer_def
    discreet_def plan_ids_def flagged_commands_def Let_def
  show ?thesis
  proof (cases prep)
    case None
    obtain r y where "ap input x = (r, y)" by fastforce
    with None assms show ?thesis
      by (cases r) (auto simp: run split: if_splits)
  next
    case (Some p)
    obtain pr y where prepared: "p input x = (pr, y)" by fastforce
    obtain r z where applied: "ap input y = (r, z)" by fastforce
    show ?thesis
      using Some prepared applied assms
      by (cases pr; cases r) (auto simp: run split: if_splits)
  qed
qed

text \<open>The fake backend with a recorder, which prepares and then applies.\<close>

definition fake_backend :: FakeApplyBackend where
  "fake_backend = \<lparr>fb_Plan = \<lparr>ap_Target = [], ap_ConfigUUID = [], ap_DeleteCommands = [], ap_SetCommands = [],
       ap_Commit = False, ap_Save = False\<rparr>,
     fb_UsePlan = False, fb_Result = \<lparr>ar_Target = [], ar_ConfigUUID = [], ar_Applied = False,
       ar_DeleteCommands = [], ar_SetCommands = []\<rparr>,
     fb_UseResult = False, fb_PrepareErr = None, fb_ApplyErr = None, fb_ValidatePrepare = None,
     fb_ValidateApply = None, fb_MutateOnPrepare = False, fb_MutatePrepareInput = None, fb_Events = True,
     fb_prepareCalls = 0, fb_applyCalls = 0, fb_prepareInputs = [], fb_applyInputs = []\<rparr>"

definition fake_apply_adapter :: "(log_entry list \<times> backend_env) ApplyAdapter" where
  "fake_apply_adapter = \<lparr>aa_backend = Some (backend_beside_log FakeApplyBackend_Apply (Some FakeApplyBackend_Prepare)),
     aa_logger = Some append_log, aa_debug = \<lparr>ad_LogRendered = False, ad_LogApplyPlan = False\<rparr>\<rparr>"

theorem vyos_apply_correct_witness:
  "\<exists>ls' f'. vyos_ApplyEngine (Some fake_apply_adapter) None MinimalRenderedOutput ([], (fake_backend, []))
     = (None, (ls', (f', [''prepare'', ''apply''])))
   \<and> fb_prepareInputs f' = fb_applyInputs f' \<and> LastApplyInput f' \<noteq> None"
proof -
  obtain res ls' f' evs where run: "vyos_ApplyEngine (Some fake_apply_adapter) None MinimalRenderedOutput
      ([], (fake_backend, [])) = (res, (ls', (f', evs)))"
    by (metis surj_pair)
  have "(res, (f', evs)) = backend_calls FakeApplyBackend_Apply (Some FakeApplyBackend_Prepare)
      \<lparr>ai_Target = o_Target MinimalRenderedOutput, ai_ConfigUUID = o_UUID MinimalRenderedOutput,
        ai_DesiredCommands = o_Text MinimalRenderedOutput\<rparr> (fake_backend, [])"
    using vyos_apply_correct [OF _ _ run refl, of FakeApplyBackend_Apply "Some FakeApplyBackend_Prepare"]
    by (simp add: fake_apply_adapter_def)
  then have "res = None \<and> evs = [''prepare'', ''apply''] \<and> fb_prepareInputs f' = fb_applyInputs f'
      \<and> LastApplyInput f' \<noteq> None"
    by (simp add: backend_calls_def FakeApplyBackend_Apply_def FakeApplyBackend_Prepare_def backend_event_def
        run_validate_def fake_backend_def applied_answer_def EventRecorder_Record_def LastApplyInput_def last_of_def)
  with run show ?thesis by blast
qed

end
