(* ===== verification/Capture.thy ===== *)
theory Capture
  imports Doubles
begin

text \<open>
  The rest of \<open>internal/testutil\<close>: the methods that hand out what a double recorded, the
  text of a captured log record, the combined recorder and the larger fixtures.
\<close>

section \<open>What the doubles hand out\<close>

text \<open>Slices are handed out as copies; as values they are what was recorded.\<close>

definition EventRecorder_Events :: "EventRecorder \<Rightarrow> string list" where
  "EventRecorder_Events r = r"

definition StatusRecorder_Statuses :: "StatusRecorder \<Rightarrow> StatusEnvelope list" where
  "StatusRecorder_Statuses r = sr_statuses r"

definition ResultRecorder_Results :: "ResultRecorder \<Rightarrow> ResultEnvelope list" where
  "ResultRecorder_Results r = rr_results r"

definition FakeConfigureClient_LoadCalls :: "FakeConfigureClient \<Rightarrow> int" where
  "FakeConfigureClient_LoadCalls f = fc_loadCalls f"

definition FakeStateStore_LoadCalls :: "FakeStateStore \<Rightarrow> int" where
  "FakeStateStore_LoadCalls f = fs_loadCalls f"

definition FakeStateStore_SaveCalls :: "FakeStateStore \<Rightarrow> int" where
  "FakeStateStore_SaveCalls f = fs_saveCalls f"

definition SavedStates :: "FakeStateStore \<Rightarrow> State list" where
  "SavedStates f = fs_savedStates f"

definition CurrentState :: "FakeStateStore \<Rightarrow> State" where
  "CurrentState f = fs_Current f"

definition FakeRenderer_Calls :: "FakeRenderer \<Rightarrow> int" where
  "FakeRenderer_Calls f = fr_calls f"

definition cloneDesired :: "StoredDesiredConfig \<Rightarrow> StoredDesiredConfig" where
  "cloneDesired d = d\<lparr>sd_Record := (sd_Record d)\<lparr>dr_Payload := cloneRawMessage (dr_Payload (sd_Record d))\<rparr>\<rparr>"

definition FakeRenderer_Inputs :: "FakeRenderer \<Rightarrow> StoredDesiredConfig list" where
  "FakeRenderer_Inputs f = map cloneDesired (fr_inputs f)"

definition FakeApplyEngine_Calls :: "FakeApplyEngine \<Rightarrow> int" where
  "FakeApplyEngine_Calls f = fa_calls f"

definition FakeApplyEngine_Inputs :: "FakeApplyEngine \<Rightarrow> Output list" where
  "FakeApplyEngine_Inputs f = fa_inputs f"

definition PrepareCalls :: "FakeApplyBackend \<Rightarrow> int" where
  "PrepareCalls f = fb_prepareCalls f"

definition ApplyCalls :: "FakeApplyBackend \<Rightarrow> int" where
  "ApplyCalls f = fb_applyCalls f"

definition PrepareInputs :: "FakeApplyBackend \<Rightarrow> ApplyInput list" where
  "PrepareInputs f = fb_prepareInputs f"

definition ApplyInputs :: "FakeApplyBackend \<Rightarrow> ApplyInput list" where
  "ApplyInputs f = fb_applyInputs f"

text \<open>The counter and the inputs of the renderer double go together, and it hands out what it got.\<close>

lemma clone_clone: "cloneRawMessage (cloneRawMessage p) = cloneRawMessage p"
  by (simp add: cloneRawMessage_def split: option.split list.split)

lemma renderer_hands_out:
  assumes "FakeRenderer_Render ctx d e = (r, e')"
  shows "FakeRenderer_Calls (fe_renderer e') = FakeRenderer_Calls (fe_renderer e) + 1"
    and "FakeRenderer_Inputs (fe_renderer e') = FakeRenderer_Inputs (fe_renderer e) @ [cloneDesired d]"
  using assms
  by (auto simp: FakeRenderer_Render_def FakeRenderer_Calls_def FakeRenderer_Inputs_def cloneDesired_def
      cloneStoredDesiredConfig_def record_event_def clone_clone Let_def split: option.splits if_splits)

section \<open>The combined recorder\<close>

record StatusResultRecorder =
  srr_StatusRecorder :: StatusRecorder
  srr_ResultRecorder :: ResultRecorder

definition StatusResultRecorder_Reset :: "StatusResultRecorder \<Rightarrow> StatusResultRecorder" where
  "StatusResultRecorder_Reset r = r\<lparr>srr_StatusRecorder := StatusRecorder_Reset (srr_StatusRecorder r),
     srr_ResultRecorder := ResultRecorder_Reset (srr_ResultRecorder r)\<rparr>"

section \<open>The text of a log record\<close>

definition level_text :: "log_level \<Rightarrow> string" where
  "level_text l = (case l of LDebug \<Rightarrow> ''debug'' | LInfo \<Rightarrow> ''info'' | LWarn \<Rightarrow> ''warn'' | LError \<Rightarrow> ''error'')"

text \<open>
  \<open>fmt.Fprint\<close> of a value: a string as it is, a number in decimal, a list in brackets with
  blanks between, and an error by its \<open>Error\<close> method, which is a parameter here.
\<close>

fun spaced :: "string list \<Rightarrow> string" where
  "spaced [] = []"
| "spaced [x] = x"
| "spaced (x # y # xs) = x @ CHR '' '' # spaced (y # xs)"

definition Fprint :: "(go_error \<Rightarrow> string) \<Rightarrow> log_value \<Rightarrow> string" where
  "Fprint Error v = (case v of
     LStr s \<Rightarrow> s
   | LInt n \<Rightarrow> (if n < 0 then CHR ''-'' # itoa (nat (- n)) else itoa (nat n))
   | LBool b \<Rightarrow> (if b then ''true'' else ''false'')
   | LErr None \<Rightarrow> ''<nil>''
   | LErr (Some e) \<Rightarrow> Error e
   | LStrs xs \<Rightarrow> ''['' @ spaced xs @ '']'')"

text \<open>The keys and values of a record come one after the other.\<close>

fun pairs_text :: "(go_error \<Rightarrow> string) \<Rightarrow> (string \<times> log_value) list \<Rightarrow> string" where
  "pairs_text Error [] = []"
| "pairs_text Error ((k, v) # kv) = CHR '' '' # k @ CHR '' '' # Fprint Error v @ pairs_text Error kv"

definition LogEntry_String :: "(go_error \<Rightarrow> string) \<Rightarrow> log_entry \<Rightarrow> string" where
  "LogEntry_String Error entry = level_text (le_level entry) @ '' '' @ le_msg entry @ pairs_text Error (le_kv entry)"

definition LogCapture_Entries :: "LogCapture \<Rightarrow> log_entry list" where
  "LogCapture_Entries l = l"

fun LogCapture_Contains :: "(go_error \<Rightarrow> string) \<Rightarrow> string \<Rightarrow> LogCapture \<Rightarrow> bool" where
  "LogCapture_Contains Error text [] = False"
| "LogCapture_Contains Error text (entry # l) =
     (if Contains (LogEntry_String Error entry) text then True else LogCapture_Contains Error text l)"

definition DoesNotContain :: "(go_error \<Rightarrow> string) \<Rightarrow> string \<Rightarrow> LogCapture \<Rightarrow> bool" where
  "DoesNotContain Error text l \<longleftrightarrow> \<not> LogCapture_Contains Error text l"

lemma captured: "LogCapture_Contains Error t l \<longleftrightarrow> (\<exists>entry \<in> set l. Contains (LogEntry_String Error entry) t)"
  by (induction l) auto

text \<open>A record that is captured can be found by its message.\<close>

lemma Contains_self: "Contains (t @ s) t"
proof (cases "t @ s")
  case (Cons c cs)
  then have "take (length t) (c # cs) = t" by (metis append_eq_conv_conj)
  with Cons show ?thesis by simp
qed simp

lemma Contains_prefix: "Contains s t \<Longrightarrow> Contains (p @ s) t"
  by (induction p) auto

lemma captured_message: "LogCapture_Contains Error m (LogCapture_record lvl m kv l)"
  using Contains_prefix [OF Contains_self [of m "pairs_text Error kv"], of "level_text lvl @ '' ''"]
  by (auto simp: captured LogCapture_record_def LogEntry_String_def)

section \<open>More fixtures\<close>

text \<open>The lines of a raw string, each after a line feed and its tabs.\<close>

definition tabbed :: "(nat \<times> string) list \<Rightarrow> string" where
  "tabbed ls = concat (map (\<lambda>(n, s). LF @ replicate n (CHR 0x09) @ s) ls)"

definition MinimalRenderableDesiredConfig :: StoredDesiredConfig where
  \<open>MinimalRenderableDesiredConfig = fixture_DesiredConfig MinimalTarget MinimalUUID (Some (''{'' @ tabbed
     [(2, ''"schema_name": "olg-ucentral",''),
      (2, ''"schema_version": "4.2.0",''),
      (2, ''"config": {''),
      (3, ''"services": {''),
      (4, ''"ssh": {"port": 22}''),
      (3, ''},''),
      (3, ''"interfaces": [''),
      (4, ''{''),
      (5, ''"name": "OLG_APPLY_SMOKE_TEST_Upstream",''),
      (5, ''"role": "upstream",''),
      (5, ''"ethernet": [''),
      (6, ''{"select-ports": ["WAN*"]}''),
      (5, ''],''),
      (5, ''"ipv4": {''),
      (6, ''"addressing": "dynamic"''),
      (5, ''}''),
      (4, ''}''),
      (3, '']''),
      (2, ''}''),
      (1, ''}'')]))\<close>

definition MinimalDesiredConfig :: StoredDesiredConfig where
  "MinimalDesiredConfig = MinimalRenderableDesiredConfig"

text \<open>\<open>strings.TrimRight(s, ",")\<close>\<close>

definition trim_right_comma :: "string \<Rightarrow> string" where
  "trim_right_comma s = rev (dropWhile (\<lambda>c. c = CHR '','') (rev s))"

definition lan_item :: string where
  \<open>lan_item = ''{"name":"LAN","role":"downstream"}''\<close>

definition LargePayload :: "int \<Rightarrow> string option" where
  \<open>LargePayload repetitions = (let repetitions = (if repetitions < 1 then 1 else repetitions) in
     Some (''{"interfaces":['' @ trim_right_comma (concat (replicate (nat repetitions) (lan_item @ '',''))) @
       ''],"services":{}}''))\<close>

definition InvalidPayload :: "string option" where
  \<open>InvalidPayload = Some ''{"interfaces":''\<close>

text \<open>The large payload has an interface for each repetition, with commas between them.\<close>

fun comma_separated :: "nat \<Rightarrow> string \<Rightarrow> string" where
  "comma_separated 0 x = []"
| "comma_separated (Suc 0) x = x"
| "comma_separated (Suc n) x = x @ '','' @ comma_separated n x"

lemma repeated_commas: "concat (replicate (Suc n) (x @ '','')) = comma_separated (Suc n) x @ '',''"
  by (induction n) simp_all

lemma comma_separated_end: "\<exists>p. comma_separated (Suc n) x = p @ x"
  by (induction n) (auto intro: exI [of _ "[]"])


lemma large_payload_items:
  assumes "0 < n"
  shows \<open>LargePayload (int n) = Some (''{"interfaces":['' @ comma_separated n lan_item @ ''],"services":{}}'')\<close>
proof -
  obtain m where n: "n = Suc m" using assms by (cases n) auto
  obtain p where p: "comma_separated (Suc m) lan_item = p @ lan_item" using comma_separated_end by blast
  have "trim_right_comma (comma_separated (Suc m) lan_item @ '','') = comma_separated (Suc m) lan_item"
    unfolding p by (simp add: trim_right_comma_def lan_item_def)
  with n repeated_commas [of m lan_item] show ?thesis
    by (simp add: LargePayload_def nat_add_distrib del: comma_separated.simps replicate.simps concat.simps)
qed

end
