(* ===== verification/CrashReplay.thy ===== *)
theory CrashReplay
  imports OnDisk
begin

text \<open>
  What a crash may leave of the state file, followed through the calls of the configure
  service: the file store is interpreted as one more invariant of a run.
\<close>

section \<open>What a name may hold\<close>

text \<open>The texts a name may hold after a crash; \<open>None\<close> is no file.\<close>

definition possible :: "string \<Rightarrow> disk \<Rightarrow> string option set" where
  "possible p d = {c. after_crash d p c}"

lemma possible_some: "\<exists>c. c \<in> possible p d"
  by (cases "d_files d p") (auto simp: possible_def after_crash_def)

text \<open>When only one text is possible, it is the text of the file.\<close>

lemma possible_single:
  assumes "possible p d = {Some t}"
  shows "\<exists>f. d_files d p = Some f \<and> f_data f = t"
proof -
  have poss: "after_crash d p c \<longleftrightarrow> c = Some t" for c using assms by (auto simp: possible_def)
  show ?thesis
  proof (cases "d_files d p")
    case None
    then have "after_crash d p None" by (simp add: after_crash_def)
    then show ?thesis by (simp add: poss)
  next
    case (Some f)
    then have "after_crash d p (Some (f_data f))" by (auto simp: after_crash_def)
    with Some show ?thesis by (simp add: poss)
  qed
qed

text \<open>
  A machine that comes up again after a crash at disk \<open>d\<close>: every name has one of the
  contents it could have, and this is on the disk.
\<close>

definition rebooted :: "disk \<Rightarrow> disk \<Rightarrow> bool" where
  "rebooted d d' \<longleftrightarrow> d_durable d' = d_files d' \<and> (\<forall>p. \<exists>c. after_crash d p c \<and>
     (case c of None \<Rightarrow> d_files d' p = None
      | Some t \<Rightarrow> (\<exists>f. d_files d' p = Some f \<and> f_data f = t \<and> f_synced f)))"

lemma rebooted_possible: "rebooted d d' \<Longrightarrow> possible p d' \<subseteq> possible p d"
proof
  fix c' assume r: "rebooted d d'" and c': "c' \<in> possible p d'"
  then obtain c where c: "after_crash d p c" and
    f: "case c of None \<Rightarrow> d_files d' p = None | Some t \<Rightarrow> (\<exists>f. d_files d' p = Some f \<and> f_data f = t \<and> f_synced f)"
    unfolding rebooted_def by blast
  have "c' = c" using r c' f by (auto simp: rebooted_def possible_def after_crash_def split: option.splits)
  with c show "c' \<in> possible p d" by (simp add: possible_def)
qed

section \<open>The file along the calls of a run\<close>

text \<open>
  A save that returned nil leaves the new text only; one that failed leaves old or new;
  other calls leave the possible texts as they are.
\<close>

definition crash_step :: "event \<Rightarrow> string option set \<Rightarrow> string option set \<Rightarrow> bool" where
  "crash_step ev Y Z = (case ev of
     EvSaveState st None \<Rightarrow> (\<exists>t. marshal_State st = Some t \<and> Z = {Some t})
   | EvSaveState st (Some err) \<Rightarrow> Z \<subseteq> Y \<union> {c. c \<noteq> None \<and> c = marshal_State st}
   | _ \<Rightarrow> Z = Y)"

inductive crash_replay :: "string option set \<Rightarrow> event list \<Rightarrow> string option set \<Rightarrow> bool" for X where
  crash_nil: "crash_replay X [] X"
| crash_snoc: "crash_replay X evs Y \<Longrightarrow> crash_step ev Y Z \<Longrightarrow> crash_replay X (evs @ [ev]) Z"

definition saved_text :: "event \<Rightarrow> string option set" where
  "saved_text ev = (case ev of
     EvSaveState st r \<Rightarrow> (case marshal_State st of None \<Rightarrow> {} | Some t \<Rightarrow> {Some t}) | _ \<Rightarrow> {})"

definition saved_texts :: "event list \<Rightarrow> string option set" where
  "saved_texts evs = (\<Union>ev \<in> set evs. saved_text ev)"

lemma saved_texts_simps [simp]:
  "saved_texts [] = {}" "saved_texts (ev # evs) = saved_text ev \<union> saved_texts evs"
  "saved_texts (xs @ ys) = saved_texts xs \<union> saved_texts ys"
  by (auto simp: saved_texts_def)

lemma saved_texts_no_save: "filter is_save evs = [] \<Longrightarrow> saved_texts evs = {}"
  by (auto simp: saved_texts_def saved_text_def is_save_def filter_empty_conv split: event.splits)

lemma crash_step_bound: "crash_step ev Y Z \<Longrightarrow> Z \<subseteq> Y \<union> saved_texts [ev]"
  by (cases ev) (auto simp: crash_step_def saved_text_def split: option.splits)

lemma crash_replay_bound: "crash_replay X evs Y \<Longrightarrow> Y \<subseteq> X \<union> saved_texts evs"
proof (induction rule: crash_replay.induct)
  case (crash_snoc evs Y ev Z)
  with crash_step_bound [OF crash_snoc.hyps(2)] show ?case by auto
qed simp

lemma crash_replay_no_save: "crash_replay X evs Y \<Longrightarrow> filter is_save evs = [] \<Longrightarrow> Y = X"
proof (induction rule: crash_replay.induct)
  case (crash_snoc evs Y ev Z)
  then show ?case by (cases ev) (auto simp: crash_step_def is_save_def)
qed simp

lemma crash_replay_saved:
  "crash_replay X evs Y \<Longrightarrow> evs = pre @ EvSaveState st None # post \<Longrightarrow> filter is_save post = []
     \<Longrightarrow> \<exists>t. marshal_State st = Some t \<and> Y = {Some t}"
proof (induction arbitrary: post rule: crash_replay.induct)
  case (crash_snoc evs Y ev Z)
  from crash_snoc.prems(1) consider "post = []" "ev = EvSaveState st None"
    | post' where "post = post' @ [ev]" "evs = pre @ EvSaveState st None # post'"
    unfolding append_Cons_eq_append by blast
  then show ?case
  proof cases
    case 1
    with crash_snoc.hyps(2) show ?thesis by (simp add: crash_step_def)
  next
    case 2
    with crash_snoc.prems(2) crash_snoc.IH have "\<exists>t. marshal_State st = Some t \<and> Y = {Some t}" "\<not> is_save ev"
      by (auto split: if_splits)
    with crash_snoc.hyps(2) show ?thesis by (cases ev) (auto simp: crash_step_def is_save_def)
  qed
qed simp

section \<open>The file store keeps it\<close>

text \<open>A load makes calls but changes nothing, so the disks it passes are the one it found.\<close>

lemma load_past:
  "wp (FileStore_Load p ctx)
     (\<lambda>r e'. os_disk e' = os_disk e \<and> (\<exists>ds. os_past e' = os_past e @ ds \<and> set ds \<subseteq> {os_disk e})) e"
proof -
  have read: "wp (os_ReadFile q)
      (\<lambda>r e'. os_disk e' = os_disk e \<and> (\<exists>ds. os_past e' = os_past e @ ds \<and> set ds \<subseteq> {os_disk e})) e" for q e
    by (simp add: os_ReadFile_def wp_simps os_call_def Let_def commit_def id_def split: option.split)
  show ?thesis
    unfolding FileStore_Load_def
    by (intro trace_case_option trace_case_sum trace_if trace_return trace_bind ctx_rule wp_mono [OF read]) auto
qed

text \<open>The disk is the last one the system calls made.\<close>

definition tracks :: "os \<Rightarrow> os \<Rightarrow> bool" where
  "tracks e0 e \<longleftrightarrow> (\<exists>ds. os_past e = os_past e0 @ ds \<and> os_disk e = last (os_disk e0 # ds))"

lemma tracks_refl: "tracks e e"
  by (simp add: tracks_def)

lemma tracks_snoc: "tracks e0 e \<Longrightarrow> os_past e' = os_past e @ [d] \<Longrightarrow> os_disk e' = d \<Longrightarrow> tracks e0 e'"
  unfolding tracks_def by (elim exE conjE) (rule exI, rule conjI, simp, simp)

lemma tracks_call: "keeps (tracks e0) (os_call op q ok bad)"
  unfolding keeps_def os_call_def wp_State Let_def
proof (intro allI impI)
  fix e assume t: "tracks e0 e"
  have snoc: "tracks e0 (e\<lparr>os_faults := fs, os_disk := d, os_past := os_past e @ [d]\<rparr>)" for fs d
    by (rule tracks_snoc [OF t]) simp_all
  show "case (case next_fault e of
         None \<Rightarrow> (None, commit (ok (os_disk e)) (e\<lparr>os_faults := tl (os_faults e)\<rparr>))
       | Some (errno, n) \<Rightarrow> (Some (os_error op q errno), commit (bad n (os_disk e)) (e\<lparr>os_faults := tl (os_faults e)\<rparr>)))
     of (a, e') \<Rightarrow> tracks e0 e'"
    by (cases "next_fault e") (simp_all add: snoc commit_def split_beta)
qed

lemma tracks_calls:
  "keeps (tracks e0) (os_MkdirAll q)" "keeps (tracks e0) (os_Write q x)" "keeps (tracks e0) (os_Sync q)"
  "keeps (tracks e0) (os_Chmod q m)" "keeps (tracks e0) (os_Close q)" "keeps (tracks e0) (os_Rename q q')"
  "keeps (tracks e0) (os_Open q)" "keeps (tracks e0) (os_SyncDir q)" "keeps (tracks e0) (os_Remove q)"
  by (simp_all add: os_MkdirAll_def os_Write_def os_Sync_def os_Chmod_def os_Close_def os_Rename_def
      os_Open_def os_SyncDir_def os_Remove_def tracks_call)

lemma tracks_ctx: "keeps (tracks e0) (ctx_Err c)"
  by (simp add: keeps_def ctx_Err_def wp_State)

lemma tracks_create: "keeps (tracks e0) (os_CreateTemp dir pre suf)"
  unfolding keeps_def
proof (intro allI impI)
  fix e assume t: "tracks e0 e"
  show "wp (os_CreateTemp dir pre suf) (\<lambda>_. tracks e0) e"
  proof (cases "draw_name 10000 (joinPath dir pre) suf (d_files (os_disk e)) (os_temp e)")
    case None
    with t show ?thesis by (simp add: os_CreateTemp_def wp_State)
  next
    case (Some x)
    obtain name rs where x: "x = (name, rs)" by (cases x)
    have "tracks e0 (e\<lparr>os_temp := rs\<rparr>)" using t by (simp add: tracks_def)
    then have "wp (os_call ''open'' name (set_file name (Some \<lparr>f_data = [], f_synced = False, f_mode = owner_rw\<rparr>)) unchanged)
        (\<lambda>_. tracks e0) (e\<lparr>os_temp := rs\<rparr>)"
      by (rule keeps_wp [OF tracks_call])
    with Some x show ?thesis
      by (auto simp: os_CreateTemp_def wp_def split: prod.splits option.splits)
  qed
qed

lemma save_tracks: "keeps (tracks e0) (FileStore_Save p ctx st)"
  unfolding FileStore_Save_def close_and_cleanup_def cleanup_def Let_def
  by (intro keeps_rules tracks_calls tracks_ctx tracks_create)

text \<open>What a save does to the possible texts, at its end and on the way.\<close>

lemma crash_safe_possible:
  "crash_safe p st d0 d \<longleftrightarrow> possible p d \<subseteq> possible p d0 \<union> {c. c \<noteq> None \<and> c = marshal_State st}"
  by (auto simp: crash_safe_def possible_def)

lemma save_possible:
  assumes "\<not> temp_name p" "run_state (FileStore_Save p ctx st) e = (r, e')"
  shows "\<exists>ds. os_past e' = os_past e @ ds
    \<and> crash_step (EvSaveState st r) (possible p (os_disk e)) (possible p (os_disk e'))
    \<and> (\<forall>d \<in> set ds. possible p d \<subseteq> possible p (os_disk e) \<union> saved_text (EvSaveState st r))"
proof -
  have post: "save_post p st e r e'" by (rule wp_run [OF save_rule [OF assms(1)] assms(2)])
  then obtain ds where ds: "os_past e' = os_past e @ ds" "list_all (crash_safe p st (os_disk e)) ds"
    by (auto simp: save_post_def reached_def)
  have "tracks e e'" by (rule wp_run [OF keeps_wp [OF save_tracks tracks_refl] assms(2)])
  with ds(1) have "os_disk e' = last (os_disk e # ds)" by (auto simp: tracks_def)
  then have "crash_safe p st (os_disk e) (os_disk e')"
    using ds(2) crash_safe_refl by (cases ds rule: rev_cases) (auto simp: list_all_iff)
  moreover have "\<exists>t. marshal_State st = Some t \<and> possible p (os_disk e') = {Some t}" if "r = None"
    using post that by (auto simp: save_post_def Let_def possible_def after_crash_def saved_file_def)
  ultimately have "crash_step (EvSaveState st r) (possible p (os_disk e)) (possible p (os_disk e'))"
    by (cases r) (simp_all add: crash_step_def crash_safe_possible)
  moreover have "saved_text (EvSaveState st r) = {c. c \<noteq> None \<and> c = marshal_State st}"
    by (auto simp: saved_text_def split: option.splits)
  ultimately show ?thesis
    using ds by (auto simp: list_all_iff crash_safe_possible)
qed

section \<open>The configure service on such a disk\<close>

abbreviation disk_of :: "(os \<times> 'x) world \<Rightarrow> disk" where
  "disk_of w \<equiv> os_disk (fst (env w))"

definition crash_tracked :: "string \<Rightarrow> (os \<times> 'x) world \<Rightarrow> (os \<times> 'x) world \<Rightarrow> bool" where
  "crash_tracked p w0 w \<longleftrightarrow> (\<exists>evs ds. trace w = trace w0 @ evs
     \<and> os_past (fst (env w)) = os_past (fst (env w0)) @ ds
     \<and> crash_replay (possible p (disk_of w0)) evs (possible p (disk_of w))
     \<and> (\<forall>d \<in> set ds. possible p d \<subseteq> possible p (disk_of w0) \<union> saved_texts evs))"

lemma crash_tracked_refl: "crash_tracked p w w"
  by (auto simp: crash_tracked_def intro: crash_nil)

lemma crash_tracked_call:
  assumes "\<And>e r e'. m e = (r, e') \<Longrightarrow> \<exists>ds. os_past (fst e') = os_past (fst e) @ ds
      \<and> crash_step (ev r) (possible p (os_disk (fst e))) (possible p (os_disk (fst e')))
      \<and> (\<forall>d \<in> set ds. possible p d \<subseteq> possible p (os_disk (fst e)) \<union> saved_text (ev r))"
  shows "keeps (crash_tracked p w0) (call m ev)"
  unfolding keeps_def
proof (intro allI impI)
  fix w assume "crash_tracked p w0 w"
  then obtain evs ds where w: "trace w = trace w0 @ evs" "os_past (fst (env w)) = os_past (fst (env w0)) @ ds"
    and rep: "crash_replay (possible p (disk_of w0)) evs (possible p (disk_of w))"
    and ds: "\<forall>d \<in> set ds. possible p d \<subseteq> possible p (disk_of w0) \<union> saved_texts evs"
    by (auto simp: crash_tracked_def)
  obtain r e' where run: "m (env w) = (r, e')" by (cases "m (env w)")
  from assms [OF run] obtain ds' where ds': "os_past (fst e') = os_past (fst (env w)) @ ds'"
      "crash_step (ev r) (possible p (disk_of w)) (possible p (os_disk (fst e')))"
      "\<forall>d \<in> set ds'. possible p d \<subseteq> possible p (disk_of w) \<union> saved_text (ev r)" by blast
  from crash_snoc [OF rep ds'(2)] have "crash_replay (possible p (disk_of w0)) (evs @ [ev r]) (possible p (os_disk (fst e')))" .
  moreover have "\<forall>d \<in> set (ds @ ds'). possible p d \<subseteq> possible p (disk_of w0) \<union> saved_texts (evs @ [ev r])"
    using ds ds'(3) crash_replay_bound [OF rep] by auto
  ultimately have "crash_tracked p w0 (w\<lparr>trace := trace w @ [ev r], env := e'\<rparr>)"
    unfolding crash_tracked_def using w ds'(1) by (intro exI [of _ "evs @ [ev r]"] exI [of _ "ds @ ds'"]) simp
  with run show "wp (call m ev) (\<lambda>_. crash_tracked p w0) w" by (simp add: wp_call)
qed

lemma crash_tracked_rest:
  assumes "\<And>e r e'. m e = (r, e') \<Longrightarrow> fst e' = fst e" "\<And>r st r'. ev r \<noteq> EvSaveState st r'"
  shows "keeps (crash_tracked p w0) (call m ev)"
proof (rule crash_tracked_call)
  fix e r e' assume "m e = (r, e')"
  then have "fst e' = fst e" by (rule assms(1))
  moreover have "crash_step (ev r) Y Y" for Y using assms(2) by (auto simp: crash_step_def split: event.split)
  ultimately show "\<exists>ds. os_past (fst e') = os_past (fst e) @ ds
      \<and> crash_step (ev r) (possible p (os_disk (fst e))) (possible p (os_disk (fst e')))
      \<and> (\<forall>d \<in> set ds. possible p d \<subseteq> possible p (os_disk (fst e)) \<union> saved_text (ev r))" by simp
qed

sublocale state_path \<subseteq> crashing: service_invariant "disk_service path cl rend eng now lg dbg" "\<lambda>_. True"
    "crash_tracked path w0" for cl rend eng now lg dbg w0
proof unfold_locales
  let ?s = "disk_service path cl rend eng now lg dbg"
  show "keeps (crash_tracked path w0) (log_at (cs_logger ?s) lvl m kv)" for lvl m kv
    by (simp add: keeps_def wp_log_at crash_tracked_def)
  show "keeps (crash_tracked path w0) (peek (cs_now ?s))"
    by (auto simp: keeps_def wp_peek crash_tracked_def disk_service_def clock_rest_def split: prod.split)
  show "keeps (crash_tracked path w0) (call (store_Load (cs_stateStore ?s) c) EvLoadState)" for c
  proof (rule crash_tracked_call)
    fix e r e' assume "store_Load (cs_stateStore ?s) c e = (r, e')"
    then have "run_state (FileStore_Load path (ctx_os (snd e) c)) (fst e) = (r, fst e')"
      by (auto simp: disk_service_def disk_store_def FileStore_def split: prod.splits)
    from wp_run [OF load_past this] show "\<exists>ds. os_past (fst e') = os_past (fst e) @ ds
        \<and> crash_step (EvLoadState r) (possible path (os_disk (fst e))) (possible path (os_disk (fst e')))
        \<and> (\<forall>d \<in> set ds. possible path d \<subseteq> possible path (os_disk (fst e)) \<union> saved_text (EvLoadState r))"
      by (auto simp: crash_step_def)
  qed
  show "keeps (crash_tracked path w0) (call (store_Save (cs_stateStore ?s) c st) (EvSaveState st))" for c st
  proof (rule crash_tracked_call)
    fix e r e' assume "store_Save (cs_stateStore ?s) c st e = (r, e')"
    then have "run_state (FileStore_Save path (ctx_os (snd e) c) st) (fst e) = (r, fst e')"
      by (auto simp: disk_service_def disk_store_def FileStore_def split: prod.splits)
    from save_possible [OF no_temp_name this] show "\<exists>ds. os_past (fst e') = os_past (fst e) @ ds
        \<and> crash_step (EvSaveState st r) (possible path (os_disk (fst e))) (possible path (os_disk (fst e')))
        \<and> (\<forall>d \<in> set ds. possible path d \<subseteq> possible path (os_disk (fst e)) \<union> saved_text (EvSaveState st r))" .
  qed
qed (auto intro!: crash_tracked_rest simp: disk_service_def client_rest_def dest: on_rest_fst)

end
