(* ===== verification/Progress.thy ===== *)
theory Progress
  imports OnDisk
begin

text \<open>
  What a notification or a reconcile achieves when nothing stands in its way. The other theories say what
  holds whatever fails; here the collaborators answer and the machine works, and the
  handler returns nil with the configuration applied and recorded.
\<close>

section \<open>A run in which every collaborator answers\<close>

text \<open>
  \<open>ready\<close> holds of an environment whose store can be read and written, and the other
  collaborators keep it; \<open>good\<close> of the outputs the renderer answers, which can be applied.
\<close>

locale answering =
  fixes s :: "'e ConfigureService" and c :: "'e ctx" and msg :: ConfigureNotification
    and d :: StoredDesiredConfig and ready :: "'e \<Rightarrow> bool" and good :: "Output \<Rightarrow> bool"
  assumes ids: "TrimSpace (cn_Target msg) \<noteq> []" "TrimSpace (cn_UUID msg) \<noteq> []"
    and named: "dr_Target (sd_Record d) = cn_Target msg" "dr_UUID (sd_Record d) = cn_UUID msg"
    and now_ready: "cs_now s e = (t, e') \<Longrightarrow> ready e \<Longrightarrow> ready e'"
    and status_ok: "PublishStatus (cs_client s) (Some c) se e = (r, e') \<Longrightarrow> r = None \<and> (ready e \<longrightarrow> ready e')"
    and result_ok: "PublishResult (cs_client s) (Some c) re e = (r, e') \<Longrightarrow> r = None \<and> (ready e \<longrightarrow> ready e')"
    and desired_ok: "ready e \<Longrightarrow> LoadDesiredConfig (cs_client s) (Some c) (cn_Target msg) e = (l, e')
        \<Longrightarrow> l = Inr (Some d) \<and> ready e'"
    and render_ok: "ready e \<Longrightarrow> cs_renderer s (Some c) d e = (o1, e') \<Longrightarrow> (\<exists>out. o1 = Inr out \<and> good out) \<and> ready e'"
    and apply_ok: "ready e \<Longrightarrow> good out \<Longrightarrow> cs_applyEngine s (Some c) out e = (r, e') \<Longrightarrow> r = None \<and> ready e'"
    and load_ok: "ready e \<Longrightarrow> store_Load (cs_stateStore s) (Some c) e = (l', e') \<Longrightarrow> (\<exists>st. l' = Inr st) \<and> ready e'"
    and save_ok: "ready e \<Longrightarrow> cs_now s e = (t, e') \<Longrightarrow> fst (store_Save (cs_stateStore s) (Some c)
        \<lparr>st_Target = cn_Target msg, st_AppliedUUID = cn_UUID msg, st_AppliedAt = UTC t\<rparr> e') = None"
begin

text \<open>One rule per step: the step answers, and the world it leaves is ready when it was.\<close>

lemma info_step: "(\<And>w'. env w' = env w \<Longrightarrow> trace w' = trace w \<Longrightarrow> Q () w') \<Longrightarrow> wp (cfg_logInfo s m kv) Q w"
  by (simp add: cfg_logInfo_def wp_log_at)

text \<open>The records that are written only under a condition.\<close>

lemma debug_step:
  "(\<And>w'. env w' = env w \<Longrightarrow> Q () w')
     \<Longrightarrow> wp (if b then cfg_logDebug s m kv else State_Monad.return ()) Q w"
  by (simp add: cfg_logDebug_def wp_log_at wp_return)

lemma info_if_step:
  "(\<And>w'. env w' = env w \<Longrightarrow> Q () w')
     \<Longrightarrow> wp (if b then cfg_logInfo s m kv else State_Monad.return ()) Q w"
  by (simp add: cfg_logInfo_def wp_log_at wp_return)

lemma if_step: "(b \<Longrightarrow> wp m Q w) \<Longrightarrow> (\<not> b \<Longrightarrow> wp m' Q w) \<Longrightarrow> wp (if b then m else m') Q w"
  by simp

lemma call_step: "(\<And>r e'. m (env w) = (r, e') \<Longrightarrow> Q r (w\<lparr>trace := trace w @ [ev r], env := e'\<rparr>)) \<Longrightarrow> wp (call m ev) Q w"
  by (simp add: wp_call split: prod.split)

lemma peek_step: "(\<And>r e'. m (env w) = (r, e') \<Longrightarrow> Q r (w\<lparr>env := e'\<rparr>)) \<Longrightarrow> wp (peek m) Q w"
  by (simp add: wp_peek split: prod.split)

lemma now_step:
  assumes "ready (env w)" "\<And>t w'. ready (env w') \<Longrightarrow> trace w' = trace w \<Longrightarrow> Q t w'"
  shows "wp (peek (cs_now s)) Q w"
  by (rule peek_step) (rule assms(2), simp_all add: now_ready [OF _ assms(1)])

lemma status_step:
  assumes "\<And>w'. (ready (env w) \<Longrightarrow> ready (env w')) \<Longrightarrow> Q None w'"
  shows "wp (cfg_publishStatus s (Some c) msg a b m) Q w"
  unfolding cfg_publishStatus_def wp_bind Let_def
proof (intro peek_step call_step)
  fix t e1 r e2 ev
  assume now: "cs_now s (env w) = (t, e1)"
    and pub: "PublishStatus (cs_client s) (Some c) (status_envelope msg a b m t) (env (w\<lparr>env := e1\<rparr>)) = (r, e2)"
  from status_ok [OF pub] now_ready [OF now] assms
  show "Q r (w\<lparr>env := e1\<rparr>\<lparr>trace := trace (w\<lparr>env := e1\<rparr>) @ [ev r], env := e2\<rparr>)" by simp
qed

lemma result_step:
  assumes "\<And>w'. Q None w'"
  shows "wp (cfg_publishSuccessResult s (Some c) msg m) Q w"
  unfolding cfg_publishSuccessResult_def wp_bind Let_def
  by (intro peek_step call_step) (auto dest: result_ok intro: assms)

lemma desired_step:
  assumes "ready (env w)" "\<And>w'. ready (env w') \<Longrightarrow> Q (Inr (Some d)) w'"
  shows "wp (call (LoadDesiredConfig (cs_client s) (Some c) (cn_Target msg)) ev) Q w"
  by (rule call_step) (use desired_ok [OF assms(1)] assms(2) in force)

lemma load_step:
  assumes "ready (env w)" "\<And>st w'. ready (env w') \<Longrightarrow> Q (Inr st) w'"
  shows "wp (call (store_Load (cs_stateStore s) (Some c)) ev) Q w"
  by (rule call_step) (use load_ok [OF assms(1)] assms(2) in force)

lemma render_step:
  assumes "ready (env w)" "\<And>out w'. ready (env w') \<Longrightarrow> good out \<Longrightarrow> Q (Inr out) w'"
  shows "wp (call (cs_renderer s (Some c) d) ev) Q w"
  by (rule call_step) (use render_ok [OF assms(1)] assms(2) in force)

lemma apply_step:
  assumes "ready (env w)" "good out" "\<And>w'. ready (env w') \<Longrightarrow> Q None w'"
  shows "wp (call (cs_applyEngine s (Some c) out) ev) Q w"
  by (rule call_step) (use apply_ok [OF assms(1,2)] assms(3) in force)

text \<open>The time is read and the state saved with it.\<close>

lemma save_step:
  assumes "ready (env w)" "\<And>w'. Q None w'"
  shows "wp (peek (cs_now s)) (\<lambda>t. wp (call (store_Save (cs_stateStore s) (Some c)
      \<lparr>st_Target = cn_Target msg, st_AppliedUUID = cn_UUID msg, st_AppliedAt = UTC t\<rparr>) (ev t)) Q) w"
proof (intro peek_step call_step)
  fix t e1 r e2
  assume now: "cs_now s (env w) = (t, e1)" and save: "store_Save (cs_stateStore s) (Some c)
      \<lparr>st_Target = cn_Target msg, st_AppliedUUID = cn_UUID msg, st_AppliedAt = UTC t\<rparr> (env (w\<lparr>env := e1\<rparr>)) = (r, e2)"
  from save_ok [OF assms(1) now] save have "r = None" by simp
  with assms(2) show "Q r (w\<lparr>env := e1\<rparr>\<lparr>trace := trace (w\<lparr>env := e1\<rparr>) @ [ev t r], env := e2\<rparr>)" by simp
qed

lemmas run_steps = info_step debug_step info_if_step status_step render_step apply_step save_step
  result_step desired_step load_step
lemmas answers_simps = option.case sum.case wp_return wp_return_eta wp_bind_eta publishSuccessStatusErr_def
  publishSuccessResultErr_def option.map simp_thms if_True if_False

lemma process_answers:
  assumes "ready (env w)"
  shows "wp (cfg_processDesiredConfigLocked s (Some c) msg d) (\<lambda>r _. r = None) w"
  unfolding cfg_processDesiredConfigLocked_def wp_bind_eta Let_def named
  by (rule run_steps | simp only: answers_simps | (simp add: assms; fail))+

text \<open>The handler under the mutex, and the handler.\<close>

lemma locked_answers:
  assumes "ready (env w)"
  shows "wp (cfg_handleLocked s (Some c) msg) (\<lambda>r _. r = None) w"
  unfolding cfg_handleLocked_def wp_bind_eta Let_def
  by (rule run_steps wp_mono [OF process_answers] | simp only: answers_simps ids named
      | (simp add: assms; fail) | rule if_step)+

lemma handle_answers:
  assumes "ready (env w)"
  shows "wp (configure_Handle s (Some c) msg) (\<lambda>r _. r = None) w"
  unfolding configure_Handle_def option.case wp_bind_eta
  by (rule now_step [OF assms]) (simp add: wp_mono [OF locked_answers] wp_peek wp_return cfg_logInfo_def wp_log_at split: prod.split)

text \<open>A reconcile of the notification's target loads the state and the record, in this order.\<close>

lemma drift_answers:
  assumes "ready (env w)"
  shows "wp (do {
       cfg_logInfo s m kv;
       started \<leftarrow> peek (cs_now s);
       res \<leftarrow> cfg_processDesiredConfigLocked s (Some c) msg d;
       ended \<leftarrow> peek (cs_now s);
       cfg_logInfo s m' (kv' started ended);
       State_Monad.return res
     }) (\<lambda>r w'. r = None \<and> (\<exists>evs. trace w' = trace w @ evs)) w"
  unfolding wp_bind_eta wp_return_eta
proof (rule info_step, rule now_step, simp add: assms)
  fix w1 t and w2 :: "'e world"
  assume w1: "env w1 = env w" "trace w1 = trace w" and w2: "ready (env w2)" "trace w2 = trace w1"
  show "wp (cfg_processDesiredConfigLocked s (Some c) msg d)
      (\<lambda>res. wp (peek (cs_now s)) (\<lambda>ended. wp (cfg_logInfo s m' (kv' t ended))
         (\<lambda>_ w'. res = None \<and> (\<exists>evs. trace w' = trace w @ evs)))) w2"
    by (rule wp_mono [OF wp_conj [OF process_answers [OF w2(1)] process_follows]])
      (auto simp: follows_def w1 w2 intro!: peek_step info_step)
qed

lemma load_trace:
  assumes "ready (env w)"
    and "\<And>st w'. ready (env w') \<Longrightarrow> trace w' = trace w @ [ev (Inr st)] \<Longrightarrow> Q (Inr st) w'"
  shows "wp (call (store_Load (cs_stateStore s) (Some c)) ev) Q w"
  by (rule call_step) (use load_ok [OF assms(1)] assms(2) in force)

lemma desired_trace:
  assumes "ready (env w)"
    and "\<And>w'. ready (env w') \<Longrightarrow> trace w' = trace w @ [ev (Inr (Some d))] \<Longrightarrow> Q (Inr (Some d)) w'"
  shows "wp (call (LoadDesiredConfig (cs_client s) (Some c) (cn_Target msg)) ev) Q w"
  by (rule call_step) (use desired_ok [OF assms(1)] assms(2) in force)

lemma reconcile_answers:
  assumes "ready (env w)" "reconcile_msg d = msg"
  shows "wp (configure_Reconcile s (Some c) (cn_Target msg)) (\<lambda>r w'. r = None \<and> (\<exists>st evs. trace w' =
     trace w @ EvLoadState (Inr st) # EvLoadDesired (cn_Target msg) (Inr (Some d)) # evs)) w"
  unfolding configure_Reconcile_def option.case
proof (rule trace_bind, rule load_trace [OF assms(1)], unfold sum.case, rule trace_bind, rule desired_trace,
    assumption, unfold sum.case option.case Let_def assms(2), rule if_step)
  fix st and w1 w2 :: "'e world"
  assume w: "trace w1 = trace w @ [EvLoadState (Inr st)]" "ready (env w2)"
    "trace w2 = trace w1 @ [EvLoadDesired (cn_Target msg) (Inr (Some d))]"
  show "wp (do {
      cfg_logInfo s ''reconcile: already in sync''
        [(''target'', LStr (cn_Target msg)), (''uuid'', LStr (dr_UUID (sd_Record d)))];
      State_Monad.return None
    }) (\<lambda>r w'. r = None \<and> (\<exists>st evs. trace w' =
       trace w @ EvLoadState (Inr st) # EvLoadDesired (cn_Target msg) (Inr (Some d)) # evs)) w2"
    by (rule trace_bind, rule info_step) (simp add: wp_return w)
qed (rule wp_mono [OF drift_answers], assumption, auto)
end

section \<open>A run that returns nil\<close>

text \<open>The phases of a run that is going to report a failure.\<close>

definition doomed :: "cphase \<Rightarrow> bool" where
  "doomed ph \<longleftrightarrow> (\<exists>code. ph = Failing code \<or> ph = FailTold code \<or> ph = Failed code)"

lemma doomed_stays: "crun msg ph0 evs = Some ph \<Longrightarrow> doomed ph0 \<Longrightarrow> doomed ph"
proof (induction evs arbitrary: ph0)
  case (Cons ev evs)
  from Cons.prems obtain ph1 where step: "cstep msg ph0 ev = Some ph1" "crun msg ph1 evs = Some ph"
    by (auto split: option.splits)
  from step(1) Cons.prems(2) have "doomed ph1"
    by (auto simp: doomed_def cstep_simps split: event.splits if_splits)
  with step(2) show ?case by (rule Cons.IH)
qed simp

lemma nil_save_succeeds:
  assumes "crun msg ph0 evs = Some ph" "outcome ph None" "EvSaveState st x \<in> set evs"
  shows "x = None"
proof (rule ccontr)
  assume "x \<noteq> None"
  from assms(3) obtain pre post where "evs = pre @ EvSaveState st x # post" by (meson split_list)
  with assms(1) obtain ph1 ph2 where "cstep msg ph1 (EvSaveState st x) = Some ph2"
    "crun msg ph2 post = Some ph" by (metis crun_split)
  moreover from this(1) \<open>x \<noteq> None\<close> have "doomed ph2" using cstep_save by (fastforce simp: doomed_def)
  ultimately have "doomed ph" by (rule_tac doomed_stays)
  with assms(2) show False by (auto simp: doomed_def outcome_def)
qed

text \<open>A store whose content changed was saved to.\<close>

lemma replay_changed:
  "replay S x evs y \<Longrightarrow> y \<noteq> x \<Longrightarrow> \<exists>st r. EvSaveState st r \<in> set evs"
proof (induction rule: replay.induct)
  case (replay_snoc evs y ev z)
  then show ?case by (cases ev) (auto simp: store_step_def)
qed simp

text \<open>What a run that returns nil leaves, from its calls and the store.\<close>

definition achieved ::
  "ConfigureNotification \<Rightarrow> State option \<Rightarrow> event list \<Rightarrow> State option \<Rightarrow> bool" where
  "achieved msg x evs y \<longleftrightarrow> (\<exists>st. y = Some st \<and> st_AppliedUUID st = cn_UUID msg)
     \<and> (y = x \<or> applied_in evs (cn_Target msg) (cn_UUID msg)
          \<and> (\<exists>st. EvSaveState st None \<in> set evs \<and> st_Target st = cn_Target msg \<and> st_AppliedUUID st = cn_UUID msg))"

lemma applied_in_mono: "applied_in evs t u \<Longrightarrow> set evs \<subseteq> set evs' \<Longrightarrow> applied_in evs' t u"
  unfolding applied_in_def by blast

lemma achieved_mono: "achieved msg x evs y \<Longrightarrow> set evs \<subseteq> set evs' \<Longrightarrow> achieved msg x evs' y"
  unfolding achieved_def using applied_in_mono by blast

lemma crun_achieves:
  assumes "crun msg ph0 evs = Some ph" "outcome ph None" "replay S x evs y"
    and "store_inv msg x ph0 x" "hist (for_msg msg) ph0 []" "msg_storable S msg"
  shows "achieved msg x evs y"
proof -
  from store_inv_run [OF assms(3,1,4-6)] have "store_inv msg x ph y" .
  moreover from hist_run [OF assms(1,5)] have "hist (for_msg msg) ph evs" by simp
  ultimately have uuid: "\<exists>st. y = Some st \<and> st_AppliedUUID st = cn_UUID msg"
    using assms(2) by (cases ph) (auto simp: outcome_def store_inv_def hist_def)
  have "applied_in evs (cn_Target msg) (cn_UUID msg) \<and> (\<exists>st. EvSaveState st None \<in> set evs
      \<and> st_Target st = cn_Target msg \<and> st_AppliedUUID st = cn_UUID msg)" if changed: "y \<noteq> x"
  proof -
    obtain st where save: "EvSaveState st None \<in> set evs"
      using replay_changed [OF assms(3) changed] nil_save_succeeds [OF assms(1,2)] by blast
    then obtain pre post where evs: "evs = pre @ EvSaveState st None # post" by (meson split_list)
    from crun_justified [OF assms(1,5)] evs
    have ids: "st_Target st = cn_Target msg" "st_AppliedUUID st = cn_UUID msg" and "justified pre st"
      by (auto simp: checkpoints_justified_def)
    from this(3) ids evs have "applied_in evs (cn_Target msg) (cn_UUID msg)"
      unfolding justified_def applied_in_def by fastforce
    with save ids show ?thesis by blast
  qed
  with uuid show ?thesis unfolding achieved_def by blast
qed

lemma nil_achieves:
  assumes "configure_run msg evs None" "replay S x evs y" "msg_storable S msg"
  shows "achieved msg x evs y"
proof -
  from assms(1) obtain ph where run: "crun msg (cstart msg) evs = Some ph" "outcome ph None"
    by (auto simp: configure_run_def)
  have "store_inv msg x (cstart msg) x" by (simp add: store_inv_def cstart_def)
  from crun_achieves [OF run assms(2) this hist_cstart assms(3)] show ?thesis .
qed

text \<open>A reconcile that loads the state and then a record.\<close>

lemma drift_hist: "hist (for_msg (reconcile_msg d)) (Drift d) []"
  by (simp add: hist_def reconcile_msg_def)

lemma replay_first: "replay S x evs y \<Longrightarrow> evs = EvLoadState (Inr st) # rest \<Longrightarrow> x = Some st"
proof (induction arbitrary: rest rule: replay.induct)
  case (replay_snoc evs y ev z)
  then show ?case
    by (cases rest rule: rev_cases) (auto simp: store_step_def elim: replay_NilE)
qed simp

lemma replay_append:
  "replay S x (pre @ evs) y \<Longrightarrow> \<exists>z. replay S x pre z \<and> replay S z evs y"
proof (induction evs arbitrary: y rule: rev_induct)
  case (snoc ev evs)
  from snoc.prems have "replay S x ((pre @ evs) @ [ev]) y" by simp
  then show ?case by (rule replay_SnocE) (use snoc.IH in \<open>blast intro: replay_snoc\<close>)
qed (auto intro: replay_nil)

lemma reconcile_achieves:
  assumes "reconcile_run target evs None" "replay S x evs y" "msg_storable S (reconcile_msg d)"
    and "evs = EvLoadState (Inr st) # EvLoadDesired target (Inr (Some d)) # rest"
  shows "achieved (reconcile_msg d) x evs y"
  using assms(1)
proof (cases rule: reconcile_run.cases)
  case (in_sync st' d')
  have "y = x" using replay_no_save [OF assms(2)] in_sync(1) by (simp add: is_save_def)
  moreover have "x = Some st'" using replay_first [OF assms(2)] in_sync(1) by simp
  ultimately show ?thesis using in_sync assms(4) by (auto simp: achieved_def reconcile_msg_def)
next
  case (drift st' d' evs' ph)
  with assms(4) have [simp]: "d' = d" by simp
  let ?pre = "[EvLoadState (Inr st'), EvLoadDesired target (Inr (Some d))]"
  from assms(2) drift(1) have "replay S x (?pre @ evs') y" by simp
  from replay_append [OF this] obtain z where z: "replay S x ?pre z" "replay S z evs' y" by blast
  from replay_no_save [OF z(1)] have "z = x" by (simp add: is_save_def)
  with z(2) have "replay S x evs' y" by simp
  moreover have "store_inv (reconcile_msg d) x (Drift d) x" by (simp add: store_inv_def)
  ultimately have "achieved (reconcile_msg d) x evs' y"
    using crun_achieves [OF _ _ _ _ drift_hist assms(3)] drift(3,4) by simp
  then show ?thesis by (rule achieved_mono) (use drift(1) in auto)
qed (use assms(4) in auto)

section \<open>On a machine that works\<close>

text \<open>
  No system call is going to fail, the name of the temporary file is free, and the state
  file can be read (or is not there).
\<close>

definition works :: "string \<Rightarrow> os \<Rightarrow> bool" where
  "works p e \<longleftrightarrow> os_faults e = [] \<and> file_stored p e \<noteq> None
     \<and> (\<exists>r rs. os_temp e = r # rs \<and> d_files (os_disk e) (joinPath (filepath_Dir p) ''.state-'' @ r @ ''.tmp'') = None)"

lemma load_works:
  assumes "works p e" "TrimSpace p \<noteq> []"
  shows "wp (FileStore_Load p (Some (\<lambda>_. None))) (\<lambda>r e'. (\<exists>st. r = Inr st) \<and> works p e') e"
proof -
  have "works p (commit (os_disk e) e)"
    using assms(1) by (simp add: works_def file_stored_def)
  then show ?thesis
    using assms unfolding FileStore_Load_def
    by (cases "d_files (os_disk e) p")
      (auto simp: wp_bind wp_return ctx_Err_def wp_State os_ReadFile_def wp_call_healthy id_def
        wp_return_eta file_stored_def works_def os_error_def)
qed

text \<open>
  The parts of an agent that work: none of them fails for the notification \<open>msg\<close> and the
  desired record \<open>d\<close> it names, and every time the clock shows can be written.
\<close>

locale working_parts = state_path p for p +
  fixes cl :: "'x CoreClient" and rend :: "'x Renderer" and eng :: "'x ApplyEngine" and now :: "'x Clock"
    and msg :: ConfigureNotification and d :: StoredDesiredConfig
  assumes named_path: "TrimSpace p \<noteq> []"
    and named_ids: "TrimSpace (cn_Target msg) \<noteq> []" "TrimSpace (cn_UUID msg) \<noteq> []"
    and names: "dr_Target (sd_Record d) = cn_Target msg" "dr_UUID (sd_Record d) = cn_UUID msg"
    and status_works: "fst (PublishStatus cl (Some (\<lambda>_. None)) se x) = None"
    and result_works: "fst (PublishResult cl (Some (\<lambda>_. None)) re x) = None"
    and desired_works: "fst (LoadDesiredConfig cl (Some (\<lambda>_. None)) (cn_Target msg) x) = Inr (Some d)"
    and render_works: "\<exists>out. fst (rend (Some (\<lambda>_. None)) d x) = Inr out"
    and apply_works: "fst (rend (Some (\<lambda>_. None)) d x) = Inr out \<Longrightarrow> fst (eng (Some (\<lambda>_. None)) out y) = None"
    and time_works: "marshal_State \<lparr>st_Target = cn_Target msg, st_AppliedUUID = cn_UUID msg,
        st_AppliedAt = UTC (fst (now x))\<rparr> \<noteq> None"

lemma ctx_parts [simp]:
  "ctx_rest e (Some (\<lambda>_. None)) = Some (\<lambda>_. None)" "ctx_os x (Some (\<lambda>_. None)) = Some (\<lambda>_. None)"
  by (simp_all add: ctx_rest_def ctx_os_def)

lemma on_rest_parts:
  assumes "on_rest m (Some (\<lambda>_. None)) a e = (r, e')"
  shows "fst e' = fst e" "r = fst (m (Some (\<lambda>_. None)) a (snd e))"
  using assms by (auto simp: on_rest_def split: prod.splits)

lemma disk_clock_parts: "clock_rest now e = (t, e') \<Longrightarrow> fst e' = fst e \<and> t = fst (now (snd e))"
  by (auto simp: clock_rest_def split: prod.splits)

lemma disk_load_works:
  assumes "works p (fst e)" "TrimSpace p \<noteq> []" "store_Load (disk_store p) (Some (\<lambda>_. None)) e = (r, e')"
  shows "(\<exists>st. r = Inr st) \<and> works p (fst e')"
  using load_works [OF assms(1,2)] assms(3)
  by (auto simp: disk_store_def FileStore_def wp_def split: prod.splits)

lemma disk_save_works:
  assumes "works p (fst e)" "TrimSpace p \<noteq> []" "marshal_State st \<noteq> None"
  shows "fst (store_Save (disk_store p) (Some (\<lambda>_. None)) st e) = None"
proof -
  from assms(1) obtain r rs where "os_faults (fst e) = []" "os_temp (fst e) = r # rs"
    "d_files (os_disk (fst e)) (joinPath (filepath_Dir p) ''.state-'' @ r @ ''.tmp'') = None"
    by (auto simp: works_def)
  from save_healthy [OF assms(2,3) this] show ?thesis
    by (auto simp: disk_store_def FileStore_def wp_def split: prod.splits)
qed

sublocale working_parts \<subseteq> working: answering "disk_service p cl rend eng now lg dbg" "\<lambda>_. None" msg d
    "\<lambda>e. works p (fst e)" "\<lambda>out. \<exists>x. fst (rend (Some (\<lambda>_. None)) d x) = Inr out" for lg dbg
proof (unfold_locales, goal_cases)
  case (5 e t e')
  then show ?case using disk_clock_parts by (fastforce simp: disk_service_def)
next
  case (6 se e r e')
  then have "on_rest (PublishStatus cl) (Some (\<lambda>_. None)) se e = (r, e')"
    by (simp add: disk_service_def client_rest_def)
  from on_rest_parts [OF this] 6 status_works show ?case by simp
next
  case (7 re e r e')
  then have "on_rest (PublishResult cl) (Some (\<lambda>_. None)) re e = (r, e')"
    by (simp add: disk_service_def client_rest_def)
  from on_rest_parts [OF this] 7 result_works show ?case by simp
next
  case (8 e l e')
  then have "on_rest (LoadDesiredConfig cl) (Some (\<lambda>_. None)) (cn_Target msg) e = (l, e')"
    by (simp add: disk_service_def client_rest_def)
  from on_rest_parts [OF this] 8 desired_works show ?case by simp
next
  case (9 e o1 e')
  then have "on_rest rend (Some (\<lambda>_. None)) d e = (o1, e')"
    by (simp add: disk_service_def client_rest_def)
  from on_rest_parts [OF this] 9 render_works show ?case by metis
next
  case (10 e out r e')
  then have "on_rest eng (Some (\<lambda>_. None)) out e = (r, e')"
    by (simp add: disk_service_def client_rest_def)
  from on_rest_parts [OF this] 10 apply_works show ?case by auto
next
  case (11 e l' e')
  then have "store_Load (disk_store p) (Some (\<lambda>_. None)) e = (l', e')" by (simp add: disk_service_def)
  from disk_load_works [OF 11(1) named_path this] show ?case .
next
  case (12 e t e')
  then have "works p (fst e')" "t = fst (now (snd e))"
    using disk_clock_parts by (fastforce simp: disk_service_def)+
  with disk_save_works [OF _ named_path time_works] show ?case by (simp add: disk_service_def)
qed (use named_ids names in simp_all)

context working_parts
begin

lemma working_handle:
  assumes "works p (fst (env w))" "msg_storable state_exact msg"
  shows "wp (configure_Handle (disk_service p cl rend eng now lg dbg) (Some (\<lambda>_. None)) msg)
     (\<lambda>r w'. r = None \<and> (\<exists>evs. trace w' = trace w @ evs
        \<and> achieved msg (file_stored p (fst (env w))) evs (file_stored p (fst (env w'))))) w"
  by (rule wp_mono [OF wp_conj [OF agent.handle_replays working.handle_answers [OF assms(1)]]])
    (auto intro: nil_achieves [OF _ _ assms(2)])

lemma working_reconcile:
  assumes "works p (fst (env w))" "reconcile_msg d = msg" "msg_storable state_exact msg"
  shows "wp (configure_Reconcile (disk_service p cl rend eng now lg dbg) (Some (\<lambda>_. None)) (cn_Target msg))
     (\<lambda>r w'. r = None \<and> (\<exists>evs. trace w' = trace w @ evs
        \<and> achieved msg (file_stored p (fst (env w))) evs (file_stored p (fst (env w'))))) w"
  by (rule wp_mono [OF wp_conj [OF agent.reconcile_replays working.reconcile_answers [OF assms(1,2)]]])
    (use reconcile_achieves [OF _ _ assms(3) [folded assms(2)]] assms(2) in auto)

end

text \<open>
  The same of any parts: for the record \<open>d\<close>, which the client loads, publishing succeeds, the
  record can be rendered, what is rendered can be applied, and the state to save can be
  written whatever the time.
\<close>

definition parts_work ::
  "'x CoreClient \<Rightarrow> 'x Renderer \<Rightarrow> 'x ApplyEngine \<Rightarrow> 'x Clock \<Rightarrow> StoredDesiredConfig \<Rightarrow> bool" where
  "parts_work cl rend eng now d \<longleftrightarrow>
     (\<forall>se x. fst (PublishStatus cl (Some (\<lambda>_. None)) se x) = None)
   \<and> (\<forall>re x. fst (PublishResult cl (Some (\<lambda>_. None)) re x) = None)
   \<and> (\<forall>x. fst (LoadDesiredConfig cl (Some (\<lambda>_. None)) (dr_Target (sd_Record d)) x) = Inr (Some d))
   \<and> (\<forall>x. \<exists>out. fst (rend (Some (\<lambda>_. None)) d x) = Inr out)
   \<and> (\<forall>x out y. fst (rend (Some (\<lambda>_. None)) d x) = Inr out \<longrightarrow> fst (eng (Some (\<lambda>_. None)) out y) = None)
   \<and> (\<forall>x. marshal_State \<lparr>st_Target = dr_Target (sd_Record d), st_AppliedUUID = dr_UUID (sd_Record d),
            st_AppliedAt = UTC (fst (now x))\<rparr> \<noteq> None)"

lemma parts_working:
  assumes "\<not> temp_name p" "TrimSpace p \<noteq> []" "parts_work cl rend eng now d"
    and "TrimSpace (cn_Target msg) \<noteq> []" "TrimSpace (cn_UUID msg) \<noteq> []"
    and "dr_Target (sd_Record d) = cn_Target msg" "dr_UUID (sd_Record d) = cn_UUID msg"
  shows "working_parts p cl rend eng now msg d"
  by unfold_locales (use assms in \<open>simp_all add: parts_work_def\<close>)

text \<open>
  \textbf{C10.} What can be applied is applied: on a machine that works, with
  collaborators that answer, the handler returns nil and the state file records the
  notification's configuration; unless the file records what it did before, the
  configuration was rendered and applied for it and saved with success.
\<close>

theorem disk_handle_progress:
  assumes "\<not> temp_name p" "TrimSpace p \<noteq> []" "works p (fst (env w))" "parts_work cl rend eng now d"
    and "dr_Target (sd_Record d) = cn_Target msg" "dr_UUID (sd_Record d) = cn_UUID msg"
    and "TrimSpace (cn_Target msg) \<noteq> []" "TrimSpace (cn_UUID msg) \<noteq> []"
    and "valid_utf8 (cn_Target msg)" "valid_utf8 (cn_UUID msg)"
  shows "wp (configure_Handle (disk_service p cl rend eng now lg dbg) (Some (\<lambda>_. None)) msg)
     (\<lambda>r w'. r = None \<and> (\<exists>evs. trace w' = trace w @ evs
        \<and> achieved msg (file_stored p (fst (env w))) evs (file_stored p (fst (env w'))))) w"
  by (rule working_parts.working_handle
      [OF parts_working [OF assms(1,2,4,7,8,5,6)] assms(3) exact_msg [OF assms(9,10)]])

text \<open>
  \textbf{C11.} A reconcile brings the target to the desired configuration: on such a machine,
  whatever the state file records, it returns nil and the file then records the desired
  UUID; unless the file records what it did before, the desired configuration was rendered
  and applied and saved with success.
\<close>

theorem disk_reconcile_progress:
  assumes "\<not> temp_name p" "TrimSpace p \<noteq> []" "works p (fst (env w))" "parts_work cl rend eng now d"
    and "TrimSpace (dr_Target (sd_Record d)) \<noteq> []" "TrimSpace (dr_UUID (sd_Record d)) \<noteq> []"
    and "valid_utf8 (dr_Target (sd_Record d))" "valid_utf8 (dr_UUID (sd_Record d))"
  shows "wp (configure_Reconcile (disk_service p cl rend eng now lg dbg) (Some (\<lambda>_. None)) (dr_Target (sd_Record d)))
     (\<lambda>r w'. r = None \<and> (\<exists>evs. trace w' = trace w @ evs
        \<and> achieved (reconcile_msg d) (file_stored p (fst (env w))) evs (file_stored p (fst (env w'))))) w"
proof -
  let ?msg = "reconcile_msg d"
  have ids: "cn_Target ?msg = dr_Target (sd_Record d)" "cn_UUID ?msg = dr_UUID (sd_Record d)"
    by (simp_all add: reconcile_msg_def)
  have parts: "working_parts p cl rend eng now ?msg d"
    by (rule parts_working [OF assms(1,2,4)]) (simp_all add: ids assms(5,6))
  have "msg_storable state_exact ?msg" by (rule exact_msg) (simp_all add: ids assms(7,8))
  from working_parts.working_reconcile [OF parts assms(3) refl this] show ?thesis by (simp add: ids)
qed

section \<open>A machine that works\<close>

text \<open>
  The sample machine with a clock that can be written; the renderer and the apply engine
  are the placeholders.
\<close>

definition sample_time :: gotime where
  "sample_time = GoTime 1700000000123000000 UTCZone"

definition timed_service :: "(os \<times> unit) ConfigureService" where
  "timed_service = disk_service ''/s.json'' sample_client placeholder_Render placeholder_Apply
     (\<lambda>e. (sample_time, e)) True \<lparr>dl_LogPayloads = False, dl_LogRendered = False, dl_LogApplyPlan = False\<rparr>"

lemma recorded_marshals:
  "marshal_State \<lparr>st_Target = ''vyos'', st_AppliedUUID = ''cfg-1'', st_AppliedAt = UTC sample_time\<rparr> \<noteq> None"
  using sample_marshals by (simp add: sample_State_def sample_time_def UTC_def)

lemma fresh_works: "works ''/s.json'' (fst (env fresh_world))"
  by (simp add: works_def fresh_world_def fresh_os_def file_stored_def)

lemma fresh_stored: "file_stored ''/s.json'' (fst (env fresh_world)) = Some empty_State"
  by (simp add: fresh_world_def fresh_os_def file_stored_def)

lemma sample_trimmed: "TrimSpace ''/s.json'' \<noteq> []" "TrimSpace ''vyos'' \<noteq> []" "TrimSpace ''cfg-1'' \<noteq> []"
  by code_simp+

lemma sample_parts: "working_parts ''/s.json'' sample_client placeholder_Render placeholder_Apply
    (\<lambda>e. (sample_time, e)) sample_msg sample_desired"
  by unfold_locales
    (simp_all add: sample_path sample_trimmed recorded_marshals sample_msg_def sample_desired_def sample_client_def
      placeholder_Render_def placeholder_Apply_def placeholder_text_def)

interpretation sample_agent: working_parts "''/s.json''" sample_client placeholder_Render placeholder_Apply
    "\<lambda>e. (sample_time, e)" sample_msg sample_desired
  by (rule sample_parts)

lemma sample_parts_work:
  "parts_work sample_client placeholder_Render placeholder_Apply (\<lambda>e. (sample_time, e)) sample_desired"
  using recorded_marshals
  by (simp add: parts_work_def sample_desired_def sample_client_def placeholder_Render_def
      placeholder_Apply_def placeholder_text_def)

lemma sample_desired_ids:
  "dr_Target (sd_Record sample_desired) = cn_Target sample_msg" "dr_UUID (sd_Record sample_desired) = cn_UUID sample_msg"
  "cn_Target sample_msg = ''vyos''" "cn_UUID sample_msg = ''cfg-1''"
  by (simp_all add: sample_desired_def sample_msg_def)

theorem disk_handle_progress_witness:
  "wp (configure_Handle timed_service (Some (\<lambda>_. None)) sample_msg)
     (\<lambda>r w'. r = None \<and> (\<exists>evs. trace w' = trace fresh_world @ evs
        \<and> achieved sample_msg (file_stored ''/s.json'' (fst (env fresh_world))) evs
            (file_stored ''/s.json'' (fst (env w'))))) fresh_world"
  unfolding timed_service_def
  by (rule disk_handle_progress [OF sample_path sample_trimmed(1) fresh_works sample_parts_work
        sample_desired_ids(1,2) _ _ sample_msg_ids]) (simp_all add: sample_desired_ids sample_trimmed)

theorem disk_reconcile_progress_witness:
  "wp (configure_Reconcile timed_service (Some (\<lambda>_. None)) ''vyos'')
     (\<lambda>r w'. r = None \<and> (\<exists>evs. trace w' = trace fresh_world @ evs
        \<and> achieved (reconcile_msg sample_desired) (Some empty_State) evs
            (file_stored ''/s.json'' (fst (env w'))))) fresh_world"
proof -
  have "wp (configure_Reconcile timed_service (Some (\<lambda>_. None)) (dr_Target (sd_Record sample_desired)))
     (\<lambda>r w'. r = None \<and> (\<exists>evs. trace w' = trace fresh_world @ evs
        \<and> achieved (reconcile_msg sample_desired) (file_stored ''/s.json'' (fst (env fresh_world))) evs
            (file_stored ''/s.json'' (fst (env w'))))) fresh_world"
    unfolding timed_service_def
    by (rule disk_reconcile_progress [OF sample_path sample_trimmed(1) fresh_works sample_parts_work])
      (use sample_msg_ids in \<open>simp_all add: sample_desired_ids sample_trimmed\<close>)
  then show ?thesis by (simp add: sample_desired_ids fresh_stored)
qed

end
