(* ===== verification/Session.thy ===== *)
theory Session
  imports CrashReplay Progress
begin

text \<open>
  The configure service over its lifetime: notifications and reconciles served one after
  the other, as its mutex has it, with time passing, restarts and crashes in between and in
  the middle. What the state file holds is then what was applied, and what was recorded is
  not applied again.
\<close>

section \<open>Requests\<close>

datatype request = Notified ConfigureNotification | Resync string

definition serve ::
  "'e ConfigureService \<Rightarrow> 'e ctx \<Rightarrow> request \<Rightarrow> ('e world, go_error option) state" where
  "serve s c req = (case req of
     Notified msg \<Rightarrow> configure_Handle s (Some c) msg
   | Resync target \<Rightarrow> configure_Reconcile s (Some c) target)"

definition run_of :: "request \<Rightarrow> event list \<Rightarrow> go_error option \<Rightarrow> bool" where
  "run_of req evs r \<longleftrightarrow> (case req of
     Notified msg \<Rightarrow> configure_run msg evs r
   | Resync target \<Rightarrow> reconcile_run target evs r)"

section \<open>What a run saves and renders\<close>

lemma checkpoint_applied:
  assumes "checkpoints_justified t u evs" "EvSaveState st x \<in> set evs"
  shows "applied_in evs (st_Target st) (st_AppliedUUID st)"
proof -
  from assms(2) obtain pre post where evs: "evs = pre @ EvSaveState st x # post" by (meson split_list)
  with assms(1) have "justified pre st" by (auto simp: checkpoints_justified_def)
  then show ?thesis using evs unfolding justified_def applied_in_def by fastforce
qed

lemma cstep_render:
  "cstep msg ph (EvRender d res) = Some ph' \<Longrightarrow> ph = RenderTold d"
  by (auto simp: cstep_simps split: cphase.splits if_splits)

lemma cstep_apply:
  "cstep msg ph (EvApply out x) = Some ph' \<Longrightarrow> \<exists>d. ph = ApplyTold d out"
  by (auto simp: cstep_simps split: cphase.splits if_splits)

text \<open>What is rendered and applied along the machine belongs to the notification.\<close>

lemma crun_effects:
  assumes "crun msg ph0 evs = Some ph" "hist (for_msg msg) ph0 []"
  shows "EvRender d res \<in> set evs \<Longrightarrow> dr_UUID (sd_Record d) = cn_UUID msg"
    and "EvApply out x \<in> set evs \<Longrightarrow> \<exists>d. EvRender d (Inr out) \<in> set evs \<and> dr_UUID (sd_Record d) = cn_UUID msg"
proof -
  have step: "\<exists>ph1 ph2 pre. crun msg ph0 pre = Some ph1 \<and> cstep msg ph1 ev = Some ph2
      \<and> hist (for_msg msg) ph1 pre \<and> set pre \<subseteq> set evs" if "ev \<in> set evs" for ev
  proof -
    from that obtain pre post where evs: "evs = pre @ ev # post" by (meson split_list)
    with assms(1) obtain ph1 ph2 where "crun msg ph0 pre = Some ph1" "cstep msg ph1 ev = Some ph2"
      by (metis crun_split)
    moreover from hist_run [OF this(1) assms(2)] have "hist (for_msg msg) ph1 pre" by simp
    ultimately show ?thesis using evs by auto
  qed
  show "dr_UUID (sd_Record d) = cn_UUID msg" if "EvRender d res \<in> set evs"
    using step [OF that] cstep_render by (fastforce simp: hist_def)
  show "\<exists>d. EvRender d (Inr out) \<in> set evs \<and> dr_UUID (sd_Record d) = cn_UUID msg" if "EvApply out x \<in> set evs"
    using step [OF that] cstep_apply by (fastforce simp: hist_def)
qed

lemma run_saves_applied:
  assumes "run_of req evs r" "EvSaveState st x \<in> set evs"
  shows "applied_in evs (st_Target st) (st_AppliedUUID st)"
proof (cases req)
  case (Notified msg)
  with assms obtain ph where "crun msg (cstart msg) evs = Some ph"
    by (auto simp: run_of_def configure_run_def)
  from checkpoint_applied [OF crun_justified [OF this hist_cstart] assms(2)] show ?thesis .
next
  case (Resync target)
  with assms(1) have "reconcile_run target evs r" by (simp add: run_of_def)
  then show ?thesis
  proof (cases rule: reconcile_run.cases)
    case (drift st' d evs' ph)
    from drift assms(2) have "EvSaveState st x \<in> set evs'" by simp
    from checkpoint_applied [OF crun_justified [OF drift(3) drift_hist] this]
    show ?thesis by (rule applied_in_mono) (use drift in auto)
  qed (use assms(2) in auto)
qed

text \<open>The part of a run that the machine makes, when it saves at all.\<close>

lemma run_machine:
  assumes "run_of req evs r" "EvSaveState st x \<in> set evs"
  obtains msg ph0 pre evs' ph where "evs = pre @ evs'" "filter is_save pre = []"
    "crun msg ph0 evs' = Some ph" "outcome ph r"
proof (cases req)
  case (Notified msg)
  with assms that [of "[]" evs] show thesis by (auto simp: run_of_def configure_run_def)
next
  case (Resync target)
  with assms(1) have "reconcile_run target evs r" by (simp add: run_of_def)
  then show thesis
  proof (cases rule: reconcile_run.cases)
    case (drift st' d evs' ph)
    with that [of "[EvLoadState (Inr st'), EvLoadDesired target (Inr (Some d))]" evs'] show thesis
      by (simp add: is_save_def)
  qed (use assms(2) in auto)
qed

text \<open>A run saves once at most, with a UTC time.\<close>

lemma run_saved:
  assumes "run_of req evs r" "EvSaveState st None \<in> set evs"
  obtains pre post where "evs = pre @ EvSaveState st None # post" "filter is_save post = []"
    "UTC (st_AppliedAt st) = st_AppliedAt st"
proof -
  obtain msg ph0 pre evs' ph where m: "evs = pre @ evs'" "filter is_save pre = []"
    "crun msg ph0 evs' = Some ph" "outcome ph r"
    using run_machine [OF assms] .
  then have "EvSaveState st None \<in> set evs'" using assms(2) by (auto simp: filter_empty_conv is_save_def)
  then obtain p q where s: "evs' = p @ EvSaveState st None # q" by (meson split_list)
  from crun_only_success [OF m(3,4)] s have "filter is_save q = []"
    unfolding only_success_after_checkpoint_def by (fastforce simp: is_save_def)
  moreover from crun_split [OF m(3) [unfolded s]] obtain ph1 ph2 where
    "cstep msg ph1 (EvSaveState st None) = Some ph2" by metis
  then have "UTC (st_AppliedAt st) = st_AppliedAt st" using cstep_save by blast
  ultimately show thesis using that [of "pre @ p" q] m(1) s by simp
qed

text \<open>A run that starts with a recorded UUID renders and applies other UUIDs only.\<close>

lemma run_renders_other:
  assumes "run_of req evs r" "replay S (Some st) evs y"
  shows "EvRender d res \<in> set evs \<Longrightarrow> dr_UUID (sd_Record d) \<noteq> st_AppliedUUID st"
    and "EvApply out x \<in> set evs \<Longrightarrow>
      \<exists>d. EvRender d (Inr out) \<in> set evs \<and> dr_UUID (sd_Record d) \<noteq> st_AppliedUUID st"
proof -
  have "(EvRender d res \<in> set evs \<longrightarrow> dr_UUID (sd_Record d) \<noteq> st_AppliedUUID st)
    \<and> (EvApply out x \<in> set evs \<longrightarrow>
         (\<exists>d. EvRender d (Inr out) \<in> set evs \<and> dr_UUID (sd_Record d) \<noteq> st_AppliedUUID st))"
  proof (cases req)
    case (Notified msg)
    with assms(1) obtain ph where run: "crun msg (cstart msg) evs = Some ph"
      by (auto simp: run_of_def configure_run_def)
    show ?thesis
    proof (cases "st_AppliedUUID st = cn_UUID msg")
      case True
      from quiet_run [OF assms(2) run refl True] have "filter is_effect evs = []" by simp
      then show ?thesis by (auto simp: filter_empty_conv is_effect_def is_render_def is_apply_def)
    next
      case False
      with crun_effects [OF run hist_cstart] show ?thesis by metis
    qed
  next
    case (Resync target)
    with assms(1) have "reconcile_run target evs r" by (simp add: run_of_def)
    then show ?thesis
    proof (cases rule: reconcile_run.cases)
      case (drift st' d' evs' ph)
      from replay_first [OF assms(2) drift(1)] have "st' = st" by simp
      with drift(2) have "cn_UUID (reconcile_msg d') \<noteq> st_AppliedUUID st" by (simp add: reconcile_msg_def)
      with crun_effects [OF drift(3) drift_hist] drift(1) show ?thesis
        by (metis event.distinct list.set_intros(2) set_ConsD)
    qed auto
  qed
  then show "EvRender d res \<in> set evs \<Longrightarrow> dr_UUID (sd_Record d) \<noteq> st_AppliedUUID st"
    and "EvApply out x \<in> set evs \<Longrightarrow>
      \<exists>d. EvRender d (Inr out) \<in> set evs \<and> dr_UUID (sd_Record d) \<noteq> st_AppliedUUID st" by blast+
qed

section \<open>One request on the disk\<close>

text \<open>
  A request that was served from \<open>w\<close> to \<open>w'\<close> with the calls \<open>evs\<close>, passing the disks \<open>ds\<close>.
\<close>

definition served_as ::
  "string \<Rightarrow> request \<Rightarrow> (os \<times> 'x) world \<Rightarrow> event list \<Rightarrow> disk list \<Rightarrow> go_error option \<Rightarrow> (os \<times> 'x) world \<Rightarrow> bool" where
  "served_as p req w evs ds r w' \<longleftrightarrow> run_of req evs r
     \<and> replay state_exact (file_stored p (fst (env w))) evs (file_stored p (fst (env w')))
     \<and> crash_replay (possible p (disk_of w)) evs (possible p (disk_of w'))
     \<and> (\<forall>d \<in> set ds. possible p d \<subseteq> possible p (disk_of w) \<union> saved_texts evs)"

context state_path
begin

lemma serve_rule:
  "wp (serve (disk_service path cl rend eng now lg dbg) c req)
     (\<lambda>r w'. \<exists>evs ds. trace w' = trace w @ evs \<and> os_past (fst (env w')) = os_past (fst (env w)) @ ds
        \<and> served_as path req w evs ds r w') w"
proof -
  let ?s = "disk_service path cl rend eng now lg dbg"
  have protocol: "wp (serve ?s c req) (\<lambda>r w'. \<exists>evs. trace w' = trace w @ evs \<and> run_of req evs r
      \<and> replay state_exact (file_stored path (fst (env w))) evs (file_stored path (fst (env w')))) w"
    unfolding serve_def run_of_def
    by (cases req) (simp_all add: agent.handle_replays agent.reconcile_replays)
  have tracked: "wp (serve ?s c req) (\<lambda>_. crash_tracked path w) w"
    unfolding serve_def
    by (cases req) (auto simp: crashing.ids_ok_def
        intro!: keeps_wp [OF crashing.handle_keeps crash_tracked_refl]
          keeps_wp [OF crashing.reconcile_keeps crash_tracked_refl])
  show ?thesis
    by (rule wp_mono [OF wp_conj [OF protocol tracked]]) (auto simp: crash_tracked_def served_as_def)
qed

lemma served:
  assumes "run_state (serve (disk_service path cl rend eng now lg dbg) c req) w = (r, w')"
    and "trace w' = trace w @ evs"
  shows "\<exists>ds. os_past (fst (env w')) = os_past (fst (env w)) @ ds \<and> served_as path req w evs ds r w'"
  using wp_run [OF serve_rule assms(1)] assms(2) by auto

end

section \<open>The service over time\<close>

text \<open>
  \<open>Served\<close> is a request that came to its end. \<open>CutShort\<close> is one during which the machine
  crashed, at one of the disks it passed; its calls are those it would have made to its
  end. \<open>Interlude\<close> is time between requests: the collaborators, the faults to come and the
  clock change, the process may be restarted, and the machine may crash.
\<close>

datatype episode =
    Served request "event list" "go_error option"
  | CutShort request "event list"
  | Interlude

fun events_of :: "episode \<Rightarrow> event list" where
  "events_of (Served req evs r) = evs"
| "events_of (CutShort req evs) = evs"
| "events_of Interlude = []"

inductive session ::
  "(os \<times> 'x) ConfigureService \<Rightarrow> (os \<times> 'x) world \<Rightarrow> episode list \<Rightarrow> (os \<times> 'x) world \<Rightarrow> bool"
  for s w0 where
  session_start: "session s w0 [] w0"
| session_served: "session s w0 h w \<Longrightarrow> run_state (serve s c req) w = (r, w') \<Longrightarrow> trace w' = trace w @ evs
    \<Longrightarrow> session s w0 (h @ [Served req evs r]) w'"
| session_cut: "session s w0 h w \<Longrightarrow> run_state (serve s c req) w = (r, w') \<Longrightarrow> trace w' = trace w @ evs
    \<Longrightarrow> os_past (fst (env w')) = os_past (fst (env w)) @ ds \<Longrightarrow> d \<in> set (disk_of w # ds)
    \<Longrightarrow> rebooted d (os_disk e) \<Longrightarrow> session s w0 (h @ [CutShort req evs]) (w'\<lparr>env := (e, x)\<rparr>)"
| session_pause: "session s w0 h w \<Longrightarrow> os_disk e = disk_of w \<or> rebooted (disk_of w) (os_disk e)
    \<Longrightarrow> session s w0 (h @ [Interlude]) (w\<lparr>env := (e, x)\<rparr>)"

inductive_cases session_NilE: "session s w0 [] w"

lemma session_trace: "session s w0 h w \<Longrightarrow> trace w = trace w0 @ concat (map events_of h)"
  by (induction rule: session.induct) simp_all

lemma session_split:
  assumes "session s w0 (h1 @ h2) w"
  obtains v where "session s w0 h1 v" "session s v h2 w"
proof -
  have "\<exists>v. session s w0 h1 v \<and> session s v h2 w" using assms
  proof (induction h2 arbitrary: w rule: rev_induct)
    case Nil
    then show ?case by (auto intro: session_start)
  next
    case (snoc ep h2)
    from snoc.prems have "session s w0 ((h1 @ h2) @ [ep]) w" by simp
    then show ?case
    proof (cases rule: session.cases)
      case (session_served h w1 c req r evs)
      then have "h = h1 @ h2" "ep = Served req evs r" by simp_all
      with snoc.IH session_served(2) obtain v where v: "session s w0 h1 v" "session s v h2 w1" by blast
      from session.session_served [OF v(2) session_served(3,4)] v(1) \<open>ep = _\<close> show ?thesis by blast
    next
      case (session_cut h w1 c req r w' evs ds d e x)
      then have "h = h1 @ h2" "ep = CutShort req evs" by simp_all
      with snoc.IH session_cut(3) obtain v where v: "session s w0 h1 v" "session s v h2 w1" by blast
      from session.session_cut [OF v(2) session_cut(4-8)] v(1) \<open>ep = _\<close> session_cut(2) show ?thesis by blast
    next
      case (session_pause h w1 e x)
      then have "h = h1 @ h2" "ep = Interlude" by simp_all
      with snoc.IH session_pause(3) obtain v where v: "session s w0 h1 v" "session s v h2 w1" by blast
      from session.session_pause [OF v(2) session_pause(4)] v(1) \<open>ep = _\<close> session_pause(2) show ?thesis by blast
    qed simp
  qed
  then show thesis using that by blast
qed

text \<open>The texts that an applied configuration leaves in the state file.\<close>

definition applied_texts :: "event list \<Rightarrow> string option set" where
  "applied_texts evs = {Some t | t st. marshal_State st = Some t \<and> applied_in evs (st_Target st) (st_AppliedUUID st)}"

lemma applied_texts_mono: "set evs \<subseteq> set evs' \<Longrightarrow> applied_texts evs \<subseteq> applied_texts evs'"
  unfolding applied_texts_def using applied_in_mono by blast

lemma saved_texts_applied:
  assumes "run_of req evs r"
  shows "saved_texts evs \<subseteq> applied_texts evs"
proof
  fix c assume "c \<in> saved_texts evs"
  then obtain ev where ev: "ev \<in> set evs" "c \<in> saved_text ev" by (auto simp: saved_texts_def)
  then obtain st x t where "EvSaveState st x \<in> set evs" "marshal_State st = Some t" "c = Some t"
    by - (cases ev, auto simp: saved_text_def split: option.splits)
  with run_saves_applied [OF assms this(1)] show "c \<in> applied_texts evs"
    unfolding applied_texts_def by blast
qed

text \<open>What may be in the file grows by what the calls of an episode applied.\<close>

lemma possible_grows:
  assumes "Y \<subseteq> X \<union> applied_texts (concat (map events_of h))" "Z \<subseteq> Y \<union> saved_texts (events_of ep)"
    and "events_of ep = [] \<or> run_of req (events_of ep) r"
  shows "Z \<subseteq> X \<union> applied_texts (concat (map events_of (h @ [ep])))"
proof -
  have "saved_texts (events_of ep) \<subseteq> applied_texts (events_of ep)"
    using assms(3) saved_texts_applied by fastforce
  moreover have "applied_texts (events_of ep) \<subseteq> applied_texts (concat (map events_of (h @ [ep])))"
    "applied_texts (concat (map events_of h)) \<subseteq> applied_texts (concat (map events_of (h @ [ep])))"
    by (rule applied_texts_mono, simp)+
  ultimately show ?thesis using assms(1,2) by blast
qed

context state_path
begin

lemma session_possible:
  assumes "session (disk_service path cl rend eng now lg dbg) w0 h w"
  shows "possible path (disk_of w) \<subseteq> possible path (disk_of w0) \<union> applied_texts (concat (map events_of h))"
  using assms
proof (induction rule: session.induct)
  case (session_served h w c req r w' evs)
  from served [OF session_served.hyps(2,3)] obtain ds where s: "served_as path req w evs ds r w'" by blast
  then have "possible path (disk_of w') \<subseteq> possible path (disk_of w) \<union> saved_texts evs"
    using crash_replay_bound by (simp add: served_as_def)
  with s show ?case
    by (intro possible_grows [OF session_served.IH, of _ _ req r]) (simp_all add: served_as_def)
next
  case (session_cut h w c req r w' evs ds d e x)
  from served [OF session_cut.hyps(2,3)] session_cut.hyps(4) have s: "served_as path req w evs ds r w'" by auto
  with session_cut.hyps(5) have "possible path d \<subseteq> possible path (disk_of w) \<union> saved_texts evs"
    by (auto simp: served_as_def)
  with rebooted_possible [OF session_cut.hyps(6)]
  have "possible path (os_disk e) \<subseteq> possible path (disk_of w) \<union> saved_texts evs" by blast
  with s show ?case
    by (intro possible_grows [OF session_cut.IH, of _ _ req r]) (simp_all add: served_as_def)
next
  case (session_pause h w e x)
  then have "possible path (os_disk e) \<subseteq> possible path (disk_of w)"
    using rebooted_possible [of "disk_of w" "os_disk e" path] by auto
  then show ?case
    by (intro possible_grows [OF session_pause.IH]) simp_all
qed simp

text \<open>A text that is the only possible one stays so while nothing is saved.\<close>

lemma session_keeps_text:
  assumes "session (disk_service path cl rend eng now lg dbg) w0 h w"
    and "possible path (disk_of w0) = {Some t}" "\<forall>ep \<in> set h. filter is_save (events_of ep) = []"
  shows "possible path (disk_of w) = {Some t}"
  using assms(1,3)
proof (induction rule: session.induct)
  case session_start
  show ?case by (rule assms(2))
next
  case (session_served h w c req r w' evs)
  from served [OF session_served.hyps(2,3)] obtain ds where "served_as path req w evs ds r w'" by blast
  with session_served crash_replay_no_save [of "{Some t}" evs] show ?case by (simp add: served_as_def)
next
  case (session_cut h w c req r w' evs ds d e x)
  from served [OF session_cut.hyps(2,3)] session_cut.hyps(4) have s: "served_as path req w evs ds r w'" by auto
  have "saved_texts evs = {}" using session_cut.prems by (intro saved_texts_no_save) simp
  moreover have "possible path (disk_of w) = {Some t}" using session_cut by simp
  ultimately have "possible path d \<subseteq> {Some t}" using s session_cut.hyps(5) by (auto simp: served_as_def)
  with rebooted_possible [OF session_cut.hyps(6)] have "possible path (os_disk e) \<subseteq> {Some t}" by blast
  with possible_some [of path "os_disk e"] show ?case by auto
next
  case (session_pause h w e x)
  then have "possible path (os_disk e) \<subseteq> {Some t}"
    using rebooted_possible [of "disk_of w" "os_disk e" path] by auto
  with possible_some [of path "os_disk e"] show ?case by auto
qed

text \<open>The one episode of a session.\<close>

lemma session_one:
  assumes "session (disk_service path cl rend eng now lg dbg) w0 [ep] w"
  shows "case ep of
      Served req evs r \<Rightarrow> \<exists>ds. served_as path req w0 evs ds r w
    | CutShort req evs \<Rightarrow> \<exists>ds r w'. served_as path req w0 evs ds r w'
    | Interlude \<Rightarrow> True"
  using assms
proof (cases rule: session.cases)
  case (session_served h v c req r evs)
  then have "h = []" "ep = Served req evs r" by simp_all
  with session_served(2) have "v = w0" by (auto elim: session_NilE)
  with served [OF session_served(3,4)] \<open>ep = _\<close> show ?thesis by auto
next
  case (session_cut h v c req r w' evs ds d e x)
  then have "h = []" "ep = CutShort req evs" by simp_all
  with session_cut(3) have "v = w0" by (auto elim: session_NilE)
  with served [OF session_cut(4,5)] \<open>ep = _\<close> show ?thesis by auto
qed simp_all

text \<open>After a recorded apply nothing with the same UUID is rendered or applied.\<close>

lemma session_applies_other:
  assumes "session (disk_service path cl rend eng now lg dbg) w0 (h1 @ Served req evs r # h2 @ [ep]) w"
    and "EvSaveState st None \<in> set evs" "valid_utf8 (st_Target st)" "valid_utf8 (st_AppliedUUID st)"
    and "\<forall>ep \<in> set h2. filter is_save (events_of ep) = []"
  shows "EvRender d res \<in> set (events_of ep) \<Longrightarrow> dr_UUID (sd_Record d) \<noteq> st_AppliedUUID st"
    and "EvApply out x \<in> set (events_of ep) \<Longrightarrow> \<exists>d. EvRender d (Inr out) \<in> set (events_of ep)
      \<and> dr_UUID (sd_Record d) \<noteq> st_AppliedUUID st"
proof -
  let ?s = "disk_service path cl rend eng now lg dbg"
  have eq: "h1 @ Served req evs r # h2 @ [ep] = h1 @ ([Served req evs r] @ (h2 @ [ep]))" by simp
  obtain v0 where "session ?s v0 ([Served req evs r] @ (h2 @ [ep])) w"
    using session_split [OF assms(1) [unfolded eq]] .
  then obtain v1 where first: "session ?s v0 [Served req evs r] v1" and "session ?s v1 (h2 @ [ep]) w"
    by (rule session_split)
  then obtain v2 where between: "session ?s v1 h2 v2" and second: "session ?s v2 [ep] w"
    using session_split by blast
  from session_one [OF first] obtain ds where run: "served_as path req v0 evs ds r v1" by auto
  obtain pre post where "evs = pre @ EvSaveState st None # post" "filter is_save post = []"
    and utc: "UTC (st_AppliedAt st) = st_AppliedAt st"
    using run_saved [of req evs r st] run assms(2) unfolding served_as_def by blast
  with run obtain t where t: "marshal_State st = Some t" "possible path (disk_of v1) = {Some t}"
    using crash_replay_saved unfolding served_as_def by blast
  from possible_single [OF session_keeps_text [OF between t(2) assms(5)]] obtain f where
    f: "d_files (disk_of v2) path = Some f" "f_data f = t" by blast
  from utc have "state_exact st" using assms(3,4)
    by (metis UTC_def gotime.sel(2) state_exact_def zone_exact_def zone.simps)
  from state_round_trip [OF t(1) this] f have stored: "file_stored path (fst (env v2)) = Some st"
    by (simp add: file_stored_def)
  have "events_of ep = [] \<or> (\<exists>req r y. run_of req (events_of ep) r \<and> replay state_exact (Some st) (events_of ep) y)"
    using session_one [OF second] stored by (cases ep) (fastforce simp: served_as_def)+
  then show "EvRender d res \<in> set (events_of ep) \<Longrightarrow> dr_UUID (sd_Record d) \<noteq> st_AppliedUUID st"
    and "EvApply out x \<in> set (events_of ep) \<Longrightarrow> \<exists>d. EvRender d (Inr out) \<in> set (events_of ep)
      \<and> dr_UUID (sd_Record d) \<noteq> st_AppliedUUID st"
    using run_renders_other by fastforce+
qed

end

section \<open>The guarantees\<close>

text \<open>
  \textbf{C8.} Over the lifetime of the service, whatever fails, whatever its collaborators
  answer and wherever the machine crashes, the state file holds what it held at the
  beginning, or the complete record of a configuration that was rendered and successfully
  applied since.
\<close>

theorem session_state_file:
  assumes "\<not> temp_name p" "session (disk_service p cl rend eng now lg dbg) w0 h w"
  shows "possible p (disk_of w) \<subseteq> possible p (disk_of w0)
    \<union> {Some t | t st. marshal_State st = Some t
         \<and> applied_in (concat (map events_of h)) (st_Target st) (st_AppliedUUID st)}"
  using state_path.session_possible [OF state_path.intro [OF assms(1)] assms(2)]
  by (simp add: applied_texts_def)

text \<open>
  \textbf{C9.} A configuration that was applied and recorded once is not applied again: in
  any later request, after any restarts and crashes, as long as nothing else has been
  recorded in between, what is rendered and applied has another UUID.
\<close>

theorem session_applies_once:
  assumes "\<not> temp_name p"
    and "session (disk_service p cl rend eng now lg dbg) w0 (h1 @ Served req evs r # h2 @ [ep]) w"
    and "EvSaveState st None \<in> set evs" "valid_utf8 (st_Target st)" "valid_utf8 (st_AppliedUUID st)"
    and "\<forall>ep \<in> set h2. filter is_save (events_of ep) = []"
  shows "(\<forall>d res. EvRender d res \<in> set (events_of ep) \<longrightarrow> dr_UUID (sd_Record d) \<noteq> st_AppliedUUID st)
    \<and> (\<forall>out x. EvApply out x \<in> set (events_of ep) \<longrightarrow> (\<exists>d. EvRender d (Inr out) \<in> set (events_of ep)
         \<and> dr_UUID (sd_Record d) \<noteq> st_AppliedUUID st))"
  using state_path.session_applies_other [OF state_path.intro [OF assms(1)] assms(2-6)] by blast

section \<open>A sample session\<close>

text \<open>The sample notification on the machine that works, twice.\<close>

lemma same_world: "w\<lparr>env := (fst (env w), ())\<rparr> = (w :: (os \<times> unit) world)"
  by (cases w) (auto simp: prod_eq_iff)

lemma sample_episode:
  obtains evs r w where "run_state (serve timed_service (\<lambda>_. None) (Notified sample_msg)) fresh_world = (r, w)"
    "trace w = trace fresh_world @ evs"
    "achieved sample_msg (Some empty_State) evs (file_stored ''/s.json'' (fst (env w)))"
proof -
  have "wp (configure_Handle timed_service (Some (\<lambda>_. None)) sample_msg)
     (\<lambda>r w'. r = None \<and> (\<exists>evs. trace w' = trace fresh_world @ evs
        \<and> achieved sample_msg (file_stored ''/s.json'' (fst (env fresh_world))) evs
            (file_stored ''/s.json'' (fst (env w'))))) fresh_world"
    unfolding timed_service_def
    by (rule sample_agent.working_handle [OF fresh_works exact_msg [OF sample_msg_ids]])
  with that fresh_stored show thesis
    by (auto simp: serve_def wp_def split: prod.splits)
qed

lemma sample_saves:
  assumes "achieved sample_msg (Some empty_State) evs y"
  obtains st where "EvSaveState st None \<in> set evs" "st_Target st = ''vyos''" "st_AppliedUUID st = ''cfg-1''"
proof -
  have "y \<noteq> Some empty_State"
    using assms by (auto simp: achieved_def sample_msg_def empty_State_def)
  with assms that show thesis by (auto simp: achieved_def sample_msg_def)
qed

theorem session_state_file_witness:
  "\<exists>evs r w. session timed_service fresh_world [Served (Notified sample_msg) evs r, Interlude] w
     \<and> possible ''/s.json'' (disk_of w) \<subseteq> possible ''/s.json'' (disk_of fresh_world)
         \<union> {Some t | t st. marshal_State st = Some t \<and> applied_in evs (st_Target st) (st_AppliedUUID st)}"
proof -
  obtain evs r w where run: "run_state (serve timed_service (\<lambda>_. None) (Notified sample_msg)) fresh_world = (r, w)"
    and tr: "trace w = trace fresh_world @ evs" by (rule sample_episode)
  from session_pause [OF session_served [OF session_start run tr], of "fst (env w)" "()"]
  have s: "session timed_service fresh_world [Served (Notified sample_msg) evs r, Interlude] w"
    by (simp add: same_world)
  from session_state_file [OF sample_path this [unfolded timed_service_def]] s show ?thesis by auto
qed

theorem session_applies_once_witness:
  "\<exists>evs r evs' r' w. session timed_service fresh_world
       ([] @ Served (Notified sample_msg) evs r # [Interlude] @ [Served (Notified sample_msg) evs' r']) w
     \<and> (\<forall>d res. EvRender d res \<in> set evs' \<longrightarrow> dr_UUID (sd_Record d) \<noteq> ''cfg-1'')"
proof -
  obtain evs r w where run: "run_state (serve timed_service (\<lambda>_. None) (Notified sample_msg)) fresh_world = (r, w)"
    and tr: "trace w = trace fresh_world @ evs"
    and ach: "achieved sample_msg (Some empty_State) evs (file_stored ''/s.json'' (fst (env w)))"
    by (rule sample_episode)
  obtain st where st: "EvSaveState st None \<in> set evs" "st_Target st = ''vyos''" "st_AppliedUUID st = ''cfg-1''"
    using sample_saves [OF ach] .
  obtain r' w' where run': "run_state (serve timed_service (\<lambda>_. None) (Notified sample_msg)) w = (r', w')"
    by fastforce
  obtain evs' where tr': "trace w' = trace w @ evs'"
    using wp_run [OF state_path.serve_rule run' [unfolded timed_service_def]] sample_path state_path.intro by blast
  from session_pause [OF session_served [OF session_start run tr], of "fst (env w)" "()"]
  have "session timed_service fresh_world [Served (Notified sample_msg) evs r, Interlude] w"
    by (simp add: same_world)
  from session_served [OF this run' tr'] have s: "session timed_service fresh_world
      ([] @ Served (Notified sample_msg) evs r # [Interlude] @ [Served (Notified sample_msg) evs' r']) w'" by simp
  have ids: "valid_utf8 (st_Target st)" "valid_utf8 (st_AppliedUUID st)"
    using sample_msg_ids st by (simp_all add: sample_msg_def)
  from session_applies_once [OF sample_path s [unfolded timed_service_def] st(1) ids] st(3)
  have other: "\<forall>d res. EvRender d res \<in> set evs' \<longrightarrow> dr_UUID (sd_Record d) \<noteq> ''cfg-1''" by simp
  show ?thesis by (intro exI conjI) (rule s, rule other)
qed

end
