(* ===== verification/RealMode.thy ===== *)
theory RealMode
  imports Session Doubles
begin

text \<open>
  The configure service in its real mode: the state file, the adapter around the renderer
  library and the adapter around the apply library, put together. What reaches the apply
  library is followed back through both adapters and the service to the desired record the
  request led to.
\<close>

section \<open>The libraries and the calls they get\<close>

text \<open>The libraries are parameters; the environment keeps a list of the calls made to them.\<close>

datatype lib_call =
    LibRender RenderInput "go_error + RenderOutput"
  | LibPrepare ApplyInput "go_error + ApplyPlan"
  | LibApply ApplyInput "go_error + ApplyResult"

record 'x libraries =
  li_Info :: RenderInfo
  li_Render :: "'x RenderBackend"
  li_Apply :: "'x ApplyBackend"

definition noted ::
  "('i \<Rightarrow> 'r \<Rightarrow> lib_call) \<Rightarrow> ('x ctx option \<Rightarrow> 'i \<Rightarrow> 'x \<Rightarrow> 'r \<times> 'x)
     \<Rightarrow> (lib_call list \<times> 'x) ctx option \<Rightarrow> 'i \<Rightarrow> lib_call list \<times> 'x \<Rightarrow> 'r \<times> (lib_call list \<times> 'x)" where
  "noted mk lib ctx i = (\<lambda>(cs, x). case lib (ctx_rest cs ctx) i x of (r, y) \<Rightarrow> (r, (cs @ [mk i r], y)))"

definition noted_backend :: "'x ApplyBackend \<Rightarrow> (lib_call list \<times> 'x) ApplyBackend" where
  "noted_backend b = \<lparr>be_Apply = noted LibApply (be_Apply b), be_Prepare = map_option (noted LibPrepare) (be_Prepare b)\<rparr>"

definition rest_logger :: "'x Logger option \<Rightarrow> (lib_call list \<times> 'x) Logger option" where
  "rest_logger lg = map_option (\<lambda>l ent. (\<lambda>(cs, x). (cs, l ent x))) lg"

definition real_renderer :: "'x libraries \<Rightarrow> 'x Logger option \<Rightarrow> RenderDebug \<Rightarrow> (lib_call list \<times> 'x) Renderer" where
  "real_renderer lb lg dbg = vyos_Renderer (li_Info lb) (Some \<lparr>rn_backend = Some (noted LibRender (li_Render lb)),
     rn_logger = rest_logger lg, rn_debug = dbg\<rparr>)"

definition real_engine :: "'x libraries \<Rightarrow> 'x Logger option \<Rightarrow> ApplyDebug \<Rightarrow> (lib_call list \<times> 'x) ApplyEngine" where
  "real_engine lb lg dbg = vyos_ApplyEngine (Some \<lparr>aa_backend = Some (noted_backend (li_Apply lb)),
     aa_logger = rest_logger lg, aa_debug = dbg\<rparr>)"

record real_debug =
  rl_service :: DebugLogging
  rl_render :: RenderDebug
  rl_apply :: ApplyDebug

definition real_service ::
  "string \<Rightarrow> 'x CoreClient \<Rightarrow> 'x libraries \<Rightarrow> 'x Clock \<Rightarrow> 'x Logger option \<Rightarrow> real_debug
     \<Rightarrow> (os \<times> lib_call list \<times> 'x) ConfigureService" where
  "real_service p cl lb now lg dbg = disk_service p (client_rest cl) (real_renderer lb lg (rl_render dbg))
     (real_engine lb lg (rl_apply dbg)) (clock_rest now) (lg \<noteq> None) (rl_service dbg)"

section \<open>What the adapters make of a call\<close>

text \<open>The library calls behind one call of the service.\<close>

definition lib_step :: "'x libraries \<Rightarrow> event \<Rightarrow> lib_call list \<Rightarrow> bool" where
  "lib_step lb ev cs = (case ev of
     EvRender d res \<Rightarrow> (case render_BuildInput (li_Info lb) d of
         Inl err \<Rightarrow> cs = [] \<and> res = Inl err
       | Inr input \<Rightarrow> \<exists>r. cs = [LibRender input r] \<and> res = rendered_output r)
   | EvApply out res \<Rightarrow> (let i = apply_BuildInput out in
       (\<exists>err. be_Prepare (li_Apply lb) \<noteq> None \<and> cs = [LibPrepare i (Inl err)]
          \<and> res = Some (wrap ''prepare vyos apply plan'' err))
     \<or> (\<exists>plan r. be_Prepare (li_Apply lb) \<noteq> None \<and> cs = [LibPrepare i (Inr plan), LibApply i r]
          \<and> res = applied_answer r)
     \<or> (\<exists>r. be_Prepare (li_Apply lb) = None \<and> cs = [LibApply i r]
          \<and> res = applied_answer r))
   | _ \<Rightarrow> cs = [])"

lemma answer_simps:
  "rendered_output (Inl err) = Inl (wrap ''vyos render failed'' err)"
  "rendered_output (Inr ro) = Inr \<lparr>o_Target = ro_Target ro, o_UUID = ro_ConfigUUID ro, o_Text = ro_RenderedText ro\<rparr>"
  "applied_answer (Inl err) = Some (wrap ''vyos apply failed'' err)"
  "applied_answer (Inr ar) = None"
  by (simp_all add: rendered_output_def applied_answer_def)

lemmas adapter_runs = run_return run_bind env_log_def noted_def noted_backend_def rest_logger_def
  render_adapter_def apply_adapter_def answer_simps Let_def

lemma real_render_calls:
  assumes "real_renderer lb lg dbg ctx d e = (res, e')"
  shows "\<exists>cs. fst e' = fst e @ cs \<and> lib_step lb (EvRender d res) cs"
proof (cases "render_BuildInput (li_Info lb) d")
  case (Inl err)
  with assms show ?thesis
    by (auto simp: real_renderer_def vyos_Renderer_def lib_step_def adapter_runs)
next
  case (Inr input)
  with assms show ?thesis
    by (cases lg) (auto simp: real_renderer_def vyos_Renderer_def lib_step_def adapter_runs
        split: prod.splits sum.splits if_splits)
qed

lemma real_apply_calls:
  assumes "real_engine lb lg dbg ctx out e = (res, e')"
  shows "\<exists>cs. fst e' = fst e @ cs \<and> lib_step lb (EvApply out res) cs"
  using assms
  by (cases "be_Prepare (li_Apply lb)"; cases lg)
    (auto simp: real_engine_def vyos_ApplyEngine_def lib_step_def adapter_runs
        split: prod.splits sum.splits if_splits)

section \<open>The calls of the service and the calls of the libraries\<close>

abbreviation lib_calls :: "(os \<times> lib_call list \<times> 'x) world \<Rightarrow> lib_call list" where
  "lib_calls w \<equiv> fst (snd (env w))"

definition backed ::
  "'x libraries \<Rightarrow> (os \<times> lib_call list \<times> 'x) world \<Rightarrow> (os \<times> lib_call list \<times> 'x) world \<Rightarrow> bool" where
  "backed lb w0 w \<longleftrightarrow> (\<exists>evs css. trace w = trace w0 @ evs \<and> list_all2 (lib_step lb) evs css
     \<and> lib_calls w = lib_calls w0 @ concat css)"

lemma backed_refl: "backed lb w w"
  by (force simp: backed_def)

lemma backed_call:
  assumes "\<And>e r e'. m e = (r, e') \<Longrightarrow> \<exists>cs. fst (snd e') = fst (snd e) @ cs \<and> lib_step lb (ev r) cs"
  shows "keeps (backed lb w0) (call m ev)"
  unfolding keeps_def wp_call
proof (intro allI impI, split prod.split, intro allI impI)
  fix w r e'
  assume "backed lb w0 w" and run: "m (env w) = (r, e')"
  then obtain evs css where b: "trace w = trace w0 @ evs" "list_all2 (lib_step lb) evs css"
    "lib_calls w = lib_calls w0 @ concat css" by (auto simp: backed_def)
  obtain cs where cs: "fst (snd e') = lib_calls w @ cs" "lib_step lb (ev r) cs"
    using assms [OF run] by auto
  have "list_all2 (lib_step lb) (evs @ [ev r]) (css @ [cs])"
    using b(2) cs(2) by (simp add: list_all2_appendI)
  then show "backed lb w0 (w\<lparr>trace := trace w @ [ev r], env := e'\<rparr>)"
    unfolding backed_def using b cs by (intro exI conjI) (assumption | simp)+
qed

text \<open>The state store, the client and the clock do not call the libraries.\<close>

lemma rest_calls:
  "clock_rest (clock_rest now) e = (t, e') \<Longrightarrow> fst (snd e') = fst (snd e)"
  "on_rest (on_rest m) c a e = (r, e') \<Longrightarrow> fst (snd e') = fst (snd e)"
  "store_Load (disk_store p) c e = (l, e') \<Longrightarrow> snd e' = snd e"
  "store_Save (disk_store p) c st e = (x, e') \<Longrightarrow> snd e' = snd e"
  by (auto simp: clock_rest_def on_rest_def disk_store_def split: prod.splits)

lemma on_rest_calls: "on_rest m c a e = (r, e') \<Longrightarrow> \<exists>c'. m c' a (snd e) = (r, snd e')"
  by (auto simp: on_rest_def split: prod.splits)

lemma quiet_steps:
  "lib_step lb (EvLoadDesired t x) []" "lib_step lb (EvStatus se y) []" "lib_step lb (EvResult re y) []"
  "lib_step lb (EvLoadState l) []" "lib_step lb (EvSaveState st y) []"
  by (simp_all add: lib_step_def)

lemmas real_defs = real_service_def disk_service_def client_rest_def

interpretation real_mode: service_invariant "real_service p cl lb now lg dbg" "\<lambda>_. True" "backed lb w0"
  for p cl lb now lg dbg w0
proof (unfold_locales, goal_cases)
  case (1 lvl m kv)
  show ?case by (auto simp: keeps_def wp_log_at backed_def)
next
  case 2
  show ?case
    by (auto simp: keeps_def wp_peek backed_def real_defs rest_calls(1) split: prod.split)
next
  case (3 c t)
  show ?case
    by (rule backed_call) (auto simp: real_defs dest: rest_calls(2) intro!: exI [of _ "[]"] quiet_steps)
next
  case (4 c se)
  show ?case
    by (rule backed_call) (auto simp: real_defs dest: rest_calls(2) intro!: exI [of _ "[]"] quiet_steps)
next
  case (5 c re)
  show ?case
    by (rule backed_call) (auto simp: real_defs dest: rest_calls(2) intro!: exI [of _ "[]"] quiet_steps)
next
  case (6 c)
  show ?case
    by (rule backed_call) (auto simp: real_defs dest: rest_calls(3) intro!: exI [of _ "[]"] quiet_steps)
next
  case (7 c st)
  show ?case
    by (rule backed_call) (auto simp: real_defs dest: rest_calls(4) intro!: exI [of _ "[]"] quiet_steps)
next
  case (8 c d)
  show ?case
    by (rule backed_call) (auto simp: real_defs dest!: on_rest_calls real_render_calls)
next
  case (9 c out)
  show ?case
    by (rule backed_call) (auto simp: real_defs dest!: on_rest_calls real_apply_calls)
qed

section \<open>Where an applied configuration comes from\<close>

text \<open>The desired record a phase of the machine works on.\<close>

definition carried :: "cphase \<Rightarrow> StoredDesiredConfig option" where
  "carried ph = (case ph of
     Fetched d \<Rightarrow> Some d | Drift d \<Rightarrow> Some d | RenderTold d \<Rightarrow> Some d | HaveOutput d out \<Rightarrow> Some d
   | OutputTold d out \<Rightarrow> Some d | ApplyTold d out \<Rightarrow> Some d | _ \<Rightarrow> None)"

lemma carried_step:
  assumes "cstep msg ph ev = Some ph'" "carried ph' = Some d"
  shows "carried ph = Some d \<or> ev = EvLoadDesired (cn_Target msg) (Inr (Some d))"
  using assms by (cases ph; cases ev)
    (auto simp: cstep_simps carried_def after_fetch_def split: if_splits option.splits sum.splits)

lemma carried_run:
  "crun msg ph evs = Some ph' \<Longrightarrow> carried ph' = Some d
     \<Longrightarrow> carried ph = Some d \<or> EvLoadDesired (cn_Target msg) (Inr (Some d)) \<in> set evs"
proof (induction evs arbitrary: ph)
  case (Cons ev evs)
  then obtain ph1 where "cstep msg ph ev = Some ph1" "crun msg ph1 evs = Some ph'"
    by (auto split: option.splits)
  with Cons.IH Cons.prems(2) carried_step show ?case by fastforce
qed simp

text \<open>What is rendered in a run is the record the machine started with or loaded.\<close>

lemma rendered_loaded:
  assumes "crun msg ph0 evs = Some ph" "EvRender d res \<in> set evs"
  shows "carried ph0 = Some d \<or> EvLoadDesired (cn_Target msg) (Inr (Some d)) \<in> set evs"
proof -
  from assms(2) obtain pre post where evs: "evs = pre @ EvRender d res # post" by (meson split_list)
  with assms(1) obtain ph1 ph2 where pre: "crun msg ph0 pre = Some ph1"
    and "cstep msg ph1 (EvRender d res) = Some ph2" by (metis crun_split)
  then have "ph1 = RenderTold d" by (rule_tac cstep_render)
  with carried_run [OF pre] evs show ?thesis by (auto simp: carried_def)
qed

definition target_of :: "request \<Rightarrow> string" where
  "target_of req = (case req of Notified msg \<Rightarrow> cn_Target msg | Resync target \<Rightarrow> target)"

text \<open>A notification names the record it asks for; a reconcile asks for any.\<close>

definition asks_for :: "request \<Rightarrow> StoredDesiredConfig \<Rightarrow> bool" where
  "asks_for req d \<longleftrightarrow> (case req of
     Notified msg \<Rightarrow> dr_Target (sd_Record d) = cn_Target msg \<and> dr_UUID (sd_Record d) = cn_UUID msg
   | Resync target \<Rightarrow> True)"

lemma no_later_load:
  assumes "crun msg (Drift d) evs = Some ph"
  shows "EvLoadDesired t x \<notin> set evs"
proof -
  let ?load = "\<lambda>ev. case ev of EvLoadDesired t x \<Rightarrow> True | _ \<Rightarrow> False"
  have "length (filter ?load evs) \<le> (if 10 \<le> budget (Drift d) then 1 else 0)"
    by (rule crun_at_most_once [OF assms]) (auto simp: cstep_simps budget_def split: cphase.splits event.splits if_splits)
  then show ?thesis by (auto simp: budget_def filter_empty_conv)
qed

lemma run_renders_loaded:
  assumes "run_of req evs r" "EvRender d res \<in> set evs"
  shows "EvLoadDesired (target_of req) (Inr (Some d)) \<in> set evs \<and> asks_for req d"
proof (cases req)
  case (Notified msg)
  with assms(1) obtain ph where run: "crun msg (cstart msg) evs = Some ph"
    by (auto simp: run_of_def configure_run_def)
  have "carried (cstart msg) = None" by (simp add: carried_def cstart_def)
  with rendered_loaded [OF run assms(2)] have loaded: "EvLoadDesired (cn_Target msg) (Inr (Some d)) \<in> set evs" by simp
  obtain pre post where evs: "evs = pre @ EvRender d res # post" using assms(2) by (meson split_list)
  with run obtain ph1 ph2 where pre: "crun msg (cstart msg) pre = Some ph1"
    and "cstep msg ph1 (EvRender d res) = Some ph2" by (metis crun_split)
  then have "ph1 = RenderTold d" by (rule_tac cstep_render)
  moreover have "hist (for_msg msg) ph1 pre" using hist_run [OF pre hist_cstart, of "for_msg msg"] by simp
  ultimately have "for_msg msg d" by (simp add: hist_def)
  with loaded Notified show ?thesis by (simp add: target_of_def asks_for_def)
next
  case (Resync target)
  with assms(1) have "reconcile_run target evs r" by (simp add: run_of_def)
  then show ?thesis
  proof (cases rule: reconcile_run.cases)
    case (drift st d' evs' ph)
    with assms(2) have "EvRender d res \<in> set evs'" by simp
    from rendered_loaded [OF drift(3) this] no_later_load [OF drift(3)] have "d = d'"
      by (simp add: carried_def)
    with drift(1) Resync show ?thesis by (simp add: target_of_def asks_for_def)
  qed (use assms(2) in auto)
qed

lemma run_applies_rendered:
  assumes "run_of req evs r" "EvApply out x \<in> set evs"
  shows "\<exists>d. EvRender d (Inr out) \<in> set evs"
proof (cases req)
  case (Notified msg)
  with assms show ?thesis
    by (auto simp: run_of_def configure_run_def dest!: crun_effects(2) [OF _ hist_cstart])
next
  case (Resync target)
  with assms(1) have "reconcile_run target evs r" by (simp add: run_of_def)
  then show ?thesis
  proof (cases rule: reconcile_run.cases)
    case (drift st d' evs' ph)
    with assms(2) crun_effects(2) [OF drift(3) drift_hist] show ?thesis by auto
  qed (use assms(2) in auto)
qed

lemma run_applies_once:
  assumes "run_of req evs r"
  shows "length (filter is_apply evs) \<le> 1"
proof (cases req)
  case (Notified msg)
  with assms obtain ph where "crun msg (cstart msg) evs = Some ph"
    by (auto simp: run_of_def configure_run_def)
  from crun_at_most_once [OF this, of is_apply 4] cstep_effect_budget show ?thesis by (fastforce split: if_splits)
next
  case (Resync target)
  with assms have "reconcile_run target evs r" by (simp add: run_of_def)
  then show ?thesis
  proof (cases rule: reconcile_run.cases)
    case (drift st d' evs' ph)
    from crun_at_most_once [OF drift(3), of is_apply 4] cstep_effect_budget drift(1) show ?thesis
      by (fastforce simp: is_apply_def split: if_splits)
  qed (simp_all add: is_apply_def)
qed

section \<open>And what the libraries were given\<close>

definition is_lib_apply :: "lib_call \<Rightarrow> bool" where
  "is_lib_apply c = (case c of LibApply i r \<Rightarrow> True | _ \<Rightarrow> False)"

text \<open>
  The input \<open>i\<close> of an apply is what the renderer library answered, among the calls \<open>cs\<close>, to
  the input made of the record \<open>d\<close>.
\<close>

definition rendered_for :: "'x libraries \<Rightarrow> lib_call list \<Rightarrow> StoredDesiredConfig \<Rightarrow> ApplyInput \<Rightarrow> bool" where
  "rendered_for lb cs d i \<longleftrightarrow> (\<exists>input ro. render_BuildInput (li_Info lb) d = Inr input
     \<and> LibRender input (Inr ro) \<in> set cs
     \<and> i = \<lparr>ai_Target = ro_Target ro, ai_ConfigUUID = ro_ConfigUUID ro, ai_DesiredCommands = ro_RenderedText ro\<rparr>)"

lemma lib_step_apply: "lib_step lb ev cs \<Longrightarrow> length (filter is_lib_apply cs) \<le> (if is_apply ev then 1 else 0)"
  by (auto simp: lib_step_def is_lib_apply_def is_apply_def Let_def split: event.splits sum.splits)

lemma lib_applies_bounded:
  "list_all2 (lib_step lb) evs css \<Longrightarrow> length (filter is_lib_apply (concat css)) \<le> length (filter is_apply evs)"
  by (induction rule: list_all2_induct) (auto dest!: lib_step_apply split: if_splits)

lemma list_all2_left: "list_all2 P xs ys \<Longrightarrow> x \<in> set xs \<Longrightarrow> \<exists>y \<in> set ys. P x y"
  by (metis in_set_conv_nth list_all2_conv_all_nth)

lemma list_all2_right: "list_all2 P xs ys \<Longrightarrow> y \<in> set ys \<Longrightarrow> \<exists>x \<in> set xs. P x y"
  by (metis in_set_conv_nth list_all2_conv_all_nth)

lemma lib_apply_event:
  assumes "list_all2 (lib_step lb) evs css" "LibApply i a \<in> set (concat css)"
  shows "\<exists>out x. EvApply out x \<in> set evs \<and> i = apply_BuildInput out"
proof -
  from assms(2) obtain cs where "cs \<in> set css" "LibApply i a \<in> set cs" by auto
  with list_all2_right [OF assms(1)] obtain ev where "ev \<in> set evs" "lib_step lb ev cs" by blast
  with \<open>LibApply i a \<in> set cs\<close> show ?thesis
    by (cases ev) (auto simp: lib_step_def Let_def split: sum.splits)
qed

lemma lib_render_event:
  assumes "list_all2 (lib_step lb) evs css" "EvRender d (Inr out) \<in> set evs"
  shows "rendered_for lb (concat css) d (apply_BuildInput out)"
proof -
  from list_all2_left [OF assms] obtain cs where "cs \<in> set css" "lib_step lb (EvRender d (Inr out)) cs" by blast
  then obtain input r where "render_BuildInput (li_Info lb) d = Inr input" "cs = [LibRender input r]"
    "Inr out = rendered_output r" by (auto simp: lib_step_def split: sum.splits)
  moreover from this(2) \<open>cs \<in> set css\<close> have "LibRender input r \<in> set (concat css)" by force
  ultimately have "render_BuildInput (li_Info lb) d = Inr input" "LibRender input r \<in> set (concat css)"
    "Inr out = rendered_output r" by simp_all
  then show ?thesis
    by (cases r) (auto simp: rendered_for_def rendered_output_def apply_BuildInput_def)
qed

lemma lib_applied_event:
  assumes "list_all2 (lib_step lb) evs css" "EvApply out None \<in> set evs"
  shows "\<exists>ar. LibApply (apply_BuildInput out) (Inr ar) \<in> set (concat css)"
proof -
  from list_all2_left [OF assms] obtain cs where "cs \<in> set css" "lib_step lb (EvApply out None) cs" by blast
  moreover from this(2) have "\<exists>ar. LibApply (apply_BuildInput out) (Inr ar) \<in> set cs"
    by (simp add: lib_step_def Let_def) (metis answer_simps(3) list.set_intros(1,2) obj_sumE option.distinct(1))
  ultimately show ?thesis by auto
qed

text \<open>One request, with the service, the store and the libraries side by side.\<close>

lemma serve_backed:
  "wp (serve (real_service p cl lb now lg dbg) c req) (\<lambda>_. backed lb w) w"
  unfolding serve_def
  by (cases req) (auto simp: real_mode.ids_ok_def
      intro!: keeps_wp [OF real_mode.handle_keeps backed_refl] keeps_wp [OF real_mode.reconcile_keeps backed_refl])

text \<open>The libraries' calls \<open>new\<close> of a request that made the calls \<open>evs\<close>.\<close>

definition accounted :: "'x libraries \<Rightarrow> request \<Rightarrow> event list \<Rightarrow> lib_call list \<Rightarrow> bool" where
  "accounted lb req evs new \<longleftrightarrow> length (filter is_lib_apply new) \<le> 1
     \<and> (\<forall>i a. LibApply i a \<in> set new \<longrightarrow> (\<exists>d. EvLoadDesired (target_of req) (Inr (Some d)) \<in> set evs
          \<and> asks_for req d \<and> rendered_for lb new d i))"

lemma run_accounted:
  assumes "run_of req evs r" "list_all2 (lib_step lb) evs css"
  shows "accounted lb req evs (concat css)"
  unfolding accounted_def
proof (intro conjI allI impI)
  show "length (filter is_lib_apply (concat css)) \<le> 1"
    using lib_applies_bounded [OF assms(2)] run_applies_once [OF assms(1)] by linarith
  fix i a assume "LibApply i a \<in> set (concat css)"
  from lib_apply_event [OF assms(2) this] obtain out x where "EvApply out x \<in> set evs" and i: "i = apply_BuildInput out"
    by blast
  from run_applies_rendered [OF assms(1) this(1)] obtain d where d: "EvRender d (Inr out) \<in> set evs" ..
  from run_renders_loaded [OF assms(1) d] lib_render_event [OF assms(2) d] i
  show "\<exists>d. EvLoadDesired (target_of req) (Inr (Some d)) \<in> set evs \<and> asks_for req d \<and> rendered_for lb (concat css) d i"
    by blast
qed

lemma run_changed:
  assumes "run_of req evs r" "list_all2 (lib_step lb) evs css" "replay S x evs y" "y \<noteq> x"
  shows "\<exists>i ar. LibApply i (Inr ar) \<in> set (concat css)"
proof -
  from replay_changed [OF assms(3,4)] obtain st a where "EvSaveState st a \<in> set evs" by blast
  from run_saves_applied [OF assms(1) this] obtain out where "EvApply out None \<in> set evs"
    by (auto simp: applied_in_def)
  from lib_applied_event [OF assms(2) this] show ?thesis by blast
qed

text \<open>
  \textbf{C12.} In real mode a request applies at most once, and what the apply library is
  given is the text, target and UUID that the renderer library answered to the input built
  from the desired record the request loaded, which for a notification is the record it
  names. The state file is not changed unless the apply library applied with success.
\<close>

theorem real_mode_applies_rendered:
  assumes "\<not> temp_name p"
  shows "wp (serve (real_service p cl lb now lg dbg) c req)
     (\<lambda>r w'. \<exists>evs new. trace w' = trace w @ evs \<and> lib_calls w' = lib_calls w @ new \<and> accounted lb req evs new
        \<and> (file_stored p (fst (env w')) \<noteq> file_stored p (fst (env w)) \<longrightarrow>
             (\<exists>i ar. LibApply i (Inr ar) \<in> set new))) w"
  unfolding real_service_def
proof (rule wp_mono [OF wp_conj [OF state_path.serve_rule [OF state_path.intro [OF assms]]
        serve_backed [unfolded real_service_def]]], goal_cases)
  case (1 r w')
  then obtain evs css where o: "trace w' = trace w @ evs" "run_of req evs r" "list_all2 (lib_step lb) evs css"
    "replay state_exact (file_stored p (fst (env w))) evs (file_stored p (fst (env w')))"
    "lib_calls w' = lib_calls w @ concat css"
    unfolding backed_def served_as_def by auto
  show ?case
    by (rule exI [of _ evs], rule exI [of _ "concat css"], intro conjI impI)
      (rule o(1), rule o(5), rule run_accounted [OF o(2,3)], rule run_changed [OF o(2,3,4)])
qed

section \<open>Sample libraries\<close>

text \<open>A renderer that answers its payload as text, and an engine that prepares and applies.\<close>

definition sample_libraries :: "unit libraries" where
  "sample_libraries = \<lparr>li_Info = \<lparr>in_SupportedSchemaName = ''olg'', in_SupportedSchemaVersions = [''1'']\<rparr>,
     li_Render = (\<lambda>ctx i x. (Inr \<lparr>ro_Target = ri_Target i, ro_ConfigUUID = ri_ConfigUUID i,
        ro_SchemaName = ri_SchemaName i, ro_SchemaVersion = ri_SchemaVersion i,
        ro_RenderedText = (case ri_PayloadJSON i of None \<Rightarrow> [] | Some t \<Rightarrow> t)\<rparr>, x)),
     li_Apply = \<lparr>be_Apply = (\<lambda>ctx i x. (Inr \<lparr>ar_Target = ai_Target i, ar_ConfigUUID = ai_ConfigUUID i,
          ar_Applied = True, ar_DeleteCommands = [], ar_SetCommands = [ai_DesiredCommands i]\<rparr>, x)),
        be_Prepare = Some (\<lambda>ctx i x. (Inr \<lparr>ap_Target = ai_Target i, ap_ConfigUUID = ai_ConfigUUID i,
          ap_DeleteCommands = [], ap_SetCommands = [ai_DesiredCommands i], ap_Commit = True, ap_Save = False\<rparr>, x))\<rparr>\<rparr>"

definition quiet :: real_debug where
  "quiet = \<lparr>rl_service = \<lparr>dl_LogPayloads = False, dl_LogRendered = False, dl_LogApplyPlan = False\<rparr>,
     rl_render = \<lparr>rd_LogPayloads = False, rd_LogRendered = False\<rparr>,
     rl_apply = \<lparr>ad_LogRendered = False, ad_LogApplyPlan = False\<rparr>\<rparr>"

definition sample_real :: "(os \<times> lib_call list \<times> unit) ConfigureService" where
  "sample_real = real_service ''/s.json'' sample_client sample_libraries (\<lambda>e. (sample_time, e)) None quiet"

definition real_world :: "(os \<times> lib_call list \<times> unit) world" where
  "real_world = \<lparr>trace = [], logs = [], env = (fresh_os, ([], ()))\<rparr>"

lemma sample_input: "\<exists>input. render_BuildInput (li_Info sample_libraries) OnDisk.sample_desired = Inr input"
  using empty_object
  by (simp add: render_BuildInput_def payloadAndMetadata_def OnDisk.sample_desired_def Let_def split: prod.split)

lemma sample_rendered:
  "\<exists>out. fst (real_renderer sample_libraries None dbg (Some (\<lambda>_. None)) OnDisk.sample_desired x) = Inr out"
  using sample_input
  by (cases x) (auto simp: real_renderer_def vyos_Renderer_def adapter_runs sample_libraries_def split: if_splits)

lemma sample_applied: "fst (real_engine sample_libraries None dbg (Some (\<lambda>_. None)) out x) = None"
  by (cases x) (auto simp: real_engine_def vyos_ApplyEngine_def adapter_runs sample_libraries_def split: if_splits)

interpretation sample_router: working_parts "''/s.json''" "client_rest sample_client"
    "real_renderer sample_libraries None (rl_render quiet)" "real_engine sample_libraries None (rl_apply quiet)"
    "clock_rest (\<lambda>e. (sample_time, e))" sample_msg OnDisk.sample_desired
proof unfold_locales
  show "dr_Target (sd_Record OnDisk.sample_desired) = cn_Target sample_msg"
    "dr_UUID (sd_Record OnDisk.sample_desired) = cn_UUID sample_msg"
    by (simp_all add: OnDisk.sample_desired_def sample_msg_def)
  show "\<exists>out. fst (real_renderer sample_libraries None (rl_render quiet) (Some (\<lambda>_. None)) OnDisk.sample_desired x) = Inr out"
    for x by (rule sample_rendered)
qed (use recorded_marshals in \<open>auto simp: sample_path sample_trimmed sample_msg_def sample_applied client_rest_def
    on_rest_def clock_rest_def sample_client_def\<close>)

theorem real_mode_applies_rendered_witness:
  "wp (serve sample_real (\<lambda>_. None) (Notified sample_msg))
     (\<lambda>r w'. r = None \<and> (\<exists>i ar d. LibApply i (Inr ar) \<in> set (lib_calls w')
        \<and> asks_for (Notified sample_msg) d \<and> rendered_for sample_libraries (lib_calls w') d i)) real_world"
proof -
  have "works ''/s.json'' (fst (env real_world))"
    by (simp add: works_def real_world_def fresh_os_def file_stored_def)
  from sample_router.working_handle [OF this exact_msg [OF sample_msg_ids]]
  have "wp (serve sample_real (\<lambda>_. None) (Notified sample_msg)) (\<lambda>r w'. r = None
      \<and> file_stored ''/s.json'' (fst (env w')) \<noteq> file_stored ''/s.json'' (fst (env real_world))) real_world"
    unfolding serve_def sample_real_def real_service_def request.case
    by (rule wp_mono) (auto simp: achieved_def sample_msg_def real_world_def fresh_os_def file_stored_def empty_State_def)
  from wp_conj [OF this real_mode_applies_rendered [OF sample_path, of sample_client sample_libraries
      "\<lambda>e. (sample_time, e)" None quiet, folded sample_real_def]]
  show ?thesis
  proof (rule wp_mono, goal_cases)
    case (1 r w')
    then obtain i ar where applied: "r = None" "LibApply i (Inr ar) \<in> set (lib_calls w')"
      and "accounted sample_libraries (Notified sample_msg) (trace w') (lib_calls w')"
      by (auto simp: real_world_def)
    then obtain d where "asks_for (Notified sample_msg) d" "rendered_for sample_libraries (lib_calls w') d i"
      unfolding accounted_def by blast
    with applied show ?case by blast
  qed
qed

end
