(* ===== verification/Deployed.thy ===== *)
theory Deployed
  imports Session AgentRuns
begin

text \<open>
  The agent as its constructor builds it from a configuration, on a machine with a disk: the
  wiring of \<open>internal/agent\<close> and the life of the configure service, put together.
\<close>

section \<open>Collaborators beside the disk\<close>

text \<open>Loggers and library backends that leave the disk alone.\<close>

definition beside :: "'x Logger option \<Rightarrow> (os \<times> 'x) Logger option" where
  "beside lg = map_option (\<lambda>l ent. (\<lambda>(e, x). (e, l ent x))) lg"

definition backend_beside :: "'x ApplyBackend \<Rightarrow> (os \<times> 'x) ApplyBackend" where
  "backend_beside b = \<lparr>be_Apply = on_rest (be_Apply b), be_Prepare = map_option on_rest (be_Prepare b)\<rparr>"

lemma beside_None: "beside lg = None \<longleftrightarrow> lg = None"
  by (simp add: beside_def)

lemmas beside_runs = run_return run_bind env_log_def beside_def on_rest_def Let_def

text \<open>The placeholders and the adapters, each beside the disk when its parts are.\<close>

lemma placeholder_Render_rest: "on_rest placeholder_Render = placeholder_Render"
  by (intro ext) (auto simp: on_rest_def ctx_rest_def placeholder_Render_def split: option.split prod.split)

lemma placeholder_Apply_rest: "on_rest placeholder_Apply = placeholder_Apply"
  by (intro ext) (auto simp: on_rest_def ctx_rest_def placeholder_Apply_def split: option.split prod.split)

lemma vyos_Renderer_rest:
  "vyos_Renderer info (Some \<lparr>rn_backend = Some (on_rest b), rn_logger = beside lg, rn_debug = dbg\<rparr>)
     = on_rest (vyos_Renderer info (Some \<lparr>rn_backend = Some b, rn_logger = lg, rn_debug = dbg\<rparr>))"
proof (intro ext)
  fix ctx d and e :: "os \<times> 'a"
  obtain o' x where e: "e = (o', x)" by (cases e)
  show "vyos_Renderer info (Some \<lparr>rn_backend = Some (on_rest b), rn_logger = beside lg, rn_debug = dbg\<rparr>) ctx d e
     = on_rest (vyos_Renderer info (Some \<lparr>rn_backend = Some b, rn_logger = lg, rn_debug = dbg\<rparr>)) ctx d e"
    unfolding e by (cases lg; cases "render_BuildInput info d")
      (auto simp: vyos_Renderer_def render_adapter_def beside_runs split: sum.split prod.split)
qed

lemma vyos_ApplyEngine_rest:
  "vyos_ApplyEngine (Some \<lparr>aa_backend = Some (backend_beside b), aa_logger = beside lg, aa_debug = dbg\<rparr>)
     = on_rest (vyos_ApplyEngine (Some \<lparr>aa_backend = Some b, aa_logger = lg, aa_debug = dbg\<rparr>))"
proof (intro ext)
  fix ctx out and e :: "os \<times> 'a"
  obtain o' x where e: "e = (o', x)" by (cases e)
  show "vyos_ApplyEngine (Some \<lparr>aa_backend = Some (backend_beside b), aa_logger = beside lg, aa_debug = dbg\<rparr>) ctx out e
     = on_rest (vyos_ApplyEngine (Some \<lparr>aa_backend = Some b, aa_logger = lg, aa_debug = dbg\<rparr>)) ctx out e"
    unfolding e by (cases lg; cases "be_Prepare b")
      (auto simp: vyos_ApplyEngine_def apply_adapter_def backend_beside_def beside_runs split: sum.split prod.split)
qed

section \<open>The wiring\<close>

text \<open>
  The libraries of an agent on a disk: the client, the clock and the logger leave the disk
  alone, the state store is the file store, and in real mode the renderer and the apply
  library load and leave the disk alone.
\<close>

definition on_machine ::
  "(os \<times> 'x) runtime_libs \<Rightarrow> AppConfig \<Rightarrow> CoreConfig \<Rightarrow> (os \<times> 'x) Option option list
     \<Rightarrow> 'x CoreClient \<Rightarrow> 'x Logger option \<Rightarrow> 'x Clock \<Rightarrow> bool" where
  "on_machine lb c k opts cl lg now \<longleftrightarrow> lb_FileStore lb = disk_store
     \<and> (\<exists>client. lb_agentcore_New lb k = Inr client \<and> cl_core client = client_rest cl)
     \<and> agent_options opts \<lparr>op_logger = None, op_now = lb_time_Now lb\<rparr> = Inr \<lparr>op_logger = beside lg, op_now = clock_rest now\<rparr>
     \<and> (cc_Mode (ag_Configure (app_Agent c)) = ''real'' \<longrightarrow> (\<exists>rb ab. lb_vyosrenderer_New lb = Inr (on_rest rb)
          \<and> lb_vyosapply_New lb (ap_SaveAfterCommit (ag_Apply (app_Agent c))) = Inr (backend_beside ab)))"

lemma engines_beside:
  assumes "agent_ok (app_Agent c)" "on_machine lb c k opts cl lg now"
  shows "\<exists>rend eng. newConfigureEngines lb (Some c) (beside lg) = Inr (on_rest rend, on_rest eng)"
proof (cases "cc_Mode (ag_Configure (app_Agent c)) = ''placeholder''")
  case True
  then show ?thesis
    by (auto simp: newConfigureEngines_def Let_def placeholder_Render_rest placeholder_Apply_rest
        intro!: exI [of _ placeholder_Render] exI [of _ placeholder_Apply])
next
  case False
  with assms(1) have mode: "cc_Mode (ag_Configure (app_Agent c)) = ''real''" by (auto simp: agent_ok_def)
  with assms(2) obtain rb ab where libs: "lb_vyosrenderer_New lb = Inr (on_rest rb)"
    "lb_vyosapply_New lb (ap_SaveAfterCommit (ag_Apply (app_Agent c))) = Inr (backend_beside ab)"
    by (auto simp: on_machine_def)
  show ?thesis
    using vyos_Renderer_rest vyos_ApplyEngine_rest
    by (simp add: newConfigureEngines_def Let_def mode libs render_New_def render_NewWithBackend_def
        apply_New_def apply_NewWithBackend_def render_WithLogger_def render_WithDebugLogging_def
        apply_WithLogger_def apply_WithDebugLogging_def) blast
qed

text \<open>The agent that is built has the service on the disk.\<close>

lemma built_on_disk:
  assumes "AppConfig_Validate c = None" "on_machine lb c k opts cl lg now"
  shows "\<exists>r rend eng. agent_build lb (Some c) k opts = Inr r
    \<and> ru_configureService r = Some (disk_service (ag_StateFile (app_Agent c)) cl rend eng now (lg \<noteq> None)
        (configureDebugConfig (Some c)))"
proof -
  have a: "agent_ok (app_Agent c)" using assms(1) by (simp add: Validate_None config_valid_def Let_def)
  then have en: "set (ax_Enabled (ag_Actions (app_Agent c))) \<subseteq> {''trace''}" by (simp add: agent_ok_def)
  obtain rend eng where eng: "newConfigureEngines lb (Some c) (beside lg) = Inr (on_rest rend, on_rest eng)"
    using engines_beside [OF a assms(2)] by blast
  obtain client where m: "lb_FileStore lb = disk_store" "lb_agentcore_New lb k = Inr client"
    "cl_core client = client_rest cl"
    "agent_options opts \<lparr>op_logger = None, op_now = lb_time_Now lb\<rparr> = Inr \<lparr>op_logger = beside lg, op_now = clock_rest now\<rparr>"
    using assms(2) by (auto simp: on_machine_def)
  show ?thesis
    using m eng en
    by (auto simp: agent_build_def configure_NewService_def actions_NewService_def Let_def ActionTrace_def
        trim_trace enabled_trace disk_service_def beside_None)
qed

text \<open>
  \textbf{C13.} The agent that is built from a valid configuration, in either mode, on a
  machine with a disk: its configure service is the one over the configured state file, with
  the debug switches of the configuration, and it keeps that file over its whole
  lifetime at what it held at first or at the complete record of a configuration that was
  rendered and successfully applied since, whatever fails and wherever the machine crashes.
\<close>

theorem deployed_agent_state_file:
  assumes "AppConfig_Validate c = None" "on_machine lb c k opts cl lg now"
    and "\<not> temp_name (ag_StateFile (app_Agent c))"
  shows "\<exists>r s rend eng. agent_build lb (Some c) k opts = Inr r \<and> ru_configureService r = Some s
    \<and> s = disk_service (ag_StateFile (app_Agent c)) cl rend eng now (lg \<noteq> None) (configureDebugConfig (Some c))
    \<and> (\<forall>w0 h w. session s w0 h w \<longrightarrow>
         possible (ag_StateFile (app_Agent c)) (disk_of w) \<subseteq> possible (ag_StateFile (app_Agent c)) (disk_of w0)
           \<union> applied_texts (concat (map events_of h)))"
proof -
  obtain r rend eng where built: "agent_build lb (Some c) k opts = Inr r"
    "ru_configureService r = Some (disk_service (ag_StateFile (app_Agent c)) cl rend eng now (lg \<noteq> None)
        (configureDebugConfig (Some c)))"
    using built_on_disk [OF assms(1,2)] by blast
  show ?thesis
    by (intro exI conjI allI impI) (rule built, rule built, rule refl, rule state_path.session_possible [OF state_path.intro [OF assms(3)]])
qed

section \<open>The default agent\<close>

definition disk_idle_client :: "(os \<times> unit) AgentClient" where
  "disk_idle_client = \<lparr>cl_core = client_rest idle_core, cl_RegisterConfigure = (\<lambda>t h e. (None, e)),
     cl_RegisterAction = (\<lambda>t a h e. (None, e)), cl_Start = (\<lambda>c e. (None, e)),
     cl_Health = (\<lambda>e. (fst (cl_Health idle_client ()), e)), cl_Close = (\<lambda>c e. (None, e))\<rparr>"

definition disk_libs :: "(os \<times> unit) runtime_libs" where
  "disk_libs = \<lparr>lb_agentcore_New = (\<lambda>k. Inr disk_idle_client), lb_vyosrenderer_New = Inl (errors_New ''none''),
     lb_vyosrenderer_Info = \<lparr>in_SupportedSchemaName = [], in_SupportedSchemaVersions = []\<rparr>,
     lb_vyosapply_New = (\<lambda>b. Inl (errors_New ''none'')), lb_FileStore = disk_store,
     lb_VyOSTrace = placeholder_trace_Execute, lb_time_Now = clock_rest (\<lambda>e. (GoTime 0 UTCZone, e))\<rparr>"

theorem deployed_agent_state_file_witness:
  "\<exists>k r s. ToAgentCoreConfig DefaultAppConfig = Inr k \<and> agent_build disk_libs (Some DefaultAppConfig) k [] = Inr r
    \<and> ru_configureService r = Some s \<and> (\<forall>w0 h w. session s w0 h w \<longrightarrow>
         possible (ag_StateFile (app_Agent DefaultAppConfig)) (disk_of w)
           \<subseteq> possible (ag_StateFile (app_Agent DefaultAppConfig)) (disk_of w0) \<union> applied_texts (concat (map events_of h)))"
proof -
  obtain k where k: "ToAgentCoreConfig DefaultAppConfig = Inr k" using default_converts by blast
  have mode: "cc_Mode (ag_Configure (app_Agent DefaultAppConfig)) = ''placeholder''"
    by (simp add: DefaultAppConfig_def)
  have machine: "on_machine disk_libs DefaultAppConfig k [] idle_core None (\<lambda>e. (GoTime 0 UTCZone, e))"
    by (simp add: on_machine_def disk_libs_def disk_idle_client_def mode beside_def)
  have path: "\<not> temp_name (ag_StateFile (app_Agent DefaultAppConfig))"
    by (simp add: DefaultAppConfig_def temp_name_def last_n_def)
  from deployed_agent_state_file [OF default_valid machine path] k show ?thesis by blast
qed

end
