(* ===== verification/TraceService.thy ===== *)
theory TraceService
  imports ActionRuns VyosTraceLaws Beside
begin

text \<open>
  The action service with the executor of real traces: what a command does to the host, from
  the checks of the service to the last call of the executor.
\<close>

section \<open>Invariants of the action service\<close>

text \<open>
  What each call of the service, and each record it logs, keeps of the world, a handled
  command keeps; \<open>c\<close> is the context the service hands to its collaborators.
\<close>

locale action_invariant =
  fixes s :: "'e ActionService" and c :: "'e ctx" and I :: "'e world \<Rightarrow> bool"
  assumes log_keeps: "keeps I (log_at (as_logger s) lvl m kv)"
    and now_keeps: "keeps I (peek (as_now s))"
    and status_keeps: "keeps I (call (act_PublishStatus (as_client s) (Some c) se) (EvStatus se))"
    and result_keeps: "keeps I (call (act_PublishResult (as_client s) (Some c) re) (EvResult re))"
    and execute_keeps: "as_executors s a = Some ex \<Longrightarrow> keeps I (call (ex (Some c) msg) (EvExecute msg))"
begin

lemma act_keeps:
  "keeps I (act_logInfo s m kv)" "keeps I (act_logError s m kv)"
  "keeps I (act_publishStatus s (Some c) msg st sg m)"
  unfolding act_logInfo_def act_logError_def act_publishStatus_def Let_def
  by (intro keeps_rules log_keeps now_keeps status_keeps)+

lemma act_fail_keeps: "keeps I (act_fail s (Some c) msg code safe err)"
  unfolding act_fail_def Let_def
  by (intro keeps_rules act_keeps now_keeps result_keeps)

lemma handle_keeps: "keeps I (actions_Handle s (Some c) msg)"
  unfolding actions_Handle_def option.case Let_def
  by (intro keeps_rules act_keeps act_fail_keeps now_keeps result_keeps execute_keeps)

end

section \<open>The service and the host\<close>

definition trace_service ::
  "'x CoreClient \<Rightarrow> bool \<Rightarrow> 'x Clock \<Rightarrow> string set \<Rightarrow> (host_call list \<times> 'x) trace_host
     \<Rightarrow> (host_call list \<times> 'x) ActionService" where
  "trace_service cl lg now enabled h = \<lparr>as_client = \<lparr>act_PublishStatus = on_rest (PublishStatus cl),
       act_PublishResult = on_rest (PublishResult cl)\<rparr>,
     as_logger = lg, as_now = clock_rest now, as_enabled = enabled,
     as_executors = [ActionTrace \<mapsto> vyos_trace_Execute h]\<rparr>"

text \<open>The host's calls behind one call of the service.\<close>

definition host_step :: "(string \<Rightarrow> bool) \<Rightarrow> event \<Rightarrow> host_call list \<Rightarrow> bool" where
  "host_step rest_ok ev cs = (case ev of EvExecute msg res \<Rightarrow> trace_run rest_ok msg cs res | _ \<Rightarrow> cs = [])"

definition hosted ::
  "(string \<Rightarrow> bool) \<Rightarrow> (host_call list \<times> 'x) world \<Rightarrow> (host_call list \<times> 'x) world \<Rightarrow> bool" where
  "hosted rest_ok w0 w \<longleftrightarrow> (\<exists>evs css. trace w = trace w0 @ evs \<and> list_all2 (host_step rest_ok) evs css
     \<and> fst (env w) = fst (env w0) @ concat css)"

lemma hosted_refl: "hosted rest_ok w w"
  by (force simp: hosted_def)

lemma hosted_call:
  assumes "\<And>e r e'. m e = (r, e') \<Longrightarrow> \<exists>cs. fst e' = fst e @ cs \<and> host_step rest_ok (ev r) cs"
  shows "keeps (hosted rest_ok w0) (call m ev)"
  unfolding keeps_def wp_call
proof (intro allI impI, split prod.split, intro allI impI)
  fix w r e'
  assume "hosted rest_ok w0 w" and run: "m (env w) = (r, e')"
  then obtain evs css where b: "trace w = trace w0 @ evs" "list_all2 (host_step rest_ok) evs css"
    "fst (env w) = fst (env w0) @ concat css" by (auto simp: hosted_def)
  obtain cs where cs: "fst e' = fst (env w) @ cs" "host_step rest_ok (ev r) cs"
    using assms [OF run] by auto
  have "list_all2 (host_step rest_ok) (evs @ [ev r]) (css @ [cs])"
    using b(2) cs(2) by (simp add: list_all2_appendI)
  then show "hosted rest_ok w0 (w\<lparr>trace := trace w @ [ev r], env := e'\<rparr>)"
    unfolding hosted_def using b cs by (intro exI conjI) (assumption | simp)+
qed

text \<open>A host whose calls are recorded.\<close>

locale recorded_host =
  fixes h :: "(host_call list \<times> 'x) trace_host"
  assumes host_records: "records h"

sublocale recorded_host \<subseteq> trace_calls: action_invariant "trace_service cl lg now enabled h" c
    "hosted (th_url_rest_ok h) w0" for cl lg now enabled c w0
proof (unfold_locales, goal_cases)
  case (1 lvl m kv)
  show ?case by (auto simp: keeps_def wp_log_at hosted_def)
next
  case 2
  show ?case
    by (fastforce simp: keeps_def wp_peek hosted_def trace_service_def dest: clock_rest_fst split: prod.split)
next
  case (3 se)
  show ?case
    by (rule hosted_call) (auto simp: trace_service_def host_step_def dest: on_rest_fst)
next
  case (4 re)
  show ?case
    by (rule hosted_call) (auto simp: trace_service_def host_step_def dest: on_rest_fst)
next
  case (5 a ex msg)
  then have "ex = vyos_trace_Execute h" by (auto simp: trace_service_def split: if_splits)
  with trace_run_calls [OF host_records] show ?case
    by (intro hosted_call) (simp add: host_step_def)
qed

section \<open>What a command does to the host\<close>

text \<open>
  \<open>traced\<close>: the host's calls \<open>new\<close> of a command that led to the service's calls \<open>evs\<close>. There
  are none, or the action is the enabled trace and they are those of one run of the executor.
\<close>

definition traced ::
  "(string \<Rightarrow> bool) \<Rightarrow> string set \<Rightarrow> ActionCommand \<Rightarrow> event list \<Rightarrow> host_call list \<Rightarrow> bool" where
  "traced rest_ok enabled msg evs new \<longleftrightarrow> new = [] \<or> (ac_Action msg = ActionTrace \<and> ActionTrace \<in> enabled
     \<and> (\<exists>res. EvExecute msg res \<in> set evs \<and> trace_run rest_ok msg new res))"

text \<open>\<open>delivered\<close>: a capture of the command's payload was posted, and its result published.\<close>

definition delivered :: "ActionCommand \<Rightarrow> event list \<Rightarrow> host_call list \<Rightarrow> bool" where
  "delivered msg evs new \<longleftrightarrow> (\<exists>p path ct body a out e. command_payload msg = Some p
     \<and> HCreate (Inr path) \<in> set new \<and> HPost (tp_URI p) ct body a \<in> set new \<and> answered_ok a
     \<and> ao_Payload out = Some (trace_result msg p path)
     \<and> EvResult e None \<in> set evs \<and> is_action_success msg out e)"

lemma no_execute: "list_all2 (host_step rest_ok) evs css \<Longrightarrow> filter is_execute evs = [] \<Longrightarrow> concat css = []"
  by (induction rule: list_all2_induct) (auto simp: host_step_def is_execute_def split: event.splits if_splits)

lemma one_execute:
  assumes "list_all2 (host_step rest_ok) (pre @ EvExecute msg res # post) css"
    and "filter is_execute pre = []" "filter is_execute post = []"
  shows "trace_run rest_ok msg (concat css) res"
proof -
  from assms(1) obtain us cs vs where css: "css = us @ cs # vs"
    and "list_all2 (host_step rest_ok) pre us" "host_step rest_ok (EvExecute msg res) cs"
      "list_all2 (host_step rest_ok) post vs"
    by (auto simp: list_all2_append1 list_all2_Cons1)
  with no_execute assms(2,3) have "concat us = []" "concat vs = []" by blast+
  then have "concat css = cs" using css by (simp only: concat_append concat.simps append_Nil append_Nil2)
  with \<open>host_step rest_ok (EvExecute msg res) cs\<close> show ?thesis by (simp add: host_step_def)
qed

text \<open>The host's calls of a run of the service.\<close>

lemma run_traced:
  assumes "action_run (trace_service cl lg now enabled h) msg evs r" "list_all2 (host_step rest_ok) evs css"
  shows "traced rest_ok enabled msg evs (concat css)"
proof (cases "filter is_execute evs")
  case Nil
  with no_execute [OF assms(2)] show ?thesis by (simp add: traced_def)
next
  case (Cons ev rest)
  from run_guarded [OF assms(1)] have one: "length (filter is_execute evs) \<le> 1"
    and all: "\<And>m x. EvExecute m x \<in> set evs \<Longrightarrow> m = msg \<and> ac_Action m \<in> enabled \<and> ac_Action m = ActionTrace"
    by (auto simp: guarded_execution_def list_all_iff trace_service_def split: event.splits if_splits)
  from Cons have "ev \<in> set evs" "is_execute ev" by (auto dest: filter_eq_ConsD)
  from this(2) obtain m res where ev: "ev = EvExecute m res" by (auto simp: is_execute_def split: event.splits)
  with all [of m res] \<open>ev \<in> set evs\<close> have "ev = EvExecute msg res" by simp
  with \<open>ev \<in> set evs\<close> obtain pre post where evs: "evs = pre @ EvExecute msg res # post" by (meson split_list)
  with one have "filter is_execute pre = []" "filter is_execute post = []" by (simp_all add: is_execute_def)
  note run = one_execute [OF assms(2) [unfolded evs] this]
  have "EvExecute msg res \<in> set evs" unfolding evs by simp
  with all [OF this] run show ?thesis unfolding traced_def by metis
qed

lemma nil_delivered:
  assumes "action_run (trace_service cl lg now enabled h) msg evs None" "list_all2 (host_step rest_ok) evs css"
  shows "delivered msg evs (concat css)"
  using assms(1)
proof (rule action_run_NoneE, goal_cases)
  case (1 pre e out e2)
  from 1 assms(2) have "list_all2 (host_step rest_ok) (pre @ EvExecute msg (Inr out) # [EvStatus e None, EvResult e2 None]) css"
    by simp
  moreover from 1 have "filter is_execute pre = []" by (auto simp: is_execute_def elim!: executingE)
  ultimately have "trace_run rest_ok msg (concat css) (Inr out)" by (rule one_execute) (simp add: is_execute_def)
  then obtain p found path cs where p: "command_payload msg = Some p" and cap: "capture_run msg p path cs (Inr out)"
    and new: "concat css = [HStat (net_device p) found, HCreate (Inr path), HClose path] @ cs @ [HRemove path]"
    by (cases rule: trace_run.cases) auto
  from capture_run_calls [OF cap] obtain ct body a where "ao_Payload out = Some (trace_result msg p path)"
    "HPost (tp_URI p) ct body a \<in> set cs" "answered_ok a" by blast
  moreover have "HCreate (Inr path) \<in> set (concat css)" "set cs \<subseteq> set (concat css)" unfolding new by auto
  moreover have "EvResult e2 None \<in> set evs" using 1 by simp
  ultimately show ?thesis unfolding delivered_def using p 1 by blast
qed

context recorded_host
begin

lemma trace_handled:
  "wp (actions_Handle (trace_service cl lg now enabled h) (Some c) msg)
     (\<lambda>r w'. \<exists>evs new. trace w' = trace w @ evs \<and> fst (env w') = fst (env w) @ new
        \<and> traced (th_url_rest_ok h) enabled msg evs new \<and> (r = None \<longrightarrow> delivered msg evs new)) w"
proof (rule wp_mono [OF wp_conj [OF action_rule keeps_wp [OF trace_calls.handle_keeps hosted_refl]]], goal_cases)
  case (1 r w')
  then obtain evs css where o: "trace w' = trace w @ evs"
    "action_run (trace_service cl lg now enabled h) msg evs r"
    "list_all2 (host_step (th_url_rest_ok h)) evs css" "fst (env w') = fst (env w) @ concat css"
    by (auto simp: hosted_def)
  have "delivered msg evs (concat css)" if "r = None" using nil_delivered o(2,3) that by blast
  with o run_traced [OF o(2,3)] show ?case by blast
qed

end

text \<open>
  \textbf{C23.} What a command does to the host, with the executor of real traces: nothing at all,
  or the calls of one run of the executor, and then the action is \<open>trace\<close> and it is enabled.
  When the handler returns nil, a capture of the payload's interface was posted to its URI
  with a status of the 200s, and the result that describes it was published.
\<close>

theorem trace_command_on_host:
  assumes "records h"
  shows "wp (actions_Handle (trace_service cl lg now enabled h) (Some c) msg)
     (\<lambda>r w'. \<exists>evs new. trace w' = trace w @ evs \<and> fst (env w') = fst (env w) @ new
        \<and> traced (th_url_rest_ok h) enabled msg evs new \<and> (r = None \<longrightarrow> delivered msg evs new)) w"
  by (rule recorded_host.trace_handled [OF recorded_host.intro [OF assms]])

interpretation sample_recorded: recorded_host sample_host
  by unfold_locales (rule sample_host_records)

definition quiet_client :: "unit CoreClient" where
  "quiet_client = \<lparr>LoadDesiredConfig = (\<lambda>c t x. (Inr None, x)), PublishStatus = (\<lambda>c m x. (None, x)),
     PublishResult = (\<lambda>c m x. (None, x))\<rparr>"

definition sample_service :: "(host_call list \<times> unit) ActionService" where
  "sample_service = trace_service quiet_client True (\<lambda>x. (GoTime 0 UTCZone, x)) {''trace''} sample_host"

definition empty_world :: "(host_call list \<times> unit) world" where
  "empty_world = \<lparr>trace = [], logs = [], env = ([], ())\<rparr>"

lemma sample_handled: "wp (actions_Handle sample_service (Some (\<lambda>_. None)) sample_trace) (\<lambda>r w'. r = None) empty_world"
proof -
  obtain out ls where run: "vyos_trace_Execute sample_host (Some (\<lambda>_. None)) sample_trace ([], ()) = (Inr out, (ls, ()))"
    using sample_trace_ok by (metis old.unit.exhaust surj_pair)
  have action: "ac_Action sample_trace = ''trace''" by (simp add: sample_trace_def)
  have "as_executors sample_service ''trace'' = Some (vyos_trace_Execute sample_host)" "''trace'' \<in> as_enabled sample_service"
    by (simp_all add: sample_service_def trace_service_def ActionTrace_def)
  then show ?thesis
    unfolding actions_Handle_def act_publishStatus_def act_logInfo_def
    by (simp add: action wp_simps Let_def sample_service_def trace_service_def empty_world_def on_rest_def
        clock_rest_def quiet_client_def run)
qed

theorem trace_command_on_host_witness:
  "wp (actions_Handle sample_service (Some (\<lambda>_. None)) sample_trace)
     (\<lambda>r w'. r = None \<and> (\<exists>evs new. trace w' = evs \<and> fst (env w') = new
        \<and> traced (th_url_rest_ok sample_host) {''trace''} sample_trace evs new \<and> delivered sample_trace evs new)) empty_world"
proof -
  note host = trace_command_on_host [OF sample_host_records, where enabled = "{''trace''}" and cl = quiet_client
      and lg = True and now = "\<lambda>x. (GoTime 0 UTCZone, x)" and c = "\<lambda>_. None" and msg = sample_trace and w = empty_world]
  show ?thesis
    by (rule wp_mono [OF wp_conj [OF sample_handled host [folded sample_service_def]]]) (simp add: empty_world_def)
qed

end
