(* ===== verification/Spec2Isabelle.thy ===== *)
theory Spec2Isabelle
  imports Fakes OnDisk ActionRuns ConfigLaws AgentRuns Lifecycle Logging VyosTraceLaws CliLaws Capture RealMode Deployed TraceService
begin

text \<open>
  \<^bold>\<open>Verification of the VyOS NATS agent\<close>

  The agent is a daemon beside a VyOS router. It hears configure notifications and action
  commands over NATS, through the client library \<open>agentcore\<close>; it loads the desired
  configuration from a key-value bucket, renders and applies it, records the UUID it applied
  in a state file, and reports with status and result messages. This development models the
  Go code under \<open>src/cmd\<close> and \<open>src/internal\<close> and proves what the specification
  documents (\<open>SPEC.md\<close>, \<open>TDD_SPEC.md\<close>) ask of it.

  \<^bold>\<open>How the parts fit together.\<close> The command (\<open>cmd/vyos-nats-agent/main.go\<close>) reads its
  flags, loads and validates the configuration (\<open>internal/config\<close>) and builds a runtime
  (\<open>internal/agent\<close>). The runtime wires two services to the client: the configure service
  (\<open>internal/configure\<close>), which calls a state store (\<open>internal/state\<close>), a renderer
  (\<open>internal/renderer\<close> or \<open>internal/renderervyos\<close>) and an apply engine
  (\<open>internal/apply\<close> or \<open>internal/applyvyos\<close>); and the action service
  (\<open>internal/actions\<close>), which calls an executor by the name of the action. The runtime
  reconciles once after it started and again after every reconnect, and closes the client
  when its context ends.

  \<^bold>\<open>How the code is modelled.\<close> A struct is a record and keeps its field names with a
  short prefix; an interface is a record of functions on an environment \<open>'e\<close>, of which a
  property assumes nothing unless it says so, so that properties of the services hold
  for every client, store, renderer and engine. A method is a program of HOL-Library's
  \<open>State_Monad\<close> over a \<open>world\<close> (theory \<open>Wire\<close>): the environment, the trace of the
  interface calls made with their arguments and answers, and the log. Errors are values: a
  \<open>(T, error)\<close> result is a sum, an \<open>error\<close> result an option, and an error keeps its format
  string, its arguments and the error it wraps, which is what \<open>errors.Is\<close> and \<open>errors.As\<close>
  look at. A nil pointer or interface is \<open>None\<close>. Strings are byte strings. The mutex of the
  configure service makes each handled notification one uninterrupted run; the runtime's
  own mutex, wait group and counter are modelled step by step, see \<open>Lifecycle\<close>.

  \<^bold>\<open>Go and its library.\<close> \<open>Prelude\<close> holds the collections of rules and a
  weakest-precondition calculus for the state monad; \<open>GoBase\<close> errors, contexts, times and
  log records; \<open>GoStrings\<close> package \<open>strings\<close> with Unicode white space; \<open>Lines\<close> the line
  counter the adapters share; \<open>Utf8\<close>, \<open>Json\<close>, \<open>JsonString\<close>, \<open>JsonDecode\<close> and
  \<open>JsonEncode\<close> package \<open>encoding/json\<close> as far as it is used, from the syntax check to
  structs, maps and raw members; \<open>Rfc3339\<close> the text of a \<open>time.Time\<close>, with its calendar;
  \<open>Duration\<close> \<open>time.ParseDuration\<close> with its 64-bit arithmetic and its rounding.

  \<^bold>\<open>The configure service.\<close> \<open>Wire\<close> and \<open>Interfaces\<close> hold the messages and the
  interfaces, \<open>Configure\<close> every method of \<open>internal/configure/service.go\<close>. \<open>Protocol\<close>
  states an abstract machine over the calls and their answers and shows that \<open>Handle\<close> and
  \<open>Reconcile\<close> follow it in every environment. \<open>Guarantees\<close> derives from the machine
  alone what the documents promise: a checkpoint only right after a successful apply, no
  contradiction after a checkpoint, a result at the end, correlated envelopes, a bounded
  number of calls. \<open>Invariants\<close> is a locale for what every call keeps, used for the secrecy
  of the log; \<open>Logging\<close> carries this on to what the logger of \<open>internal/agent/logging.go\<close>
  writes at its level. \<open>StoreContract\<close> is the contract of a state store and of the
  environment around it, as locales, with the effect of a handled notification on any store
  that keeps it.

  \<^bold>\<open>The state file.\<close> \<open>StateCodec\<close> is the JSON text of a state and its round trip;
  \<open>FileStore\<close> is \<open>internal/state/file_store.go\<close> over a file system in which any call may
  fail and a crash may come between any two calls, after which a file that was not synced
  may hold anything and a name may still lead to what it led to before; \<open>FileStoreLaws\<close> shows that a save is atomic and durable and
  interprets the contract; \<open>OnDisk\<close> puts the configure service on the file store, with its
  other collaborators beside it (\<open>Beside\<close>).
  \<open>CrashReplay\<close> follows, along the calls of a service, the set of texts that may be found in
  the state file after a crash at any moment, and \<open>Progress\<close> shows what a notification or a
  reconcile achieves when the machine works and the collaborators answer.

  \<^bold>\<open>The service over time.\<close> \<open>Session\<close> is the life of the configure service as its mutex
  has it: notifications and reconciles one after the other, time and restarts between them,
  and crashes in the middle of them, as an inductive relation on worlds. It shows that the
  state file only ever holds what was there at first or what was applied, and that what was
  recorded is not applied again. \<open>RealMode\<close> adds the two adapters and the calls their
  libraries get, and follows what is applied back to the desired record. \<open>Deployed\<close> shows
  that the agent the constructor builds from a valid configuration is such a service.

  \<^bold>\<open>Renderers and engines.\<close> \<open>Engines\<close> models the two placeholders and the adapter of
  \<open>internal/applyvyos\<close>, \<open>RendererVyos\<close> the adapter of \<open>internal/renderervyos\<close> with the
  schema metadata it reads from the payload. What the apply adapter does with a backend is
  shown in \<open>Doubles\<close>, where the fake backend is at hand.

  \<^bold>\<open>Actions.\<close> \<open>Actions\<close> is the action service with the placeholder executor and
  \<open>ActionRuns\<close> its call sequences as an inductive relation, with what follows from it;
  \<open>VyosTrace\<close> is the executor that captures packets, over a host with files, processes and
  HTTP, with the form it uploads in \<open>Multipart\<close>, and \<open>VyosTraceLaws\<close> shows which payloads it accepts, what it does to the host and
  what it answers. \<open>TraceService\<close> puts the service on that executor.

  \<^bold>\<open>Configuration, runtime and command.\<close> \<open>Config\<close> holds the records, the defaults,
  validation, conversion, redaction and loading; \<open>ConfigLaws\<close> states what validation
  accepts without its loops, that what it accepts converts, and what redaction hides.
  \<open>Agent\<close> is the construction of the runtime and its operations, \<open>AgentRuns\<close> the calls a
  run of the agent makes. \<open>Lifecycle\<close> lets any number of starts, closes and reconnect
  callbacks run at once, in steps the mutex makes atomic, and proves the invariant of every
  interleaving and that the runtime comes to rest. \<open>Cli\<close> and \<open>CliLaws\<close> are the flags,
  the output and the exit codes of the command.

  \<^bold>\<open>Test doubles.\<close> \<open>Fakes\<close>, \<open>Doubles\<close> and \<open>Capture\<close> model \<open>internal/testutil\<close>; \<open>Fakes\<close>
  interprets the contracts on the doubles and shows that they record what happened, and
  \<open>Capture\<close> has the text of a captured log record and the fixtures.

  \<^bold>\<open>Bounds and fuel.\<close> The JSON parser takes the nesting depth left as its fuel, which
  starts at 10000 as in \<open>encoding/json\<close>, where deeper texts are an error, so fuel never
  decides an answer the code would not. \<open>os.CreateTemp\<close> gives up after 10000 names taken,
  as the library does. Durations, packet counts and the seconds of a trace are 64-bit
  numbers, with the library's overflow checks; other integers of the code are counts of
  calls or lengths, which are unbounded here. All other recursion ends by a measure.

  \<^bold>\<open>Not modelled.\<close> The third-party libraries are not in the repository: the client
  \<open>agentcore\<close>, the renderer and apply libraries \<open>olg-renderer-vyos\<close> and the YAML codec are
  parameters of the definitions that use them, with the documented behaviour a property
  needs as its hypothesis. Of \<open>net/url\<close> the scheme is modelled and the form of the rest is
  a parameter. The goroutine that writes an upload and the request that reads it are put
  one after the other. The text that \<open>fmt\<close> gives an error
  and that a log handler gives a record is not computed: both are kept as their format and
  arguments, and the captured log of the test doubles takes the text of an error as a
  parameter. A crash loses the process and what was not synced; a session does not model two
  agents on one state file. \<open>os.Exit\<close> and the installation of signal handlers are not modelled, nor are a
  panic inside a library and an exhausted memory. The tests and shell scripts drive the code
  above and are no part of it.
\<close>

end
